(* ===== verification/Go_Prelude.thy ===== *)
theory Go_Prelude
  imports Main "HOL-Library.AList"
begin

text \<open>
  What the Go sources take from the language and its standard library, and the lemmas every
  component shares.
  \<^item> A Go map is an association list (\<open>gomap\<close>); the order of the list is the order in which
    \<^verbatim>\<open>range\<close> happens to visit the keys, which Go leaves unspecified, so a statement over all
    association lists covers every visiting order. A Go set is a list read through \<open>set\<close>.
  \<^item> A pointer or interface that may be nil is an option.
  \<^item> Errors are values of a sum type, with \<open>Inl\<close> for the error.
  \<^item> \<^verbatim>\<open>int\<close> is a 64 bit integer: \<open>int64\<close> is the wrap-around.
  \<^item> \<^verbatim>\<open>strconv.Itoa\<close>, \<^verbatim>\<open>strconv.Atoi\<close>, \<^verbatim>\<open>fmt.Sprintf("%d")\<close>, \<^verbatim>\<open>strings.TrimPrefix\<close>,
    \<^verbatim>\<open>strings.TrimSuffix\<close>, \<^verbatim>\<open>strings.HasPrefix\<close>, \<^verbatim>\<open>strings.ToLower\<close> and
    \<^verbatim>\<open>net.JoinHostPort\<close> are the functions of the standard library, on ASCII strings.
  The collections: \<open>gomap_simps\<close> rewrites lookups after updates, \<open>go_defs\<close> collects the
  definitions a component unfolds.
\<close>

named_theorems gomap_simps \<open>lookups after updates of a Go map\<close>
named_theorems go_defs \<open>definitions of small helpers that proofs unfold\<close>

section \<open>Maps and sets\<close>

type_synonym ('k, 'v) gomap = "('k \<times> 'v) list"

abbreviation mget :: "('k, 'v) gomap \<Rightarrow> 'k \<Rightarrow> 'v option" where
  "mget m k \<equiv> map_of m k"

abbreviation mput :: "('k, 'v) gomap \<Rightarrow> 'k \<Rightarrow> 'v \<Rightarrow> ('k, 'v) gomap" where
  "mput m k v \<equiv> AList.update k v m"

abbreviation mdel :: "('k, 'v) gomap \<Rightarrow> 'k \<Rightarrow> ('k, 'v) gomap" where
  "mdel m k \<equiv> AList.delete k m"

text \<open>Indexing a map with a missing key gives the zero value of the element type.\<close>

definition mget_or :: "'v \<Rightarrow> ('k, 'v) gomap \<Rightarrow> 'k \<Rightarrow> 'v" where
  "mget_or z m k = (case mget m k of None \<Rightarrow> z | Some v \<Rightarrow> v)"

text \<open>Equality of maps as \<^verbatim>\<open>reflect.DeepEqual\<close> sees it: the same keys with the same values.\<close>

definition map_eq :: "('k, 'v) gomap \<Rightarrow> ('k, 'v) gomap \<Rightarrow> bool" where
  "map_eq m m' \<longleftrightarrow> list_all (\<lambda>(k, _). mget m k = mget m' k) m
     \<and> list_all (\<lambda>(k, _). mget m k = mget m' k) m'"

abbreviation mkeys :: "('k, 'v) gomap \<Rightarrow> 'k list" where
  "mkeys m \<equiv> map fst m"

lemma mget_mput [simp, gomap_simps]:
  "mget (mput m k v) k' = (if k' = k then Some v else mget m k')"
  by (simp add: update_conv')

lemma mget_mdel [simp, gomap_simps]:
  "mget (mdel m k) k' = (if k' = k then None else mget m k')"
  by (simp add: delete_conv')

lemma mget_or_mput [simp, gomap_simps]:
  "mget_or z (mput m k v) k' = (if k' = k then v else mget_or z m k')"
  by (simp add: mget_or_def)

lemma distinct_mput [simp]: "distinct (mkeys m) \<Longrightarrow> distinct (mkeys (mput m k v))"
  by (rule distinct_update)

lemma distinct_mdel [simp]: "distinct (mkeys m) \<Longrightarrow> distinct (mkeys (mdel m k))"
  by (simp add: delete_keys distinct_removeAll)

lemma map_eq_iff: "map_eq m m' \<longleftrightarrow> mget m = mget m'"
proof
  assume eq: "map_eq m m'"
  show "mget m = mget m'"
  proof
    fix k
    show "mget m k = mget m' k"
    proof (cases "k \<in> fst ` set m \<union> fst ` set m'")
      case True
      with eq show ?thesis
        by (fastforce simp: map_eq_def list_all_iff)
    next
      case False
      then have "mget m k = None" "mget m' k = None"
        by (auto simp: map_of_eq_None_iff)
      then show ?thesis by simp
    qed
  qed
qed (auto simp: map_eq_def list_all_iff)

lemma map_eq_refl [simp]: "map_eq m m"
  by (simp add: map_eq_iff)

lemma mget_in_set: "mget m k = Some v \<Longrightarrow> (k, v) \<in> set m"
  by (rule map_of_SomeD)

lemma mget_iff_in_set: "distinct (mkeys m) \<Longrightarrow> mget m k = Some v \<longleftrightarrow> (k, v) \<in> set m"
  by (rule map_of_eq_Some_iff)

text \<open>Sets: \<open>set_insert\<close> and \<open>set_delete\<close> are \<^verbatim>\<open>s[x] = struct{}{}\<close> and \<^verbatim>\<open>delete(s, x)\<close>.\<close>

definition set_insert :: "'a \<Rightarrow> 'a list \<Rightarrow> 'a list" where
  "set_insert x xs = (if x \<in> set xs then xs else xs @ [x])"

definition set_delete :: "'a \<Rightarrow> 'a list \<Rightarrow> 'a list" where
  "set_delete x xs = removeAll x xs"

lemma set_set_insert [simp]: "set (set_insert x xs) = insert x (set xs)"
  by (auto simp: set_insert_def)

lemma distinct_set_insert [simp]: "distinct (set_insert x xs) = distinct xs"
  by (auto simp: set_insert_def)

lemma set_set_delete [simp]: "set (set_delete x xs) = set xs - {x}"
  by (auto simp: set_delete_def)

lemma distinct_set_delete [simp]: "distinct xs \<Longrightarrow> distinct (set_delete x xs)"
  by (simp add: set_delete_def distinct_removeAll)

section \<open>Errors\<close>

text \<open>
  \<^verbatim>\<open>err != nil\<close> followed by a return: the error stops the computation and the state
  reached so far is kept.
\<close>

definition is_err :: "'e + 'a \<Rightarrow> bool" where
  "is_err r = (case r of Inl _ \<Rightarrow> True | Inr _ \<Rightarrow> False)"

lemma is_err_simps [simp]: "is_err (Inl e)" "\<not> is_err (Inr x)"
  by (simp_all add: is_err_def)

section \<open>Machine integers\<close>

definition int64 :: "int \<Rightarrow> int" where
  "int64 x = (x + 2 ^ 63) mod 2 ^ 64 - 2 ^ 63"

definition max_int64 :: int where
  "max_int64 = 2 ^ 63 - 1"

lemma int64_id: "- (2 ^ 63) \<le> x \<Longrightarrow> x \<le> max_int64 \<Longrightarrow> int64 x = x"
  by (simp add: int64_def max_int64_def)

lemma int64_range: "- (2 ^ 63) \<le> int64 x \<and> int64 x \<le> max_int64"
proof -
  have "0 \<le> (x + 2 ^ 63) mod 2 ^ 64" and "(x + 2 ^ 63) mod 2 ^ 64 < 2 ^ 64"
    by (rule pos_mod_sign, simp, rule pos_mod_bound, simp)
  then show ?thesis by (simp add: int64_def max_int64_def)
qed

section \<open>Strings\<close>

definition HasPrefix :: "string \<Rightarrow> string \<Rightarrow> bool" where
  "HasPrefix s p \<longleftrightarrow> take (length p) s = p"

definition TrimPrefix :: "string \<Rightarrow> string \<Rightarrow> string" where
  "TrimPrefix s p = (if HasPrefix s p then drop (length p) s else s)"

definition TrimSuffix :: "string \<Rightarrow> string \<Rightarrow> string" where
  "TrimSuffix s p =
     (if length p \<le> length s \<and> drop (length s - length p) s = p
      then take (length s - length p) s else s)"

lemma HasPrefix_append [simp]: "HasPrefix (p @ s) p"
  by (simp add: HasPrefix_def)

lemma TrimPrefix_append [simp]: "TrimPrefix (p @ s) p = s"
  by (simp add: TrimPrefix_def)

lemma TrimSuffix_append [simp]: "TrimSuffix (s @ p) p = s"
  by (simp add: TrimSuffix_def)

lemma HasPrefix_iff: "HasPrefix s p \<longleftrightarrow> (\<exists>r. s = p @ r)"
  by (metis HasPrefix_def HasPrefix_append append_take_drop_id)

text \<open>\<^verbatim>\<open>net.JoinHostPort\<close>: a host that holds a colon is put in brackets.\<close>

definition JoinHostPort :: "string \<Rightarrow> string \<Rightarrow> string" where
  "JoinHostPort host port =
     (if CHR '':'' \<in> set host then ''['' @ host @ '']:'' @ port else host @ '':'' @ port)"

lemma JoinHostPort_port_inject [simp]:
  "JoinHostPort h p = JoinHostPort h q \<longleftrightarrow> p = q"
  by (simp add: JoinHostPort_def)

text \<open>\<^verbatim>\<open>strings.ToLower\<close> on ASCII letters.\<close>

definition lower_char :: "char \<Rightarrow> char" where
  "lower_char c = (case map_of (zip ''ABCDEFGHIJKLMNOPQRSTUVWXYZ'' ''abcdefghijklmnopqrstuvwxyz'') c of
     None \<Rightarrow> c | Some d \<Rightarrow> d)"

definition ToLower :: "string \<Rightarrow> string" where
  "ToLower s = map lower_char s"

section \<open>Decimal numbers\<close>

definition digit_char :: "nat \<Rightarrow> char" where
  "digit_char d = ''0123456789'' ! d"

definition digit_val :: "char \<Rightarrow> nat option" where
  "digit_val c = map_of [(CHR ''0'', 0), (CHR ''1'', 1), (CHR ''2'', 2), (CHR ''3'', 3), (CHR ''4'', 4),
     (CHR ''5'', 5), (CHR ''6'', 6), (CHR ''7'', 7), (CHR ''8'', 8), (CHR ''9'', 9)] c"

fun dec_of_nat :: "nat \<Rightarrow> string" where
  "dec_of_nat n = (if n < 10 then [digit_char n] else dec_of_nat (n div 10) @ [digit_char (n mod 10)])"

declare dec_of_nat.simps [simp del]

text \<open>Reading digits left to right; \<open>None\<close> for a character that is no digit.\<close>

fun read_digits :: "nat \<Rightarrow> string \<Rightarrow> nat option" where
  "read_digits acc [] = Some acc"
| "read_digits acc (c # cs) =
     (case digit_val c of None \<Rightarrow> None | Some d \<Rightarrow> read_digits (10 * acc + d) cs)"

definition nat_of_dec :: "string \<Rightarrow> nat option" where
  "nat_of_dec s = (if s = [] then None else read_digits 0 s)"

definition Itoa :: "int \<Rightarrow> string" where
  "Itoa i = (if i < 0 then ''-'' @ dec_of_nat (nat (- i)) else dec_of_nat (nat i))"

text \<open>
  \<^verbatim>\<open>strconv.Atoi\<close> returns a value and an error; the flag is true when the error is nil.
  A string that is no decimal gives 0, a number out of range the nearest bound.
\<close>

definition Atoi :: "string \<Rightarrow> int \<times> bool" where
  "Atoi s =
     (let (neg, ds) = (case s of c # cs \<Rightarrow> if c = CHR ''-'' then (True, cs)
                                           else if c = CHR ''+'' then (False, cs) else (False, s)
                       | [] \<Rightarrow> (False, s))
      in case nat_of_dec ds of
           None \<Rightarrow> (0, False)
         | Some n \<Rightarrow>
             if neg then (if int n \<le> 2 ^ 63 then (- int n, True) else (- (2 ^ 63), False))
             else (if int n \<le> max_int64 then (int n, True) else (max_int64, False)))"

lemma digit_cases: "(d::nat) < 10 \<Longrightarrow>
    d = 0 \<or> d = 1 \<or> d = 2 \<or> d = 3 \<or> d = 4 \<or> d = 5 \<or> d = 6 \<or> d = 7 \<or> d = 8 \<or> d = 9"
  by arith

lemma digit_val_char [simp]: "d < 10 \<Longrightarrow> digit_val (digit_char d) = Some d"
  by (drule digit_cases) (elim disjE; simp add: digit_val_def digit_char_def)

lemma digit_char_not_sign: "d < 10 \<Longrightarrow> digit_char d \<noteq> CHR ''-'' \<and> digit_char d \<noteq> CHR ''+''"
  by (drule digit_cases) (elim disjE; simp add: digit_char_def)

lemma read_digits_append:
  "read_digits a (s @ t) = (case read_digits a s of None \<Rightarrow> None | Some b \<Rightarrow> read_digits b t)"
  by (induction a s rule: read_digits.induct) (auto split: option.splits)

lemma dec_of_nat_nonempty [simp]: "dec_of_nat n \<noteq> []"
  by (subst dec_of_nat.simps) simp

lemma read_dec_of_nat: "read_digits 0 (dec_of_nat n) = Some n"
proof (induction n rule: dec_of_nat.induct)
  case (1 n)
  show ?case
  proof (cases "n < 10")
    case True
    then show ?thesis by (subst dec_of_nat.simps) simp
  next
    case False
    with 1 have "read_digits 0 (dec_of_nat (n div 10)) = Some (n div 10)" by blast
    with False show ?thesis by (subst dec_of_nat.simps) (simp add: read_digits_append)
  qed
qed

lemma nat_of_dec_dec [simp]: "nat_of_dec (dec_of_nat n) = Some n"
  by (simp add: nat_of_dec_def read_dec_of_nat)

lemma dec_of_nat_inject [simp]: "dec_of_nat m = dec_of_nat n \<longleftrightarrow> m = n"
  by (metis nat_of_dec_dec option.inject)

lemma dec_of_nat_no_sign: "dec_of_nat n = c # cs \<Longrightarrow> c \<noteq> CHR ''-'' \<and> c \<noteq> CHR ''+''"
proof (induction n arbitrary: cs rule: dec_of_nat.induct)
  case (1 n)
  show ?case
  proof (cases "n < 10")
    case True
    with "1.prems" show ?thesis
      by (subst (asm) dec_of_nat.simps) (auto dest: digit_char_not_sign)
  next
    case False
    obtain c' cs' where d: "dec_of_nat (n div 10) = c' # cs'"
      by (cases "dec_of_nat (n div 10)") simp_all
    with False "1.prems" have "c = c'"
      by (subst (asm) dec_of_nat.simps) simp
    with "1.IH" False d show ?thesis by blast
  qed
qed

lemma Atoi_Itoa:
  assumes "- (2 ^ 63) \<le> i" "i \<le> max_int64"
  shows "Atoi (Itoa i) = (i, True)"
proof (cases "i < 0")
  case True
  with assms show ?thesis by (simp add: Atoi_def Itoa_def)
next
  case False
  obtain c cs where d: "dec_of_nat (nat i) = c # cs"
    by (cases "dec_of_nat (nat i)") simp_all
  note ns = dec_of_nat_no_sign [OF d]
  have "nat_of_dec (c # cs) = Some (nat i)"
    by (simp flip: d)
  with False assms ns show ?thesis
    by (simp add: Atoi_def Itoa_def d)
qed

lemma Itoa_inject [simp]: "Itoa i = Itoa j \<longleftrightarrow> i = j"
proof -
  have neg: "Itoa i \<noteq> Itoa j" if "i < 0" "\<not> j < 0" for i j
  proof
    assume "Itoa i = Itoa j"
    with that have "dec_of_nat (nat j) = CHR ''-'' # dec_of_nat (nat (- i))"
      by (simp add: Itoa_def)
    then show False using dec_of_nat_no_sign by blast
  qed
  show ?thesis
  proof (cases "i < 0"; cases "j < 0")
    assume "i < 0" "j < 0"
    then show ?thesis by (auto simp: Itoa_def)
  next
    assume "\<not> i < 0" "\<not> j < 0"
    then show ?thesis by (auto simp: Itoa_def)
  qed (metis neg)+
qed

end
