(* ===== verification/Go_Time.thy ===== *)
theory Go_Time
  imports Go_Prelude "HOL-Library.Monad_Syntax"
begin

text \<open>
  The part of Go's \<^verbatim>\<open>time\<close> package the sources use. A \<^verbatim>\<open>time.Time\<close> is the number of
  nanoseconds since 1 January of year 1, 00:00 UTC, the zero time of Go; a
  \<^verbatim>\<open>time.Duration\<close> is a number of nanoseconds. \<open>Format_RFC3339\<close> is
  \<^verbatim>\<open>t.UTC().Format(time.RFC3339)\<close> and \<open>Parse_RFC3339\<close> is \<^verbatim>\<open>time.Parse(time.RFC3339, s)\<close>,
  with the optional fraction and the zone \<^verbatim>\<open>Z\<close> or \<^verbatim>\<open>+hh:mm\<close>. The round trip \<open>Parse_Format\<close> shows that what is read back
  is the time that was written, cut to the second.
\<close>

type_synonym gotime = int
type_synonym duration = int

definition nsSecond :: int where "nsSecond = 1000000000"
definition nsMillisecond :: int where "nsMillisecond = 1000000"
definition nsMinute :: int where "nsMinute = 60 * nsSecond"

definition truncSecond :: "gotime \<Rightarrow> gotime" where
  "truncSecond t = t div nsSecond * nsSecond"

section \<open>The civil calendar\<close>

definition leap :: "nat \<Rightarrow> bool" where
  "leap y \<longleftrightarrow> 4 dvd y \<and> (100 dvd y \<longrightarrow> 400 dvd y)"

text \<open>Days before 1 January of year \<open>Suc y\<close>, counted from 1 January of year 1.\<close>

definition daysBefore :: "nat \<Rightarrow> nat" where
  "daysBefore y = 365 * y + y div 4 - y div 100 + y div 400"

definition monthLengths :: "bool \<Rightarrow> nat list" where
  "monthLengths l = [31, if l then 29 else 28, 31, 30, 31, 30, 31, 31, 30, 31, 30, 31]"

text \<open>The month (from 0) and the day of the month (from 0) of a day of the year.\<close>

fun monthOf :: "nat list \<Rightarrow> nat \<Rightarrow> nat \<times> nat" where
  "monthOf [] d = (0, d)"
| "monthOf (m # ms) d = (if d < m then (0, d) else (case monthOf ms (d - m) of (i, r) \<Rightarrow> (Suc i, r)))"

text \<open>The cycles of 400, 100, 4 and 1 years, as \<^verbatim>\<open>time.absDate\<close> peels them off.\<close>

definition yearOf :: "nat \<Rightarrow> nat \<times> nat" where
  "yearOf n =
     (let a = n div 146097; b = n mod 146097;
          c = min 3 (b div 36524); d = b - 36524 * c;
          e = d div 1461; f = d mod 1461;
          g = min 3 (f div 365)
      in (400 * a + 100 * c + 4 * e + g, f - 365 * g))"

definition dateOf :: "nat \<Rightarrow> nat \<times> nat \<times> nat" where
  "dateOf n = (case yearOf n of (y, r) \<Rightarrow>
     (case monthOf (monthLengths (leap (Suc y))) r of (m, d) \<Rightarrow> (Suc y, Suc m, Suc d)))"

definition dayOf :: "nat \<Rightarrow> nat \<Rightarrow> nat \<Rightarrow> nat" where
  "dayOf y m d = daysBefore (y - 1) + sum_list (take (m - 1) (monthLengths (leap y))) + (d - 1)"

lemma yearOf_daysBefore:
  assumes "yearOf n = (y, r)"
  shows "daysBefore y + r = n \<and> r < (if leap (Suc y) then 366 else 365)"
proof -
  define a b where "a = n div 146097" and "b = n mod 146097"
  define c where "c = min 3 (b div 36524)"
  define d where "d = b - 36524 * c"
  define e f where "e = d div 1461" and "f = d mod 1461"
  define g where "g = min 3 (f div 365)"
  have y: "y = 400 * a + 100 * c + 4 * e + g" and r: "r = f - 365 * g"
    using assms by (simp_all add: yearOf_def Let_def a_def b_def c_def d_def e_def f_def g_def)
  have n: "n = 146097 * a + b" and b: "b < 146097" by (simp_all add: a_def b_def)
  have c: "c \<le> 3" "36524 * c \<le> b" "c < 3 \<longrightarrow> b < 36524 * c + 36524"
    unfolding c_def by auto
  have d: "b = 36524 * c + d" using c(2) by (simp add: d_def)
  have dl: "d \<le> 36524" "c < 3 \<longrightarrow> d < 36524" using c b d by auto
  have e: "d = 1461 * e + f" "f < 1461" by (simp_all add: e_def f_def)
  have e24: "e \<le> 24" using dl(1) by (simp add: e_def)
  have g: "g \<le> 3" "365 * g \<le> f" "g < 3 \<longrightarrow> f < 365 * g + 365"
    unfolding g_def by auto
  have fr: "f = 365 * g + r" using g(2) r by simp
  have r365: "r \<le> 365" "g < 3 \<longrightarrow> r < 365" using g e(2) fr by auto
  have y4: "y div 4 = 100 * a + 25 * c + e" using g(1) unfolding y by linarith
  have y100: "y div 100 = 4 * a + c" using g(1) e24 unfolding y by linarith
  have y400: "y div 400 = a" using g(1) e24 c(1) unfolding y by linarith
  have db: "daysBefore y + r = n"
    unfolding daysBefore_def y4 y100 y400 using n d e(1) fr y by linarith
  have leap: "leap (Suc y)" if "r = 365"
  proof -
    have g3: "g = 3" using that r365(2) g(1) by linarith
    have s: "Suc y = 4 * (100 * a + 25 * c + e + 1)" using y g3 by simp
    have "e = 24 \<longrightarrow> c = 3"
      using that g3 fr e(1) dl(2) c(1) by linarith
    moreover have "e = 24" if "100 dvd Suc y"
    proof -
      have "Suc y = 100 * (4 * a + c) + 4 * (e + 1)" using s by (simp add: algebra_simps)
      with that have "100 dvd 4 * (e + 1)" by (simp add: dvd_add_right_iff)
      then obtain k where "4 * (e + 1) = 100 * k" by blast
      with e24 show ?thesis by presburger
    qed
    moreover have "400 dvd Suc y" if "e = 24" "c = 3"
    proof -
      have "Suc y = 400 * (a + 1)" using s that by (simp add: algebra_simps)
      then show ?thesis by simp
    qed
    moreover have "4 dvd Suc y" unfolding s by (rule dvd_triv_left)
    ultimately show ?thesis unfolding leap_def by blast
  qed
  from leap r365 have "r < (if leap (Suc y) then 366 else 365)"
    by (cases "r = 365") auto
  with db show ?thesis by simp
qed

lemma monthOf_sum:
  "r < sum_list ms \<Longrightarrow> monthOf ms r = (i, d) \<Longrightarrow>
     sum_list (take i ms) + d = r \<and> i < length ms \<and> d < ms ! i"
proof (induction ms arbitrary: r i)
  case (Cons m ms)
  show ?case
  proof (cases "r < m")
    case True
    with Cons.prems show ?thesis by simp
  next
    case False
    obtain i' d' where q: "monthOf ms (r - m) = (i', d')" by force
    with False Cons.prems have "i = Suc i'" "d' = d" by auto
    moreover have "r - m < sum_list ms" using False Cons.prems by simp
    ultimately show ?thesis using Cons.IH [of "r - m" i'] q False by auto
  qed
qed simp

lemma sum_monthLengths: "sum_list (monthLengths l) = (if l then 366 else 365)"
  by (simp add: monthLengths_def)

lemma monthLengths_le: "i < 12 \<Longrightarrow> monthLengths l ! i \<le> 31"
  by (auto simp: monthLengths_def less_Suc_eq numeral_eq_Suc)

lemma dayOf_dateOf:
  assumes "dateOf n = (y, m, d)"
  shows "dayOf y m d = n" "1 \<le> m \<and> m \<le> 12" "1 \<le> d \<and> d \<le> 31"
proof -
  obtain y0 r where yr: "yearOf n = (y0, r)" by force
  obtain m0 d0 where md: "monthOf (monthLengths (leap (Suc y0))) r = (m0, d0)" by force
  have eqs: "y = Suc y0" "m = Suc m0" "d = Suc d0"
    using assms by (simp_all add: dateOf_def yr md)
  note Y = yearOf_daysBefore [OF yr]
  have "r < sum_list (monthLengths (leap (Suc y0)))"
    using Y by (simp add: sum_monthLengths)
  note M = monthOf_sum [OF this md]
  show "dayOf y m d = n" using Y M by (simp add: eqs dayOf_def)
  have l12: "length (monthLengths (leap (Suc y0))) = 12" by (simp add: monthLengths_def)
  show "1 \<le> m \<and> m \<le> 12" using M l12 by (simp add: eqs)
  show "1 \<le> d \<and> d \<le> 31"
    using M l12 monthLengths_le [of m0 "leap (Suc y0)"] by (simp add: eqs)
qed

section \<open>Writing and reading RFC 3339\<close>

definition pad2 :: "nat \<Rightarrow> string" where
  "pad2 n = [digit_char (n div 10 mod 10), digit_char (n mod 10)]"

definition pad4 :: "nat \<Rightarrow> string" where
  "pad4 n = (if n < 10000 then pad2 (n div 100) @ pad2 (n mod 100) else dec_of_nat n)"

definition Format_RFC3339 :: "gotime \<Rightarrow> string" where
  "Format_RFC3339 t =
     (let s = nat (t div nsSecond); sod = s mod 86400
      in case dateOf (s div 86400) of (y, m, d) \<Rightarrow>
           pad4 y @ ''-'' @ pad2 m @ ''-'' @ pad2 d @ ''T''
           @ pad2 (sod div 3600) @ '':'' @ pad2 (sod mod 3600 div 60) @ '':'' @ pad2 (sod mod 60) @ ''Z'')"

definition expect :: "char \<Rightarrow> string \<Rightarrow> string option" where
  "expect c s = (case s of x # xs \<Rightarrow> if x = c then Some xs else None | [] \<Rightarrow> None)"

definition num2 :: "string \<Rightarrow> (nat \<times> string) option" where
  "num2 s = (case s of a # b # r \<Rightarrow>
       (case (digit_val a, digit_val b) of (Some x, Some y) \<Rightarrow> Some (10 * x + y, r) | _ \<Rightarrow> None)
     | _ \<Rightarrow> None)"

definition in_range :: "nat \<Rightarrow> nat \<Rightarrow> nat \<Rightarrow> unit option" where
  "in_range lo hi n = (if lo \<le> n \<and> n \<le> hi then Some () else None)"

text \<open>The fraction of a second: a point or comma and at least one digit; digits after the ninth are dropped.\<close>

fun span_digits :: "string \<Rightarrow> string \<times> string" where
  "span_digits [] = ([], [])"
| "span_digits (c # cs) =
     (if digit_val c = None then ([], c # cs) else (case span_digits cs of (ds, r) \<Rightarrow> (c # ds, r)))"

definition fraction :: "string \<Rightarrow> (int \<times> string) option" where
  "fraction s = (case s of
       c # r \<Rightarrow>
         if c = CHR ''.'' \<or> c = CHR '',''
         then (case span_digits r of (ds, r') \<Rightarrow>
                 if ds = [] then None
                 else map_option (\<lambda>n. (int n, r')) (nat_of_dec (take 9 (ds @ ''000000000''))))
         else Some (0, s)
     | [] \<Rightarrow> Some (0, s))"

text \<open>The zone: nanoseconds to take off to reach UTC.\<close>

definition zone :: "string \<Rightarrow> int option" where
  "zone s = (case s of
       c # r \<Rightarrow>
         if c = CHR ''Z'' then (if r = [] then Some 0 else None)
         else if c = CHR ''+'' \<or> c = CHR ''-'' then
           do { (h, r1) \<leftarrow> num2 r; r2 \<leftarrow> expect (CHR '':'') r1; (mi, r3) \<leftarrow> num2 r2;
                in_range 0 24 h; in_range 0 59 mi;
                (if r3 = [] then Some (int (3600 * h + 60 * mi) * nsSecond * (if c = CHR ''+'' then 1 else - 1))
                 else None) }
         else None
     | [] \<Rightarrow> None)"

definition dayNumber :: "nat \<Rightarrow> nat \<Rightarrow> nat \<Rightarrow> int" where
  "dayNumber y m d = (if y = 0 then int (dayOf 0 m d) - 366 else int (dayOf y m d))"

definition Parse_RFC3339 :: "string \<Rightarrow> gotime option" where
  "Parse_RFC3339 s =
     do { (yh, s1) \<leftarrow> num2 s; (yl, s2) \<leftarrow> num2 s1; s3 \<leftarrow> expect (CHR ''-'') s2;
          (m, s4) \<leftarrow> num2 s3; s5 \<leftarrow> expect (CHR ''-'') s4; (d, s6) \<leftarrow> num2 s5;
          s7 \<leftarrow> expect (CHR ''T'') s6; (h, s8) \<leftarrow> num2 s7; s9 \<leftarrow> expect (CHR '':'') s8;
          (mi, s10) \<leftarrow> num2 s9; s11 \<leftarrow> expect (CHR '':'') s10; (sec, s12) \<leftarrow> num2 s11;
          (frac, s13) \<leftarrow> fraction s12; off \<leftarrow> zone s13;
          in_range 1 12 m;
          in_range 1 (monthLengths (leap (100 * yh + yl)) ! (m - 1)) d;
          in_range 0 23 h; in_range 0 59 mi; in_range 0 59 sec;
          Some ((dayNumber (100 * yh + yl) m d * 86400 + int (3600 * h + 60 * mi + sec)) * nsSecond
                + frac - off) }"

lemma num2_pad2 [simp]: "n < 100 \<Longrightarrow> num2 (pad2 n @ r) = Some (n, r)"
  by (simp add: num2_def pad2_def)

lemma expect_Cons [simp]: "expect c (c # r) = Some r"
  by (simp add: expect_def)

lemma fraction_Z [simp]: "fraction ''Z'' = Some (0, ''Z'')"
  by (simp add: fraction_def)

lemma zone_Z [simp]: "zone ''Z'' = Some 0"
  by (simp add: zone_def)

lemma in_range_ok [simp]: "lo \<le> n \<Longrightarrow> n \<le> hi \<Longrightarrow> in_range lo hi n = Some ()"
  by (simp add: in_range_def)

lemma dateOf_day_bound:
  "dateOf n = (y, m, d) \<Longrightarrow> d \<le> monthLengths (leap y) ! (m - 1) \<and> 1 \<le> y"
proof -
  assume a: "dateOf n = (y, m, d)"
  obtain y0 r where yr: "yearOf n = (y0, r)" by force
  obtain m0 d0 where md: "monthOf (monthLengths (leap (Suc y0))) r = (m0, d0)" by force
  have eqs: "y = Suc y0" "m = Suc m0" "d = Suc d0"
    using a by (simp_all add: dateOf_def yr md)
  have "r < sum_list (monthLengths (leap (Suc y0)))"
    using yearOf_daysBefore [OF yr] by (simp add: sum_monthLengths)
  from monthOf_sum [OF this md] show ?thesis by (simp add: eqs)
qed

text \<open>Times from year 1 to year 9999: 3652059 days.\<close>

definition formattable :: "gotime \<Rightarrow> bool" where
  "formattable t \<longleftrightarrow> 0 \<le> t \<and> t < 3652059 * 86400 * nsSecond"

lemma daysBefore_step:
  fixes a a' b b' c c' n :: nat
  assumes "a \<le> a'" "c \<le> c'" "b' \<le> Suc b" "b \<le> a"
  shows "365 * n + a - b + c \<le> 365 * Suc n + a' - b' + c'"
proof -
  obtain k where k: "a = b + k" using assms(4) le_Suc_ex by blast
  obtain l where l: "a' = a + l" using assms(1) le_Suc_ex by blast
  have "b' + (365 * n + k) \<le> 365 * Suc n + a'" using assms(3) k l by simp
  then have "365 * n + k \<le> 365 * Suc n + a' - b'" by simp
  with assms(2) k show ?thesis by simp
qed

lemma daysBefore_mono: "y \<le> z \<Longrightarrow> daysBefore y \<le> daysBefore z"
proof (induction z rule: dec_induct)
  case (step n)
  have "daysBefore n \<le> daysBefore (Suc n)"
  proof -
    have "n div 4 \<le> Suc n div 4" "n div 400 \<le> Suc n div 400"
      by (simp_all add: div_le_mono)
    moreover have "Suc n div 100 \<le> Suc (n div 100)" by (simp add: div_Suc)
    moreover have "n div 100 \<le> n div 4" by (rule div_le_mono2) simp_all
    ultimately show ?thesis unfolding daysBefore_def by (rule daysBefore_step)
  qed
  with step show ?case by simp
qed simp

lemma dateOf_year_bound: "dateOf n = (y, m, d) \<Longrightarrow> n < 3652059 \<Longrightarrow> y < 10000"
proof (rule ccontr)
  assume a: "dateOf n = (y, m, d)" "n < 3652059" "\<not> y < 10000"
  obtain y0 r where yr: "yearOf n = (y0, r)" by force
  have "y = Suc y0" using a(1) by (simp add: dateOf_def yr split: prod.splits)
  then have "daysBefore 9999 \<le> daysBefore y0" using a(3) by (intro daysBefore_mono) simp
  moreover have "daysBefore 9999 = 3652059" by (simp add: daysBefore_def)
  ultimately show False using yearOf_daysBefore [OF yr] a(2) by simp
qed

lemma Parse_Format:
  assumes "formattable t"
  shows "Parse_RFC3339 (Format_RFC3339 t) = Some (truncSecond t)"
proof -
  define s where "s = nat (t div nsSecond)"
  define sod where "sod = s mod 86400"
  obtain y m d where ymd: "dateOf (s div 86400) = (y, m, d)" by (cases "dateOf (s div 86400)")
  have t0: "0 \<le> t div nsSecond"
    using assms by (simp add: formattable_def nsSecond_def pos_imp_zdiv_nonneg_iff)
  have "t div nsSecond < 3652059 * 86400"
    using assms unfolding formattable_def nsSecond_def by linarith
  then have "s div 86400 < 3652059" using t0 by (simp add: s_def)
  then have y: "y < 10000" "1 \<le> y"
    using dateOf_year_bound dateOf_day_bound ymd by blast+
  have yy: "100 * (y div 100) + y mod 100 = y" by simp
  note D = dayOf_dateOf [OF ymd] dateOf_day_bound [OF ymd]
  have sod: "sod < 86400" by (simp add: sod_def)
  have hms: "3600 * (sod div 3600) + 60 * (sod mod 3600 div 60) + sod mod 60 = sod"
  proof -
    have "sod mod 60 = sod mod 3600 mod 60" by (simp add: mod_mod_cancel)
    then have "60 * (sod mod 3600 div 60) + sod mod 60 = sod mod 3600"
      by (metis mult_div_mod_eq)
    then show ?thesis by (metis add.assoc mult_div_mod_eq)
  qed
  have fmt: "Format_RFC3339 t =
      pad2 (y div 100) @ pad2 (y mod 100) @ CHR ''-'' # pad2 m @ CHR ''-'' # pad2 d @ CHR ''T'' #
      pad2 (sod div 3600) @ CHR '':'' # pad2 (sod mod 3600 div 60) @ CHR '':'' # pad2 (sod mod 60) @ ''Z''"
    using y by (simp add: Format_RFC3339_def ymd pad4_def Let_def flip: s_def sod_def)
  have b: "y div 100 < 100" "m < 100" "d < 100" "sod div 3600 < 100" "sod div 3600 \<le> 23"
    "sod mod 3600 div 60 < 100" "sod mod 3600 div 60 \<le> 59" "sod mod 60 < 100" "sod mod 60 \<le> 59"
    using y D sod by auto
  have dn: "dayNumber y m d = int (s div 86400)" using y D by (simp add: dayNumber_def)
  have "Parse_RFC3339 (Format_RFC3339 t) =
      Some ((int (s div 86400) * 86400 + int sod) * nsSecond)"
    using b y D hms unfolding fmt Parse_RFC3339_def
    by (simp add: yy dn del: of_nat_add of_nat_mult)
  also have "int (s div 86400) * 86400 + int sod = int s"
    unfolding sod_def by (metis div_mult_mod_eq of_nat_add of_nat_mult of_nat_numeral)
  finally show ?thesis using t0 by (simp add: truncSecond_def s_def)
qed

lemma truncSecond_le: "truncSecond t \<le> t"
  by (simp add: truncSecond_def nsSecond_def minus_mod_eq_div_mult [symmetric])

lemma truncSecond_gt: "t - nsSecond < truncSecond t"
  by (simp add: truncSecond_def nsSecond_def minus_mod_eq_div_mult [symmetric])

end
