(* ===== verification/Cache_Types.thy ===== *)
theory Cache_Types
  imports Go_Time
begin

text \<open>
  The data of the in-memory cloud: Kubernetes objects, the resource group tracker and the cache
  of \<^verbatim>\<open>internal/cloud/runtime/cache/cache.go\<close>, the informers of \<^verbatim>\<open>informer.go\<close> and the hooks of
  \<^verbatim>\<open>hooks.go\<close>.
  \<^item> A \<^verbatim>\<open>client.Object\<close> is the record \<open>object\<close>: the metadata the cache reads and writes, and the
    rest of the object (spec, status, data) as a value of the type parameter.
  \<^item> Code outside the repository (the scheme, the serializers, JSON merge patch, the parser of API versions)
    is the record \<open>scheme\<close> of functions, a field of the cache as in the source.
  \<^item> A work queue of client-go is not modelled: an operation returns the calls it makes
    on queues, in order (\<open>queueCall\<close>).
  \<^item> \<^verbatim>\<open>time.Now()\<close> is the argument \<open>now\<close>: one operation reads the clock at one instant.
\<close>

section \<open>Objects\<close>

record GroupVersionKind =
  gvkGroup :: string
  gvkVersion :: string
  gvkKind :: string

record NamespacedName =
  nnNamespace :: string
  nnName :: string

record OwnerReference =
  orAPIVersion :: string
  orKind :: string
  orName :: string
  orUID :: string
  orController :: "bool option"
  orBlockOwnerDeletion :: "bool option"

datatype goType = Typed | Unstructured

text \<open>A nil map or slice is \<open>None\<close>: \<^verbatim>\<open>reflect.DeepEqual\<close> tells it from an empty one.\<close>

record 'b object =
  oType :: goType
  oGVK :: GroupVersionKind
  oNamespace :: string
  oName :: string
  oLabels :: "(string, string) gomap option"
  oAnnotations :: "(string, string) gomap option"
  oResourceVersion :: string
  oCreationTimestamp :: gotime
  oDeletionTimestamp :: "gotime option"
  oFinalizers :: "string list option"
  oOwnerReferences :: "OwnerReference list option"
  oBody :: 'b

record 'b objectList =
  lType :: goType
  lGVK :: GroupVersionKind
  lItems :: "'b object list"

text \<open>The kind of an object whose type meta is empty.\<close>

definition noGVK :: GroupVersionKind where
  "noGVK = \<lparr>gvkGroup = '''', gvkVersion = '''', gvkKind = ''''\<rparr>"

definition nilList :: "'a list option \<Rightarrow> 'a list" where
  "nilList x = (case x of None \<Rightarrow> [] | Some xs \<Rightarrow> xs)"

lemma nilList_simps [simp]: "nilList None = []" "nilList (Some xs) = xs"
  by (simp_all add: nilList_def)

definition GetLabels :: "'b object \<Rightarrow> (string, string) gomap" where
  "GetLabels o' = nilList (oLabels o')"

definition GetAnnotations :: "'b object \<Rightarrow> (string, string) gomap" where
  "GetAnnotations o' = nilList (oAnnotations o')"

definition GetFinalizers :: "'b object \<Rightarrow> string list" where
  "GetFinalizers o' = nilList (oFinalizers o')"

definition GetOwnerReferences :: "'b object \<Rightarrow> OwnerReference list" where
  "GetOwnerReferences o' = nilList (oOwnerReferences o')"

lemmas object_getters = GetLabels_def GetAnnotations_def GetFinalizers_def GetOwnerReferences_def

definition ObjectKeyFromObject :: "'b object \<Rightarrow> NamespacedName" where
  "ObjectKeyFromObject o' = \<lparr>nnNamespace = oNamespace o', nnName = oName o'\<rparr>"

text \<open>\<^verbatim>\<open>(*metav1.Time).IsZero\<close>: a nil pointer and the zero time are zero.\<close>

definition IsZero :: "gotime option \<Rightarrow> bool" where
  "IsZero t \<longleftrightarrow> t = None \<or> t = Some 0"

lemma IsZero_simps [simp]: "IsZero None" "IsZero (Some t) \<longleftrightarrow> t = 0"
  by (simp_all add: IsZero_def)

definition nil_map_eq :: "('k, 'v) gomap option \<Rightarrow> ('k, 'v) gomap option \<Rightarrow> bool" where
  "nil_map_eq a b = (case (a, b) of (None, None) \<Rightarrow> True | (Some m, Some n) \<Rightarrow> map_eq m n | _ \<Rightarrow> False)"

text \<open>\<^verbatim>\<open>reflect.DeepEqual\<close> on two objects.\<close>

definition DeepEqual :: "'b object \<Rightarrow> 'b object \<Rightarrow> bool" where
  "DeepEqual a b \<longleftrightarrow>
     oType a = oType b \<and> oGVK a = oGVK b \<and> oNamespace a = oNamespace b \<and> oName a = oName b
     \<and> nil_map_eq (oLabels a) (oLabels b) \<and> nil_map_eq (oAnnotations a) (oAnnotations b)
     \<and> oResourceVersion a = oResourceVersion b \<and> oCreationTimestamp a = oCreationTimestamp b
     \<and> oDeletionTimestamp a = oDeletionTimestamp b \<and> oFinalizers a = oFinalizers b
     \<and> oOwnerReferences a = oOwnerReferences b \<and> oBody a = oBody b"

lemma nil_map_eq_refl [simp]: "nil_map_eq a a"
  by (simp add: nil_map_eq_def split: option.splits)

lemma DeepEqual_refl [simp]: "DeepEqual a a"
  by (simp add: DeepEqual_def)

section \<open>Errors\<close>

datatype badRequest =
    ResourceGroupEmpty | ObjKeyNameEmpty | ObjectNil | ListNil | ObjectNameEmpty
  | ResourceGroupNotExist string
  | InvalidAPIVersion string
  | OwnerGVKNotTracked GroupVersionKind string
  | OwnerNotExist GroupVersionKind string
  | PatchTypeNotSupported string
  | HookFailed

record GroupResource =
  grGroup :: string
  grResource :: string

datatype apiError =
    BadRequest badRequest
  | NotFound GroupResource NamespacedName
  | AlreadyExists GroupResource NamespacedName
  | Conflict GroupResource NamespacedName
  | InternalError string
  | GoError string
  | Wrap string apiError
  | Formatted string apiError
  | Panic string

fun IsNotFound :: "apiError \<Rightarrow> bool" where
  "IsNotFound (NotFound _ _) = True"
| "IsNotFound (Wrap _ e) = IsNotFound e"
| "IsNotFound _ = False"

fun IsAlreadyExists :: "apiError \<Rightarrow> bool" where
  "IsAlreadyExists (AlreadyExists _ _) = True"
| "IsAlreadyExists (Wrap _ e) = IsAlreadyExists e"
| "IsAlreadyExists _ = False"

text \<open>\<^verbatim>\<open>errors.Wrap\<close> and \<^verbatim>\<open>fmt.Errorf\<close> with \<^verbatim>\<open>%v\<close>; a panic is no error that the code could wrap.\<close>

definition wrapError :: "string \<Rightarrow> apiError \<Rightarrow> apiError" where
  "wrapError msg e = (case e of Panic s \<Rightarrow> Panic s | _ \<Rightarrow> Wrap msg e)"

definition formatError :: "string \<Rightarrow> apiError \<Rightarrow> apiError" where
  "formatError msg e = (case e of Panic s \<Rightarrow> Panic s | _ \<Rightarrow> Formatted msg e)"

section \<open>Requests and queues\<close>

record gcRequest =
  gcResourceGroup :: string
  gcGVK :: GroupVersionKind
  gcKey :: NamespacedName

record resyncRequest =
  rrResourceGroup :: string
  rrGVK :: GroupVersionKind
  rrKey :: NamespacedName

record Request =
  reqResourceGroup :: string
  reqNamespacedName :: NamespacedName

text \<open>A queue holds values of type \<^verbatim>\<open>interface{}\<close>; workers test for the type they expect.\<close>

datatype queueItem = GcItem gcRequest | ResyncItem resyncRequest | ReconcileItem Request | OtherItem string

datatype queueName = GcQueue | SyncQueue | ControllerQueue string

datatype queueCall =
    QAdd queueName queueItem
  | QAddAfter queueName queueItem duration
  | QAddRateLimited queueName queueItem
  | QForget queueName queueItem
  | QDone queueName queueItem

section \<open>Informers\<close>

text \<open>An event handler is its four methods; each answers with the queue calls it makes.\<close>

record 'b InformEventHandler =
  OnCreate :: "string \<Rightarrow> 'b object \<Rightarrow> queueCall list"
  OnUpdate :: "string \<Rightarrow> 'b object \<Rightarrow> 'b object \<Rightarrow> queueCall list"
  OnDelete :: "string \<Rightarrow> 'b object \<Rightarrow> queueCall list"
  OnGeneric :: "string \<Rightarrow> 'b object \<Rightarrow> queueCall list"

record 'b informer =
  handlers :: "'b InformEventHandler list"

definition AddEventHandler :: "'b informer \<Rightarrow> 'b InformEventHandler \<Rightarrow> 'b informer" where
  "AddEventHandler i h = i\<lparr>handlers := handlers i @ [h]\<rparr>"

section \<open>The cache\<close>

record 'b scheme =
  GVKForObject :: "'b object \<Rightarrow> string + GroupVersionKind"
  GVKForList :: "'b objectList \<Rightarrow> string + GroupVersionKind"
  Convert :: "'b object \<Rightarrow> 'b object \<Rightarrow> string + 'b object"
  SetList :: "'b objectList \<Rightarrow> 'b object list \<Rightarrow> string + 'b objectList"
  ParseGroupVersion :: "string \<Rightarrow> (string \<times> string) option"
  JSONSerializerInfo :: bool
  Encode :: "string \<times> string \<Rightarrow> 'b object \<Rightarrow> string + string"
  MergePatch :: "string \<Rightarrow> string \<Rightarrow> string + string"
  DecodeInto :: "string \<Rightarrow> 'b object \<Rightarrow> string + 'b object"

record ownReference =
  refGVK :: GroupVersionKind
  refKey :: NamespacedName

record 'b resourceGroupTracker =
  objects :: "(GroupVersionKind, (NamespacedName, 'b object) gomap) gomap"
  ownedObjects :: "(ownReference, ownReference list) gomap"

record 'b cache =
  cScheme :: "'b scheme"
  resourceGroups :: "(string, 'b resourceGroupTracker) gomap"
  informers :: "(GroupVersionKind, 'b informer) gomap"
  garbageCollectorRequeueAfter :: duration
  garbageCollectorRequeueAfterJitterFactor :: "int \<times> int"
  garbageCollectorConcurrency :: int
  garbageCollectorQueue :: "queueName option"
  syncPeriod :: duration
  syncConcurrency :: int
  syncQueue :: "queueName option"
  cStarted :: bool

definition newOwnReferenceFromOwnerReference ::
  "'b scheme \<Rightarrow> string \<Rightarrow> OwnerReference \<Rightarrow> apiError + ownReference" where
  "newOwnReferenceFromOwnerReference sch namespace owner =
     (case ParseGroupVersion sch (orAPIVersion owner) of
        None \<Rightarrow> Inl (BadRequest (InvalidAPIVersion (orAPIVersion owner)))
      | Some (g, v) \<Rightarrow>
          Inr \<lparr>refGVK = \<lparr>gvkGroup = g, gvkVersion = v, gvkKind = orKind owner\<rparr>,
               refKey = \<lparr>nnNamespace = namespace, nnName = orName owner\<rparr>\<rparr>)"

definition NewCache :: "'b scheme \<Rightarrow> 'b cache" where
  "NewCache sch = \<lparr>cScheme = sch, resourceGroups = [], informers = [],
     garbageCollectorRequeueAfter = 30 * nsSecond,
     garbageCollectorRequeueAfterJitterFactor = (3, 10),
     garbageCollectorConcurrency = 1, garbageCollectorQueue = None,
     syncPeriod = 10 * nsMinute, syncConcurrency = 1, syncQueue = None, cStarted = False\<rparr>"

definition emptyTracker :: "'b resourceGroupTracker" where
  "emptyTracker = \<lparr>objects = [], ownedObjects = []\<rparr>"

definition AddResourceGroup :: "'b cache \<Rightarrow> string \<Rightarrow> 'b cache" where
  "AddResourceGroup c name =
     (case mget (resourceGroups c) name of
        Some _ \<Rightarrow> c
      | None \<Rightarrow> c\<lparr>resourceGroups := mput (resourceGroups c) name emptyTracker\<rparr>)"

definition DeleteResourceGroup :: "'b cache \<Rightarrow> string \<Rightarrow> 'b cache" where
  "DeleteResourceGroup c name = c\<lparr>resourceGroups := mdel (resourceGroups c) name\<rparr>"

definition resourceGroupTracker_of :: "'b cache \<Rightarrow> string \<Rightarrow> 'b resourceGroupTracker option" where
  "resourceGroupTracker_of c rg = mget (resourceGroups c) rg"

definition gvkGetAndSet :: "'b scheme \<Rightarrow> 'b object \<Rightarrow> apiError + 'b object \<times> GroupVersionKind" where
  "gvkGetAndSet sch o' =
     (case GVKForObject sch o' of
        Inl e \<Rightarrow> Inl (InternalError e)
      | Inr gvk \<Rightarrow> Inr (o'\<lparr>oGVK := gvk\<rparr>, gvk))"

definition gvkGetAndSetList :: "'b scheme \<Rightarrow> 'b objectList \<Rightarrow> apiError + 'b objectList \<times> GroupVersionKind" where
  "gvkGetAndSetList sch l =
     (case GVKForList sch l of
        Inl e \<Rightarrow> Inl (InternalError e)
      | Inr gvk \<Rightarrow> Inr (l\<lparr>lGVK := gvk\<rparr>, gvk))"

text \<open>\<^verbatim>\<open>unsafeGuessGroupVersionResource(gvk).GroupResource()\<close>.\<close>

definition unsafeGuessGroupVersionResource :: "GroupVersionKind \<Rightarrow> GroupResource" where
  "unsafeGuessGroupVersionResource gvk = \<lparr>grGroup = gvkGroup gvk, grResource = gvkKind gvk\<rparr>"

definition unsafeGuessObjectKindFromList :: "GroupVersionKind \<Rightarrow> GroupVersionKind" where
  "unsafeGuessObjectKindFromList gvk = gvk\<lparr>gvkKind := TrimSuffix (gvkKind gvk) ''List''\<rparr>"

section \<open>Informing the handlers\<close>

definition GetInformerForKind :: "'b cache \<Rightarrow> GroupVersionKind \<Rightarrow> 'b cache" where
  "GetInformerForKind c gvk =
     (case mget (informers c) gvk of
        Some _ \<Rightarrow> c
      | None \<Rightarrow> c\<lparr>informers := mput (informers c) gvk \<lparr>handlers = []\<rparr>\<rparr>)"

definition GetInformer :: "'b cache \<Rightarrow> 'b object \<Rightarrow> apiError + 'b cache \<times> GroupVersionKind" where
  "GetInformer c o' =
     (case GVKForObject (cScheme c) o' of
        Inl e \<Rightarrow> Inl (GoError e)
      | Inr gvk \<Rightarrow> Inr (GetInformerForKind c gvk, gvk))"

definition handlersFor :: "'b cache \<Rightarrow> GroupVersionKind \<Rightarrow> 'b InformEventHandler list" where
  "handlersFor c gvk = (case mget (informers c) gvk of None \<Rightarrow> [] | Some i \<Rightarrow> handlers i)"

definition informCreate :: "'b cache \<Rightarrow> string \<Rightarrow> 'b object \<Rightarrow> queueCall list" where
  "informCreate c rg o' = concat (map (\<lambda>h. OnCreate h rg o') (handlersFor c (oGVK o')))"

definition informUpdate :: "'b cache \<Rightarrow> string \<Rightarrow> 'b object \<Rightarrow> 'b object \<Rightarrow> queueCall list" where
  "informUpdate c rg old new = concat (map (\<lambda>h. OnUpdate h rg old new) (handlersFor c (oGVK new)))"

definition informDelete :: "'b cache \<Rightarrow> string \<Rightarrow> 'b object \<Rightarrow> queueCall list" where
  "informDelete c rg o' = concat (map (\<lambda>h. OnDelete h rg o') (handlersFor c (oGVK o')))"

definition informSync :: "'b cache \<Rightarrow> string \<Rightarrow> 'b object \<Rightarrow> queueCall list" where
  "informSync c rg o' = concat (map (\<lambda>h. OnGeneric h rg o') (handlersFor c (oGVK o')))"

lemmas inform_defs = informCreate_def informUpdate_def informDelete_def informSync_def

section \<open>Hooks\<close>

definition lastSyncTimeAnnotation :: string where
  "lastSyncTimeAnnotation = ''internal.goofy.cluster.x-k8s.io/last-sync''"

fun setPairs :: "(string, string) gomap \<Rightarrow> string list \<Rightarrow> (string, string) gomap" where
  "setPairs m (k # v # kvs) = setPairs (mput m k v) kvs"
| "setPairs m _ = m"

definition appendAnnotations :: "'b object \<Rightarrow> string list \<Rightarrow> (string, string) gomap" where
  "appendAnnotations o' kvs = setPairs (GetAnnotations o') kvs"

definition beforeCreate :: "gotime \<Rightarrow> string \<Rightarrow> 'b object \<Rightarrow> apiError + 'b object" where
  "beforeCreate now rg o' =
     (let o1 = o'\<lparr>oCreationTimestamp := now\<rparr>;
          o2 = o1\<lparr>oAnnotations := Some (appendAnnotations o1 [lastSyncTimeAnnotation, Format_RFC3339 now])\<rparr>
      in Inr (o2\<lparr>oResourceVersion := ''v'' @ Itoa 1\<rparr>))"

definition afterCreate :: "'b cache \<Rightarrow> string \<Rightarrow> 'b object \<Rightarrow> queueCall list" where
  "afterCreate c rg o' = informCreate c rg o'"

definition nextResourceVersion :: "string \<Rightarrow> string" where
  "nextResourceVersion rv = ''v'' @ Itoa (int64 (fst (Atoi (TrimPrefix rv ''v'')) + 1))"

definition beforeUpdate :: "gotime \<Rightarrow> string \<Rightarrow> 'b object \<Rightarrow> 'b object \<Rightarrow> apiError + 'b object" where
  "beforeUpdate now rg old new =
     (let n1 = new\<lparr>oCreationTimestamp := oCreationTimestamp old, oResourceVersion := oResourceVersion old\<rparr>;
          n2 = n1\<lparr>oAnnotations := Some (appendAnnotations n1
                    [lastSyncTimeAnnotation, mget_or '''' (GetAnnotations old) lastSyncTimeAnnotation])\<rparr>;
          n3 = (if \<not> IsZero (oDeletionTimestamp old) then n2\<lparr>oDeletionTimestamp := oDeletionTimestamp old\<rparr> else n2)
      in if \<not> DeepEqual n3 old
         then Inr (n3\<lparr>oAnnotations := Some (appendAnnotations n3 [lastSyncTimeAnnotation, Format_RFC3339 now]),
                      oResourceVersion := nextResourceVersion (oResourceVersion old)\<rparr>)
         else Inr n3)"

definition afterUpdate :: "'b cache \<Rightarrow> string \<Rightarrow> 'b object \<Rightarrow> 'b object \<Rightarrow> queueCall list" where
  "afterUpdate c rg old new =
     (if IsZero (oDeletionTimestamp old) \<and> \<not> IsZero (oDeletionTimestamp new) then informDelete c rg new
      else if \<not> DeepEqual new old then informUpdate c rg old new
      else [])"

definition beforeDelete :: "string \<Rightarrow> 'b object \<Rightarrow> apiError + unit" where
  "beforeDelete rg o' = Inr ()"

definition afterDelete :: "string \<Rightarrow> 'b object \<Rightarrow> queueCall list" where
  "afterDelete rg o' = []"

section \<open>Facts about the hooks\<close>

lemma setPairs_two [simp]: "setPairs m [k, v] = mput m k v"
  by simp

lemma beforeCreate_fields:
  assumes "beforeCreate now rg o1 = Inr o2"
  shows "oGVK o2 = oGVK o1" "oNamespace o2 = oNamespace o1" "oName o2 = oName o1"
    "oType o2 = oType o1" "oLabels o2 = oLabels o1" "oFinalizers o2 = oFinalizers o1"
    "oOwnerReferences o2 = oOwnerReferences o1" "oBody o2 = oBody o1"
    "oDeletionTimestamp o2 = oDeletionTimestamp o1" "oCreationTimestamp o2 = now"
    "oResourceVersion o2 = ''v'' @ Itoa 1"
    "GetAnnotations o2 = mput (GetAnnotations o1) lastSyncTimeAnnotation (Format_RFC3339 now)"
  using assms by (auto simp: beforeCreate_def Let_def appendAnnotations_def object_getters)

lemma beforeUpdate_fields:
  assumes "beforeUpdate now rg old new = Inr o2"
  shows "oGVK o2 = oGVK new" "oNamespace o2 = oNamespace new" "oName o2 = oName new"
    "oType o2 = oType new" "oLabels o2 = oLabels new" "oFinalizers o2 = oFinalizers new"
    "oOwnerReferences o2 = oOwnerReferences new" "oBody o2 = oBody new"
    "oCreationTimestamp o2 = oCreationTimestamp old"
    "oDeletionTimestamp o2 =
       (if IsZero (oDeletionTimestamp old) then oDeletionTimestamp new else oDeletionTimestamp old)"
    "k \<noteq> lastSyncTimeAnnotation \<Longrightarrow> mget (GetAnnotations o2) k = mget (GetAnnotations new) k"
  using assms
  by (auto simp: beforeUpdate_def Let_def appendAnnotations_def object_getters split: if_splits)

lemma beforeUpdate_unchanged:
  assumes "beforeUpdate now rg old new = Inr o2"
  shows "DeepEqual o2 old \<and> oResourceVersion o2 = oResourceVersion old
     \<or> oResourceVersion o2 = nextResourceVersion (oResourceVersion old)
        \<and> mget (GetAnnotations o2) lastSyncTimeAnnotation = Some (Format_RFC3339 now)"
  using assms
  by (auto simp: beforeUpdate_def Let_def appendAnnotations_def object_getters DeepEqual_def split: if_splits)

lemma beforeUpdate_Inr: "\<exists>o2. beforeUpdate now rg old new = Inr o2"
  by (simp add: beforeUpdate_def Let_def)

lemma beforeCreate_Inr: "\<exists>o2. beforeCreate now rg o1 = Inr o2"
  by (simp add: beforeCreate_def Let_def)

text \<open>The resource version of an object that went through the hooks: \<^verbatim>\<open>v\<close> and a number.\<close>

definition rvNumber :: "string \<Rightarrow> int" where
  "rvNumber rv = fst (Atoi (TrimPrefix rv ''v''))"

lemma TrimPrefix_v [simp]: "TrimPrefix (CHR ''v'' # s) ''v'' = s"
  by (simp add: TrimPrefix_def HasPrefix_def)

lemma rvNumber_v [simp]:
  "- (2 ^ 63) \<le> i \<Longrightarrow> i \<le> max_int64 \<Longrightarrow> rvNumber (CHR ''v'' # Itoa i) = i"
  by (simp add: rvNumber_def Atoi_Itoa)

lemma rvNumber_next:
  assumes "0 \<le> rvNumber rv" "rvNumber rv < max_int64"
  shows "rvNumber (nextResourceVersion rv) = rvNumber rv + 1"
proof -
  have "int64 (rvNumber rv + 1) = rvNumber rv + 1"
    using assms by (intro int64_id) simp_all
  with assms show ?thesis
    by (simp add: nextResourceVersion_def flip: rvNumber_def)
qed

end
