(* ===== verification/Cache_Client.thy ===== *)
theory Cache_Client
  imports Cache_Types
begin

text \<open>
  The operations of \<^verbatim>\<open>internal/cloud/runtime/cache/client.go\<close>: Get, List, Create, Update, Patch
  and Delete. An operation that changes state returns its error or result, the cache after it, the
  caller's object after it (the code writes to the object it is given) and the queue calls it made.
  Each operation runs under the lock of its tracker, so it is one step.
  The recursion of \<^verbatim>\<open>doTryDeleteLocked\<close> follows the ownership index, which client code
  can make cyclic; it is defined with fuel, and \<open>None\<close> is a recursion that did not return.
\<close>

section \<open>The tracker\<close>

definition getObject :: "'b resourceGroupTracker \<Rightarrow> GroupVersionKind \<Rightarrow> NamespacedName \<Rightarrow> 'b object option" where
  "getObject t gvk key = (case mget (objects t) gvk of None \<Rightarrow> None | Some m \<Rightarrow> mget m key)"

definition putObject ::
  "'b resourceGroupTracker \<Rightarrow> GroupVersionKind \<Rightarrow> NamespacedName \<Rightarrow> 'b object \<Rightarrow> 'b resourceGroupTracker" where
  "putObject t gvk key o' = t\<lparr>objects := mput (objects t) gvk (mput (mget_or [] (objects t) gvk) key o')\<rparr>"

definition delObject ::
  "'b resourceGroupTracker \<Rightarrow> GroupVersionKind \<Rightarrow> NamespacedName \<Rightarrow> 'b resourceGroupTracker" where
  "delObject t gvk key = t\<lparr>objects := mput (objects t) gvk (mdel (mget_or [] (objects t) gvk) key)\<rparr>"

definition ensureGVK :: "'b resourceGroupTracker \<Rightarrow> GroupVersionKind \<Rightarrow> 'b resourceGroupTracker" where
  "ensureGVK t gvk = (case mget (objects t) gvk of
      Some _ \<Rightarrow> t | None \<Rightarrow> t\<lparr>objects := mput (objects t) gvk []\<rparr>)"

abbreviation objectAt :: "'b resourceGroupTracker \<Rightarrow> ownReference \<Rightarrow> 'b object option" where
  "objectAt t r \<equiv> getObject t (refGVK r) (refKey r)"

definition ownedBy :: "'b resourceGroupTracker \<Rightarrow> ownReference \<Rightarrow> ownReference list" where
  "ownedBy t r = mget_or [] (ownedObjects t) r"

lemma getObject_putObject [simp, gomap_simps]:
  "getObject (putObject t g k o') g' k' = (if g' = g \<and> k' = k then Some o' else getObject t g' k')"
  by (auto simp: getObject_def putObject_def mget_or_def split: option.splits)

lemma getObject_delObject [simp, gomap_simps]:
  "getObject (delObject t g k) g' k' = (if g' = g \<and> k' = k then None else getObject t g' k')"
  by (auto simp: getObject_def delObject_def mget_or_def split: option.splits)

lemma getObject_ensureGVK [simp, gomap_simps]: "getObject (ensureGVK t g) g' k' = getObject t g' k'"
  by (auto simp: getObject_def ensureGVK_def split: option.splits)

lemma ownedObjects_object_ops [simp, gomap_simps]:
  "ownedObjects (putObject t g k o') = ownedObjects t"
  "ownedObjects (delObject t g k) = ownedObjects t"
  "ownedObjects (ensureGVK t g) = ownedObjects t"
  by (simp_all add: putObject_def delObject_def ensureGVK_def split: option.splits)

lemma getObject_owned_update [simp, gomap_simps]:
  "getObject (t\<lparr>ownedObjects := m\<rparr>) g k = getObject t g k"
  by (simp add: getObject_def)

section \<open>Get and List\<close>

definition Get ::
  "'b cache \<Rightarrow> string \<Rightarrow> NamespacedName \<Rightarrow> 'b object option \<Rightarrow> (apiError + unit) \<times> 'b object option" where
  "Get c rg objKey obj =
     (if rg = '''' then (Inl (BadRequest ResourceGroupEmpty), obj)
      else if nnName objKey = '''' then (Inl (BadRequest ObjKeyNameEmpty), obj)
      else case obj of
        None \<Rightarrow> (Inl (BadRequest ObjectNil), None)
      | Some o0 \<Rightarrow>
        (case gvkGetAndSet (cScheme c) o0 of
           Inl e \<Rightarrow> (Inl e, obj)
         | Inr (o1, gvk) \<Rightarrow>
           (case resourceGroupTracker_of c rg of
              None \<Rightarrow> (Inl (BadRequest (ResourceGroupNotExist rg)), Some o1)
            | Some t \<Rightarrow>
              (case mget (objects t) gvk of
                 None \<Rightarrow> (Inl (NotFound (unsafeGuessGroupVersionResource gvk) objKey), Some o1)
               | Some m \<Rightarrow>
                 (case mget m objKey of
                    None \<Rightarrow> (Inl (NotFound (unsafeGuessGroupVersionResource gvk) objKey), Some o1)
                  | Some trackedObj \<Rightarrow>
                    (case Convert (cScheme c) trackedObj o1 of
                       Inl e \<Rightarrow> (Inl (InternalError e), Some o1)
                     | Inr o2 \<Rightarrow> (Inr (), Some (o2\<lparr>oGVK := oGVK trackedObj\<rparr>))))))))"

text \<open>
  The list options the code reads: a namespace and a label selector, which may be nil and has
  the methods \<^verbatim>\<open>Empty\<close> and \<^verbatim>\<open>Matches\<close>.
\<close>

record labelSelector =
  selEmpty :: bool
  selMatches :: "(string, string) gomap \<Rightarrow> bool"

record ListOptions =
  loNamespace :: string
  loLabelSelector :: "labelSelector option"

definition listMatches :: "ListOptions \<Rightarrow> 'b object \<Rightarrow> bool" where
  "listMatches opts o' \<longleftrightarrow>
     \<not> (loNamespace opts \<noteq> '''' \<and> oNamespace o' \<noteq> loNamespace opts)
     \<and> (case loLabelSelector opts of
          None \<Rightarrow> True
        | Some sel \<Rightarrow> selEmpty sel \<or> selMatches sel (GetLabels o'))"

text \<open>
  The loop over the objects of one kind. For an unstructured list each item is converted into
  an empty unstructured object, which is the argument \<open>blank\<close>.
\<close>

fun listItems ::
  "'b scheme \<Rightarrow> goType \<Rightarrow> 'b object \<Rightarrow> ListOptions \<Rightarrow> 'b object list \<Rightarrow> apiError + 'b object list" where
  "listItems sch lt blank opts [] = Inr []"
| "listItems sch lt blank opts (o' # os) =
     (if \<not> listMatches opts o' then listItems sch lt blank opts os
      else case (case lt of Unstructured \<Rightarrow> (case Convert sch o' blank of
                                               Inl e \<Rightarrow> Inl (InternalError e) | Inr u \<Rightarrow> Inr u)
                 | Typed \<Rightarrow> Inr o') of
             Inl e \<Rightarrow> Inl e
           | Inr x \<Rightarrow> (case listItems sch lt blank opts os of Inl e \<Rightarrow> Inl e | Inr xs \<Rightarrow> Inr (x # xs)))"

definition List ::
  "'b cache \<Rightarrow> string \<Rightarrow> 'b object \<Rightarrow> 'b objectList option \<Rightarrow> ListOptions \<Rightarrow>
   (apiError + unit) \<times> 'b objectList option" where
  "List c rg blank ls opts =
     (if rg = '''' then (Inl (BadRequest ResourceGroupEmpty), ls)
      else case ls of
        None \<Rightarrow> (Inl (BadRequest ListNil), None)
      | Some l0 \<Rightarrow>
        (case gvkGetAndSetList (cScheme c) l0 of
           Inl e \<Rightarrow> (Inl e, ls)
         | Inr (l1, gvk) \<Rightarrow>
           (case resourceGroupTracker_of c rg of
              None \<Rightarrow> (Inl (BadRequest (ResourceGroupNotExist rg)), Some l1)
            | Some t \<Rightarrow>
              (case (case mget (objects t) (unsafeGuessObjectKindFromList gvk) of
                       None \<Rightarrow> Inr []
                     | Some m \<Rightarrow> listItems (cScheme c) (lType l1) blank opts (map snd m)) of
                 Inl e \<Rightarrow> (Inl e, Some l1)
               | Inr items \<Rightarrow>
                 (case SetList (cScheme c) l1 items of
                    Inl e \<Rightarrow> (Inl (InternalError e), Some l1)
                  | Inr l2 \<Rightarrow> (Inr (), Some l2))))))"

section \<open>Ownership index\<close>

text \<open>
  \<^verbatim>\<open>oldOwnerRef == newOwnerRef\<close> compares two structs whose fields \<^verbatim>\<open>Controller\<close> and
  \<^verbatim>\<open>BlockOwnerDeletion\<close> are pointers. The old reference belongs to the deep copy the tracker
  keeps, the new one to the caller, so non-nil pointers are never the same.
\<close>

definition ownerRefEq :: "OwnerReference \<Rightarrow> OwnerReference \<Rightarrow> bool" where
  "ownerRefEq a b \<longleftrightarrow> a = b \<and> orController a = None \<and> orBlockOwnerDeletion a = None"

definition removeOwned ::
  "'b resourceGroupTracker \<Rightarrow> ownReference \<Rightarrow> ownReference \<Rightarrow> 'b resourceGroupTracker" where
  "removeOwned t owner objRef =
     (case mget (ownedObjects t) owner of
        None \<Rightarrow> t
      | Some refs \<Rightarrow>
          (let refs' = set_delete objRef refs
           in t\<lparr>ownedObjects := if refs' = [] then mdel (ownedObjects t) owner
                                else mput (ownedObjects t) owner refs'\<rparr>))"

definition addOwned ::
  "'b resourceGroupTracker \<Rightarrow> ownReference \<Rightarrow> ownReference \<Rightarrow> 'b resourceGroupTracker" where
  "addOwned t owner objRef =
     t\<lparr>ownedObjects := mput (ownedObjects t) owner (set_insert objRef (mget_or [] (ownedObjects t) owner))\<rparr>"

text \<open>
  The two loops. The code ignores the error of \<^verbatim>\<open>newOwnReferenceFromOwnerReference\<close> and dereferences
  its result, a nil pointer when the API version does not parse.
\<close>

fun dropOldOwners ::
  "'b scheme \<Rightarrow> string \<Rightarrow> OwnerReference list \<Rightarrow> ownReference \<Rightarrow> OwnerReference list \<Rightarrow>
   'b resourceGroupTracker \<Rightarrow> (apiError + unit) \<times> 'b resourceGroupTracker" where
  "dropOldOwners sch ns news objRef [] t = (Inr (), t)"
| "dropOldOwners sch ns news objRef (old # olds) t =
     (if list_ex (\<lambda>n. ownerRefEq old n) news then dropOldOwners sch ns news objRef olds t
      else case newOwnReferenceFromOwnerReference sch ns old of
             Inl _ \<Rightarrow> (Inl (Panic ''nil pointer dereference''), t)
           | Inr r \<Rightarrow> dropOldOwners sch ns news objRef olds (removeOwned t r objRef))"

fun addNewOwners ::
  "'b scheme \<Rightarrow> string \<Rightarrow> OwnerReference list \<Rightarrow> ownReference \<Rightarrow> OwnerReference list \<Rightarrow>
   'b resourceGroupTracker \<Rightarrow> (apiError + unit) \<times> 'b resourceGroupTracker" where
  "addNewOwners sch ns olds objRef [] t = (Inr (), t)"
| "addNewOwners sch ns olds objRef (new # news) t =
     (if list_ex (\<lambda>old. ownerRefEq old new) olds then addNewOwners sch ns olds objRef news t
      else case newOwnReferenceFromOwnerReference sch ns new of
             Inl _ \<Rightarrow> (Inl (Panic ''nil pointer dereference''), t)
           | Inr r \<Rightarrow> addNewOwners sch ns olds objRef news (addOwned t r objRef))"

definition updateTrackerOwnerReferences ::
  "'b scheme \<Rightarrow> 'b resourceGroupTracker \<Rightarrow> 'b object option \<Rightarrow> 'b object \<Rightarrow> ownReference \<Rightarrow>
   (apiError + unit) \<times> 'b resourceGroupTracker" where
  "updateTrackerOwnerReferences sch t oldObj newObj objRef =
     (let olds = (case oldObj of None \<Rightarrow> [] | Some old \<Rightarrow> GetOwnerReferences old);
          news = GetOwnerReferences newObj; ns = oNamespace newObj
      in case dropOldOwners sch ns news objRef olds t of
           (Inl e, t1) \<Rightarrow> (Inl e, t1)
         | (Inr _, t1) \<Rightarrow> addNewOwners sch ns olds objRef news t1)"

section \<open>Create and Update\<close>

text \<open>The loop that checks that every owner exists: the first error, if there is one.\<close>

fun checkOwners :: "'b scheme \<Rightarrow> 'b resourceGroupTracker \<Rightarrow> string \<Rightarrow> OwnerReference list \<Rightarrow> apiError option" where
  "checkOwners sch t ns [] = None"
| "checkOwners sch t ns (o' # os) =
     (case newOwnReferenceFromOwnerReference sch ns o' of
        Inl e \<Rightarrow> Some e
      | Inr oRef \<Rightarrow>
        (case mget (objects t) (refGVK oRef) of
           None \<Rightarrow> Some (BadRequest (OwnerGVKNotTracked (refGVK oRef) (nnName (refKey oRef))))
         | Some m \<Rightarrow>
           (case mget m (refKey oRef) of
              None \<Rightarrow> Some (BadRequest (OwnerNotExist (refGVK oRef) (nnName (refKey oRef))))
            | Some _ \<Rightarrow> checkOwners sch t ns os)))"

type_synonym 'b lockedResult = "(apiError + unit) \<times> 'b resourceGroupTracker \<times> 'b object \<times> queueCall list"

text \<open>The part of \<^verbatim>\<open>store\<close> that runs with the tracker locked.\<close>

definition storeLocked ::
  "gotime \<Rightarrow> 'b cache \<Rightarrow> string \<Rightarrow> 'b resourceGroupTracker \<Rightarrow> GroupVersionKind \<Rightarrow> 'b object \<Rightarrow> bool \<Rightarrow>
   'b lockedResult" where
  "storeLocked now c rg t0 objGVK obj replaceExisting =
     (case checkOwners (cScheme c) t0 (oNamespace obj) (GetOwnerReferences obj) of
        Some e \<Rightarrow> (Inl e, t0, obj, [])
      | None \<Rightarrow>
        (let t = ensureGVK t0 objGVK;
             objKey = ObjectKeyFromObject obj;
             objRef = \<lparr>refGVK = objGVK, refKey = objKey\<rparr>;
             gr = unsafeGuessGroupVersionResource objGVK
         in case getObject t objGVK objKey of
              Some trackedObj \<Rightarrow>
                if replaceExisting then
                  if oResourceVersion trackedObj \<noteq> oResourceVersion obj
                  then (Inl (Conflict gr objKey), t, obj, [])
                  else (case beforeUpdate now rg trackedObj obj of
                          Inl e \<Rightarrow> (Inl e, t, obj, [])
                        | Inr obj' \<Rightarrow>
                            (case updateTrackerOwnerReferences (cScheme c) (putObject t objGVK objKey obj')
                                    (Some trackedObj) obj' objRef of
                               (Inl e, t') \<Rightarrow> (Inl e, t', obj', [])
                             | (Inr _, t') \<Rightarrow> (Inr (), t', obj', afterUpdate c rg trackedObj obj')))
                else (Inl (AlreadyExists gr objKey), t, obj, [])
            | None \<Rightarrow>
                if replaceExisting then (Inl (NotFound gr objKey), t, obj, [])
                else (case beforeCreate now rg obj of
                        Inl e \<Rightarrow> (Inl e, t, obj, [])
                      | Inr obj' \<Rightarrow>
                          (case updateTrackerOwnerReferences (cScheme c) (putObject t objGVK objKey obj')
                                  None obj' objRef of
                             (Inl e, t') \<Rightarrow> (Inl e, t', obj', [])
                           | (Inr _, t') \<Rightarrow> (Inr (), t', obj', afterCreate c rg obj')))))"

type_synonym 'b writeResult = "(apiError + unit) \<times> 'b cache \<times> 'b object option \<times> queueCall list"

definition store :: "gotime \<Rightarrow> 'b cache \<Rightarrow> string \<Rightarrow> 'b object option \<Rightarrow> bool \<Rightarrow> 'b writeResult" where
  "store now c rg obj replaceExisting =
     (if rg = '''' then (Inl (BadRequest ResourceGroupEmpty), c, obj, [])
      else case obj of
        None \<Rightarrow> (Inl (BadRequest ObjectNil), c, None, [])
      | Some o0 \<Rightarrow>
        (case gvkGetAndSet (cScheme c) o0 of
           Inl e \<Rightarrow> (Inl e, c, obj, [])
         | Inr (o1, objGVK) \<Rightarrow>
           if replaceExisting \<and> oName o1 = '''' then (Inl (BadRequest ObjectNameEmpty), c, Some o1, [])
           else (case resourceGroupTracker_of c rg of
                   None \<Rightarrow> (Inl (BadRequest (ResourceGroupNotExist rg)), c, Some o1, [])
                 | Some t \<Rightarrow>
                   (case storeLocked now c rg t objGVK o1 replaceExisting of
                      (r, t', o2, calls) \<Rightarrow>
                        (r, c\<lparr>resourceGroups := mput (resourceGroups c) rg t'\<rparr>, Some o2, calls)))))"

definition Create :: "gotime \<Rightarrow> 'b cache \<Rightarrow> string \<Rightarrow> 'b object option \<Rightarrow> 'b writeResult" where
  "Create now c rg obj = store now c rg obj False"

definition Update :: "gotime \<Rightarrow> 'b cache \<Rightarrow> string \<Rightarrow> 'b object option \<Rightarrow> 'b writeResult" where
  "Update now c rg obj = store now c rg obj True"

section \<open>Patch\<close>

text \<open>
  A \<^verbatim>\<open>client.Patch\<close> is its two methods. \<open>Patch\<close> works on a deep copy of the object it
  is given: the caller's object is not an output. It copies before any check, so that a nil object panics.
\<close>

record 'b patch =
  patchType :: string
  patchDataOf :: "'b object \<Rightarrow> string + string"

definition MergePatchType :: string where
  "MergePatchType = ''application/merge-patch+json''"

definition StrategicMergePatchType :: string where
  "StrategicMergePatchType = ''application/strategic-merge-patch+json''"

definition getEncoder :: "'b scheme \<Rightarrow> 'b object \<Rightarrow> string \<times> string \<Rightarrow> string + ('b object \<Rightarrow> string + string)" where
  "getEncoder sch obj gv =
     (if \<not> JSONSerializerInfo sch then Inl ''failed to create serializer'' else Inr (Encode sch gv))"

definition Patch ::
  "gotime \<Rightarrow> 'b cache \<Rightarrow> string \<Rightarrow> 'b object option \<Rightarrow> 'b patch \<Rightarrow> (apiError + unit) \<times> 'b cache \<times> queueCall list" where
  "Patch now c rg obj p =
     (case obj of
        None \<Rightarrow> (Inl (Panic ''nil pointer dereference''), c, [])
      | Some obj0 \<Rightarrow>
     (case Get c rg (ObjectKeyFromObject obj0) (Some obj0) of
        (Inl e, _) \<Rightarrow> (Inl e, c, [])
      | (Inr _, None) \<Rightarrow> (Inl (Panic ''nil object''), c, [])
      | (Inr _, Some obj) \<Rightarrow>
        (case patchDataOf p obj of
           Inl e \<Rightarrow> (Inl (InternalError e), c, [])
         | Inr patchData \<Rightarrow>
           (case getEncoder (cScheme c) obj (gvkGroup (oGVK obj), gvkVersion (oGVK obj)) of
              Inl e \<Rightarrow> (Inl (InternalError e), c, [])
            | Inr encoder \<Rightarrow>
              (case encoder obj of
                 Inl e \<Rightarrow> (Inl (InternalError e), c, [])
               | Inr originalObjJS \<Rightarrow>
                 (case (if patchType p = MergePatchType \<or> patchType p = StrategicMergePatchType
                        then (case MergePatch (cScheme c) originalObjJS patchData of
                                Inl e \<Rightarrow> Inl (InternalError e) | Inr js \<Rightarrow> Inr js)
                        else Inl (BadRequest (PatchTypeNotSupported (patchType p)))) of
                    Inl e \<Rightarrow> (Inl e, c, [])
                  | Inr changedJS \<Rightarrow>
                    (case DecodeInto (cScheme c) changedJS obj of
                       Inl e \<Rightarrow> (Inl (InternalError e), c, [])
                     | Inr obj' \<Rightarrow>
                       (case store now c rg (Some obj') True of (r, c', _, calls) \<Rightarrow> (r, c', calls)))))))))"

section \<open>Delete\<close>

text \<open>Adding to a nil queue panics: the queue exists once the cache is started.\<close>

definition gcAdd :: "'b cache \<Rightarrow> string \<Rightarrow> ownReference \<Rightarrow> apiError + queueCall list" where
  "gcAdd c rg r =
     (case garbageCollectorQueue c of
        None \<Rightarrow> Inl (Panic ''nil garbageCollectorQueue'')
      | Some q \<Rightarrow> Inr [QAdd q (GcItem \<lparr>gcResourceGroup = rg, gcGVK = refGVK r, gcKey = refKey r\<rparr>)])"

text \<open>What \<^verbatim>\<open>doTryDeleteLocked\<close> does once the owned objects are handled.\<close>

definition finishDelete ::
  "gotime \<Rightarrow> 'b cache \<Rightarrow> string \<Rightarrow> 'b resourceGroupTracker \<Rightarrow> ownReference \<Rightarrow> 'b object \<Rightarrow>
   (apiError + bool) \<times> 'b resourceGroupTracker \<times> queueCall list" where
  "finishDelete now c rg t r obj =
     (if GetFinalizers obj \<noteq> [] then
        if \<not> IsZero (oDeletionTimestamp obj) then (Inr False, t, [])
        else case beforeDelete rg obj of
               Inl _ \<Rightarrow> (Inl (BadRequest HookFailed), t, [])
             | Inr _ \<Rightarrow>
               (let obj1 = obj\<lparr>oDeletionTimestamp := Some now\<rparr>
                in case beforeUpdate now rg obj obj1 of
                     Inl _ \<Rightarrow> (Inl (BadRequest HookFailed), putObject t (refGVK r) (refKey r) obj1, [])
                   | Inr obj2 \<Rightarrow>
                     (let obj3 = obj2\<lparr>oDeletionTimestamp := Some now\<rparr>
                      in (Inr False, putObject t (refGVK r) (refKey r) obj3, afterUpdate c rg obj obj3)))
      else (Inr True, delObject t (refGVK r) (refKey r), afterDelete rg obj))"

type_synonym 'b deleteResult = "((apiError + bool) \<times> 'b resourceGroupTracker \<times> queueCall list) option"

fun doTryDeleteLocked ::
  "nat \<Rightarrow> gotime \<Rightarrow> 'b cache \<Rightarrow> string \<Rightarrow> 'b resourceGroupTracker \<Rightarrow> ownReference \<Rightarrow> 'b deleteResult"
  and deleteOwned ::
  "nat \<Rightarrow> gotime \<Rightarrow> 'b cache \<Rightarrow> string \<Rightarrow> 'b resourceGroupTracker \<Rightarrow> ownReference list \<Rightarrow>
   ((apiError + unit) \<times> 'b resourceGroupTracker \<times> queueCall list) option" where
  "doTryDeleteLocked 0 now c rg t r = None"
| "doTryDeleteLocked (Suc n) now c rg t r =
     (case objectAt t r of
        None \<Rightarrow> Some (Inl (NotFound (unsafeGuessGroupVersionResource (refGVK r)) (refKey r)), t, [])
      | Some obj \<Rightarrow>
        (case mget (ownedObjects t) r of
           None \<Rightarrow> Some (finishDelete now c rg t r obj)
         | Some ownedReferences \<Rightarrow>
           (case deleteOwned n now c rg t ownedReferences of
              None \<Rightarrow> None
            | Some (Inl e, t1, calls) \<Rightarrow> Some (Inl e, t1, calls)
            | Some (Inr _, t1, calls) \<Rightarrow>
              (case finishDelete now c rg (t1\<lparr>ownedObjects := mdel (ownedObjects t1) r\<rparr>) r obj of
                 (res, t2, calls2) \<Rightarrow> Some (res, t2, calls @ calls2)))))"
| "deleteOwned n now c rg t [] = Some (Inr (), t, [])"
| "deleteOwned n now c rg t (r # rs) =
     (case doTryDeleteLocked n now c rg t r of
        None \<Rightarrow> None
      | Some (Inl e, t1, calls) \<Rightarrow> Some (Inl e, t1, calls)
      | Some (Inr deleted, t1, calls) \<Rightarrow>
        (case (if deleted then Inr [] else gcAdd c rg r) of
           Inl e \<Rightarrow> Some (Inl e, t1, calls)
         | Inr added \<Rightarrow>
           (case deleteOwned n now c rg t1 rs of
              None \<Rightarrow> None
            | Some (res, t2, calls2) \<Rightarrow> Some (res, t2, calls @ added @ calls2))))"

definition tryDelete ::
  "nat \<Rightarrow> gotime \<Rightarrow> 'b cache \<Rightarrow> string \<Rightarrow> ownReference \<Rightarrow> ((apiError + bool) \<times> 'b cache \<times> queueCall list) option" where
  "tryDelete fuel now c rg r =
     (case resourceGroupTracker_of c rg of
        None \<Rightarrow> Some (Inl (BadRequest (ResourceGroupNotExist rg)), c, [])
      | Some t \<Rightarrow>
        (case doTryDeleteLocked fuel now c rg t r of
           None \<Rightarrow> None
         | Some (res, t', calls) \<Rightarrow>
             Some (res, c\<lparr>resourceGroups := mput (resourceGroups c) rg t'\<rparr>, calls)))"

definition Delete :: "nat \<Rightarrow> gotime \<Rightarrow> 'b cache \<Rightarrow> string \<Rightarrow> 'b object option \<Rightarrow> 'b writeResult option" where
  "Delete fuel now c rg obj =
     (if rg = '''' then Some (Inl (BadRequest ResourceGroupEmpty), c, obj, [])
      else case obj of
        None \<Rightarrow> Some (Inl (BadRequest ObjectNil), c, None, [])
      | Some o0 \<Rightarrow>
        if oName o0 = '''' then Some (Inl (BadRequest ObjectNameEmpty), c, obj, [])
        else (case gvkGetAndSet (cScheme c) o0 of
           Inl e \<Rightarrow> Some (Inl e, c, obj, [])
         | Inr (o1, objGVK) \<Rightarrow>
           (let r = \<lparr>refGVK = objGVK, refKey = ObjectKeyFromObject o1\<rparr>
            in case tryDelete fuel now c rg r of
                 None \<Rightarrow> None
               | Some (Inl e, c', calls) \<Rightarrow> Some (Inl e, c', Some o1, calls)
               | Some (Inr True, c', calls) \<Rightarrow> Some (Inr (), c', Some o1, calls)
               | Some (Inr False, c', calls) \<Rightarrow>
                 (case gcAdd c rg r of
                    Inl e \<Rightarrow> Some (Inl e, c', Some o1, calls)
                  | Inr added \<Rightarrow> Some (Inr (), c', Some o1, calls @ added)))))"

end
