(* ===== verification/Cache_Store.thy ===== *)
theory Cache_Store
  imports Cache_Client
begin

text \<open>
  What Create and Update do to a tracker: a case analysis of \<open>storeLocked\<close> that the other proofs use
  (\<open>storeLocked_elim\<close>), the two loops over owner references and the exactness of the ownership index.
\<close>

section \<open>Owner references\<close>

definition ownersOf :: "'b scheme \<Rightarrow> 'b object \<Rightarrow> ownReference set" where
  "ownersOf sch o' =
     {p. \<exists>r \<in> set (GetOwnerReferences o'). newOwnReferenceFromOwnerReference sch (oNamespace o') r = Inr p}"

definition ownersParse :: "'b scheme \<Rightarrow> 'b object \<Rightarrow> bool" where
  "ownersParse sch o' \<longleftrightarrow>
     (\<forall>r \<in> set (GetOwnerReferences o'). \<exists>p. newOwnReferenceFromOwnerReference sch (oNamespace o') r = Inr p)"

text \<open>No two owner references of the object name the same owner.\<close>

definition ownersDistinct :: "'b scheme \<Rightarrow> 'b object \<Rightarrow> bool" where
  "ownersDistinct sch o' \<longleftrightarrow>
     inj_on (newOwnReferenceFromOwnerReference sch (oNamespace o')) (set (GetOwnerReferences o'))"

lemma checkOwners_None:
  "checkOwners sch t ns os = None \<longleftrightarrow>
     (\<forall>o' \<in> set os. \<exists>r. newOwnReferenceFromOwnerReference sch ns o' = Inr r \<and> objectAt t r \<noteq> None)"
  by (induction os) (auto simp: getObject_def split: sum.splits option.splits)

lemma ownersParse_if_checked:
  "checkOwners sch t (oNamespace o') (GetOwnerReferences o') = None \<Longrightarrow> ownersParse sch o'"
  by (fastforce simp: checkOwners_None ownersParse_def)

lemma ownersParse_cong:
  "oNamespace a = oNamespace b \<Longrightarrow> oOwnerReferences a = oOwnerReferences b \<Longrightarrow>
     ownersParse sch a = ownersParse sch b"
  by (simp add: ownersParse_def GetOwnerReferences_def)

lemma ownersOf_cong:
  "oNamespace a = oNamespace b \<Longrightarrow> oOwnerReferences a = oOwnerReferences b \<Longrightarrow>
     ownersOf sch a = ownersOf sch b"
  by (simp add: ownersOf_def GetOwnerReferences_def)

section \<open>The ownership index\<close>

lemma ownedBy_removeOwned [simp]:
  "set (ownedBy (removeOwned t owner r) p) = (if p = owner then set (ownedBy t p) - {r} else set (ownedBy t p))"
proof (cases "mget (ownedObjects t) owner")
  case (Some refs)
  then show ?thesis
    by (cases "set_delete r refs = []")
       (auto simp: removeOwned_def ownedBy_def mget_or_def Let_def simp flip: set_set_delete)
qed (simp add: removeOwned_def ownedBy_def mget_or_def)

lemma ownedBy_addOwned [simp]:
  "set (ownedBy (addOwned t owner r) p) = (if p = owner then insert r (set (ownedBy t p)) else set (ownedBy t p))"
  by (simp add: addOwned_def ownedBy_def)

lemma ownedBy_object_ops [simp]:
  "ownedBy (putObject t g k o') p = ownedBy t p" "ownedBy (delObject t g k) p = ownedBy t p"
  "ownedBy (ensureGVK t g) p = ownedBy t p"
  by (simp_all add: ownedBy_def)

lemma ownedBy_mdel:
  "ownedBy (t\<lparr>ownedObjects := mdel (ownedObjects t) r\<rparr>) p = (if p = r then [] else ownedBy t p)"
  by (simp add: ownedBy_def mget_or_def)

lemma objects_removeOwned [simp]: "objects (removeOwned t owner r) = objects t"
  by (simp add: removeOwned_def Let_def split: option.splits)

lemma objects_addOwned [simp]: "objects (addOwned t owner r) = objects t"
  by (simp add: addOwned_def)

lemma objects_dropOldOwners: "dropOldOwners sch ns news objRef olds t = (x, t') \<Longrightarrow> objects t' = objects t"
  by (induction olds arbitrary: t) (fastforce split: if_splits sum.splits)+

lemma objects_addNewOwners: "addNewOwners sch ns olds objRef news t = (x, t') \<Longrightarrow> objects t' = objects t"
  by (induction news arbitrary: t) (fastforce split: if_splits sum.splits)+

lemma objects_updateTrackerOwnerReferences:
  "updateTrackerOwnerReferences sch t old new objRef = (x, t') \<Longrightarrow> objects t' = objects t"
  by (auto simp: updateTrackerOwnerReferences_def Let_def split: prod.splits sum.splits
      dest!: objects_dropOldOwners objects_addNewOwners)

text \<open>Some reference of the list that fails the test \<open>E\<close> names the owner \<open>p\<close>.\<close>

definition unmatched :: "('r \<Rightarrow> bool) \<Rightarrow> ('r \<Rightarrow> 'e + 'p) \<Rightarrow> 'r list \<Rightarrow> 'p \<Rightarrow> bool" where
  "unmatched E N rs p \<longleftrightarrow> (\<exists>r \<in> set rs. \<not> E r \<and> N r = Inr p)"

lemma unmatched_simps [simp]:
  "unmatched E N [] p \<longleftrightarrow> False"
  "unmatched E N (r # rs) p \<longleftrightarrow> \<not> E r \<and> N r = Inr p \<or> unmatched E N rs p"
  by (auto simp: unmatched_def)

lemma dropOldOwners_ok:
  assumes "\<forall>o' \<in> set olds. \<exists>p. newOwnReferenceFromOwnerReference sch ns o' = Inr p"
  shows "\<exists>t'. dropOldOwners sch ns news objRef olds t = (Inr (), t') \<and>
     (\<forall>p x. x \<in> set (ownedBy t' p) \<longleftrightarrow> x \<in> set (ownedBy t p) \<and>
        \<not> (x = objRef \<and> unmatched (\<lambda>o'. list_ex (\<lambda>n. ownerRefEq o' n) news)
                            (newOwnReferenceFromOwnerReference sch ns) olds p))"
  using assms
proof (induction olds arbitrary: t)
  case (Cons old olds)
  from Cons.prems obtain p0 where p0: "newOwnReferenceFromOwnerReference sch ns old = Inr p0" by auto
  have rest: "\<forall>o' \<in> set olds. \<exists>p. newOwnReferenceFromOwnerReference sch ns o' = Inr p"
    using Cons.prems by simp
  show ?case
  proof (cases "list_ex (\<lambda>n. ownerRefEq old n) news")
    case True
    with Cons.IH [OF rest, of t] show ?thesis by simp
  next
    case False
    with Cons.IH [OF rest, of "removeOwned t p0 objRef"] p0 show ?thesis by auto
  qed
qed simp

lemma addNewOwners_ok:
  assumes "\<forall>o' \<in> set news. \<exists>p. newOwnReferenceFromOwnerReference sch ns o' = Inr p"
  shows "\<exists>t'. addNewOwners sch ns olds objRef news t = (Inr (), t') \<and>
     (\<forall>p x. x \<in> set (ownedBy t' p) \<longleftrightarrow> x \<in> set (ownedBy t p) \<or>
        x = objRef \<and> unmatched (\<lambda>n. list_ex (\<lambda>o'. ownerRefEq o' n) olds)
                         (newOwnReferenceFromOwnerReference sch ns) news p)"
  using assms
proof (induction news arbitrary: t)
  case (Cons new news)
  from Cons.prems obtain p0 where p0: "newOwnReferenceFromOwnerReference sch ns new = Inr p0" by auto
  have rest: "\<forall>o' \<in> set news. \<exists>p. newOwnReferenceFromOwnerReference sch ns o' = Inr p"
    using Cons.prems by simp
  show ?case
  proof (cases "list_ex (\<lambda>o'. ownerRefEq o' new) olds")
    case True
    with Cons.IH [OF rest, of t] show ?thesis by simp
  next
    case False
    with Cons.IH [OF rest, of "addOwned t p0 objRef"] p0 show ?thesis by auto
  qed
qed simp

text \<open>With owner references that parse, the index update does not fail.\<close>

lemma updateTrackerOwnerReferences_Inr:
  assumes "ownersParse sch new"
    and "\<And>old. oldObj = Some old \<Longrightarrow> ownersParse sch old \<and> oNamespace old = oNamespace new"
  shows "\<exists>t'. updateTrackerOwnerReferences sch t oldObj new objRef = (Inr (), t')"
proof -
  define olds where "olds = (case oldObj of None \<Rightarrow> [] | Some old \<Rightarrow> GetOwnerReferences old)"
  have "\<forall>o' \<in> set olds. \<exists>p. newOwnReferenceFromOwnerReference sch (oNamespace new) o' = Inr p"
    using assms(2) by (auto simp: olds_def ownersParse_def split: option.splits)
  then obtain t1 where t1: "dropOldOwners sch (oNamespace new) (GetOwnerReferences new) objRef olds t = (Inr (), t1)"
    using dropOldOwners_ok by blast
  have "\<forall>o' \<in> set (GetOwnerReferences new). \<exists>p. newOwnReferenceFromOwnerReference sch (oNamespace new) o' = Inr p"
    using assms(1) by (simp add: ownersParse_def)
  then obtain t2 where "addNewOwners sch (oNamespace new) olds objRef (GetOwnerReferences new) t1 = (Inr (), t2)"
    using addNewOwners_ok by blast
  then show ?thesis
    using t1 by (simp add: updateTrackerOwnerReferences_def Let_def flip: olds_def)
qed

text \<open>
  The index after an update of the object at \<open>objRef\<close>: if it was exact for that object, it is exact for the
  new version.
\<close>

lemma updateTrackerOwnerReferences_exact:
  assumes upd: "updateTrackerOwnerReferences sch t oldObj new objRef = (Inr (), t')"
    and parse: "ownersParse sch new"
    and old: "\<And>old. oldObj = Some old \<Longrightarrow>
       ownersParse sch old \<and> ownersDistinct sch old \<and> oNamespace old = oNamespace new"
    and idx: "\<And>p. objRef \<in> set (ownedBy t p) \<longleftrightarrow> (\<exists>old. oldObj = Some old \<and> p \<in> ownersOf sch old)"
  shows "r \<in> set (ownedBy t' p) \<longleftrightarrow> (if r = objRef then p \<in> ownersOf sch new else r \<in> set (ownedBy t p))"
proof -
  define ns where "ns = oNamespace new"
  define N where "N = newOwnReferenceFromOwnerReference sch ns"
  define news where "news = GetOwnerReferences new"
  define olds where "olds = (case oldObj of None \<Rightarrow> [] | Some old \<Rightarrow> GetOwnerReferences old)"
  have po: "\<forall>o' \<in> set olds. \<exists>p. N o' = Inr p"
    using old by (auto simp: olds_def N_def ns_def ownersParse_def split: option.splits)
  have pn: "\<forall>o' \<in> set news. \<exists>p. N o' = Inr p"
    using parse by (simp add: news_def N_def ns_def ownersParse_def)
  have inj: "o1 = o2" if "o1 \<in> set olds" "o2 \<in> set olds" "N o1 = N o2" for o1 o2
  proof (cases oldObj)
    case (Some x)
    from old [OF Some] have "inj_on N (set olds)"
      by (auto simp: olds_def N_def ns_def ownersDistinct_def Some)
    with that show ?thesis by (auto dest: inj_onD)
  qed (use that in \<open>simp add: olds_def\<close>)
  have idx': "objRef \<in> set (ownedBy t p) \<longleftrightarrow> (\<exists>o' \<in> set olds. N o' = Inr p)" for p
  proof (cases oldObj)
    case (Some x)
    with idx [of p] old [OF Some] show ?thesis
      by (simp add: olds_def N_def ns_def ownersOf_def)
  qed (use idx [of p] in \<open>simp add: olds_def\<close>)
  obtain t1 where t1: "dropOldOwners sch ns news objRef olds t = (Inr (), t1)"
    and e1: "\<forall>p x. x \<in> set (ownedBy t1 p) \<longleftrightarrow> x \<in> set (ownedBy t p) \<and>
        \<not> (x = objRef \<and> unmatched (\<lambda>o'. list_ex (\<lambda>n. ownerRefEq o' n) news) N olds p)"
    using dropOldOwners_ok [OF po [unfolded N_def], of news objRef t, folded N_def] by (elim exE conjE)
  obtain t2 where t2: "addNewOwners sch ns olds objRef news t1 = (Inr (), t2)"
    and e2: "\<forall>p x. x \<in> set (ownedBy t2 p) \<longleftrightarrow> x \<in> set (ownedBy t1 p) \<or>
        x = objRef \<and> unmatched (\<lambda>n. list_ex (\<lambda>o'. ownerRefEq o' n) olds) N news p"
    using addNewOwners_ok [OF pn [unfolded N_def], of olds objRef t1, folded N_def] by (elim exE conjE)
  have "t' = t2"
    using upd t1 t2 by (simp add: updateTrackerOwnerReferences_def Let_def ns_def news_def flip: olds_def)
  moreover have "p \<in> ownersOf sch new \<longleftrightarrow> (\<exists>n \<in> set news. N n = Inr p)"
    by (simp add: ownersOf_def news_def N_def ns_def)
  moreover have "objRef \<in> set (ownedBy t2 p) \<longleftrightarrow> (\<exists>n \<in> set news. N n = Inr p)"
  proof
    assume "objRef \<in> set (ownedBy t2 p)"
    then consider "objRef \<in> set (ownedBy t1 p)" | "\<exists>n \<in> set news. N n = Inr p"
      using e2 unfolding unmatched_def by blast
    then show "\<exists>n \<in> set news. N n = Inr p"
    proof cases
      case 1
      then obtain o' where "o' \<in> set olds" "N o' = Inr p"
        "\<not> unmatched (\<lambda>o'. list_ex (\<lambda>n. ownerRefEq o' n) news) N olds p"
        using e1 idx' by blast
      then obtain n where "n \<in> set news" "ownerRefEq o' n"
        unfolding unmatched_def list_ex_iff by blast
      with \<open>N o' = Inr p\<close> show ?thesis by (auto simp: ownerRefEq_def)
    qed blast
  next
    assume "\<exists>n \<in> set news. N n = Inr p"
    then obtain n where n: "n \<in> set news" "N n = Inr p" by blast
    show "objRef \<in> set (ownedBy t2 p)"
    proof (cases "\<forall>o' \<in> set olds. \<not> ownerRefEq o' n")
      case True
      with n have "unmatched (\<lambda>n. list_ex (\<lambda>o'. ownerRefEq o' n) olds) N news p"
        unfolding unmatched_def list_ex_iff by blast
      with e2 show ?thesis by blast
    next
      case False
      then obtain o' where o': "o' \<in> set olds" "ownerRefEq o' n" by blast
      then have "N o' = Inr p" using n by (simp add: ownerRefEq_def)
      then have "\<not> unmatched (\<lambda>o'. list_ex (\<lambda>n. ownerRefEq o' n) news) N olds p"
        unfolding unmatched_def list_ex_iff using o' n inj by metis
      moreover have "objRef \<in> set (ownedBy t p)" using idx' o' \<open>N o' = Inr p\<close> by blast
      ultimately show ?thesis using e1 e2 by blast
    qed
  qed
  moreover have "r \<in> set (ownedBy t2 p) \<longleftrightarrow> r \<in> set (ownedBy t p)" if "r \<noteq> objRef"
    using that e1 e2 by blast
  ultimately show ?thesis by auto
qed

section \<open>The cases of a store\<close>

lemma storeLocked_elim:
  assumes "storeLocked now c rg t gvk obj re = (res, t', obj', calls)"
  obtains (failed) e where "res = Inl e" "\<And>g k. getObject t' g k = getObject t g k"
      "ownedObjects t' = ownedObjects t" "obj' = obj" "calls = []"
      "e = Conflict (unsafeGuessGroupVersionResource gvk) (ObjectKeyFromObject obj) \<or>
       e = AlreadyExists (unsafeGuessGroupVersionResource gvk) (ObjectKeyFromObject obj) \<or>
       e = NotFound (unsafeGuessGroupVersionResource gvk) (ObjectKeyFromObject obj) \<or>
       checkOwners (cScheme c) t (oNamespace obj) (GetOwnerReferences obj) = Some e"
  | (updated) tracked where "re" "getObject t gvk (ObjectKeyFromObject obj) = Some tracked"
      "oResourceVersion tracked = oResourceVersion obj"
      "checkOwners (cScheme c) t (oNamespace obj) (GetOwnerReferences obj) = None"
      "beforeUpdate now rg tracked obj = Inr obj'"
      "updateTrackerOwnerReferences (cScheme c)
         (putObject (ensureGVK t gvk) gvk (ObjectKeyFromObject obj) obj') (Some tracked) obj'
         \<lparr>refGVK = gvk, refKey = ObjectKeyFromObject obj\<rparr> = (res, t')"
      "res = Inr () \<Longrightarrow> calls = afterUpdate c rg tracked obj'"
  | (created) "\<not> re" "getObject t gvk (ObjectKeyFromObject obj) = None"
      "checkOwners (cScheme c) t (oNamespace obj) (GetOwnerReferences obj) = None"
      "beforeCreate now rg obj = Inr obj'"
      "updateTrackerOwnerReferences (cScheme c)
         (putObject (ensureGVK t gvk) gvk (ObjectKeyFromObject obj) obj') None obj'
         \<lparr>refGVK = gvk, refKey = ObjectKeyFromObject obj\<rparr> = (res, t')"
      "res = Inr () \<Longrightarrow> calls = afterCreate c rg obj'"
proof (cases "checkOwners (cScheme c) t (oNamespace obj) (GetOwnerReferences obj)")
  case (Some e)
  with assms failed [of e] show ?thesis by (simp add: storeLocked_def)
next
  case check: None
  show ?thesis
  proof (cases "getObject t gvk (ObjectKeyFromObject obj)")
    case None
    show ?thesis
    proof (cases re)
      case True
      with assms check None show ?thesis by (auto simp: storeLocked_def Let_def intro!: failed)
    next
      case False
      obtain o2 where "beforeCreate now rg obj = Inr o2" using beforeCreate_Inr by blast
      with assms check None False created show ?thesis
        by (auto simp: storeLocked_def Let_def split: prod.splits sum.splits)
    qed
  next
    case (Some tracked)
    obtain o2 where "beforeUpdate now rg tracked obj = Inr o2" using beforeUpdate_Inr by blast
    note o2 = this
    show ?thesis
    proof (cases "re \<and> oResourceVersion tracked = oResourceVersion obj")
      case True
      with assms check Some o2 updated show ?thesis
        by (auto simp: storeLocked_def Let_def split: prod.splits sum.splits)
    next
      case False
      with assms check Some show ?thesis
        by (auto simp: storeLocked_def Let_def split: if_splits intro!: failed)
    qed
  qed
qed

lemma getObject_cong: "objects t = objects t' \<Longrightarrow> getObject t g k = getObject t' g k"
  by (simp add: getObject_def)

lemma updateTracker_getObject:
  "updateTrackerOwnerReferences sch t old new objRef = (x, t') \<Longrightarrow> getObject t' g k = getObject t g k"
  by (intro getObject_cong objects_updateTrackerOwnerReferences)

text \<open>What a tracker holds after a store: only the stored key can change.\<close>

lemma storeLocked_frame:
  assumes "storeLocked now c rg t gvk obj re = (res, t', obj', calls)"
    and "g \<noteq> gvk \<or> k \<noteq> ObjectKeyFromObject obj"
  shows "getObject t' g k = getObject t g k"
  using assms by (elim storeLocked_elim) (auto simp: updateTracker_getObject)

lemma storeLocked_stored:
  assumes "storeLocked now c rg t gvk obj re = (Inr (), t', obj', calls)"
  shows "getObject t' gvk (ObjectKeyFromObject obj) = Some obj'"
  using assms by (elim storeLocked_elim) (auto simp: updateTracker_getObject)

section \<open>Exactness of the ownership index\<close>

definition indexExact :: "'b scheme \<Rightarrow> 'b resourceGroupTracker \<Rightarrow> bool" where
  "indexExact sch t \<longleftrightarrow>
     (\<forall>r p. r \<in> set (ownedBy t p) \<longleftrightarrow> (\<exists>o'. objectAt t r = Some o' \<and> p \<in> ownersOf sch o'))"

definition ownersOk :: "'b scheme \<Rightarrow> 'b resourceGroupTracker \<Rightarrow> bool" where
  "ownersOk sch t \<longleftrightarrow>
     (\<forall>r o'. objectAt t r = Some o' \<longrightarrow>
        ownersParse sch o' \<and> ownersDistinct sch o' \<and> oNamespace o' = nnNamespace (refKey r))"

lemma ObjectKey_simps [simp]:
  "nnNamespace (ObjectKeyFromObject o') = oNamespace o'" "nnName (ObjectKeyFromObject o') = oName o'"
  by (simp_all add: ObjectKeyFromObject_def)

lemma withGVK_simps [simp]:
  "ObjectKeyFromObject (o1\<lparr>oGVK := g\<rparr>) = ObjectKeyFromObject o1"
  "GetOwnerReferences (o1\<lparr>oGVK := g\<rparr>) = GetOwnerReferences o1"
  by (simp_all add: ObjectKeyFromObject_def GetOwnerReferences_def)

lemma storeLocked_indexExact:
  assumes st: "storeLocked now c rg t gvk obj re = (Inr (), t', obj', calls)"
    and exact: "indexExact (cScheme c) t" and ok: "ownersOk (cScheme c) t"
  shows "indexExact (cScheme c) t'"
proof -
  define ref where "ref = \<lparr>refGVK = gvk, refKey = ObjectKeyFromObject obj\<rparr>"
  have frame: "r \<noteq> ref \<Longrightarrow> objectAt t' r = objectAt t r" for r
    using storeLocked_frame [OF st, of "refGVK r" "refKey r"] by (cases r) (auto simp: ref_def)
  have at: "objectAt t' ref = Some obj'"
    using storeLocked_stored [OF st] by (simp add: ref_def)
  have main: "r \<in> set (ownedBy t' p) \<longleftrightarrow>
      (if r = ref then p \<in> ownersOf (cScheme c) obj' else r \<in> set (ownedBy t p))" for r p
    using st
  proof (cases rule: storeLocked_elim)
    case (updated tracked)
    note f = beforeUpdate_fields [OF updated(5)]
    have tr: "ownersParse (cScheme c) tracked \<and> ownersDistinct (cScheme c) tracked
        \<and> oNamespace tracked = oNamespace obj'"
      using ok updated(2) f(2) by (force simp: ownersOk_def dest: spec [of _ ref] simp: ref_def)
    have "ownersParse (cScheme c) obj'"
      using ownersParse_if_checked [OF updated(4)] ownersParse_cong [of obj' obj] f by simp
    then show ?thesis
      using updateTrackerOwnerReferences_exact [OF updated(6)] tr exact updated(2)
      by (simp add: indexExact_def flip: ref_def) (simp add: ref_def)
  next
    case created
    note f = beforeCreate_fields [OF created(4)]
    have "ownersParse (cScheme c) obj'"
      using ownersParse_if_checked [OF created(3)] ownersParse_cong [of obj' obj] f by simp
    then show ?thesis
      using updateTrackerOwnerReferences_exact [OF created(5)] exact created(2)
      by (simp add: indexExact_def flip: ref_def) (simp add: ref_def)
  qed simp
  show ?thesis
    using exact frame at unfolding indexExact_def main by (metis option.inject)
qed

end
