(* ===== verification/Cache_Delete.thy ===== *)
theory Cache_Delete
  imports Cache_Store
begin

text \<open>
  The recursive deletion: a rule for what it keeps (\<open>doTryDelete_rule\<close>), fuel (more fuel never changes
  a result, and an acyclic ownership index needs one unit per object owned), which objects it
  touches, that it leaves nothing alive below a deleted object, and the two ways in
  which the ownership index stops it: a cycle, on which it never returns, and an entry
  for an object that is gone, on which it always fails.
\<close>

section \<open>A rule for the recursion\<close>

lemma finishDelete_cases:
  assumes "finishDelete now c rg t r obj = (res, t', calls)"
  obtains (waiting) "GetFinalizers obj \<noteq> []" "\<not> IsZero (oDeletionTimestamp obj)" "res = Inr False" "t' = t" "calls = []"
  | (marked) obj2 where "GetFinalizers obj \<noteq> []" "IsZero (oDeletionTimestamp obj)" "res = Inr False"
      "beforeUpdate now rg obj (obj\<lparr>oDeletionTimestamp := Some now\<rparr>) = Inr obj2"
      "t' = putObject t (refGVK r) (refKey r) (obj2\<lparr>oDeletionTimestamp := Some now\<rparr>)"
      "calls = afterUpdate c rg obj (obj2\<lparr>oDeletionTimestamp := Some now\<rparr>)"
  | (removed) "GetFinalizers obj = []" "res = Inr True" "t' = delObject t (refGVK r) (refKey r)" "calls = []"
proof (cases "GetFinalizers obj = [] \<or> \<not> IsZero (oDeletionTimestamp obj)")
  case True
  then show ?thesis using assms waiting removed
    by (auto simp: finishDelete_def afterDelete_def split: if_splits)
next
  case False
  obtain o2 where "beforeUpdate now rg obj (obj\<lparr>oDeletionTimestamp := Some now\<rparr>) = Inr o2"
    using beforeUpdate_Inr by blast
  with False assms marked show ?thesis
    by (auto simp: finishDelete_def beforeDelete_def Let_def)
qed

lemma ownReference_eq_iff [simp]: "refGVK (x :: ownReference) = refGVK r \<and> refKey x = refKey r \<longleftrightarrow> x = r"
  by (cases x; cases r) auto

lemma ownReference_eta [simp]: "\<lparr>refGVK = refGVK r, refKey = refKey r\<rparr> = (r :: ownReference)"
  by (cases r) simp

text \<open>
  The step of the recursion over \<open>ownedBy\<close>: an object without an entry in the index is one whose
  entry is empty.
\<close>

lemma doTryDelete_Suc:
  "doTryDeleteLocked (Suc n) now c rg t r =
     (case objectAt t r of
        None \<Rightarrow> Some (Inl (NotFound (unsafeGuessGroupVersionResource (refGVK r)) (refKey r)), t, [])
      | Some obj \<Rightarrow>
        (case deleteOwned n now c rg t (ownedBy t r) of
           None \<Rightarrow> None
         | Some (Inl e, t1, calls) \<Rightarrow> Some (Inl e, t1, calls)
         | Some (Inr _, t1, calls) \<Rightarrow>
           (case finishDelete now c rg (t1\<lparr>ownedObjects := mdel (ownedObjects t1) r\<rparr>) r obj of
              (res, t2, calls2) \<Rightarrow> Some (res, t2, calls @ calls2))))"
proof (cases "mget (ownedObjects t) r")
  case None
  then have "mdel (ownedObjects t) r = ownedObjects t"
    by (force simp: AList.delete_eq map_of_eq_None_iff filter_id_conv)
  then have "t\<lparr>ownedObjects := mdel (ownedObjects t) r\<rparr> = t" by simp
  with None show ?thesis
    by (auto simp: ownedBy_def mget_or_def split: option.splits prod.splits)
qed (auto simp: ownedBy_def mget_or_def split: option.splits)

declare doTryDeleteLocked.simps(2) [simp del]

text \<open>
  Rule induction over a recursion that returned: \<open>P\<close> for one object, \<open>Q\<close> for the loop over
  the objects it owns.
\<close>

lemma doTryDelete_rule:
  fixes P :: "'b resourceGroupTracker \<Rightarrow> ownReference \<Rightarrow> apiError + bool \<Rightarrow> 'b resourceGroupTracker \<Rightarrow>
                queueCall list \<Rightarrow> bool"
    and Q :: "'b resourceGroupTracker \<Rightarrow> ownReference list \<Rightarrow> apiError + unit \<Rightarrow> 'b resourceGroupTracker \<Rightarrow>
                queueCall list \<Rightarrow> bool"
  assumes missing: "\<And>t r. objectAt t r = None \<Longrightarrow>
      P t r (Inl (NotFound (unsafeGuessGroupVersionResource (refGVK r)) (refKey r))) t []"
    and failed: "\<And>t r obj e t1 calls. objectAt t r = Some obj \<Longrightarrow> Q t (ownedBy t r) (Inl e) t1 calls \<Longrightarrow>
      P t r (Inl e) t1 calls"
    and node: "\<And>n t r obj t1 calls1 res t2 calls2. objectAt t r = Some obj \<Longrightarrow>
      Q t (ownedBy t r) (Inr ()) t1 calls1 \<Longrightarrow>
      deleteOwned n now c rg t (ownedBy t r) = Some (Inr (), t1, calls1) \<Longrightarrow>
      finishDelete now c rg (t1\<lparr>ownedObjects := mdel (ownedObjects t1) r\<rparr>) r obj = (res, t2, calls2) \<Longrightarrow>
      P t r res t2 (calls1 @ calls2)"
    and nil: "\<And>t. Q t [] (Inr ()) t []"
    and consFailed: "\<And>t r rs e t1 calls. P t r (Inl e) t1 calls \<Longrightarrow> Q t (r # rs) (Inl e) t1 calls"
    and consPanic: "\<And>t r rs e t1 calls. P t r (Inr False) t1 calls \<Longrightarrow> gcAdd c rg r = Inl e \<Longrightarrow>
      Q t (r # rs) (Inl e) t1 calls"
    and cons: "\<And>n t r rs deleted t1 calls1 added res t2 calls2. P t r (Inr deleted) t1 calls1 \<Longrightarrow>
      doTryDeleteLocked n now c rg t r = Some (Inr deleted, t1, calls1) \<Longrightarrow>
      (if deleted then Inr [] else gcAdd c rg r) = Inr added \<Longrightarrow> Q t1 rs res t2 calls2 \<Longrightarrow>
      deleteOwned n now c rg t1 rs = Some (res, t2, calls2) \<Longrightarrow>
      Q t (r # rs) res t2 (calls1 @ added @ calls2)"
  shows "doTryDeleteLocked n now c rg t r = Some (res, t', calls) \<Longrightarrow> P t r res t' calls"
    and "deleteOwned n now c rg t rs = Some (res', t', calls) \<Longrightarrow> Q t rs res' t' calls"
proof -
  have loop: "Q t rs res' t' calls"
    if "deleteOwned n now c rg t rs = Some (res', t', calls)"
      "\<And>t r res t' calls. doTryDeleteLocked n now c rg t r = Some (res, t', calls) \<Longrightarrow> P t r res t' calls"
    for n t rs res' t' calls
    using that(1)
  proof (induction rs arbitrary: t res' t' calls)
    case (Cons r rs)
    from Cons.prems obtain x t1 calls1 where one: "doTryDeleteLocked n now c rg t r = Some (x, t1, calls1)"
      by (auto split: option.splits)
    note P1 = that(2) [OF one]
    show ?case
    proof (cases x)
      case (Inl e)
      with Cons.prems one P1 show ?thesis by (auto intro: consFailed)
    next
      case (Inr d)
      show ?thesis
      proof (cases "if d then Inr [] else gcAdd c rg r")
        case (Inl e)
        with Cons.prems one P1 Inr show ?thesis by (auto split: if_splits intro: consPanic)
      next
        case added: (Inr added)
        with Cons.prems one Inr obtain calls2
          where "deleteOwned n now c rg t1 rs = Some (res', t', calls2)" "calls = calls1 @ added @ calls2"
          by (auto split: option.splits)
        then show ?thesis using cons [OF P1 [unfolded Inr] one [unfolded Inr] added] Cons.IH by blast
      qed
    qed
  qed (use nil in simp)
  have one: "P t r res t' calls" if "doTryDeleteLocked n now c rg t r = Some (res, t', calls)" for n t r res t' calls
    using that
  proof (induction n arbitrary: t r res t' calls)
    case (Suc n)
    show ?case
    proof (cases "objectAt t r")
      case None
      with Suc.prems missing [OF None] show ?thesis by (simp add: doTryDelete_Suc)
    next
      case (Some obj)
      with Suc.prems obtain x t1 calls1 where "deleteOwned n now c rg t (ownedBy t r) = Some (x, t1, calls1)"
        by (auto simp: doTryDelete_Suc split: option.splits)
      moreover from loop [OF this] Suc.IH have "Q t (ownedBy t r) x t1 calls1" by blast
      ultimately show ?thesis
        using Suc.prems Some failed [OF Some] node [OF Some]
        by (cases x) (auto simp: doTryDelete_Suc split: prod.splits)
    qed
  qed simp
  show "doTryDeleteLocked n now c rg t r = Some (res, t', calls) \<Longrightarrow> P t r res t' calls"
    by (rule one)
  show "deleteOwned n now c rg t rs = Some (res', t', calls) \<Longrightarrow> Q t rs res' t' calls"
    using loop one by blast
qed

lemmas doTryDelete_induct [consumes 1, case_names missing failed node nil consFailed consPanic cons] =
  doTryDelete_rule(1) [rotated 7] doTryDelete_rule(2) [rotated 7]

section \<open>The ownership edges\<close>

definition ownEdges :: "'b resourceGroupTracker \<Rightarrow> (ownReference \<times> ownReference) set" where
  "ownEdges t = {(p, x). x \<in> set (ownedBy t p)}"

text \<open>The references below \<open>r\<close>, \<open>r\<close> included.\<close>

definition below :: "'b resourceGroupTracker \<Rightarrow> ownReference \<Rightarrow> ownReference set" where
  "below t r = {x. (r, x) \<in> (ownEdges t)\<^sup>*}"

lemma ownEdges_object_ops [simp]:
  "ownEdges (putObject t g k o') = ownEdges t" "ownEdges (delObject t g k) = ownEdges t"
  by (simp_all add: ownEdges_def)

lemma ownEdges_mdel:
  "ownEdges (t\<lparr>ownedObjects := mdel (ownedObjects t) r\<rparr>) = {(p, x) \<in> ownEdges t. p \<noteq> r}"
  by (auto simp: ownEdges_def ownedBy_mdel split: if_splits)

lemma finishDelete_ownEdges: "finishDelete now c rg t r obj = (res, t', calls) \<Longrightarrow> ownEdges t' = ownEdges t"
  by (erule finishDelete_cases) simp_all

lemma finite_ownEdges [simp]: "finite (ownEdges t)"
proof -
  have "\<exists>z \<in> set (ownedObjects t). (p, x) \<in> Pair (fst z) ` set (snd z)" if "(p, x) \<in> ownEdges t" for p x
  proof -
    from that obtain xs where "mget (ownedObjects t) p = Some xs" "x \<in> set xs"
      by (cases "mget (ownedObjects t) p") (auto simp: ownEdges_def ownedBy_def mget_or_def)
    then show ?thesis using map_of_SomeD by (intro bexI [of _ "(p, xs)"]) auto
  qed
  then have "ownEdges t \<subseteq> (\<Union>z \<in> set (ownedObjects t). Pair (fst z) ` set (snd z))" by auto
  then show ?thesis by (rule finite_subset) auto
qed

lemma below_refl [simp]: "r \<in> below t r"
  by (simp add: below_def)

lemma below_step: "(r, x) \<in> ownEdges t \<Longrightarrow> below t x \<subseteq> below t r"
  by (auto simp: below_def intro: converse_rtrancl_into_rtrancl)

lemma below_mono: "ownEdges t \<subseteq> ownEdges t' \<Longrightarrow> below t r \<subseteq> below t' r"
  by (auto simp: below_def dest: rtrancl_mono)

lemma below_cases: "x \<in> below t r \<Longrightarrow> x \<noteq> r \<Longrightarrow> \<exists>y. (r, y) \<in> ownEdges t \<and> x \<in> below t y"
  by (auto simp: below_def elim: converse_rtranclE)

lemma acyclic_not_below: "acyclic (ownEdges t) \<Longrightarrow> (r, x) \<in> ownEdges t \<Longrightarrow> r \<notin> below t x"
  by (auto simp: below_def acyclic_def dest: rtrancl_into_trancl2)

section \<open>What a deletion keeps\<close>

lemma doTryDelete_ownEdges:
  shows "doTryDeleteLocked n now c rg t r = Some (res, t', calls) \<Longrightarrow> ownEdges t' \<subseteq> ownEdges t"
    and "deleteOwned n now c rg t rs = Some (res', t', calls) \<Longrightarrow> ownEdges t' \<subseteq> ownEdges t"
proof (induction rule: doTryDelete_induct)
  case (node n t r obj t1 calls1 res t2 calls2)
  then show ?case using finishDelete_ownEdges [OF node(4)] by (auto simp: ownEdges_mdel)
qed auto

text \<open>Objects that cannot be reached over ownership edges are not touched.\<close>

lemma finishDelete_frame:
  "finishDelete now c rg t r obj = (res, t', calls) \<Longrightarrow> x \<noteq> r \<Longrightarrow> objectAt t' x = objectAt t x"
  by (erule finishDelete_cases) simp_all

lemma doTryDelete_frame:
  shows "doTryDeleteLocked n now c rg t r = Some (res, t', calls) \<Longrightarrow>
      ownEdges t' \<subseteq> ownEdges t \<and> (\<forall>x. x \<notin> below t r \<longrightarrow> objectAt t' x = objectAt t x)"
    and "deleteOwned n now c rg t rs = Some (res', t', calls) \<Longrightarrow>
      ownEdges t' \<subseteq> ownEdges t \<and> (\<forall>x. (\<forall>r \<in> set rs. x \<notin> below t r) \<longrightarrow> objectAt t' x = objectAt t x)"
proof (induction rule: doTryDelete_induct)
  case (failed t r obj e t1 calls)
  then show ?case using below_step [of r _ t] by (fastforce simp: ownEdges_def)
next
  case (node n t r obj t1 calls1 res t2 calls2)
  have "objectAt t2 x = objectAt t x" if "x \<notin> below t r" for x
  proof -
    have "x \<noteq> r" "\<forall>y \<in> set (ownedBy t r). x \<notin> below t y"
      using that below_step [of r _ t] by (auto simp: ownEdges_def)
    then show ?thesis using node(2) finishDelete_frame [OF node(4)] by simp
  qed
  moreover have "ownEdges t2 \<subseteq> ownEdges t"
    using node(2) finishDelete_ownEdges [OF node(4)] by (auto simp: ownEdges_mdel)
  ultimately show ?case by blast
next
  case (cons n t r rs deleted t1 calls1 added res t2 calls2)
  have "objectAt t2 x = objectAt t x" if "\<forall>y \<in> set (r # rs). x \<notin> below t y" for x
  proof -
    have "\<forall>y \<in> set rs. x \<notin> below t1 y" using that below_mono [of t1 t] cons(1) by auto
    then show ?thesis using cons(1,4) that by simp
  qed
  with cons(1,4) show ?case by blast
qed auto

text \<open>Nor are the index entries of owners that cannot be reached.\<close>

lemma doTryDelete_frame_owned:
  shows "doTryDeleteLocked n now c rg t r = Some (res, t', calls) \<Longrightarrow>
      \<forall>p. p \<notin> below t r \<longrightarrow> ownedBy t' p = ownedBy t p"
    and "deleteOwned n now c rg t rs = Some (res', t', calls) \<Longrightarrow>
      \<forall>p. (\<forall>r \<in> set rs. p \<notin> below t r) \<longrightarrow> ownedBy t' p = ownedBy t p"
proof (induction rule: doTryDelete_induct)
  case (failed t r obj e t1 calls)
  then show ?case using below_step [of r _ t] by (fastforce simp: ownEdges_def)
next
  case (node n t r obj t1 calls1 res t2 calls2)
  show ?case
  proof (intro allI impI)
    fix p assume p: "p \<notin> below t r"
    then have "\<forall>y \<in> set (ownedBy t r). p \<notin> below t y" "p \<noteq> r"
      using below_step [of r _ t] by (auto simp: ownEdges_def)
    moreover from node(4) have "ownedBy t2 p = ownedBy (t1\<lparr>ownedObjects := mdel (ownedObjects t1) r\<rparr>) p"
      by (cases rule: finishDelete_cases) simp_all
    ultimately show "ownedBy t2 p = ownedBy t p" using node(2) by (simp add: ownedBy_mdel)
  qed
next
  case (cons n t r rs deleted t1 calls1 added res t2 calls2)
  then show ?case using below_mono [OF doTryDelete_ownEdges(1) [OF cons(2)]] by fastforce
qed auto

lemma deleteOwned_keeps_owner:
  assumes "deleteOwned n now c rg t (ownedBy t r) = Some (res, t', calls)" "acyclic (ownEdges t)"
  shows "objectAt t' r = objectAt t r"
proof -
  have "r \<notin> below t y" if "y \<in> set (ownedBy t r)" for y
    using acyclic_not_below [OF assms(2), of r y] that by (simp add: ownEdges_def)
  then show ?thesis using doTryDelete_frame(2) [OF assms(1)] by simp
qed

section \<open>How objects change\<close>

text \<open>
  What a deletion does to one object: nothing, it removes an object without finalizers, or it marks an
  object with finalizers that was not marked.
\<close>

definition deletionStep :: "gotime \<Rightarrow> 'b object option \<Rightarrow> 'b object option \<Rightarrow> bool" where
  "deletionStep now a b \<longleftrightarrow> b = a \<or>
     (\<exists>o1. a = Some o1 \<and>
        (b = None \<and> GetFinalizers o1 = []
         \<or> (\<exists>o2. b = Some o2 \<and> GetFinalizers o1 \<noteq> [] \<and> IsZero (oDeletionTimestamp o1)
              \<and> oDeletionTimestamp o2 = Some now \<and> GetFinalizers o2 = GetFinalizers o1)))"

lemma deletionStep_trans:
  "now \<noteq> 0 \<Longrightarrow> deletionStep now a b \<Longrightarrow> deletionStep now b d \<Longrightarrow> deletionStep now a d"
  by (auto simp: deletionStep_def)

definition marked :: "'b resourceGroupTracker \<Rightarrow> ownReference \<Rightarrow> bool" where
  "marked t x \<longleftrightarrow> (\<exists>o'. objectAt t x = Some o' \<and> \<not> IsZero (oDeletionTimestamp o'))"

lemma finishDelete_step:
  assumes "finishDelete now c rg t r obj = (res, t', calls)" "objectAt t r = Some obj" "now \<noteq> 0"
  shows "deletionStep now (objectAt t x) (objectAt t' x)"
    and "\<exists>d. res = Inr d \<and> (if d then objectAt t' r = None else marked t' r)"
proof -
  have "deletionStep now (objectAt t x) (objectAt t' x) \<and>
    (\<exists>d. res = Inr d \<and> (if d then objectAt t' r = None else marked t' r))"
    using assms(1)
  proof (cases rule: finishDelete_cases)
    case (marked obj2)
    moreover have "GetFinalizers obj2 = GetFinalizers obj"
      using beforeUpdate_fields(6) [OF marked(4)] by (simp add: GetFinalizers_def)
    ultimately show ?thesis using assms(2,3)
      by (auto simp: deletionStep_def marked_def) (simp add: GetFinalizers_def)
  qed (use assms in \<open>auto simp: deletionStep_def marked_def\<close>)
  then show "deletionStep now (objectAt t x) (objectAt t' x)"
    and "\<exists>d. res = Inr d \<and> (if d then objectAt t' r = None else marked t' r)" by blast+
qed

lemma doTryDelete_step:
  assumes "now \<noteq> 0"
  shows "doTryDeleteLocked n now c rg t r = Some (res, t', calls) \<Longrightarrow> acyclic (ownEdges t) \<longrightarrow>
      (\<forall>x. deletionStep now (objectAt t x) (objectAt t' x))"
    and "deleteOwned n now c rg t rs = Some (res', t', calls) \<Longrightarrow> acyclic (ownEdges t) \<longrightarrow>
      (\<forall>x. deletionStep now (objectAt t x) (objectAt t' x))"
proof (induction rule: doTryDelete_induct)
  case (node n t r obj t1 calls1 res t2 calls2)
  show ?case
  proof (intro impI allI)
    fix x assume ac: "acyclic (ownEdges t)"
    have "objectAt t1 r = Some obj" using deleteOwned_keeps_owner [OF node(3) ac] node(1) by simp
    then have "deletionStep now (objectAt t1 x) (objectAt t2 x)"
      using finishDelete_step(1) [OF node(4)] assms by simp
    with node(2) ac show "deletionStep now (objectAt t x) (objectAt t2 x)"
      using deletionStep_trans [OF assms] by blast
  qed
next
  case (cons n t r rs deleted t1 calls1 added res t2 calls2)
  then show ?case
    using deletionStep_trans [OF assms] acyclic_subset doTryDelete_ownEdges(1) [OF cons(2)] by blast
qed (auto simp: deletionStep_def)

section \<open>The hierarchy below a deleted object\<close>

text \<open>
  An object is \<open>handled\<close> when it is gone, or marked and queued for the garbage collector.
  \<open>settled\<close> relates the trackers before and after: whatever hangs below an ownership edge that was
  removed is handled.
\<close>

definition gcItem :: "string \<Rightarrow> ownReference \<Rightarrow> queueItem" where
  "gcItem rg x = GcItem \<lparr>gcResourceGroup = rg, gcGVK = refGVK x, gcKey = refKey x\<rparr>"

definition handled ::
  "'b cache \<Rightarrow> string \<Rightarrow> 'b resourceGroupTracker \<Rightarrow> queueCall list \<Rightarrow> ownReference \<Rightarrow> bool" where
  "handled c rg t calls x \<longleftrightarrow> objectAt t x = None
     \<or> marked t x \<and> (\<exists>q. garbageCollectorQueue c = Some q \<and> QAdd q (gcItem rg x) \<in> set calls)"

definition settled ::
  "'b cache \<Rightarrow> string \<Rightarrow> 'b resourceGroupTracker \<Rightarrow> 'b resourceGroupTracker \<Rightarrow> queueCall list \<Rightarrow> bool" where
  "settled c rg t t' calls \<longleftrightarrow>
     (\<forall>p x y. (p, x) \<in> ownEdges t - ownEdges t' \<longrightarrow> y \<in> below t x \<longrightarrow> handled c rg t' calls y)"

lemma handled_mono:
  assumes "handled c rg t calls x" "deletionStep now (objectAt t x) (objectAt t' x)" "set calls \<subseteq> set calls'"
    and "now \<noteq> 0"
  shows "handled c rg t' calls' x"
  using assms by (auto simp: handled_def marked_def deletionStep_def)

lemma settled_below:
  assumes "settled c rg t t' calls" "y \<in> below t x"
  shows "y \<in> below t' x \<or> handled c rg t' calls y"
proof -
  have "(x, y) \<in> (ownEdges t)\<^sup>*" using assms(2) by (simp add: below_def)
  then show ?thesis
  proof (induction rule: converse_rtrancl_induct)
    case (step x u)
    show ?case
    proof (cases "(x, u) \<in> ownEdges t'")
      case True
      with step.IH show ?thesis using below_step [of x u t'] by blast
    next
      case False
      with assms(1) step(1,2) show ?thesis unfolding settled_def below_def by blast
    qed
  qed simp
qed

lemma settled_trans:
  assumes "settled c rg t t1 calls1" "settled c rg t1 t2 calls2" "set calls1 \<subseteq> set calls" "set calls2 \<subseteq> set calls"
    and "\<And>x. deletionStep now (objectAt t1 x) (objectAt t2 x)" "now \<noteq> 0"
  shows "settled c rg t t2 calls"
  unfolding settled_def
proof (intro allI impI)
  fix p x y assume e: "(p, x) \<in> ownEdges t - ownEdges t2" and y: "y \<in> below t x"
  have later: "handled c rg t1 calls1 y \<Longrightarrow> handled c rg t2 calls y"
    using handled_mono [OF _ assms(5,3,6)] .
  have upto: "handled c rg t2 calls2 y \<Longrightarrow> handled c rg t2 calls y"
    using assms(4) by (auto simp: handled_def)
  show "handled c rg t2 calls y"
  proof (cases "(p, x) \<in> ownEdges t1")
    case True
    from settled_below [OF assms(1) y] show ?thesis
    proof
      assume "y \<in> below t1 x"
      with True e assms(2) upto show ?thesis unfolding settled_def by blast
    qed (rule later)
  next
    case False
    with e y assms(1) later show ?thesis unfolding settled_def by blast
  qed
qed

lemma gcAdd_Inr: "gcAdd c rg x = Inr added \<Longrightarrow> \<exists>q. garbageCollectorQueue c = Some q \<and> added = [QAdd q (gcItem rg x)]"
  by (auto simp: gcAdd_def gcItem_def split: option.splits)

text \<open>
  A deletion that succeeds settles the hierarchy: everything below the object is handled, and the object itself
  is gone or marked.
\<close>

lemma doTryDelete_settles:
  assumes "now \<noteq> 0"
  shows "doTryDeleteLocked n now c rg t r = Some (res, t', calls) \<Longrightarrow> acyclic (ownEdges t) \<longrightarrow> (\<forall>d. res = Inr d \<longrightarrow>
      settled c rg t t' calls \<and> (\<forall>x \<in> below t r. x \<noteq> r \<longrightarrow> handled c rg t' calls x)
      \<and> (if d then objectAt t' r = None else marked t' r))"
    and "deleteOwned n now c rg t rs = Some (res', t', calls) \<Longrightarrow> acyclic (ownEdges t) \<longrightarrow> res' = Inr () \<longrightarrow>
      settled c rg t t' calls \<and> (\<forall>r \<in> set rs. \<forall>x \<in> below t r. handled c rg t' calls x)"
proof (induction rule: doTryDelete_induct)
  case (node n t r obj t1 calls1 res t2 calls2)
  show ?case
  proof (intro impI allI)
    fix d assume ac: "acyclic (ownEdges t)" and "res = Inr d"
    have "objectAt t1 r = Some obj" using deleteOwned_keeps_owner [OF node(3) ac] node(1) by simp
    note fin = finishDelete_step [OF node(4), simplified, OF this assms]
    have hd: "handled c rg t1 calls1 x \<Longrightarrow> handled c rg t2 (calls1 @ calls2) x" for x
      using handled_mono [OF _ fin(1) _ assms] by auto
    have kids: "handled c rg t2 (calls1 @ calls2) x" if "x \<in> below t y" "(r, y) \<in> ownEdges t" for x y
      using that node(2) ac hd by (auto simp: ownEdges_def)
    have "settled c rg t t2 (calls1 @ calls2)"
      unfolding settled_def
    proof (intro allI impI)
      fix p x y assume e: "(p, x) \<in> ownEdges t - ownEdges t2" "y \<in> below t x"
      then consider "p = r" | "(p, x) \<in> ownEdges t - ownEdges t1"
        using finishDelete_ownEdges [OF node(4)] by (auto simp: ownEdges_mdel)
      then show "handled c rg t2 (calls1 @ calls2) y"
        using e kids node(2) ac hd unfolding settled_def by cases blast+
    qed
    moreover have "\<forall>x \<in> below t r. x \<noteq> r \<longrightarrow> handled c rg t2 (calls1 @ calls2) x"
      using below_cases kids by blast
    ultimately show "settled c rg t t2 (calls1 @ calls2) \<and>
        (\<forall>x \<in> below t r. x \<noteq> r \<longrightarrow> handled c rg t2 (calls1 @ calls2) x)
        \<and> (if d then objectAt t2 r = None else marked t2 r)"
      using fin(2) \<open>res = Inr d\<close> by auto
  qed
next
  case (cons n t r rs deleted t1 calls1 added res t2 calls2)
  show ?case
  proof (intro impI)
    assume ac: "acyclic (ownEdges t)" and res: "res = Inr ()"
    let ?calls = "calls1 @ added @ calls2"
    have ac1: "acyclic (ownEdges t1)" using ac doTryDelete_ownEdges(1) [OF cons(2)] acyclic_subset by blast
    note step = doTryDelete_step(2) [OF assms cons(5), rule_format, OF ac1]
    have r1: "settled c rg t t1 calls1" "\<forall>x \<in> below t r. x \<noteq> r \<longrightarrow> handled c rg t1 calls1 x"
      "if deleted then objectAt t1 r = None else marked t1 r"
      using cons(1) ac by blast+
    have r2: "settled c rg t1 t2 calls2" "\<forall>r \<in> set rs. \<forall>x \<in> below t1 r. handled c rg t2 calls2 x"
      using cons(4) ac1 res by blast+
    have later: "handled c rg t1 (calls1 @ added) x \<Longrightarrow> handled c rg t2 ?calls x" for x
      by (erule handled_mono [OF _ step _ assms]) auto
    have upto: "handled c rg t2 calls2 x \<Longrightarrow> handled c rg t2 ?calls x" for x
      by (auto simp: handled_def)
    have "handled c rg t1 (calls1 @ added) r"
      using r1(3) cons(3) gcAdd_Inr [of c rg r added] by (auto simp: handled_def split: if_splits)
    moreover have weak: "handled c rg t1 calls1 x \<Longrightarrow> handled c rg t1 (calls1 @ added) x" for x
      by (auto simp: handled_def)
    ultimately have hr: "\<forall>x \<in> below t r. handled c rg t2 ?calls x"
      using r1(2) later by metis
    have hrs: "handled c rg t2 ?calls x" if "x \<in> below t y" "y \<in> set rs" for x y
      using settled_below [OF r1(1) that(1)] r2(2) that(2) later weak upto by blast
    have "settled c rg t t2 ?calls"
      by (rule settled_trans [OF r1(1) r2(1) _ _ step assms]) auto
    with hr hrs show "settled c rg t t2 ?calls \<and> (\<forall>r \<in> set (r # rs). \<forall>x \<in> below t r. handled c rg t2 ?calls x)"
      by auto
  qed
qed (auto simp: settled_def)

section \<open>Fuel\<close>

text \<open>More fuel never changes a result.\<close>

lemma deleteOwned_fuel:
  assumes "\<And>t r x. doTryDeleteLocked n now c rg t r = Some x \<Longrightarrow> doTryDeleteLocked m now c rg t r = Some x"
  shows "deleteOwned n now c rg t rs = Some y \<Longrightarrow> deleteOwned m now c rg t rs = Some y"
proof (induction rs arbitrary: t y)
  case (Cons r rs)
  from Cons.prems obtain x t1 calls1 where "doTryDeleteLocked n now c rg t r = Some (x, t1, calls1)"
    by (auto split: option.splits)
  with Cons.prems assms [OF this] show ?case
    by (cases x) (auto split: sum.splits option.splits if_splits dest: Cons.IH)
qed simp

lemma doTryDelete_fuel:
  "doTryDeleteLocked n now c rg t r = Some x \<Longrightarrow> n \<le> m \<Longrightarrow> doTryDeleteLocked m now c rg t r = Some x"
proof (induction n arbitrary: t r x m)
  case (Suc n)
  from Suc.prems(2) obtain m' where m: "m = Suc m'" "n \<le> m'" by (cases m) auto
  have loop: "deleteOwned n now c rg t rs = Some y \<Longrightarrow> deleteOwned m' now c rg t rs = Some y" for rs y
    using deleteOwned_fuel Suc.IH m(2) by blast
  show ?case
  proof (cases "objectAt t r")
    case (Some obj)
    with Suc.prems(1) obtain y where "deleteOwned n now c rg t (ownedBy t r) = Some y"
      by (auto simp: doTryDelete_Suc split: option.splits)
    with loop [OF this] Some Suc.prems(1) show ?thesis by (simp add: m(1) doTryDelete_Suc)
  qed (use Suc.prems(1) in \<open>simp add: m(1) doTryDelete_Suc\<close>)
qed simp

text \<open>
  On an acyclic index the recursion returns: one unit of fuel for each reference below the object is enough,
  and \<open>deleteFuel\<close> bounds that by the size of the index.
\<close>

lemma deleteOwned_returns:
  fixes c :: "'b cache"
  assumes "\<And>t r. r \<in> set rs \<Longrightarrow> ownEdges t \<subseteq> E \<Longrightarrow> doTryDeleteLocked n now c rg t r \<noteq> None"
  shows "ownEdges t \<subseteq> E \<Longrightarrow> deleteOwned n now c rg t rs \<noteq> None"
  using assms
proof (induction rs arbitrary: t)
  case (Cons r rs)
  then obtain x t1 calls1 where one: "doTryDeleteLocked n now c rg t r = Some (x, t1, calls1)"
    by (metis list.set_intros(1) not_None_eq prod_cases3)
  then have "ownEdges t1 \<subseteq> E" using doTryDelete_ownEdges(1) Cons.prems(1) by blast
  with Cons.IH Cons.prems(2) have "deleteOwned n now c rg t1 rs \<noteq> None" by simp
  with one show ?case by (auto split: sum.splits option.splits)
qed simp

definition descendants :: "(ownReference \<times> ownReference) set \<Rightarrow> ownReference \<Rightarrow> ownReference set" where
  "descendants E r = {x. (r, x) \<in> E\<^sup>+}"

lemma finite_descendants: "finite E \<Longrightarrow> finite (descendants E r)"
  by (rule finite_subset [of _ "Range E"]) (auto simp: descendants_def finite_Range elim: tranclE)

lemma card_descendants_less:
  assumes "finite E" "acyclic E" "(r, x) \<in> E"
  shows "card (descendants E x) < card (descendants E r)"
proof (rule psubset_card_mono)
  show "finite (descendants E r)" using assms(1) by (rule finite_descendants)
  have "x \<in> descendants E r" "x \<notin> descendants E x" using assms by (auto simp: descendants_def acyclic_def)
  moreover have "descendants E x \<subseteq> descendants E r"
    using assms(3) by (auto simp: descendants_def intro: trancl_into_trancl2)
  ultimately show "descendants E x \<subset> descendants E r" by blast
qed

lemma doTryDelete_returns_card:
  fixes c :: "'b cache"
  assumes "finite E" "acyclic E"
  shows "ownEdges t \<subseteq> E \<Longrightarrow> card (descendants E r) < n \<Longrightarrow> doTryDeleteLocked n now c rg t r \<noteq> None"
proof (induction n arbitrary: t r)
  case (Suc n)
  have "deleteOwned n now c rg t (ownedBy t r) \<noteq> None"
  proof (rule deleteOwned_returns [OF _ Suc.prems(1)])
    fix t' :: "'b resourceGroupTracker" and x assume x: "x \<in> set (ownedBy t r)" and t': "ownEdges t' \<subseteq> E"
    have "(r, x) \<in> E" using x Suc.prems(1) by (auto simp: ownEdges_def)
    then have "card (descendants E x) < n" using card_descendants_less [OF assms] Suc.prems(2) by fastforce
    then show "doTryDeleteLocked n now c rg t' x \<noteq> None" using Suc.IH t' by blast
  qed
  then show ?case by (auto simp: doTryDelete_Suc split: option.splits sum.splits prod.splits)
qed simp

definition deleteFuel :: "'b resourceGroupTracker \<Rightarrow> nat" where
  "deleteFuel t = Suc (sum_list (map (\<lambda>z. length (snd z)) (ownedObjects t)))"

lemma doTryDelete_returns:
  assumes "acyclic (ownEdges t)" "deleteFuel t \<le> n"
  shows "doTryDeleteLocked n now c rg t r \<noteq> None"
proof -
  let ?xs = "concat (map snd (ownedObjects t))"
  have "x \<in> set ?xs" if "(p, x) \<in> ownEdges t" for p x
    using that map_of_SomeD by (cases "mget (ownedObjects t) p") (force simp: ownEdges_def ownedBy_def mget_or_def)+
  then have "descendants (ownEdges t) r \<subseteq> set ?xs"
    by (auto simp: descendants_def simp del: set_concat elim: tranclE)
  then have "card (descendants (ownEdges t) r) \<le> length ?xs"
    using card_mono card_length order_trans by (metis List.finite_set)
  then have "card (descendants (ownEdges t) r) < n"
    using assms(2) by (simp add: deleteFuel_def length_concat comp_def)
  then show ?thesis using doTryDelete_returns_card assms(1) finite_ownEdges by blast
qed

section \<open>Cycles and dangling entries\<close>

text \<open>
  On a set of existing objects each of which owns a first object of the set, the recursion
  never returns.
\<close>

lemma doTryDelete_diverges:
  assumes "\<And>r. r \<in> S \<Longrightarrow> objectAt t r \<noteq> None \<and> (\<exists>r' rs. ownedBy t r = r' # rs \<and> r' \<in> S)"
  shows "r \<in> S \<Longrightarrow> doTryDeleteLocked n now c rg t r = None"
proof (induction n arbitrary: r)
  case (Suc n)
  from assms [OF Suc.prems] obtain obj r' rs where
    "objectAt t r = Some obj" "ownedBy t r = r' # rs" "r' \<in> S" by blast
  with Suc.IH [of r'] show ?case by (simp add: doTryDelete_Suc)
qed simp

text \<open>An entry of the index for an object that does not exist makes the deletion of its owner fail.\<close>

lemma deleteOwned_dangling:
  assumes "now \<noteq> 0"
  shows "deleteOwned n now c rg t rs = Some (res, t', calls) \<Longrightarrow> acyclic (ownEdges t) \<Longrightarrow>
     x \<in> set rs \<Longrightarrow> objectAt t x = None \<Longrightarrow> \<exists>e. res = Inl e"
proof (induction rs arbitrary: t calls)
  case (Cons r rs)
  from Cons.prems(1) obtain y t1 calls1 where one: "doTryDeleteLocked n now c rg t r = Some (y, t1, calls1)"
    by (auto split: option.splits)
  show ?case
  proof (cases "x = r")
    case True
    with one Cons.prems(4) have "\<exists>e. y = Inl e" by (cases n) (auto simp: doTryDelete_Suc)
    with one Cons.prems(1) show ?thesis by auto
  next
    case False
    have "objectAt t1 x = None"
      using doTryDelete_step(1) [OF assms one, rule_format, OF Cons.prems(2), of x] Cons.prems(4)
      by (simp add: deletionStep_def)
    moreover have "acyclic (ownEdges t1)"
      using Cons.prems(2) doTryDelete_ownEdges(1) [OF one] acyclic_subset by blast
    ultimately show ?thesis
      using Cons.prems(1,3) one False Cons.IH by (auto split: sum.splits option.splits)
  qed
qed simp

lemma doTryDelete_dangling:
  assumes "now \<noteq> 0" "acyclic (ownEdges t)" "x \<in> set (ownedBy t r)" "objectAt t x = None"
    and "doTryDeleteLocked n now c rg t r = Some (res, t', calls)"
  shows "\<exists>e. res = Inl e"
proof (cases n)
  case (Suc m)
  show ?thesis
  proof (cases "objectAt t r")
    case (Some obj)
    with assms(5) Suc obtain y t1 calls1 where own: "deleteOwned m now c rg t (ownedBy t r) = Some (y, t1, calls1)"
      by (auto simp: doTryDelete_Suc split: option.splits)
    from deleteOwned_dangling [OF assms(1) own assms(2,3,4)] show ?thesis
      using assms(5) Suc Some own by (auto simp: doTryDelete_Suc)
  qed (use assms(5) Suc in \<open>auto simp: doTryDelete_Suc\<close>)
qed (use assms(5) in simp)

end
