(* ===== verification/Cache_Loops.thy ===== *)
theory Cache_Loops
  imports Cache_Delete
begin

text \<open>
  The background workers of the cache, \<^verbatim>\<open>internal/cloud/runtime/cache/gc.go\<close> and \<^verbatim>\<open>sync.go\<close>, and
  \<^verbatim>\<open>Start\<close> of \<^verbatim>\<open>cache.go\<close>. A work item is one step: \<open>item\<close> is what \<^verbatim>\<open>queue.Get\<close> gave, \<open>None\<close> once the queue
  is shut down, and the step answers whether the worker goes on. \<^verbatim>\<open>wait.Jitter\<close> is the parameter \<open>jitter\<close>.
  What \<^verbatim>\<open>wait.PollUntilContextTimeout\<close> reports after polling up to five seconds for the goroutines to come up is a parameter too:
  \<open>None\<close>, or its error.
\<close>

section \<open>Garbage collector\<close>

definition startGarbageCollector :: "'b cache \<Rightarrow> string option \<Rightarrow> (apiError + unit) \<times> 'b cache" where
  "startGarbageCollector c workersPoll =
     (let c1 = c\<lparr>garbageCollectorQueue := Some GcQueue\<rparr>
      in case workersPoll of
           Some err \<Rightarrow> (Inl (GoError (''failed to start garbage collector workers: '' @ err)), c1)
         | None \<Rightarrow> (Inr (), c1))"

definition processGarbageCollectorWorkItem ::
  "nat \<Rightarrow> (duration \<Rightarrow> int \<times> int \<Rightarrow> duration) \<Rightarrow> gotime \<Rightarrow> 'b cache \<Rightarrow> queueItem option \<Rightarrow>
   ((apiError + bool) \<times> 'b cache \<times> queueCall list) option" where
  "processGarbageCollectorWorkItem fuel jitter now c item =
     (case garbageCollectorQueue c of
        None \<Rightarrow> Some (Inl (Panic ''nil garbageCollectorQueue''), c, [])
      | Some q \<Rightarrow>
        (case item of
           None \<Rightarrow> Some (Inr False, c, [])
         | Some (GcItem gcr) \<Rightarrow>
           (case tryDelete fuel now c (gcResourceGroup gcr) \<lparr>refGVK = gcGVK gcr, refKey = gcKey gcr\<rparr> of
              None \<Rightarrow> None
            | Some (res, c', calls) \<Rightarrow>
                Some (Inr True, c',
                  [QDone q (GcItem gcr)] @ calls @ [QForget q (GcItem gcr)] @
                  (if res = Inr True then []
                   else [QAddAfter q (GcItem gcr)
                           (jitter (garbageCollectorRequeueAfter c) (garbageCollectorRequeueAfterJitterFactor c))])
                  @ [QDone q (GcItem gcr)]))
         | Some it \<Rightarrow> Some (Inr True, c, [QDone q it, QForget q it, QDone q it])))"

section \<open>Syncer\<close>

definition startSyncer :: "'b cache \<Rightarrow> string option \<Rightarrow> string option \<Rightarrow> (apiError + unit) \<times> 'b cache" where
  "startSyncer c loopPoll workersPoll =
     (let c1 = c\<lparr>syncQueue := Some SyncQueue\<rparr>
      in case loopPoll of
           Some err \<Rightarrow> (Inl (GoError (''failed to start sync loop: '' @ err)), c1)
         | None \<Rightarrow>
           (case workersPoll of
              Some err \<Rightarrow> (Inl (GoError (''failed to start sync workers: '' @ err)), c1)
            | None \<Rightarrow> (Inr (), c1)))"

definition lastSyncTimeAnnotationValue :: "'b object \<Rightarrow> gotime \<times> bool" where
  "lastSyncTimeAnnotationValue o' =
     (case mget (GetAnnotations o') lastSyncTimeAnnotation of
        None \<Rightarrow> (0, False)
      | Some value' \<Rightarrow> (case Parse_RFC3339 value' of None \<Rightarrow> (0, False) | Some t \<Rightarrow> (t, True)))"

definition needsSync :: "duration \<Rightarrow> gotime \<Rightarrow> 'b object \<Rightarrow> bool" where
  "needsSync period now o' \<longleftrightarrow>
     (let syncBeforeTime = now - period; (lastSync, ok) = lastSyncTimeAnnotationValue o'
      in \<not> (ok \<and> lastSync > syncBeforeTime))"

definition syncResourceGroupTracker ::
  "gotime \<Rightarrow> 'b cache \<Rightarrow> queueName \<Rightarrow> string \<Rightarrow> 'b resourceGroupTracker \<Rightarrow> queueCall list" where
  "syncResourceGroupTracker now c q rg t =
     concat (map (\<lambda>(gvk, objs).
       concat (map (\<lambda>(key, o').
         if needsSync (syncPeriod c) now o'
         then [QAdd q (ResyncItem \<lparr>rrResourceGroup = rg, rrGVK = gvk, rrKey = key\<rparr>)] else []) objs))
       (objects t))"

definition syncGroup :: "gotime \<Rightarrow> 'b cache \<Rightarrow> apiError + queueCall list" where
  "syncGroup now c =
     (case syncQueue c of
        None \<Rightarrow> Inl (Panic ''nil syncQueue'')
      | Some q \<Rightarrow> Inr (concat (map (\<lambda>(rg, t). syncResourceGroupTracker now c q rg t) (resourceGroups c))))"

definition syncStamp :: "gotime \<Rightarrow> 'b object \<Rightarrow> 'b object" where
  "syncStamp now o' =
     o'\<lparr>oAnnotations := Some (appendAnnotations o' [lastSyncTimeAnnotation, Format_RFC3339 now])\<rparr>"

definition processSyncWorkItem ::
  "gotime \<Rightarrow> 'b cache \<Rightarrow> queueItem option \<Rightarrow> (apiError + bool) \<times> 'b cache \<times> queueCall list" where
  "processSyncWorkItem now c item =
     (case syncQueue c of
        None \<Rightarrow> (Inl (Panic ''nil syncQueue''), c, [])
      | Some q \<Rightarrow>
        (case item of
           None \<Rightarrow> (Inr False, c, [])
         | Some (ResyncItem rr) \<Rightarrow>
           (let finally' = [QForget q (ResyncItem rr), QDone q (ResyncItem rr)]
            in case resourceGroupTracker_of c (rrResourceGroup rr) of
                 None \<Rightarrow> (Inr True, c, finally')
               | Some t \<Rightarrow>
                 (case getObject t (rrGVK rr) (rrKey rr) of
                    None \<Rightarrow> (Inr True, c, finally')
                  | Some obj \<Rightarrow>
                    (let obj' = syncStamp now obj; t' = putObject t (rrGVK rr) (rrKey rr) obj'
                     in (Inr True, c\<lparr>resourceGroups := mput (resourceGroups c) (rrResourceGroup rr) t'\<rparr>,
                         informSync c (rrResourceGroup rr) obj' @ finally'))))
         | Some it \<Rightarrow> (Inr True, c, [QForget q it, QDone q it])))"

section \<open>Start\<close>

definition Start :: "bool \<Rightarrow> string option \<times> string option \<times> string option \<Rightarrow> 'b cache \<Rightarrow> (apiError + unit) \<times> 'b cache" where
  "Start ctxNil polls c =
     (case polls of (gcPoll, loopPoll, syncPoll) \<Rightarrow>
       if ctxNil then (Inl (GoError ''context cannot be nil''), c)
       else if cStarted c then (Inl (GoError ''cache started more than once''), c)
       else case startGarbageCollector c gcPoll of
              (Inl e, c1) \<Rightarrow> (Inl e, c1)
            | (Inr _, c1) \<Rightarrow>
              (case startSyncer c1 loopPoll syncPoll of
                 (Inl e, c2) \<Rightarrow> (Inl e, c2)
               | (Inr _, c2) \<Rightarrow> (Inr (), c2\<lparr>cStarted := True\<rparr>)))"

section \<open>What the loops do\<close>

text \<open>The keys of a Go map are distinct: in a tracker, those of both levels of objects and of the index.\<close>

definition trackerDistinct :: "'b resourceGroupTracker \<Rightarrow> bool" where
  "trackerDistinct t \<longleftrightarrow> distinct (mkeys (objects t)) \<and> distinct (mkeys (ownedObjects t))
     \<and> (\<forall>g m. mget (objects t) g = Some m \<longrightarrow> distinct (mkeys m))"

text \<open>The objects \<^verbatim>\<open>syncGroup\<close> queues: exactly those whose last sync is not after the start of the period.\<close>

lemma set_syncResourceGroupTracker:
  assumes "trackerDistinct t"
  shows "QAdd q' (ResyncItem rr) \<in> set (syncResourceGroupTracker now c q rg t) \<longleftrightarrow>
     q' = q \<and> rrResourceGroup rr = rg \<and>
     (\<exists>o'. getObject t (rrGVK rr) (rrKey rr) = Some o' \<and> needsSync (syncPeriod c) now o')"
proof -
  have "QAdd q' (ResyncItem rr) \<in> set (syncResourceGroupTracker now c q rg t) \<longleftrightarrow>
      (\<exists>g m k o'. (g, m) \<in> set (objects t) \<and> (k, o') \<in> set m \<and> needsSync (syncPeriod c) now o'
         \<and> q' = q \<and> rr = \<lparr>rrResourceGroup = rg, rrGVK = g, rrKey = k\<rparr>)"
    by (fastforce simp: syncResourceGroupTracker_def)
  also have "\<dots> \<longleftrightarrow> (\<exists>g m k o'. mget (objects t) g = Some m \<and> mget m k = Some o' \<and> needsSync (syncPeriod c) now o'
         \<and> q' = q \<and> rr = \<lparr>rrResourceGroup = rg, rrGVK = g, rrKey = k\<rparr>)"
    using assms by (metis mget_iff_in_set trackerDistinct_def)
  also have "\<dots> \<longleftrightarrow> q' = q \<and> rrResourceGroup rr = rg \<and>
     (\<exists>o'. getObject t (rrGVK rr) (rrKey rr) = Some o' \<and> needsSync (syncPeriod c) now o')"
    by (cases rr) (auto simp: getObject_def split: option.splits)
  finally show ?thesis .
qed

text \<open>
  After a sync the object is not due for one period (the annotation has a resolution of one second),
  and is due again after it.
\<close>

lemma lastSync_syncStamp:
  "formattable now \<Longrightarrow> lastSyncTimeAnnotationValue (syncStamp now o') = (truncSecond now, True)"
  by (simp add: lastSyncTimeAnnotationValue_def syncStamp_def appendAnnotations_def object_getters Parse_Format)

lemma needsSync_stamped:
  assumes "formattable t0" "mget (GetAnnotations o') lastSyncTimeAnnotation = Some (Format_RFC3339 t0)"
  shows "needsSync period now o' \<longleftrightarrow> truncSecond t0 \<le> now - period"
  using assms by (auto simp: needsSync_def lastSyncTimeAnnotationValue_def Parse_Format)

lemma tryDelete_cases:
  assumes "tryDelete fuel now c rg r = Some (res, c', calls)"
  obtains (noGroup) "resourceGroupTracker_of c rg = None" "res = Inl (BadRequest (ResourceGroupNotExist rg))"
      "c' = c" "calls = []"
  | (locked) t t' where "resourceGroupTracker_of c rg = Some t"
      "doTryDeleteLocked fuel now c rg t r = Some (res, t', calls)"
      "c' = c\<lparr>resourceGroups := mput (resourceGroups c) rg t'\<rparr>"
  using assms by (auto simp: tryDelete_def split: option.splits prod.splits)

end
