(* ===== verification/Cache_Invariant.thy ===== *)
theory Cache_Invariant
  imports Cache_Loops
begin

text \<open>
  Everything that can happen to a cache, as a step relation, and what holds in every cache
  that it reaches. The proofs are done once, in locales whose laws only talk about the hooks:
  a predicate of the objects in the tracker that the hooks establish and keep holds in every
  reachable cache (\<open>object_invariant\<close>); a relation between an object and its next version that the
  hooks respect holds along every step (\<open>object_evolution\<close>).
\<close>

section \<open>Steps of the cache\<close>

text \<open>
  One step is one critical section: an operation of a client, a work item of a background worker,
  or the start of the cache. \<open>clock\<close> says which instants the clock may show.
\<close>

inductive cacheStep :: "(gotime \<Rightarrow> bool) \<Rightarrow> 'b cache \<Rightarrow> 'b cache \<Rightarrow> bool" for clock where
  addGroup: "cacheStep clock c (AddResourceGroup c rg)"
| deleteGroup: "cacheStep clock c (DeleteResourceGroup c rg)"
| informer: "GetInformer c obj = Inr (c', gvk) \<Longrightarrow> cacheStep clock c c'"
| addHandler: "mget (informers c) gvk = Some i \<Longrightarrow>
    cacheStep clock c (c\<lparr>informers := mput (informers c) gvk (AddEventHandler i h)\<rparr>)"
| start: "Start ctxNil polls c = (res, c') \<Longrightarrow> cacheStep clock c c'"
| create: "clock now \<Longrightarrow> Create now c rg obj = (res, c', obj', calls) \<Longrightarrow> cacheStep clock c c'"
| update: "clock now \<Longrightarrow> Update now c rg obj = (res, c', obj', calls) \<Longrightarrow> cacheStep clock c c'"
| patch: "clock now \<Longrightarrow> Patch now c rg o0 p = (res, c', calls) \<Longrightarrow> cacheStep clock c c'"
| delete: "clock now \<Longrightarrow> Delete fuel now c rg obj = Some (res, c', obj', calls) \<Longrightarrow> cacheStep clock c c'"
| collect: "clock now \<Longrightarrow> processGarbageCollectorWorkItem fuel jitter now c item = Some (res, c', calls) \<Longrightarrow>
    cacheStep clock c c'"
| sync: "clock now \<Longrightarrow> processSyncWorkItem now c item = (res, c', calls) \<Longrightarrow> cacheStep clock c c'"

inductive reachableCache :: "'b scheme \<Rightarrow> (gotime \<Rightarrow> bool) \<Rightarrow> 'b cache \<Rightarrow> bool" for sch clock where
  new: "reachableCache sch clock (NewCache sch)"
| step: "reachableCache sch clock c \<Longrightarrow> cacheStep clock c c' \<Longrightarrow> reachableCache sch clock c'"

text \<open>
  What a step does to the trackers, in terms of the locked operations: the other proofs need no other
  case analysis.
\<close>

definition trackerStep :: "(gotime \<Rightarrow> bool) \<Rightarrow> 'b cache \<Rightarrow> 'b resourceGroupTracker \<Rightarrow> 'b resourceGroupTracker \<Rightarrow> bool" where
  "trackerStep clock c t t' \<longleftrightarrow>
     t' = t
   \<or> (\<exists>now rg gvk obj re res obj' calls. clock now \<and> oGVK obj = gvk \<and>
        storeLocked now c rg t gvk obj re = (res, t', obj', calls))
   \<or> (\<exists>fuel now rg r res calls. clock now \<and> doTryDeleteLocked fuel now c rg t r = Some (res, t', calls))
   \<or> (\<exists>now r obj. clock now \<and> objectAt t r = Some obj \<and>
        t' = putObject t (refGVK r) (refKey r) (syncStamp now obj))"

definition groupsStep :: "(gotime \<Rightarrow> bool) \<Rightarrow> 'b cache \<Rightarrow> 'b cache \<Rightarrow> bool" where
  "groupsStep clock c c' \<longleftrightarrow> cScheme c' = cScheme c \<and>
     (distinct (mkeys (resourceGroups c)) \<longrightarrow> distinct (mkeys (resourceGroups c'))) \<and>
     (\<forall>rg t'. resourceGroupTracker_of c' rg = Some t' \<longrightarrow>
        (case resourceGroupTracker_of c rg of None \<Rightarrow> t' = emptyTracker | Some t \<Rightarrow> trackerStep clock c t t'))"

lemma groupsStep_refl: "resourceGroups c' = resourceGroups c \<Longrightarrow> cScheme c' = cScheme c \<Longrightarrow> groupsStep clock c c'"
  by (simp add: groupsStep_def resourceGroupTracker_of_def trackerStep_def split: option.splits)

lemma groupsStep_put:
  "resourceGroupTracker_of c rg = Some t \<Longrightarrow> trackerStep clock c t t' \<Longrightarrow>
     groupsStep clock c (c\<lparr>resourceGroups := mput (resourceGroups c) rg t'\<rparr>)"
  by (auto simp: groupsStep_def resourceGroupTracker_of_def trackerStep_def [of _ _ t t] trackerStep_def [of _ _ x x for x]
      split: option.splits)

lemma store_cases:
  assumes "store now c rg obj re = (res, c', obj', calls)"
  obtains (rejected) e where "res = Inl e" "c' = c" "calls = []" "\<forall>s. e \<noteq> Panic s"
  | (locked) o0 gvk t t' o2 where "rg \<noteq> ''''" "obj = Some o0" "GVKForObject (cScheme c) o0 = Inr gvk"
      "re \<longrightarrow> oName o0 \<noteq> ''''"
      "resourceGroupTracker_of c rg = Some t"
      "storeLocked now c rg t gvk (o0\<lparr>oGVK := gvk\<rparr>) re = (res, t', o2, calls)"
      "c' = c\<lparr>resourceGroups := mput (resourceGroups c) rg t'\<rparr>" "obj' = Some o2"
proof (cases "rg = '''' \<or> obj = None")
  case True
  with assms rejected show ?thesis by (auto simp: store_def split: if_splits)
next
  case False
  then obtain o0 where o0: "rg \<noteq> ''''" "obj = Some o0" by blast
  show ?thesis
  proof (cases "GVKForObject (cScheme c) o0")
    case (Inl e)
    with o0 assms rejected show ?thesis by (auto simp: store_def gvkGetAndSet_def)
  next
    case (Inr gvk)
    note s = assms [unfolded store_def gvkGetAndSet_def o0 option.case Inr sum.case prod.case]
    show ?thesis
    proof (cases "(re \<and> oName o0 = '''') \<or> resourceGroupTracker_of c rg = None")
      case True
      with s o0(1) rejected show ?thesis by (auto split: if_splits)
    next
      case False
      then obtain t where "\<not> (re \<and> oName o0 = '''')" "resourceGroupTracker_of c rg = Some t" by auto
      with s o0 Inr locked show ?thesis by (auto split: prod.splits)
    qed
  qed
qed

lemma store_groupsStep:
  assumes "clock now" "store now c rg obj re = (res, c', obj', calls)"
  shows "groupsStep clock c c'"
  using assms(2)
proof (cases rule: store_cases)
  case (locked o0 gvk t t' o2)
  have "oGVK (o0\<lparr>oGVK := gvk\<rparr>) = gvk" by simp
  then have "trackerStep clock c t t'" using locked(6) assms(1) unfolding trackerStep_def by blast
  with locked show ?thesis using groupsStep_put by blast
qed (simp add: groupsStep_refl)

lemma tryDelete_groupsStep:
  assumes "clock now" "tryDelete fuel now c rg r = Some (res, c', calls)"
  shows "groupsStep clock c c'"
  using assms(2)
proof (cases rule: tryDelete_cases)
  case (locked t t')
  then have "trackerStep clock c t t'" using assms(1) unfolding trackerStep_def by blast
  with locked show ?thesis using groupsStep_put by blast
qed (simp add: groupsStep_refl)

lemma Patch_cases:
  assumes "Patch now c rg o0 p = (res, c', calls)"
  obtains "c' = c" | o1 obj' where "store now c rg (Some o1) True = (res, c', obj', calls)"
  using assms by (auto simp: Patch_def split: sum.splits option.splits prod.splits if_splits)

lemma Delete_cases:
  assumes "Delete fuel now c rg obj = Some (res, c', obj', calls)"
  obtains "c' = c" | r x calls' where "tryDelete fuel now c rg r = Some (x, c', calls')"
  using assms by (auto simp: Delete_def Let_def split: if_splits sum.splits option.splits prod.splits bool.splits)

lemma sync_cases:
  assumes "processSyncWorkItem now c item = (res, c', calls)"
  obtains (same) "c' = c"
  | (stamped) rg t r obj where "resourceGroupTracker_of c rg = Some t" "objectAt t r = Some obj"
      "c' = c\<lparr>resourceGroups := mput (resourceGroups c) rg (putObject t (refGVK r) (refKey r) (syncStamp now obj))\<rparr>"
proof (cases "\<exists>q rr. syncQueue c = Some q \<and> item = Some (ResyncItem rr)")
  case False
  with assms same show ?thesis
    by (auto simp: processSyncWorkItem_def split: option.splits queueItem.splits)
next
  case True
  then obtain q rr where "syncQueue c = Some q" "item = Some (ResyncItem rr)" by blast
  then show ?thesis
    using assms same stamped [of "rrResourceGroup rr" _ "\<lparr>refGVK = rrGVK rr, refKey = rrKey rr\<rparr>"]
    by (auto simp: processSyncWorkItem_def Let_def split: option.splits)
qed

lemma cacheStep_groupsStep: "cacheStep clock c c' \<Longrightarrow> groupsStep clock c c'"
proof (induction rule: cacheStep.induct)
  case (addGroup c rg)
  then show ?case
    by (auto simp: groupsStep_def AddResourceGroup_def resourceGroupTracker_of_def trackerStep_def split: option.splits)
next
  case (deleteGroup c rg)
  then show ?case
    by (auto simp: groupsStep_def DeleteResourceGroup_def resourceGroupTracker_of_def trackerStep_def split: option.splits)
next
  case (informer c obj c' gvk)
  then show ?case
    by (auto simp: GetInformer_def GetInformerForKind_def intro!: groupsStep_refl split: sum.splits option.splits)
next
  case (start ctxNil polls c res c')
  then show ?case
    by (auto simp: Start_def startGarbageCollector_def startSyncer_def Let_def intro!: groupsStep_refl
        split: if_splits prod.splits sum.splits option.splits)
next
  case (create now c rg obj res c' obj' calls)
  then show ?case using store_groupsStep unfolding Create_def by blast
next
  case (update now c rg obj res c' obj' calls)
  then show ?case using store_groupsStep unfolding Update_def by blast
next
  case (patch now c rg o0 p res c' calls)
  then show ?case by (elim Patch_cases) (auto simp: groupsStep_refl intro: store_groupsStep)
next
  case (delete now fuel c rg obj res c' obj' calls)
  then show ?case by (elim Delete_cases) (auto simp: groupsStep_refl intro: tryDelete_groupsStep)
next
  case (collect now fuel jitter c item res c' calls)
  then show ?case
    by (auto simp: processGarbageCollectorWorkItem_def groupsStep_refl intro: tryDelete_groupsStep
        split: option.splits queueItem.splits)
next
  case (sync now c item res c' calls)
  from sync(2) show ?case
  proof (cases rule: sync_cases)
    case (stamped rg t r obj)
    then have "trackerStep clock c t (putObject t (refGVK r) (refKey r) (syncStamp now obj))"
      using sync(1) unfolding trackerStep_def by blast
    with stamped show ?thesis using groupsStep_put by blast
  qed (simp add: groupsStep_refl)
qed (simp add: groupsStep_refl)

section \<open>Invariants of trackers and of objects\<close>

locale tracker_invariant =
  fixes sch :: "'b scheme" and clock :: "gotime \<Rightarrow> bool" and T :: "'b resourceGroupTracker \<Rightarrow> bool"
  assumes empty: "T emptyTracker"
    and step: "cScheme c = sch \<Longrightarrow> trackerStep clock c t t' \<Longrightarrow> T t \<Longrightarrow> T t'"
begin

lemma reachable_scheme: "reachableCache sch clock c \<Longrightarrow> cScheme c = sch"
  by (induction rule: reachableCache.induct)
     (auto simp: NewCache_def groupsStep_def dest!: cacheStep_groupsStep)

lemma reachable:
  "reachableCache sch clock c \<Longrightarrow> resourceGroupTracker_of c rg = Some t \<Longrightarrow> T t"
proof (induction arbitrary: rg t rule: reachableCache.induct)
  case new
  then show ?case by (simp add: NewCache_def resourceGroupTracker_of_def)
next
  case (step c c')
  from cacheStep_groupsStep [OF step.hyps(2)] step.prems
  have *: "case resourceGroupTracker_of c rg of None \<Rightarrow> t = emptyTracker | Some t0 \<Rightarrow> trackerStep clock c t0 t"
    by (simp add: groupsStep_def)
  show ?case
  proof (cases "resourceGroupTracker_of c rg")
    case None
    with * empty show ?thesis by simp
  next
    case (Some t0)
    with * step.IH [OF Some] reachable_scheme [OF step.hyps(1)] show ?thesis
      using tracker_invariant.step tracker_invariant_axioms by fastforce
  qed
qed

end

lemma reachable_groups_distinct: "reachableCache sch clock c \<Longrightarrow> distinct (mkeys (resourceGroups c))"
  by (induction rule: reachableCache.induct)
     (auto simp: NewCache_def groupsStep_def dest!: cacheStep_groupsStep)

text \<open>A predicate of objects that marking an object for deletion keeps is kept by a deletion.\<close>

locale deletion_invariant =
  fixes clock :: "gotime \<Rightarrow> bool" and Inv :: "ownReference \<Rightarrow> 'b object \<Rightarrow> bool"
  assumes mark: "clock now \<Longrightarrow> Inv r o1 \<Longrightarrow> GetFinalizers o1 \<noteq> [] \<Longrightarrow> IsZero (oDeletionTimestamp o1) \<Longrightarrow>
     beforeUpdate now rg o1 (o1\<lparr>oDeletionTimestamp := Some now\<rparr>) = Inr o2 \<Longrightarrow>
     Inv r (o2\<lparr>oDeletionTimestamp := Some now\<rparr>)"
begin

definition holds :: "'b resourceGroupTracker \<Rightarrow> bool" where
  "holds t \<longleftrightarrow> (\<forall>r o'. objectAt t r = Some o' \<longrightarrow> Inv r o')"

lemma holds_put:
  assumes "holds t" "Inv r o1"
    and "\<And>g k. getObject t' g k = (if g = refGVK r \<and> k = refKey r then Some o1 else getObject t g k)"
  shows "holds t'"
  using assms(1,2) unfolding holds_def assms(3) ownReference_eq_iff by auto

lemma finishDelete_holds:
  assumes "clock now" "holds t" "Inv r obj" "finishDelete now c rg t r obj = (res, t', calls)"
  shows "holds t'"
  using assms(4)
proof (cases rule: finishDelete_cases)
  case (marked obj2)
  have "Inv r (obj2\<lparr>oDeletionTimestamp := Some now\<rparr>)" using mark [OF assms(1,3) marked(1,2,4)] .
  with marked(5) assms(2) show ?thesis by (simp add: holds_def)
qed (use assms(2) in \<open>auto simp: holds_def\<close>)

lemma doTryDelete_holds:
  assumes "clock now"
  shows "doTryDeleteLocked n now c rg t r = Some (res, t', calls) \<Longrightarrow> holds t \<longrightarrow> holds t'"
    and "deleteOwned n now c rg t rs = Some (res', t', calls) \<Longrightarrow> holds t \<longrightarrow> holds t'"
proof (induction rule: doTryDelete_induct)
  case (node n t r obj t1 calls1 res t2 calls2)
  show ?case
  proof
    assume "holds t"
    then have "Inv r obj" "holds t1" using node(1,2) by (auto simp: holds_def)
    moreover from this(2) have "holds (t1\<lparr>ownedObjects := mdel (ownedObjects t1) r\<rparr>)" by (simp add: holds_def)
    ultimately show "holds t2" using finishDelete_holds [OF assms _ _ node(4)] by blast
  qed
qed auto

end

text \<open>A predicate the hooks establish and keep.\<close>

locale object_invariant = deletion_invariant clock Inv
  for clock :: "gotime \<Rightarrow> bool" and Inv :: "ownReference \<Rightarrow> 'b object \<Rightarrow> bool" +
  fixes sch :: "'b scheme"
  assumes created: "clock now \<Longrightarrow> beforeCreate now rg o1 = Inr o2 \<Longrightarrow> ownersParse sch o1 \<Longrightarrow>
      Inv \<lparr>refGVK = oGVK o1, refKey = ObjectKeyFromObject o1\<rparr> o2"
    and updated: "clock now \<Longrightarrow> Inv \<lparr>refGVK = oGVK new, refKey = ObjectKeyFromObject new\<rparr> old \<Longrightarrow>
      beforeUpdate now rg old new = Inr o2 \<Longrightarrow> ownersParse sch new \<Longrightarrow>
      Inv \<lparr>refGVK = oGVK new, refKey = ObjectKeyFromObject new\<rparr> o2"
    and synced: "clock now \<Longrightarrow> Inv r o1 \<Longrightarrow> Inv r (syncStamp now o1)"
begin

lemma storeLocked_holds:
  assumes "clock now" "cScheme c = sch" "storeLocked now c rg t gvk obj re = (res, t', obj', calls)"
    and "oGVK obj = gvk" "holds t"
  shows "holds t'"
proof -
  let ?r = "\<lparr>refGVK = gvk, refKey = ObjectKeyFromObject obj\<rparr>"
  from assms(3) show ?thesis
  proof (cases rule: storeLocked_elim)
    case (failed e)
    with assms(5) show ?thesis by (simp add: holds_def)
  next
    case (updated tracked)
    have "Inv ?r tracked" using updated(2) assms(5) unfolding holds_def by (metis ownReference.select_convs)
    then have "Inv ?r obj'"
      using object_invariant.updated [OF object_invariant_axioms assms(1) _ updated(5)] assms(2,4)
        ownersParse_if_checked [OF updated(4)] by simp
    then show ?thesis using updateTracker_getObject [OF updated(6)] by (intro holds_put [OF assms(5), of ?r obj']) simp_all
  next
    case created
    have "Inv ?r obj'"
      using object_invariant.created [OF object_invariant_axioms assms(1) created(4)] assms(2,4)
        ownersParse_if_checked [OF created(3)] by simp
    then show ?thesis using updateTracker_getObject [OF created(5)] by (intro holds_put [OF assms(5), of ?r obj']) simp_all
  qed
qed

end

sublocale object_invariant \<subseteq> obj: tracker_invariant sch clock holds
proof
  show "holds emptyTracker" by (simp add: holds_def emptyTracker_def getObject_def)
next
  fix c t t' assume *: "cScheme c = sch" "trackerStep clock c t t'" "holds t"
  from *(2) consider "t' = t"
    | now rg gvk obj re res obj' calls where "clock now" "oGVK obj = gvk"
        "storeLocked now c rg t gvk obj re = (res, t', obj', calls)"
    | fuel now rg r res calls where "clock now" "doTryDeleteLocked fuel now c rg t r = Some (res, t', calls)"
    | now r obj where "clock now" "objectAt t r = Some obj" "t' = putObject t (refGVK r) (refKey r) (syncStamp now obj)"
    unfolding trackerStep_def by blast
  then show "holds t'"
  proof cases
    case 2
    then show ?thesis using storeLocked_holds *(1,3) by blast
  next
    case 3
    then show ?thesis using doTryDelete_holds(1) *(3) by blast
  next
    case 4
    then show ?thesis using synced *(3) by (auto simp: holds_def)
  qed (use *(3) in simp)
qed

text \<open>A relation between an object and its next version that the hooks respect.\<close>

locale object_evolution =
  fixes clock :: "gotime \<Rightarrow> bool" and R :: "'b object \<Rightarrow> 'b object \<Rightarrow> bool"
  assumes same: "R a a"
    and marks: "clock now \<Longrightarrow> R a o1 \<Longrightarrow> IsZero (oDeletionTimestamp o1) \<Longrightarrow>
      beforeUpdate now rg o1 (o1\<lparr>oDeletionTimestamp := Some now\<rparr>) = Inr o2 \<Longrightarrow>
      R a (o2\<lparr>oDeletionTimestamp := Some now\<rparr>)"
    and updates: "clock now \<Longrightarrow> beforeUpdate now rg old new = Inr o2 \<Longrightarrow> R old o2"
    and syncs: "clock now \<Longrightarrow> R a (syncStamp now a)"
begin

lemma deletion: "deletion_invariant clock (\<lambda>r b. \<exists>a. objectAt t0 r = Some a \<and> R a b)"
  using marks by unfold_locales blast

lemma trackerStep_evolves:
  assumes "trackerStep clock c t t'" "objectAt t r = Some a" "objectAt t' r = Some b"
  shows "R a b"
proof -
  from assms(1) consider "t' = t"
    | now rg gvk obj re res obj' calls where "clock now" "oGVK obj = gvk"
        "storeLocked now c rg t gvk obj re = (res, t', obj', calls)"
    | fuel now rg x res calls where "clock now" "doTryDeleteLocked fuel now c rg t x = Some (res, t', calls)"
    | now x obj where "clock now" "objectAt t x = Some obj" "t' = putObject t (refGVK x) (refKey x) (syncStamp now obj)"
    unfolding trackerStep_def by blast
  then show ?thesis
  proof cases
    case (2 now rg gvk obj re res obj' calls)
    show ?thesis
      using 2(3)
    proof (cases rule: storeLocked_elim)
      case (updated tracked)
      with assms(2,3) updates [OF 2(1) updated(5)] same show ?thesis
        by (auto simp: updateTracker_getObject [OF updated(6)] split: if_splits)
    next
      case created
      with assms(2,3) same show ?thesis
        by (auto simp: updateTracker_getObject [OF created(5)] split: if_splits)
    qed (use assms(2,3) same in simp)
  next
    case (3 fuel now rg x res calls)
    note dh = deletion_invariant.doTryDelete_holds(1) [OF deletion 3, unfolded deletion_invariant.holds_def [OF deletion]]
    then show ?thesis using assms(2,3) same by (metis option.inject)
  next
    case (4 now x obj)
    then show ?thesis using assms(2,3) same syncs [OF 4(1), of obj] by (auto split: if_splits)
  qed (use assms(2,3) same in simp)
qed

lemma cacheStep_evolves:
  assumes "cacheStep clock c c'" "resourceGroupTracker_of c rg = Some t" "resourceGroupTracker_of c' rg = Some t'"
    and "objectAt t r = Some a" "objectAt t' r = Some b"
  shows "R a b"
  using cacheStep_groupsStep [OF assms(1)] assms(2-5) trackerStep_evolves
  by (auto simp: groupsStep_def dest!: spec [of _ rg])

end

section \<open>The invariants\<close>

text \<open>An object is stored under its kind and its key.\<close>

definition keyed :: "ownReference \<Rightarrow> 'b object \<Rightarrow> bool" where
  "keyed r o' \<longleftrightarrow> oGVK o' = refGVK r \<and> ObjectKeyFromObject o' = refKey r"

text \<open>Its resource version is \<^verbatim>\<open>v\<close> and a 64 bit number.\<close>

definition versioned :: "'b object \<Rightarrow> bool" where
  "versioned o' \<longleftrightarrow> (\<exists>i. oResourceVersion o' = ''v'' @ Itoa i \<and> - (2 ^ 63) \<le> i \<and> i \<le> max_int64)"

text \<open>Its creation time and its last sync are instants the clock has shown.\<close>

definition stamped :: "(gotime \<Rightarrow> bool) \<Rightarrow> 'b object \<Rightarrow> bool" where
  "stamped clock o' \<longleftrightarrow> clock (oCreationTimestamp o')
     \<and> (\<exists>t. clock t \<and> mget (GetAnnotations o') lastSyncTimeAnnotation = Some (Format_RFC3339 t))"

definition objectOk :: "'b scheme \<Rightarrow> (gotime \<Rightarrow> bool) \<Rightarrow> ownReference \<Rightarrow> 'b object \<Rightarrow> bool" where
  "objectOk sch clock r o' \<longleftrightarrow> keyed r o' \<and> versioned o' \<and> stamped clock o' \<and> ownersParse sch o'"

lemma versioned_next: "oResourceVersion o' = nextResourceVersion rv \<Longrightarrow> versioned o'"
  unfolding versioned_def nextResourceVersion_def using int64_range by blast

lemma keyed_cong:
  "keyed r o1 \<Longrightarrow> oGVK o2 = oGVK o1 \<Longrightarrow> oNamespace o2 = oNamespace o1 \<Longrightarrow> oName o2 = oName o1 \<Longrightarrow> keyed r o2"
  by (simp add: keyed_def ObjectKeyFromObject_def)

lemma beforeUpdate_versioned:
  assumes "beforeUpdate now rg old new = Inr o2" "versioned old"
  shows "versioned o2"
proof -
  from beforeUpdate_unchanged [OF assms(1)]
  consider "oResourceVersion o2 = oResourceVersion old" | "oResourceVersion o2 = nextResourceVersion (oResourceVersion old)"
    by blast
  then show ?thesis using assms(2) by cases (simp add: versioned_def, rule versioned_next)
qed

lemma beforeUpdate_stamped:
  assumes "beforeUpdate now rg old new = Inr o2" "stamped clock old" "clock now"
  shows "stamped clock o2"
proof -
  have "\<exists>t. clock t \<and> mget (GetAnnotations o2) lastSyncTimeAnnotation = Some (Format_RFC3339 t)"
    using assms
    by (auto simp: beforeUpdate_def Let_def stamped_def appendAnnotations_def object_getters mget_or_def split: if_splits)
  with assms(2) beforeUpdate_fields(9) [OF assms(1)] show ?thesis by (simp add: stamped_def)
qed

lemma mark_fields:
  assumes "beforeUpdate now rg o1 (o1\<lparr>oDeletionTimestamp := Some now\<rparr>) = Inr o2"
  shows "oGVK o2 = oGVK o1" "oNamespace o2 = oNamespace o1" "oName o2 = oName o1"
    "oOwnerReferences o2 = oOwnerReferences o1"
  using beforeUpdate_fields [OF assms] by simp_all

interpretation okObject: object_invariant clock "objectOk sch clock" sch for clock sch
proof
  fix now r o1 rg o2
  assume "clock now" "objectOk sch clock r o1"
    and up: "beforeUpdate now rg o1 (o1\<lparr>oDeletionTimestamp := Some now\<rparr>) = Inr o2"
  moreover have "ownersParse sch (o2\<lparr>oDeletionTimestamp := Some now\<rparr>) = ownersParse sch o1"
    using mark_fields [OF up] by (intro ownersParse_cong) simp_all
  moreover have "keyed r o1 \<Longrightarrow> keyed r (o2\<lparr>oDeletionTimestamp := Some now\<rparr>)"
    using mark_fields [OF up] by (auto intro: keyed_cong)
  moreover have "versioned o2 \<Longrightarrow> versioned (o2\<lparr>oDeletionTimestamp := Some now\<rparr>)" by (simp add: versioned_def)
  moreover have "stamped clock o2 \<Longrightarrow> stamped clock (o2\<lparr>oDeletionTimestamp := Some now\<rparr>)"
    by (simp add: stamped_def GetAnnotations_def)
  ultimately show "objectOk sch clock r (o2\<lparr>oDeletionTimestamp := Some now\<rparr>)"
    using beforeUpdate_versioned [OF up] beforeUpdate_stamped [OF up] by (simp add: objectOk_def)
next
  fix now rg o1 o2 assume now: "clock now" and cr: "beforeCreate now rg o1 = Inr o2" and "ownersParse sch o1"
  note f = beforeCreate_fields [OF cr]
  have "ownersParse sch o2" using ownersParse_cong [of o2 o1 sch] f \<open>ownersParse sch o1\<close> by simp
  moreover have "versioned o2" unfolding versioned_def f(11) by (rule exI [of _ 1]) (simp add: max_int64_def)
  ultimately show "objectOk sch clock \<lparr>refGVK = oGVK o1, refKey = ObjectKeyFromObject o1\<rparr> o2"
    using f now by (auto simp: objectOk_def keyed_def stamped_def ObjectKeyFromObject_def)
next
  fix now new old rg o2
  assume *: "clock now" "objectOk sch clock \<lparr>refGVK = oGVK new, refKey = ObjectKeyFromObject new\<rparr> old"
    and up: "beforeUpdate now rg old new = Inr o2" and "ownersParse sch new"
  have "ownersParse sch o2"
    using ownersParse_cong [of o2 new sch] beforeUpdate_fields [OF up] \<open>ownersParse sch new\<close> by simp
  then show "objectOk sch clock \<lparr>refGVK = oGVK new, refKey = ObjectKeyFromObject new\<rparr> o2"
    using * beforeUpdate_versioned [OF up] beforeUpdate_stamped [OF up] beforeUpdate_fields [OF up]
    by (simp add: objectOk_def keyed_def ObjectKeyFromObject_def)
next
  fix now r o1 assume "clock now" "objectOk sch clock r o1"
  moreover have "ownersParse sch (syncStamp now o1) = ownersParse sch o1"
    by (intro ownersParse_cong) (simp_all add: syncStamp_def)
  ultimately show "objectOk sch clock r (syncStamp now o1)"
    by (auto simp: objectOk_def keyed_def versioned_def stamped_def syncStamp_def ObjectKeyFromObject_def
        appendAnnotations_def object_getters)
qed

text \<open>The creation time never changes and a deletion time that is set stays.\<close>

definition evolves :: "'b object \<Rightarrow> 'b object \<Rightarrow> bool" where
  "evolves a b \<longleftrightarrow> oCreationTimestamp b = oCreationTimestamp a
     \<and> (\<not> IsZero (oDeletionTimestamp a) \<longrightarrow> oDeletionTimestamp b = oDeletionTimestamp a)"

interpretation evolution: object_evolution clock evolves for clock
proof
  show "evolves a a" for a by (simp add: evolves_def)
next
  fix now rg a o1 o2 assume "evolves a o1" "IsZero (oDeletionTimestamp o1)"
    "beforeUpdate now rg o1 (o1\<lparr>oDeletionTimestamp := Some now\<rparr>) = Inr o2"
  then show "evolves a (o2\<lparr>oDeletionTimestamp := Some now\<rparr>)"
    using beforeUpdate_fields(9) by (fastforce simp: evolves_def)
next
  fix now rg old new o2 assume "beforeUpdate now rg old new = Inr o2"
  then show "evolves old o2" using beforeUpdate_fields(9,10) by (fastforce simp: evolves_def)
next
  show "evolves a (syncStamp now a)" for now a by (simp add: evolves_def syncStamp_def)
qed

section \<open>Distinct keys\<close>

lemma distinct_mget_or: "trackerDistinct t \<Longrightarrow> distinct (mkeys (mget_or [] (objects t) g))"
  by (auto simp: trackerDistinct_def mget_or_def split: option.splits)

lemma trackerDistinct_ops:
  assumes "trackerDistinct t"
  shows "trackerDistinct (putObject t g k o1)" "trackerDistinct (delObject t g k)" "trackerDistinct (ensureGVK t g)"
    "trackerDistinct (t\<lparr>ownedObjects := mdel (ownedObjects t) r\<rparr>)"
    "trackerDistinct (addOwned t p r)" "trackerDistinct (removeOwned t p r)"
  using assms distinct_mget_or [OF assms, of g]
  by (simp_all add: trackerDistinct_def putObject_def delObject_def ensureGVK_def addOwned_def removeOwned_def Let_def
      del: map_of_eq_Some_iff split: option.splits)

lemma trackerDistinct_updateOwners:
  "updateTrackerOwnerReferences sch t old new r = (x, t') \<Longrightarrow> trackerDistinct t \<Longrightarrow> trackerDistinct t'"
proof -
  have "dropOldOwners sch ns news r olds t = (x, t') \<Longrightarrow> trackerDistinct t \<Longrightarrow> trackerDistinct t'" for ns news olds t x t'
    by (induction olds arbitrary: t) (auto split: if_splits sum.splits intro: trackerDistinct_ops)
  moreover have "addNewOwners sch ns olds r news t = (x, t') \<Longrightarrow> trackerDistinct t \<Longrightarrow> trackerDistinct t'" for ns news olds t x t'
    by (induction news arbitrary: t) (auto split: if_splits sum.splits intro: trackerDistinct_ops)
  ultimately show "updateTrackerOwnerReferences sch t old new r = (x, t') \<Longrightarrow> trackerDistinct t \<Longrightarrow> trackerDistinct t'"
    by (fastforce simp: updateTrackerOwnerReferences_def Let_def split: prod.splits sum.splits)
qed

lemma trackerDistinct_delete:
  shows "doTryDeleteLocked n now c rg t r = Some (res, t', calls) \<Longrightarrow> trackerDistinct t \<longrightarrow> trackerDistinct t'"
    and "deleteOwned n now c rg t rs = Some (res', t', calls) \<Longrightarrow> trackerDistinct t \<longrightarrow> trackerDistinct t'"
proof (induction rule: doTryDelete_induct)
  case (node n t r obj t1 calls1 res t2 calls2)
  from node(4) show ?case
    by (cases rule: finishDelete_cases) (use node(2) in \<open>auto intro!: trackerDistinct_ops\<close>)
qed auto

lemma trackerDistinct_store:
  assumes "storeLocked now c rg t gvk obj re = (res, t', obj', calls)" "trackerDistinct t"
  shows "trackerDistinct t'"
proof -
  have "trackerDistinct (putObject (ensureGVK t gvk) gvk (ObjectKeyFromObject obj) o1)" for o1
    using assms(2) by (intro trackerDistinct_ops)
  note u = trackerDistinct_updateOwners [OF _ this]
  show ?thesis
    using assms u
    by (auto simp: storeLocked_def Let_def trackerDistinct_ops split: option.splits if_splits sum.splits prod.splits)
qed

interpretation distinctKeys: tracker_invariant sch clock trackerDistinct for sch clock
proof
  show "trackerDistinct emptyTracker" by (simp add: trackerDistinct_def emptyTracker_def)
  show "trackerDistinct t'" if "trackerStep clock c t t'" "trackerDistinct t" for c t t'
    using that unfolding trackerStep_def
    by (elim disjE exE conjE) (auto dest: trackerDistinct_store trackerDistinct_delete(1) intro: trackerDistinct_ops)
qed

end
