(* ===== verification/Cache_Samples.thy ===== *)
theory Cache_Samples
  imports Cache_Invariant
begin

text \<open>
  A concrete scheme and a few concrete objects and caches on which the properties are evaluated: secrets
  and config maps of the core group, with a string as the rest of the object.
\<close>

definition sampleParse :: "string \<Rightarrow> (string \<times> string) option" where
  "sampleParse s =
     (if CHR ''/'' \<in> set s
      then let v = tl (dropWhile (\<lambda>x. x \<noteq> CHR ''/'') s)
           in if CHR ''/'' \<in> set v then None else Some (takeWhile (\<lambda>x. x \<noteq> CHR ''/'') s, v)
      else Some ('''', s))"

definition sampleScheme :: "string scheme" where
  "sampleScheme = \<lparr>GVKForObject = (\<lambda>o'. Inr (oGVK o')), GVKForList = (\<lambda>l. Inr (lGVK l)),
     Convert = (\<lambda>a b. if oType b = Unstructured then Inr (a\<lparr>oType := Unstructured\<rparr>)
                     else if oGVK a = oGVK b then Inr (a\<lparr>oType := Typed, oGVK := noGVK\<rparr>) else Inl ''unknown conversion''),
     SetList = (\<lambda>l items. Inr (l\<lparr>lItems := items\<rparr>)),
     ParseGroupVersion = sampleParse, JSONSerializerInfo = True,
     Encode = (\<lambda>gv o'. Inr (oBody o')), MergePatch = (\<lambda>js patch. Inr patch),
     DecodeInto = (\<lambda>js o'. Inr (o'\<lparr>oBody := js\<rparr>))\<rparr>"

definition coreGVK :: "string \<Rightarrow> GroupVersionKind" where
  "coreGVK kind = \<lparr>gvkGroup = '''', gvkVersion = ''v1'', gvkKind = kind\<rparr>"

definition sampleObject :: "string \<Rightarrow> string \<Rightarrow> string list \<Rightarrow> OwnerReference list \<Rightarrow> string object" where
  "sampleObject kind name finalizers owners = \<lparr>oType = Typed, oGVK = coreGVK kind, oNamespace = ''ns'',
     oName = name, oLabels = None, oAnnotations = None, oResourceVersion = '''', oCreationTimestamp = 0,
     oDeletionTimestamp = None, oFinalizers = (if finalizers = [] then None else Some finalizers),
     oOwnerReferences = (if owners = [] then None else Some owners), oBody = ''body''\<rparr>"

definition sampleOwner :: "string \<Rightarrow> string \<Rightarrow> OwnerReference" where
  "sampleOwner kind name = \<lparr>orAPIVersion = ''v1'', orKind = kind, orName = name, orUID = '''',
     orController = None, orBlockOwnerDeletion = None\<rparr>"

definition sampleRef :: "string \<Rightarrow> string \<Rightarrow> ownReference" where
  "sampleRef kind name = \<lparr>refGVK = coreGVK kind, refKey = \<lparr>nnNamespace = ''ns'', nnName = name\<rparr>\<rparr>"

text \<open>The clock shows instants that RFC 3339 can write, after the zero time.\<close>

definition sampleClock :: "gotime \<Rightarrow> bool" where
  "sampleClock t \<longleftrightarrow> formattable t \<and> t \<noteq> 0"

text \<open>A started cache with one resource group.\<close>

definition startedCache :: "string cache" where
  "startedCache = snd (Start False (None, None, None) (AddResourceGroup (NewCache sampleScheme) ''rg''))"

definition afterCreates :: "gotime \<Rightarrow> string object list \<Rightarrow> string cache \<Rightarrow> string cache" where
  "afterCreates now os c = foldl (\<lambda>c o'. fst (snd (Create now c ''rg'' (Some o')))) c os"

definition parentCache :: "string cache" where
  "parentCache = afterCreates 1 [sampleObject ''ConfigMap'' ''parent'' [] []] startedCache"

text \<open>An owner and an object it owns.\<close>

definition ownerCache :: "string cache" where
  "ownerCache = afterCreates 1
     [sampleObject ''ConfigMap'' ''parent'' [] [],
      sampleObject ''Secret'' ''child'' [] [sampleOwner ''ConfigMap'' ''parent'']] startedCache"

lemma startedCache_reachable: "reachableCache sampleScheme clock startedCache"
proof -
  have "reachableCache sampleScheme clock (AddResourceGroup (NewCache sampleScheme) ''rg'')"
    by (rule reachableCache.step [OF reachableCache.new cacheStep.addGroup])
  then show ?thesis
    unfolding startedCache_def
    by (rule reachableCache.step) (rule cacheStep.start [OF prod.collapse [symmetric]])
qed

lemma afterCreates_reachable:
  "clock now \<Longrightarrow> reachableCache sampleScheme clock c \<Longrightarrow> reachableCache sampleScheme clock (afterCreates now os c)"
proof (induction os arbitrary: c)
  case (Cons o' os)
  obtain res c' obj' calls where cr: "Create now c ''rg'' (Some o') = (res, c', obj', calls)" by (metis prod_cases4)
  have "reachableCache sampleScheme clock c'"
    using Cons.prems cr cacheStep.create reachableCache.step by blast
  with Cons cr show ?case by (simp add: afterCreates_def)
qed (simp add: afterCreates_def)

lemma sampleClock_1 [simp]: "sampleClock 1"
  by code_simp

lemma ownerCache_reachable: "reachableCache sampleScheme sampleClock ownerCache"
  unfolding ownerCache_def by (intro afterCreates_reachable startedCache_reachable sampleClock_1)

lemma parentCache_reachable: "reachableCache sampleScheme sampleClock parentCache"
  unfolding parentCache_def by (intro afterCreates_reachable startedCache_reachable sampleClock_1)

text \<open>
  Symbolic evaluation on the samples: the definitions \<open>simp\<close> unfolds. The rendering of an instant stays
  as it is.
\<close>

lemmas sample_eval = sampleScheme_def coreGVK_def sampleObject_def sampleOwner_def sampleRef_def

lemmas store_eval = Create_def Update_def store_def storeLocked_def gvkGetAndSet_def Let_def
  ensureGVK_def getObject_def putObject_def delObject_def beforeCreate_def beforeUpdate_def appendAnnotations_def
  updateTrackerOwnerReferences_def newOwnReferenceFromOwnerReference_def addOwned_def removeOwned_def
  ObjectKeyFromObject_def object_getters mget_or_def set_insert_def resourceGroupTracker_of_def afterCreate_def
  afterUpdate_def inform_defs handlersFor_def sampleParse_def

lemmas start_eval = startedCache_def Start_def startGarbageCollector_def startSyncer_def AddResourceGroup_def
  NewCache_def emptyTracker_def

lemma startedCache_eval:
  "startedCache = \<lparr>cScheme = sampleScheme, resourceGroups = [(''rg'', emptyTracker)], informers = [],
     garbageCollectorRequeueAfter = 30 * nsSecond, garbageCollectorRequeueAfterJitterFactor = (3, 10),
     garbageCollectorConcurrency = 1, garbageCollectorQueue = Some GcQueue,
     syncPeriod = 10 * nsMinute, syncConcurrency = 1, syncQueue = Some SyncQueue, cStarted = True\<rparr>"
  by (simp add: start_eval)

definition stampedObject :: "string \<Rightarrow> string \<Rightarrow> string list \<Rightarrow> OwnerReference list \<Rightarrow> string object" where
  "stampedObject kind name finalizers owners = (sampleObject kind name finalizers owners)\<lparr>
     oCreationTimestamp := 1, oResourceVersion := ''v1'',
     oAnnotations := Some [(lastSyncTimeAnnotation, Format_RFC3339 1)]\<rparr>"

lemma Itoa_1: "Itoa 1 = ''1''"
  by code_simp

lemma ownerCache_eval:
  "ownerCache = startedCache\<lparr>resourceGroups := [(''rg'',
     \<lparr>objects = [(coreGVK ''ConfigMap'', [(refKey (sampleRef ''ConfigMap'' ''parent''), stampedObject ''ConfigMap'' ''parent'' [] [])]),
                (coreGVK ''Secret'', [(refKey (sampleRef ''Secret'' ''child''),
                    stampedObject ''Secret'' ''child'' [] [sampleOwner ''ConfigMap'' ''parent''])])],
      ownedObjects = [(sampleRef ''ConfigMap'' ''parent'', [sampleRef ''Secret'' ''child''])]\<rparr>)]\<rparr>"
  by (simp add: ownerCache_def afterCreates_def startedCache_eval sample_eval store_eval emptyTracker_def stampedObject_def Itoa_1)

lemma parentCache_eval:
  "parentCache = startedCache\<lparr>resourceGroups := [(''rg'',
     \<lparr>objects = [(coreGVK ''ConfigMap'', [(refKey (sampleRef ''ConfigMap'' ''parent''), stampedObject ''ConfigMap'' ''parent'' [] [])])],
      ownedObjects = []\<rparr>)]\<rparr>"
  by (simp add: parentCache_def afterCreates_def startedCache_eval sample_eval store_eval emptyTracker_def stampedObject_def Itoa_1)

definition ownerTracker :: "string resourceGroupTracker" where
  "ownerTracker =
     \<lparr>objects = [(coreGVK ''ConfigMap'', [(refKey (sampleRef ''ConfigMap'' ''parent''), stampedObject ''ConfigMap'' ''parent'' [] [])]),
                (coreGVK ''Secret'', [(refKey (sampleRef ''Secret'' ''child''),
                    stampedObject ''Secret'' ''child'' [] [sampleOwner ''ConfigMap'' ''parent''])])],
      ownedObjects = [(sampleRef ''ConfigMap'' ''parent'', [sampleRef ''Secret'' ''child''])]\<rparr>"

lemma ownerCache_tracker: "resourceGroupTracker_of ownerCache ''rg'' = Some ownerTracker"
  by (simp add: ownerCache_eval resourceGroupTracker_of_def ownerTracker_def)

lemma ownerTracker_edges: "ownEdges ownerTracker = {(sampleRef ''ConfigMap'' ''parent'', sampleRef ''Secret'' ''child'')}"
  by (auto simp: ownEdges_def ownedBy_def mget_or_def ownerTracker_def split: if_splits)

lemma ownerTracker_acyclic: "acyclic (ownEdges ownerTracker)"
  unfolding ownerTracker_edges by (rule acyclic_insert [THEN iffD2]) (simp add: sample_eval acyclic_def)

lemmas delete_eval = Delete_def tryDelete_def doTryDelete_Suc eval_nat_numeral finishDelete_def ownedBy_def gcAdd_def
  beforeDelete_def afterDelete_def

text \<open>A cache in which a client made an object its own owner: Create, then Update with the owner reference.\<close>

definition selfObject :: "string object" where
  "selfObject = (stampedObject ''Secret'' ''self'' [] [])\<lparr>oOwnerReferences := Some [sampleOwner ''Secret'' ''self'']\<rparr>"

definition selfCache :: "string cache" where
  "selfCache = fst (snd (Update 1 (afterCreates 1 [sampleObject ''Secret'' ''self'' [] []] startedCache) ''rg'' (Some selfObject)))"

lemma selfCache_reachable: "reachableCache sampleScheme sampleClock selfCache"
proof -
  let ?c = "afterCreates 1 [sampleObject ''Secret'' ''self'' [] []] startedCache"
  obtain res c' obj' calls where up: "Update 1 ?c ''rg'' (Some selfObject) = (res, c', obj', calls)" by (metis prod_cases4)
  have "reachableCache sampleScheme sampleClock ?c"
    by (intro afterCreates_reachable startedCache_reachable sampleClock_1)
  then have "reachableCache sampleScheme sampleClock c'"
    using up cacheStep.update reachableCache.step sampleClock_1 by blast
  then show ?thesis using up by (simp add: selfCache_def)
qed

lemma selfCache_eval:
  "\<exists>t. resourceGroupTracker_of selfCache ''rg'' = Some t \<and> cScheme selfCache = sampleScheme
     \<and> objectAt t (sampleRef ''Secret'' ''self'') \<noteq> None
     \<and> ownedBy t (sampleRef ''Secret'' ''self'') = [sampleRef ''Secret'' ''self'']"
  by (simp add: selfCache_def afterCreates_def startedCache_eval sample_eval store_eval emptyTracker_def stampedObject_def
      selfObject_def Itoa_1 DeepEqual_def ownerRefEq_def ownedBy_def)

end
