(* ===== verification/Cache_Properties.thy ===== *)
theory Cache_Properties
  imports Cache_Samples
begin

text \<open>
  The properties of the in-memory cache: well-formedness of every reachable cache, what Get, List, Create, Update,
  Patch and Delete promise on each branch, the isolation of resource groups, and what the garbage collector and
  the syncer do with their work items.
\<close>

section \<open>Reachable caches\<close>

text \<open>
  C4. In every cache reached from \<^verbatim>\<open>NewCache\<close> by any sequence of client operations, garbage collector and
  syncer steps, every tracked object is stored under its own kind, namespace and name, has a resource
  version of the form \<^verbatim>\<open>v<n>\<close>, a creation time and a last sync annotation that the clock has shown, and owner
  references that parse; and no map of the tracker has a key twice.
\<close>

theorem reachable_objects_ok:
  assumes "reachableCache sch clock c" "resourceGroupTracker_of c rg = Some t"
  shows "trackerDistinct t \<and> (\<forall>r o1. objectAt t r = Some o1 \<longrightarrow> objectOk sch clock r o1)"
  using distinctKeys.reachable [OF assms] okObject.obj.reachable [OF assms]
  by (simp add: okObject.holds_def)

theorem reachable_objects_ok_witness:
  "\<exists>t. resourceGroupTracker_of ownerCache ''rg'' = Some t
     \<and> (\<exists>o1. objectAt t (sampleRef ''Secret'' ''child'') = Some o1
          \<and> objectOk sampleScheme sampleClock (sampleRef ''Secret'' ''child'') o1)"
proof -
  obtain t where t: "resourceGroupTracker_of ownerCache ''rg'' = Some t"
    and o1: "objectAt t (sampleRef ''Secret'' ''child'') \<noteq> None"
    by (simp add: ownerCache_eval resourceGroupTracker_of_def getObject_def sampleRef_def coreGVK_def)
  show ?thesis
    using reachable_objects_ok [OF ownerCache_reachable t] t o1 by blast
qed

text \<open>
  C26. Along every step of the cache, an object that exists before and after keeps its creation time, and
  keeps its deletion time once it is set: no client can undelete an object or move its timestamps.
\<close>

theorem timestamps_stable:
  assumes "cacheStep clock c c'" "resourceGroupTracker_of c rg = Some t" "resourceGroupTracker_of c' rg = Some t'"
    and "objectAt t r = Some a" "objectAt t' r = Some b"
  shows "oCreationTimestamp b = oCreationTimestamp a
     \<and> (\<not> IsZero (oDeletionTimestamp a) \<longrightarrow> oDeletionTimestamp b = oDeletionTimestamp a)"
  using evolution.cacheStep_evolves [OF assms] by (simp add: evolves_def)

text \<open>A ConfigMap that was created at time 1 is updated with another body and another creation time.\<close>

theorem timestamps_stable_witness:
  "\<exists>c' o1 calls t b. Update 1 ownerCache ''rg''
       (Some ((stampedObject ''ConfigMap'' ''parent'' [] [])\<lparr>oBody := ''new'', oCreationTimestamp := 5\<rparr>)) = (Inr (), c', o1, calls)
     \<and> resourceGroupTracker_of c' ''rg'' = Some t \<and> objectAt t (sampleRef ''ConfigMap'' ''parent'') = Some b
     \<and> oBody b = ''new'' \<and> oCreationTimestamp b = 1"
proof -
  let ?o = "(stampedObject ''ConfigMap'' ''parent'' [] [])\<lparr>oBody := ''new'', oCreationTimestamp := 5\<rparr>" and ?r = "sampleRef ''ConfigMap'' ''parent''"
  have "\<exists>c' o1 calls t b. Update 1 ownerCache ''rg'' (Some ?o) = (Inr (), c', o1, calls)
      \<and> resourceGroupTracker_of c' ''rg'' = Some t \<and> objectAt t ?r = Some b \<and> oBody b = ''new''"
    by (simp add: ownerCache_eval startedCache_eval sample_eval store_eval stampedObject_def)
  then obtain c' o1 calls t b where u: "Update 1 ownerCache ''rg'' (Some ?o) = (Inr (), c', o1, calls)"
    and b: "resourceGroupTracker_of c' ''rg'' = Some t" "objectAt t ?r = Some b" "oBody b = ''new''" by blast
  have step: "cacheStep sampleClock ownerCache c'" using u by (rule cacheStep.update [rotated]) simp
  have a: "objectAt ownerTracker ?r = Some (stampedObject ''ConfigMap'' ''parent'' [] [])"
    by (simp add: ownerTracker_def getObject_def sampleRef_def)
  show ?thesis
    using timestamps_stable [OF step ownerCache_tracker b(1) a b(2)] u b by (auto simp: stampedObject_def)
qed

section \<open>Create, Update and Get\<close>

lemma Create_reads_back:
  assumes "Create now c rg (Some o0) = (Inr (), c', Some o1, calls)"
    and "oName o0 \<noteq> ''''" "GVKForObject (cScheme c) o0 = Inr gvk" "GVKForObject (cScheme c) target = Inr gvk"
    and "Convert (cScheme c) o1 (target\<lparr>oGVK := gvk\<rparr>) = Inr u"
  shows "Get c' rg (ObjectKeyFromObject o0) (Some target) = (Inr (), Some (u\<lparr>oGVK := gvk\<rparr>))
     \<and> o1 = o0\<lparr>oGVK := gvk, oCreationTimestamp := now,
               oAnnotations := Some (mput (GetAnnotations o0) lastSyncTimeAnnotation (Format_RFC3339 now)),
               oResourceVersion := ''v1''\<rparr>
     \<and> calls = informCreate c rg o1"
  using assms(1) [unfolded Create_def]
proof (cases rule: store_cases)
  case (locked p0 gvk' t t' o2)
  have eq: "gvk' = gvk" "p0 = o0" "o2 = o1" using locked(2,3,8) assms(3) by auto
  from locked(6) show ?thesis
  proof (cases rule: storeLocked_elim)
    case created
    have o1: "o1 = o0\<lparr>oGVK := gvk, oCreationTimestamp := now,
        oAnnotations := Some (mput (GetAnnotations o0) lastSyncTimeAnnotation (Format_RFC3339 now)),
        oResourceVersion := ''v1''\<rparr>"
      using created(4) by (auto simp: eq beforeCreate_def Let_def appendAnnotations_def object_getters Itoa_1)
    have "getObject t' gvk (ObjectKeyFromObject o0) = Some o1"
      using storeLocked_stored [OF locked(6)] by (simp add: eq ObjectKeyFromObject_def)
    then obtain m where "mget (objects t') gvk = Some m" "mget m (ObjectKeyFromObject o0) = Some o1"
      by (auto simp: getObject_def split: option.splits)
    moreover have "oGVK o1 = gvk" by (simp add: o1)
    ultimately show ?thesis
      using locked(1,7) assms(2,4,5) o1 created(6)
      by (simp add: Get_def gvkGetAndSet_def resourceGroupTracker_of_def eq afterCreate_def)
  qed simp_all
qed simp

text \<open>Get in terms of the object at a reference: it is NotFound whether the kind or only the key is unknown.\<close>

lemma Get_lookup:
  assumes "rg \<noteq> ''''" "nnName key \<noteq> ''''" "GVKForObject (cScheme c) o0 = Inr gvk" "resourceGroupTracker_of c rg = Some t"
  shows "Get c rg key (Some o0) =
    (case getObject t gvk key of
       None \<Rightarrow> (Inl (NotFound (unsafeGuessGroupVersionResource gvk) key), Some (o0\<lparr>oGVK := gvk\<rparr>))
     | Some x \<Rightarrow> (case Convert (cScheme c) x (o0\<lparr>oGVK := gvk\<rparr>) of
                    Inl e \<Rightarrow> (Inl (InternalError e), Some (o0\<lparr>oGVK := gvk\<rparr>))
                  | Inr y \<Rightarrow> (Inr (), Some (y\<lparr>oGVK := oGVK x\<rparr>))))"
  using assms by (auto simp: Get_def gvkGetAndSet_def getObject_def split: option.splits sum.splits)

text \<open>A store changes what Get answers for its own reference only.\<close>

lemma store_keeps_Get:
  assumes "store now c rg (Some o0) re = (Inr (), c', o1, calls)" "GVKForObject (cScheme c) o0 = Inr gvk"
    and "rg \<noteq> ''''" "nnName key \<noteq> ''''" "GVKForObject (cScheme c) obj = Inr gvk'" "gvk' \<noteq> gvk \<or> key \<noteq> ObjectKeyFromObject o0"
  shows "Get c' rg key (Some obj) = Get c rg key (Some obj)"
  using assms(1)
proof (cases rule: store_cases)
  case (locked p0 g t t' o2)
  have eq: "g = gvk" "p0 = o0" using locked(2,3) assms(2) by auto
  have t': "resourceGroupTracker_of c' rg = Some t'" "cScheme c' = cScheme c"
    using locked(7) by (simp_all add: resourceGroupTracker_of_def)
  have "getObject t' gvk' key = getObject t gvk' key"
    using storeLocked_frame [OF locked(6)] assms(6) by (simp add: eq ObjectKeyFromObject_def)
  then show ?thesis
    using Get_lookup [OF assms(3-5) locked(5)] Get_lookup [OF assms(3,4) _ t'(1), of obj gvk', unfolded t'(2), OF assms(5)] by simp
qed simp

text \<open>
  C13. After a Create that succeeds, a Get of the same kind with the key of the object gives back the object that was stored, kind included: version
  \<^verbatim>\<open>v1\<close>, created and last synced now, all the other fields as the client gave them. For any other kind or key Get answers in
  the group what it answered before. The scheme is assumed to recognise the kind, and to convert the stored object into the
  target as it converts a type to itself, which copies the content and clears the kind.
\<close>

theorem Create_then_Get:
  assumes "Create now c rg (Some o0) = (Inr (), c', Some o1, calls)"
    and "oName o0 \<noteq> ''''" "GVKForObject (cScheme c) o0 = Inr gvk" "GVKForObject (cScheme c) target = Inr gvk"
    and "Convert (cScheme c) o1 (target\<lparr>oGVK := gvk\<rparr>) = Inr (o1\<lparr>oGVK := noGVK\<rparr>)"
  shows "Get c' rg (ObjectKeyFromObject o0) (Some target) = (Inr (), Some o1)
     \<and> o1 = o0\<lparr>oGVK := gvk, oCreationTimestamp := now,
               oAnnotations := Some (mput (GetAnnotations o0) lastSyncTimeAnnotation (Format_RFC3339 now)),
               oResourceVersion := ''v1''\<rparr>
     \<and> calls = informCreate c rg o1
     \<and> (\<forall>key obj gvk'. GVKForObject (cScheme c) obj = Inr gvk' \<and> nnName key \<noteq> '''' \<and> (gvk' \<noteq> gvk \<or> key \<noteq> ObjectKeyFromObject o0) \<longrightarrow>
          Get c' rg key (Some obj) = Get c rg key (Some obj))"
proof -
  note reads = Create_reads_back [OF assms]
  then have "oGVK o1 = gvk" by simp
  then have same: "o1\<lparr>oGVK := gvk\<rparr> = o1" by (cases o1) simp
  have rg: "rg \<noteq> ''''" using assms(1) by (auto simp: Create_def store_def)
  from store_keeps_Get [OF assms(1) [unfolded Create_def] assms(3) rg] reads same show ?thesis by simp
qed

theorem Create_then_Get_witness:
  "\<exists>c' calls. Create 1 startedCache ''rg'' (Some (sampleObject ''Secret'' ''a'' [] [])) =
       (Inr (), c', Some (stampedObject ''Secret'' ''a'' [] []), calls)
     \<and> Get c' ''rg'' (ObjectKeyFromObject (sampleObject ''Secret'' ''a'' [] [])) (Some (sampleObject ''Secret'' ''x'' [] [])) =
         (Inr (), Some (stampedObject ''Secret'' ''a'' [] []))"
proof -
  have "\<exists>c' calls. Create 1 startedCache ''rg'' (Some (sampleObject ''Secret'' ''a'' [] [])) =
       (Inr (), c', Some (stampedObject ''Secret'' ''a'' [] []), calls)"
    by (simp add: startedCache_eval sample_eval store_eval emptyTracker_def stampedObject_def Itoa_1)
  then obtain c' calls where cr: "Create 1 startedCache ''rg'' (Some (sampleObject ''Secret'' ''a'' [] [])) =
       (Inr (), c', Some (stampedObject ''Secret'' ''a'' [] []), calls)" by blast
  show ?thesis
    using Create_then_Get [OF cr, of "coreGVK ''Secret''" "sampleObject ''Secret'' ''x'' [] []"] cr
    by (simp add: startedCache_eval sample_eval stampedObject_def)
qed

definition sameObjects :: "'b cache \<Rightarrow> 'b cache \<Rightarrow> bool" where
  "sameObjects c c' \<longleftrightarrow> (\<forall>rg. case (resourceGroupTracker_of c rg, resourceGroupTracker_of c' rg) of
       (None, None) \<Rightarrow> True
     | (Some t, Some t') \<Rightarrow> (\<forall>r. objectAt t' r = objectAt t r) \<and> ownedObjects t' = ownedObjects t
     | _ \<Rightarrow> False)"

lemma sameObjects_refl [simp]: "sameObjects c c"
  by (simp add: sameObjects_def split: option.splits)

lemma sameObjects_put:
  "resourceGroupTracker_of c rg = Some t \<Longrightarrow> (\<And>g k. getObject t' g k = getObject t g k) \<Longrightarrow>
     ownedObjects t' = ownedObjects t \<Longrightarrow> sameObjects c (c\<lparr>resourceGroups := mput (resourceGroups c) rg t'\<rparr>)"
  by (auto simp: sameObjects_def resourceGroupTracker_of_def split: option.splits)

text \<open>
  A Create of an object whose kind and key are taken is refused with AlreadyExists: no object and no ownership
  entry changes in any resource group, and no handler is informed.
\<close>

lemma Create_existing:
  assumes "rg \<noteq> ''''" "resourceGroupTracker_of c rg = Some t" "GVKForObject (cScheme c) o0 = Inr gvk"
    and "getObject t gvk (ObjectKeyFromObject o0) = Some tracked"
    and "checkOwners (cScheme c) t (oNamespace o0) (GetOwnerReferences o0) = None"
  shows "\<exists>c' o1. Create now c rg (Some o0) =
       (Inl (AlreadyExists \<lparr>grGroup = gvkGroup gvk, grResource = gvkKind gvk\<rparr> (ObjectKeyFromObject o0)), c', o1, [])
     \<and> sameObjects c c'"
proof -
  have "Create now c rg (Some o0) =
      (Inl (AlreadyExists \<lparr>grGroup = gvkGroup gvk, grResource = gvkKind gvk\<rparr> (ObjectKeyFromObject o0)),
       c\<lparr>resourceGroups := mput (resourceGroups c) rg (ensureGVK t gvk)\<rparr>, Some (o0\<lparr>oGVK := gvk\<rparr>), [])"
    using assms by (simp add: Create_def store_def gvkGetAndSet_def storeLocked_def Let_def
        unsafeGuessGroupVersionResource_def)
  moreover have "sameObjects c (c\<lparr>resourceGroups := mput (resourceGroups c) rg (ensureGVK t gvk)\<rparr>)"
    using assms(2) by (rule sameObjects_put) simp_all
  ultimately show ?thesis by blast
qed

text \<open>
  Optimistic concurrency: an Update that carries another resource version than the tracked object is
  refused with Conflict, and changes nothing.
\<close>

lemma Update_stale:
  assumes "rg \<noteq> ''''" "oName o0 \<noteq> ''''" "resourceGroupTracker_of c rg = Some t" "GVKForObject (cScheme c) o0 = Inr gvk"
    and "getObject t gvk (ObjectKeyFromObject o0) = Some tracked"
    and "oResourceVersion o0 \<noteq> oResourceVersion tracked"
    and "checkOwners (cScheme c) t (oNamespace o0) (GetOwnerReferences o0) = None"
  shows "\<exists>c' o1. Update now c rg (Some o0) =
       (Inl (Conflict \<lparr>grGroup = gvkGroup gvk, grResource = gvkKind gvk\<rparr> (ObjectKeyFromObject o0)), c', o1, [])
     \<and> sameObjects c c'"
proof -
  have "Update now c rg (Some o0) =
      (Inl (Conflict \<lparr>grGroup = gvkGroup gvk, grResource = gvkKind gvk\<rparr> (ObjectKeyFromObject o0)),
       c\<lparr>resourceGroups := mput (resourceGroups c) rg (ensureGVK t gvk)\<rparr>, Some (o0\<lparr>oGVK := gvk\<rparr>), [])"
    using assms by (auto simp: Update_def store_def gvkGetAndSet_def storeLocked_def Let_def
        unsafeGuessGroupVersionResource_def)
  moreover have "sameObjects c (c\<lparr>resourceGroups := mput (resourceGroups c) rg (ensureGVK t gvk)\<rparr>)"
    using assms(3) by (rule sameObjects_put) simp_all
  ultimately show ?thesis by blast
qed

lemma checkOwners_error: "checkOwners sch t ns os = Some e \<Longrightarrow> e \<noteq> Panic s"
  by (induction os) (auto simp: newOwnReferenceFromOwnerReference_def split: sum.splits option.splits)

lemma versioned_next_differs: "versioned o1 \<Longrightarrow> nextResourceVersion (oResourceVersion o1) \<noteq> oResourceVersion o1"
proof -
  assume "versioned o1"
  then obtain i where i: "oResourceVersion o1 = ''v'' @ Itoa i" "- (2 ^ 63) \<le> i" "i \<le> max_int64"
    unfolding versioned_def by blast
  have "int64 (i + 1) \<noteq> i"
    using i(2,3) int64_id [of "i + 1"] by (cases "i = max_int64") (auto simp: max_int64_def int64_def)
  then show ?thesis using i by (simp add: nextResourceVersion_def Atoi_Itoa)
qed

text \<open>
  The client brings back what is stored: everything is equal but the fields that the cache manages, which are the times of creation and of the last
  sync, the version, and a deletion time once it is set.
\<close>

definition unchanged :: "'b object \<Rightarrow> 'b object \<Rightarrow> bool" where
  "unchanged obj old \<longleftrightarrow> oType obj = oType old \<and> nil_map_eq (oLabels obj) (oLabels old)
     \<and> (\<forall>k. k \<noteq> lastSyncTimeAnnotation \<longrightarrow> mget (GetAnnotations obj) k = mget (GetAnnotations old) k)
     \<and> (IsZero (oDeletionTimestamp old) \<longrightarrow> oDeletionTimestamp obj = oDeletionTimestamp old)
     \<and> oFinalizers obj = oFinalizers old \<and> oOwnerReferences obj = oOwnerReferences old \<and> oBody obj = oBody old"

lemma unchanged_kind [simp]: "unchanged (obj\<lparr>oGVK := gvk\<rparr>) old = unchanged obj old"
  by (simp add: unchanged_def GetAnnotations_def)

lemma beforeUpdate_branch:
  assumes "beforeUpdate now rg old new = Inr o2" "keyed r old" "keyed r new" "stamped clock old"
  shows "if unchanged new old then DeepEqual o2 old \<and> oResourceVersion o2 = oResourceVersion old
    else oResourceVersion o2 = nextResourceVersion (oResourceVersion old)"
proof -
  let ?n = "new\<lparr>oCreationTimestamp := oCreationTimestamp old, oResourceVersion := oResourceVersion old,
      oAnnotations := Some (mput (GetAnnotations new) lastSyncTimeAnnotation (mget_or '''' (GetAnnotations old) lastSyncTimeAnnotation)),
      oDeletionTimestamp := (if IsZero (oDeletionTimestamp old) then oDeletionTimestamp new else oDeletionTimestamp old)\<rparr>"
  obtain a s where a: "oAnnotations old = Some a" "mget a lastSyncTimeAnnotation = Some s"
    using assms(4) by (auto simp: stamped_def GetAnnotations_def nilList_def split: option.splits)
  have "nil_map_eq (oAnnotations ?n) (oAnnotations old)
      \<longleftrightarrow> (\<forall>k. k \<noteq> lastSyncTimeAnnotation \<longrightarrow> mget (GetAnnotations new) k = mget (GetAnnotations old) k)"
    using a by (auto simp: nil_map_eq_def map_eq_iff fun_eq_iff GetAnnotations_def mget_or_def)
  moreover have "ObjectKeyFromObject new = ObjectKeyFromObject old" "oGVK new = oGVK old"
    using assms(2,3) by (simp_all add: keyed_def)
  ultimately have "DeepEqual ?n old \<longleftrightarrow> unchanged new old"
    by (auto simp: DeepEqual_def unchanged_def ObjectKeyFromObject_def)
  moreover have "beforeUpdate now rg old new = (if DeepEqual ?n old then Inr ?n
      else Inr (?n\<lparr>oAnnotations := Some (appendAnnotations ?n [lastSyncTimeAnnotation, Format_RFC3339 now]),
                  oResourceVersion := nextResourceVersion (oResourceVersion old)\<rparr>))"
    by (cases new) (simp add: beforeUpdate_def Let_def appendAnnotations_def GetAnnotations_def)
  ultimately show ?thesis using assms(1) by (auto split: if_splits)
qed

lemma Update_changes:
  assumes "reachableCache sch clock c" "GVKForObject sch o0 = Inr gvk" "Update now c rg (Some o0) = (Inr (), c', Some o1, calls)"
  shows "\<exists>t t' old. resourceGroupTracker_of c rg = Some t \<and> resourceGroupTracker_of c' rg = Some t'
     \<and> getObject t gvk (ObjectKeyFromObject o0) = Some old \<and> oResourceVersion old = oResourceVersion o0
     \<and> getObject t' gvk (ObjectKeyFromObject o0) = Some o1 \<and> oGVK o1 = gvk \<and> oNamespace o1 = oNamespace o0 \<and> oName o1 = oName o0
     \<and> oBody o1 = oBody o0 \<and> oLabels o1 = oLabels o0 \<and> oFinalizers o1 = oFinalizers o0
     \<and> oOwnerReferences o1 = oOwnerReferences o0
     \<and> (if unchanged o0 old then DeepEqual o1 old \<and> oResourceVersion o1 = oResourceVersion old \<and> calls = []
        else oResourceVersion o1 = nextResourceVersion (oResourceVersion old)
          \<and> calls = (if IsZero (oDeletionTimestamp old) \<and> \<not> IsZero (oDeletionTimestamp o1)
                      then informDelete c rg o1 else informUpdate c rg old o1))"
  using assms(3) [unfolded Update_def]
proof (cases rule: store_cases)
  case (locked p0 gvk' t t' o2)
  have sch: "cScheme c = sch" using assms(1) distinctKeys.reachable_scheme by blast
  have eq: "p0 = o0" "o2 = o1" "gvk' = gvk" using locked(2,3,8) assms(2) sch by auto
  from locked(6) show ?thesis
  proof (cases rule: storeLocked_elim)
    case (updated old)
    note f = beforeUpdate_fields [OF updated(5)]
    have at: "getObject t gvk (ObjectKeyFromObject o0) = Some old" using updated(2) by (simp add: eq)
    let ?r = "\<lparr>refGVK = gvk, refKey = ObjectKeyFromObject o0\<rparr>"
    have "objectOk sch clock ?r old"
      using okObject.obj.reachable [OF assms(1) locked(5)] at
      unfolding okObject.holds_def by (metis ownReference.select_convs)
    then have old: "keyed ?r old" "versioned old" "stamped clock old" by (simp_all add: objectOk_def)
    have "keyed ?r (o0\<lparr>oGVK := gvk\<rparr>)" by (simp add: keyed_def ObjectKeyFromObject_def)
    then have branch: "if unchanged o0 old then DeepEqual o1 old \<and> oResourceVersion o1 = oResourceVersion old
        else oResourceVersion o1 = nextResourceVersion (oResourceVersion old)"
      using beforeUpdate_branch [OF updated(5) [unfolded eq] old(1) _ old(3)] by simp
    have "\<not> DeepEqual o1 old" if "oResourceVersion o1 = nextResourceVersion (oResourceVersion old)"
      using versioned_next_differs [OF old(2)] that by (simp add: DeepEqual_def)
    moreover have "calls = afterUpdate c rg old o1" using updated(7) eq by simp
    moreover have "DeepEqual o1 old \<Longrightarrow> oDeletionTimestamp o1 = oDeletionTimestamp old" by (simp add: DeepEqual_def)
    ultimately have ev: "if unchanged o0 old then DeepEqual o1 old \<and> oResourceVersion o1 = oResourceVersion old \<and> calls = []
        else oResourceVersion o1 = nextResourceVersion (oResourceVersion old)
          \<and> calls = (if IsZero (oDeletionTimestamp old) \<and> \<not> IsZero (oDeletionTimestamp o1)
                      then informDelete c rg o1 else informUpdate c rg old o1)"
      using branch by (auto simp: afterUpdate_def)
    have "resourceGroupTracker_of c' rg = Some t'" by (simp add: locked(7) resourceGroupTracker_of_def)
    moreover have "getObject t' gvk (ObjectKeyFromObject o0) = Some o1"
      using storeLocked_stored [OF locked(6)] by (simp add: eq)
    moreover have "oResourceVersion old = oResourceVersion o0" using updated(3) by (simp add: eq)
    ultimately show ?thesis
      using ev f(1-3,5-8) locked(5) at
      by (intro exI [of _ t] exI [of _ t'] exI [of _ old] conjI) (simp_all add: eq sch)
  qed simp_all
qed simp

text \<open>
  C12. An Update that succeeds on a reachable cache replaced the object that carried the same
  resource version, with the client's body, labels, finalizers and owners. If the client changed nothing, then the version stays and nobody is
  informed; otherwise the version is the next one, and the handlers are informed of a deletion when the deletion
  time was set by this update, of an update in all other cases.
\<close>

theorem Update_success:
  assumes "reachableCache sch clock c" "Update now c rg (Some o0) = (Inr (), c', Some o1, calls)"
  shows "\<exists>gvk t t' old. GVKForObject sch o0 = Inr gvk
     \<and> resourceGroupTracker_of c rg = Some t \<and> resourceGroupTracker_of c' rg = Some t'
     \<and> getObject t gvk (ObjectKeyFromObject o0) = Some old \<and> oResourceVersion old = oResourceVersion o0
     \<and> getObject t' gvk (ObjectKeyFromObject o0) = Some o1
     \<and> oBody o1 = oBody o0 \<and> oLabels o1 = oLabels o0 \<and> oFinalizers o1 = oFinalizers o0
     \<and> oOwnerReferences o1 = oOwnerReferences o0
     \<and> (if unchanged o0 old then DeepEqual o1 old \<and> oResourceVersion o1 = oResourceVersion old \<and> calls = []
        else oResourceVersion o1 = nextResourceVersion (oResourceVersion old)
          \<and> calls = (if IsZero (oDeletionTimestamp old) \<and> \<not> IsZero (oDeletionTimestamp o1)
                      then informDelete c rg o1 else informUpdate c rg old o1))"
proof -
  have sch: "cScheme c = sch" using assms(1) distinctKeys.reachable_scheme by blast
  obtain gvk where "GVKForObject sch o0 = Inr gvk"
    using assms(2) [unfolded Update_def] sch by (cases rule: store_cases) auto
  then show ?thesis using Update_changes [OF assms(1) _ assms(2)] by blast
qed

theorem Update_success_witness:
  "\<exists>c' o1 calls. Update 2 ownerCache ''rg'' (Some ((stampedObject ''ConfigMap'' ''parent'' [] [])\<lparr>oBody := ''new''\<rparr>)) =
      (Inr (), c', Some o1, calls)
    \<and> (\<exists>t'. resourceGroupTracker_of c' ''rg'' = Some t'
         \<and> objectAt t' (sampleRef ''ConfigMap'' ''parent'') = Some o1 \<and> oBody o1 = ''new'')
    \<and> (\<exists>c2 o2. Update 2 ownerCache ''rg'' (Some (stampedObject ''ConfigMap'' ''parent'' [] [])) = (Inr (), c2, Some o2, [])
         \<and> oResourceVersion o2 = ''v1'')"
proof -
  let ?o = "(stampedObject ''ConfigMap'' ''parent'' [] [])\<lparr>oBody := ''new''\<rparr>"
  have "\<exists>c' o1 calls. Update 2 ownerCache ''rg'' (Some ?o) = (Inr (), c', Some o1, calls)"
    by (simp add: ownerCache_eval startedCache_eval sample_eval store_eval stampedObject_def)
  then obtain c' o1 calls where up: "Update 2 ownerCache ''rg'' (Some ?o) = (Inr (), c', Some o1, calls)" by blast
  have "GVKForObject sampleScheme ?o = Inr (refGVK (sampleRef ''ConfigMap'' ''parent''))"
    "ObjectKeyFromObject ?o = refKey (sampleRef ''ConfigMap'' ''parent'')" "oBody ?o = ''new''"
    by (simp_all add: sample_eval stampedObject_def ObjectKeyFromObject_def)
  with Update_success [OF ownerCache_reachable up]
  have changed: "\<exists>t'. resourceGroupTracker_of c' ''rg'' = Some t' \<and> objectAt t' (sampleRef ''ConfigMap'' ''parent'') = Some o1 \<and> oBody o1 = ''new''"
    by auto
  let ?s = "stampedObject ''ConfigMap'' ''parent'' [] []"
  have "\<exists>c2 o2 calls. Update 2 ownerCache ''rg'' (Some ?s) = (Inr (), c2, Some o2, calls)"
    by (simp add: ownerCache_eval startedCache_eval sample_eval store_eval stampedObject_def)
  then obtain c2 o2 calls2 where same: "Update 2 ownerCache ''rg'' (Some ?s) = (Inr (), c2, Some o2, calls2)" by blast
  have at: "getObject ownerTracker (refGVK (sampleRef ''ConfigMap'' ''parent'')) (refKey (sampleRef ''ConfigMap'' ''parent'')) = Some ?s"
    "GVKForObject sampleScheme ?s = Inr (refGVK (sampleRef ''ConfigMap'' ''parent''))"
    "ObjectKeyFromObject ?s = refKey (sampleRef ''ConfigMap'' ''parent'')" "oResourceVersion ?s = ''v1''"
    by (simp_all add: ownerTracker_def sample_eval stampedObject_def ObjectKeyFromObject_def getObject_def)
  have "unchanged ?s ?s" by (simp add: unchanged_def)
  with Update_success [OF ownerCache_reachable same] at have "calls2 = [] \<and> oResourceVersion o2 = ''v1''"
    by (auto simp: ownerCache_tracker)
  with up changed same show ?thesis by blast
qed

text \<open>
  C27. Resource groups are isolated: a Create, Update, Patch or Delete in one group leaves every other
  group exactly as it was.
\<close>

theorem groups_isolated:
  assumes "(\<exists>re o1. store now c rg obj re = (res, c', o1, calls)) \<or> (\<exists>o0 p. Patch now c rg o0 p = (res, c', calls))
      \<or> (\<exists>fuel o1. Delete fuel now c rg obj = Some (res, c', o1, calls))"
    and "rg' \<noteq> rg"
  shows "resourceGroupTracker_of c' rg' = resourceGroupTracker_of c rg'"
proof -
  have st: "resourceGroupTracker_of c' rg' = resourceGroupTracker_of c rg'"
    if "store now c rg obj re = (res, c', o1, calls)" for obj re o1
    using that by (cases rule: store_cases) (use assms(2) in \<open>auto simp: resourceGroupTracker_of_def\<close>)
  have del: "resourceGroupTracker_of c' rg' = resourceGroupTracker_of c rg'"
    if "tryDelete fuel now c rg r = Some (x, c', y)" for fuel r x y
    using that by (cases rule: tryDelete_cases) (use assms(2) in \<open>auto simp: resourceGroupTracker_of_def\<close>)
  show ?thesis using assms(1) st del by (elim disjE exE Patch_cases Delete_cases) auto
qed

theorem groups_isolated_witness:
  "\<exists>c' o1 calls. Create 2 (AddResourceGroup ownerCache ''other'') ''other'' (Some (sampleObject ''Secret'' ''a'' [] [])) =
       (Inr (), c', o1, calls)
     \<and> resourceGroupTracker_of c' ''rg'' = resourceGroupTracker_of (AddResourceGroup ownerCache ''other'') ''rg''"
proof -
  let ?c = "AddResourceGroup ownerCache ''other''" and ?o = "Some (sampleObject ''Secret'' ''a'' [] [])"
  have "fst (store 2 ?c ''other'' ?o False) = Inr ()"
    by (simp add: ownerCache_eval startedCache_eval AddResourceGroup_def sample_eval store_eval emptyTracker_def)
  then obtain c' o1 calls where cr: "store 2 ?c ''other'' ?o False = (Inr (), c', o1, calls)"
    by (metis prod.exhaust_sel)
  then have "\<exists>re o1. store 2 ?c ''other'' ?o re = (Inr (), c', o1, calls)" by blast
  from groups_isolated [OF disjI1 [OF this], of "''rg''"] cr show ?thesis by (simp add: Create_def)
qed

lemma store_error:
  assumes "reachableCache sch clock c" "store now c rg obj re = (Inl e, c', o1, calls)"
  shows "sameObjects c c' \<and> calls = [] \<and> (\<forall>s. e \<noteq> Panic s)"
proof -
  have sch: "cScheme c = sch" using assms(1) distinctKeys.reachable_scheme by blast
  from assms(2) show ?thesis
  proof (cases rule: store_cases)
    case (rejected e')
    then show ?thesis by simp
  next
    case (locked o0 gvk t t' o2)
    let ?r = "\<lparr>refGVK = gvk, refKey = ObjectKeyFromObject o0\<rparr>"
    from locked(6) show ?thesis
    proof (cases rule: storeLocked_elim)
      case (failed e')
      then show ?thesis
        using sameObjects_put [OF locked(5) failed(2,3)] locked(7)
        checkOwners_error [of "cScheme c" t "oNamespace o0" "GetOwnerReferences o0"] by auto
    next
      case (updated tracked)
      have "objectOk sch clock ?r tracked"
        using okObject.obj.reachable [OF assms(1) locked(5)] updated(2)
        unfolding okObject.holds_def by (metis ownReference.select_convs withGVK_simps(1))
      then have "ownersParse (cScheme c) tracked \<and> oNamespace tracked = oNamespace o2"
        using beforeUpdate_fields(2) [OF updated(5)] sch by (simp add: objectOk_def keyed_def ObjectKeyFromObject_def)
      moreover have "ownersParse (cScheme c) o2"
        using ownersParse_if_checked [OF updated(4)] ownersParse_cong beforeUpdate_fields [OF updated(5)] by blast
      ultimately show ?thesis using updateTrackerOwnerReferences_Inr updated(6) by (metis Inl_Inr_False option.inject prod.inject)
    next
      case created
      have "ownersParse (cScheme c) o2"
        using ownersParse_if_checked [OF created(3)] ownersParse_cong beforeCreate_fields [OF created(4)] by blast
      then show ?thesis using updateTrackerOwnerReferences_Inr created(5) by (metis Inl_Inr_False option.distinct(1) prod.inject)
    qed
  qed
qed

text \<open>
  C29. Create and Update are atomic: on a reachable cache, one that returns an error has changed no object and no
  ownership entry, has informed nobody, and the error is never the nil pointer dereference that
  \<^verbatim>\<open>updateTrackerOwnerReferences\<close> risks by ignoring parse errors.
\<close>

theorem store_error_atomic:
  assumes "reachableCache sch clock c" "store now c rg obj re = (Inl e, c', o1, calls)"
  shows "sameObjects c c' \<and> calls = [] \<and> (\<forall>s. e \<noteq> Panic s)"
  using assms by (rule store_error)

theorem store_error_atomic_witness:
  "\<exists>e c' o1. store 2 ownerCache ''rg'' (Some (sampleObject ''ConfigMap'' ''parent'' [] [])) False = (Inl e, c', o1, [])
     \<and> sameObjects ownerCache c'"
proof -
  let ?o = "Some (sampleObject ''ConfigMap'' ''parent'' [] [])"
  have "\<exists>e. fst (store 2 ownerCache ''rg'' ?o False) = Inl e"
    by (simp add: ownerCache_eval startedCache_eval sample_eval store_eval)
  then obtain e c' o1 calls where st: "store 2 ownerCache ''rg'' ?o False = (Inl e, c', o1, calls)"
    by (metis prod.exhaust_sel)
  with store_error_atomic [OF ownerCache_reachable st] show ?thesis by blast
qed

text \<open>
  C6. The ownership index is exact: if before a Create or Update that succeeds the index holds precisely
  the pairs of an owner and an object that names it, and no tracked object names an owner twice, then after it the
  index is exact again.
\<close>

theorem store_index_exact:
  assumes "reachableCache sch clock c" "store now c rg obj re = (Inr (), c', o1, calls)"
    and "resourceGroupTracker_of c rg = Some t" "resourceGroupTracker_of c' rg = Some t'"
    and "indexExact sch t" "\<forall>r o1. objectAt t r = Some o1 \<longrightarrow> ownersDistinct sch o1"
  shows "indexExact sch t'"
proof -
  have sch: "cScheme c = sch" using assms(1) distinctKeys.reachable_scheme by blast
  have ok: "ownersOk (cScheme c) t"
    unfolding ownersOk_def
  proof (intro allI impI conjI)
    fix r o2 assume o2: "objectAt t r = Some o2"
    then have "objectOk sch clock r o2"
      using okObject.obj.reachable [OF assms(1,3)] by (simp add: okObject.holds_def)
    then show "ownersParse (cScheme c) o2" "oNamespace o2 = nnNamespace (refKey r)"
      using ObjectKey_simps(1) [of o2] by (simp_all add: objectOk_def keyed_def sch)
    show "ownersDistinct (cScheme c) o2" using o2 assms(6) sch by blast
  qed
  from assms(2) show ?thesis
  proof (cases rule: store_cases)
    case (locked o0 gvk t1 t1' o2)
    have "t1 = t" "t1' = t'" using locked(5,7) assms(3,4) by (auto simp: resourceGroupTracker_of_def)
    with storeLocked_indexExact [OF locked(6)] ok assms(5) sch show ?thesis by simp
  qed simp
qed

theorem store_index_exact_witness:
  "\<exists>c' o1 calls t t'.
     store 1 parentCache ''rg'' (Some (sampleObject ''Secret'' ''child'' [] [sampleOwner ''ConfigMap'' ''parent''])) False =
       (Inr (), c', o1, calls)
     \<and> resourceGroupTracker_of c' ''rg'' = Some t' \<and> indexExact sampleScheme t'
     \<and> ownedBy t' (sampleRef ''ConfigMap'' ''parent'') = [sampleRef ''Secret'' ''child'']"
proof -
  let ?o = "Some (sampleObject ''Secret'' ''child'' [] [sampleOwner ''ConfigMap'' ''parent''])"
  have "\<exists>c' o1 calls t'. store 1 parentCache ''rg'' ?o False = (Inr (), c', o1, calls)
      \<and> resourceGroupTracker_of c' ''rg'' = Some t' \<and> ownedBy t' (sampleRef ''ConfigMap'' ''parent'') = [sampleRef ''Secret'' ''child'']"
    by (simp add: parentCache_eval startedCache_eval sample_eval store_eval stampedObject_def ownedBy_def)
  then obtain c' o1 calls t' where st: "store 1 parentCache ''rg'' ?o False = (Inr (), c', o1, calls)"
    and t': "resourceGroupTracker_of c' ''rg'' = Some t'"
      "ownedBy t' (sampleRef ''ConfigMap'' ''parent'') = [sampleRef ''Secret'' ''child'']" by blast
  define t where "t = \<lparr>objects = [(coreGVK ''ConfigMap'', [(refKey (sampleRef ''ConfigMap'' ''parent''),
      stampedObject ''ConfigMap'' ''parent'' [] [])])], ownedObjects = []\<rparr>"
  have t: "resourceGroupTracker_of parentCache ''rg'' = Some t" "ownedObjects t = []"
    by (simp_all add: parentCache_eval resourceGroupTracker_of_def t_def)
  have only: "o2 = stampedObject ''ConfigMap'' ''parent'' [] []" if "objectAt t r = Some o2" for r o2
    using that by (simp add: t_def getObject_def split: if_splits)
  have "GetOwnerReferences (stampedObject ''ConfigMap'' ''parent'' [] []) = []"
    by (simp add: stampedObject_def sampleObject_def GetOwnerReferences_def)
  then have "indexExact sampleScheme t" "\<forall>r o2. objectAt t r = Some o2 \<longrightarrow> ownersDistinct sampleScheme o2"
    using only t(2) by (auto simp: indexExact_def ownedBy_def mget_or_def ownersOf_def ownersDistinct_def)
  from store_index_exact [OF parentCache_reachable st t(1) t'(1) this] st t' show ?thesis by blast
qed

section \<open>List and Patch\<close>

lemma listItems_Typed: "listItems sch Typed blank opts os = Inr (filter (listMatches opts) os)"
  by (induction os) simp_all

lemma List_typed:
  assumes "reachableCache sch clock c" "rg \<noteq> ''''" "GVKForList sch l0 = Inr gvk" "lType l0 = Typed"
    and "resourceGroupTracker_of c rg = Some t"
  shows "\<exists>items. List c rg blank (Some l0) opts =
       (case SetList sch (l0\<lparr>lGVK := gvk\<rparr>) items of
          Inl e \<Rightarrow> (Inl (InternalError e), Some (l0\<lparr>lGVK := gvk\<rparr>)) | Inr l2 \<Rightarrow> (Inr (), Some l2))
     \<and> distinct (map ObjectKeyFromObject items)
     \<and> set items = {o1. (\<exists>key. getObject t (gvk\<lparr>gvkKind := TrimSuffix (gvkKind gvk) ''List''\<rparr>) key = Some o1)
                        \<and> (loNamespace opts = '''' \<or> oNamespace o1 = loNamespace opts)
                        \<and> (\<forall>sel. loLabelSelector opts = Some sel \<longrightarrow> selEmpty sel \<or> selMatches sel (GetLabels o1))}"
proof -
  let ?kind = "gvk\<lparr>gvkKind := TrimSuffix (gvkKind gvk) ''List''\<rparr>"
  define m where "m = mget_or [] (objects t) ?kind"
  define items where "items = filter (listMatches opts) (map snd m)"
  have sch: "cScheme c = sch" using assms(1) distinctKeys.reachable_scheme by blast
  have dist: "distinct (mkeys m)" using distinctKeys.reachable [OF assms(1,5)] distinct_mget_or by (simp add: m_def)
  have at: "getObject t ?kind key = mget m key" for key
    by (simp add: getObject_def m_def mget_or_def split: option.splits)
  have ok: "objectOk sch clock \<lparr>refGVK = ?kind, refKey = key\<rparr> o1" if "mget m key = Some o1" for key o1
    using okObject.obj.reachable [OF assms(1,5)] that at
    unfolding okObject.holds_def by (metis ownReference.select_convs)
  have "map (\<lambda>z. ObjectKeyFromObject (snd z)) m = mkeys m"
    using ok mget_iff_in_set [OF dist] by (intro map_cong) (auto simp: objectOk_def keyed_def)
  then have "distinct (map (\<lambda>z. ObjectKeyFromObject (snd z)) m)" using dist by metis
  then have d: "distinct (map ObjectKeyFromObject items)"
    unfolding items_def by (induction m) auto
  have "set items = {o1. (\<exists>key. mget m key = Some o1) \<and> listMatches opts o1}"
    using mget_iff_in_set [OF dist] by (auto simp: items_def image_iff) (metis snd_conv)
  also have "\<dots> = {o1. (\<exists>key. getObject t ?kind key = Some o1) \<and> (loNamespace opts = '''' \<or> oNamespace o1 = loNamespace opts)
                   \<and> (\<forall>sel. loLabelSelector opts = Some sel \<longrightarrow> selEmpty sel \<or> selMatches sel (GetLabels o1))}"
    by (auto simp: at listMatches_def split: option.splits)
  finally have set_items: "set items = \<dots>" .
  have "List c rg blank (Some l0) opts = (case SetList sch (l0\<lparr>lGVK := gvk\<rparr>) items of
          Inl e \<Rightarrow> (Inl (InternalError e), Some (l0\<lparr>lGVK := gvk\<rparr>)) | Inr l2 \<Rightarrow> (Inr (), Some l2))"
    using assms(2-5)
    by (auto simp: List_def gvkGetAndSetList_def sch unsafeGuessObjectKindFromList_def listItems_Typed items_def m_def
        mget_or_def split: option.splits)
  with d set_items show ?thesis by blast
qed

text \<open>
  C31. List into a typed list gives exactly the tracked objects of the kind, without the suffix \<^verbatim>\<open>List\<close>, that are in
  the namespace and match the label selector, and hands them to the list in one piece; a kind that is not tracked gives the empty list.
\<close>

theorem List_exact:
  assumes "reachableCache sch clock c" "rg \<noteq> ''''" "GVKForList sch l0 = Inr gvk" "lType l0 = Typed"
    and "resourceGroupTracker_of c rg = Some t"
  shows "\<exists>items. List c rg blank (Some l0) opts =
       (case SetList sch (l0\<lparr>lGVK := gvk\<rparr>) items of
          Inl e \<Rightarrow> (Inl (InternalError e), Some (l0\<lparr>lGVK := gvk\<rparr>)) | Inr l2 \<Rightarrow> (Inr (), Some l2))
     \<and> distinct (map ObjectKeyFromObject items)
     \<and> set items = {o1. (\<exists>key. getObject t (gvk\<lparr>gvkKind := TrimSuffix (gvkKind gvk) ''List''\<rparr>) key = Some o1)
                        \<and> (loNamespace opts = '''' \<or> oNamespace o1 = loNamespace opts)
                        \<and> (\<forall>sel. loLabelSelector opts = Some sel \<longrightarrow> selEmpty sel \<or> selMatches sel (GetLabels o1))}"
  using assms by (rule List_typed)

theorem List_exact_witness:
  "\<exists>items. List ownerCache ''rg'' (sampleObject '''' '''' [] [])
       (Some \<lparr>lType = Typed, lGVK = coreGVK ''SecretList'', lItems = []\<rparr>) \<lparr>loNamespace = ''ns'', loLabelSelector = None\<rparr> =
       (Inr (), Some \<lparr>lType = Typed, lGVK = coreGVK ''SecretList'', lItems = items\<rparr>)
     \<and> stampedObject ''Secret'' ''child'' [] [sampleOwner ''ConfigMap'' ''parent''] \<in> set items"
proof -
  let ?l = "\<lparr>lType = Typed, lGVK = coreGVK ''SecretList'', lItems = []\<rparr>"
  have "getObject ownerTracker ((coreGVK ''SecretList'')\<lparr>gvkKind := TrimSuffix (gvkKind (coreGVK ''SecretList'')) ''List''\<rparr>)
      (refKey (sampleRef ''Secret'' ''child'')) = Some (stampedObject ''Secret'' ''child'' [] [sampleOwner ''ConfigMap'' ''parent''])"
    using TrimSuffix_append [of "''Secret''" "''List''"]
    by (simp add: coreGVK_def ownerTracker_def sampleRef_def getObject_def)
  then show ?thesis
    using List_exact [OF ownerCache_reachable, of "''rg''" ?l "coreGVK ''SecretList''" ownerTracker
        "sampleObject '''' '''' [] []" "\<lparr>loNamespace = ''ns'', loLabelSelector = None\<rparr>"]
    by (auto simp: ownerCache_tracker sampleScheme_def stampedObject_def sampleObject_def)
qed

text \<open>
  Patch is Get, patch, Update: with a supported patch type and functions that succeed it does to
  the cache what an Update with the patched object does. A patch that leaves name, namespace, kind and resource version
  alone therefore never ends in Conflict, NotFound or AlreadyExists. The patched object goes to the cache only.
\<close>

lemma Patch_is_Update:
  assumes "Get c rg (ObjectKeyFromObject o0) (Some o0) = (Inr (), Some obj)"
    and "patchDataOf p obj = Inr d" "JSONSerializerInfo (cScheme c)"
    and "Encode (cScheme c) (gvkGroup (oGVK obj), gvkVersion (oGVK obj)) obj = Inr js"
    and "patchType p = MergePatchType \<or> patchType p = StrategicMergePatchType"
    and "MergePatch (cScheme c) js d = Inr js'" "DecodeInto (cScheme c) js' obj = Inr obj'"
  shows "\<exists>o1. Update now c rg (Some obj') = (fst (Patch now c rg (Some o0) p), fst (snd (Patch now c rg (Some o0) p)), o1,
         snd (snd (Patch now c rg (Some o0) p)))"
  using assms by (auto simp: Patch_def getEncoder_def Update_def split: prod.splits)

text \<open>
  Create does not check the name: an object with an empty name is stored, and from then on Get, Update and Delete refuse its key,
  so no client can read, change or remove it.
\<close>

lemma Create_empty_name:
  assumes "rg \<noteq> ''''" "oName o0 = ''''" "GVKForObject (cScheme c) o0 = Inr gvk" "resourceGroupTracker_of c rg = Some t"
    and "getObject t gvk (ObjectKeyFromObject o0) = None" "oOwnerReferences o0 = None"
  shows "\<exists>c' o1 calls. Create now c rg (Some o0) = (Inr (), c', Some o1, calls)
     \<and> (\<exists>t'. resourceGroupTracker_of c' rg = Some t' \<and> getObject t' gvk (ObjectKeyFromObject o0) = Some o1)
     \<and> (\<forall>x g now' fuel. oName x = '''' \<longrightarrow> GVKForObject (cScheme c) x = Inr g \<longrightarrow>
          fst (Get c' rg (ObjectKeyFromObject x) (Some x)) = Inl (BadRequest ObjKeyNameEmpty)
        \<and> fst (Update now' c' rg (Some x)) = Inl (BadRequest ObjectNameEmpty)
        \<and> map_option fst (Delete fuel now' c' rg (Some x)) = Some (Inl (BadRequest ObjectNameEmpty)))"
proof -
  obtain o1 where o1: "beforeCreate now rg (o0\<lparr>oGVK := gvk\<rparr>) = Inr o1" using beforeCreate_Inr by blast
  have own: "GetOwnerReferences o0 = []" "GetOwnerReferences o1 = []"
    using assms(6) beforeCreate_fields(7) [OF o1] by (simp_all add: GetOwnerReferences_def)
  let ?t = "putObject (ensureGVK t gvk) gvk (ObjectKeyFromObject o0) o1"
  have "Create now c rg (Some o0) = (Inr (), c\<lparr>resourceGroups := mput (resourceGroups c) rg ?t\<rparr>, Some o1, afterCreate c rg o1)"
    using assms(1,3,4,5) own o1
    by (simp add: Create_def store_def gvkGetAndSet_def storeLocked_def Let_def updateTrackerOwnerReferences_def)
  then show ?thesis
    using assms(1)
    by (auto simp: resourceGroupTracker_of_def Get_def Update_def store_def Delete_def gvkGetAndSet_def)
qed

end
