(* ===== verification/Refinement.thy ===== *)
theory Refinement
  imports Main
begin

text \<open>
  The interface between a component and its abstract specification: both answer requests with outcomes, and an abstraction function takes
  the states of the component that satisfy an invariant to the states of the specification.
\<close>

section \<open>Refinement of request sequences\<close>

text \<open>A sequence of requests, each answered with an outcome.\<close>

fun runAll :: "('r \<Rightarrow> 's \<Rightarrow> 'o \<times> 's) \<Rightarrow> 'r list \<Rightarrow> 's \<Rightarrow> 'o list \<times> 's" where
  "runAll exec [] s = ([], s)"
| "runAll exec (r # rs) s = (case exec r s of (out, s1) \<Rightarrow> case runAll exec rs s1 of (outs, s2) \<Rightarrow> (out # outs, s2))"

locale functional_refinement =
  fixes exec :: "'r \<Rightarrow> 'c \<Rightarrow> 'o \<times> 'c" and spec :: "'r \<Rightarrow> 'a \<Rightarrow> 'o \<times> 'a" and abstr :: "'c \<Rightarrow> 'a" and inv :: "'c \<Rightarrow> bool"
  assumes keeps: "inv c \<Longrightarrow> inv (snd (exec r c))"
    and refines: "inv c \<Longrightarrow> spec r (abstr c) = apsnd abstr (exec r c)"
begin

lemma run_inv: "inv c \<Longrightarrow> inv (snd (runAll exec rs c))"
proof (induction rs arbitrary: c)
  case (Cons r rs)
  with keeps [of c r] show ?case by (simp split: prod.splits) (metis snd_conv)
qed simp

lemma run_refines: "inv c \<Longrightarrow> runAll spec rs (abstr c) = apsnd abstr (runAll exec rs c)"
proof (induction rs arbitrary: c)
  case (Cons r rs)
  obtain out c1 where e: "exec r c = (out, c1)" by fastforce
  then have "spec r (abstr c) = (out, abstr c1)" "inv c1" using keeps [of c r] refines [of c r] Cons.prems by simp_all
  with Cons.IH [of c1] e show ?case by (simp split: prod.splits)
qed simp

lemma run_outcomes: "inv c \<Longrightarrow> fst (runAll exec rs c) = fst (runAll spec rs (abstr c))"
  by (simp add: run_refines)

end

end
