(* ===== verification/Cache_Refinement.thy ===== *)
theory Cache_Refinement
  imports Cache_Properties Refinement
begin

text \<open>
  What the cache promises for the requests that address one object, without its data structures: a map from resource groups to maps from
  references to objects. The two levels of maps of a tracker, the ownership index and the ways an update of the index can fail do not appear
  in it. The cache is an instance of the locale of refinements. Delete, which works through a hierarchy, and List have their own theorems.
\<close>

section \<open>The specification of the cache\<close>

type_synonym 'b objectStore = "string \<rightharpoonup> (ownReference \<rightharpoonup> 'b object)"

datatype 'b outcome = Done | Exists | Stale | Missing | Rejected | Crashed | Found "'b object"

datatype 'b request =
    AddGroup string
  | DeleteGroup string
  | CreateObject gotime string "'b object option"
  | UpdateObject gotime string "'b object option"
  | PatchObject gotime string "'b object option" "'b patch"
  | GetObject string NamespacedName "'b object option"

text \<open>Every owner of the object has a valid API version and is in the store.\<close>

definition ownersIn :: "'b scheme \<Rightarrow> (ownReference \<rightharpoonup> 'b object) \<Rightarrow> 'b object \<Rightarrow> bool" where
  "ownersIn sch m obj \<longleftrightarrow> (\<forall>owner \<in> set (GetOwnerReferences obj).
     case newOwnReferenceFromOwnerReference sch (oNamespace obj) owner of Inl _ \<Rightarrow> False | Inr r \<Rightarrow> m r \<noteq> None)"

text \<open>
  A write into one resource group. What is stored is the object with the fields that the hooks manage; Create needs a free reference,
  Update the version that is stored.
\<close>

definition specWrite ::
  "'b scheme \<Rightarrow> gotime \<Rightarrow> string \<Rightarrow> bool \<Rightarrow> 'b object \<Rightarrow> (ownReference \<rightharpoonup> 'b object) \<Rightarrow> 'b outcome \<times> (ownReference \<rightharpoonup> 'b object)" where
  "specWrite sch now rg replace obj m =
     (let r = \<lparr>refGVK = oGVK obj, refKey = ObjectKeyFromObject obj\<rparr>
      in if \<not> ownersIn sch m obj then (Rejected, m)
         else case m r of
           None \<Rightarrow> if replace then (Missing, m) else (Done, m(r \<mapsto> projr (beforeCreate now rg obj)))
         | Some old \<Rightarrow>
             if \<not> replace then (Exists, m)
             else if oResourceVersion old \<noteq> oResourceVersion obj then (Stale, m)
             else (Done, m(r \<mapsto> projr (beforeUpdate now rg old obj))))"

definition specStore ::
  "'b scheme \<Rightarrow> gotime \<Rightarrow> string \<Rightarrow> bool \<Rightarrow> 'b object option \<Rightarrow> 'b objectStore \<Rightarrow> 'b outcome \<times> 'b objectStore" where
  "specStore sch now rg replace obj s =
     (case (obj, s rg) of
        (Some o0, Some m) \<Rightarrow>
          (case GVKForObject sch o0 of
             Inl _ \<Rightarrow> (Rejected, s)
           | Inr gvk \<Rightarrow>
             if rg = '''' \<or> replace \<and> oName o0 = '''' then (Rejected, s)
             else (case specWrite sch now rg replace (o0\<lparr>oGVK := gvk\<rparr>) m of (out, m') \<Rightarrow> (out, s(rg \<mapsto> m'))))
      | _ \<Rightarrow> (Rejected, s))"

definition specGet :: "'b scheme \<Rightarrow> string \<Rightarrow> NamespacedName \<Rightarrow> 'b object option \<Rightarrow> 'b objectStore \<Rightarrow> 'b outcome" where
  "specGet sch rg key obj s =
     (case (obj, s rg) of
        (Some o0, Some m) \<Rightarrow>
          (case GVKForObject sch o0 of
             Inl _ \<Rightarrow> Rejected
           | Inr gvk \<Rightarrow>
             if rg = '''' \<or> nnName key = '''' then Rejected
             else (case m \<lparr>refGVK = gvk, refKey = key\<rparr> of
                     None \<Rightarrow> Missing
                   | Some x \<Rightarrow> (case Convert sch x (o0\<lparr>oGVK := gvk\<rparr>) of Inl _ \<Rightarrow> Rejected | Inr y \<Rightarrow> Found (y\<lparr>oGVK := oGVK x\<rparr>))))
      | _ \<Rightarrow> Rejected)"

text \<open>The object a patch makes of an object.\<close>

definition patched :: "'b scheme \<Rightarrow> 'b patch \<Rightarrow> 'b object \<Rightarrow> 'b object option" where
  "patched sch p obj =
     (case patchDataOf p obj of
        Inl _ \<Rightarrow> None
      | Inr patchData \<Rightarrow>
        if \<not> JSONSerializerInfo sch \<or> patchType p \<noteq> MergePatchType \<and> patchType p \<noteq> StrategicMergePatchType then None
        else case Encode sch (gvkGroup (oGVK obj), gvkVersion (oGVK obj)) obj of
          Inl _ \<Rightarrow> None
        | Inr js \<Rightarrow>
          (case MergePatch sch js patchData of
             Inl _ \<Rightarrow> None
           | Inr js' \<Rightarrow> (case DecodeInto sch js' obj of Inl _ \<Rightarrow> None | Inr obj' \<Rightarrow> Some obj')))"

definition specRequest :: "'b scheme \<Rightarrow> 'b request \<Rightarrow> 'b objectStore \<Rightarrow> 'b outcome \<times> 'b objectStore" where
  "specRequest sch req s =
     (case req of
        AddGroup rg \<Rightarrow> (Done, case s rg of None \<Rightarrow> s(rg \<mapsto> Map.empty) | Some _ \<Rightarrow> s)
      | DeleteGroup rg \<Rightarrow> (Done, s(rg := None))
      | CreateObject now rg obj \<Rightarrow> specStore sch now rg False obj s
      | UpdateObject now rg obj \<Rightarrow> specStore sch now rg True obj s
      | GetObject rg key obj \<Rightarrow> (specGet sch rg key obj s, s)
      | PatchObject now rg None p \<Rightarrow> (Crashed, s)
      | PatchObject now rg (Some obj) p \<Rightarrow>
          (case specGet sch rg (ObjectKeyFromObject obj) (Some obj) s of
             Found x \<Rightarrow> (case patched sch p x of None \<Rightarrow> (Rejected, s) | Some x' \<Rightarrow> specStore sch now rg True (Some x') s)
           | out \<Rightarrow> (out, s)))"

section \<open>The requests on the cache\<close>

definition outcomeOf :: "apiError + unit \<Rightarrow> 'b outcome" where
  "outcomeOf res =
     (case res of
        Inr _ \<Rightarrow> Done | Inl (AlreadyExists _ _) \<Rightarrow> Exists | Inl (Conflict _ _) \<Rightarrow> Stale | Inl (NotFound _ _) \<Rightarrow> Missing
      | Inl (Panic _) \<Rightarrow> Crashed | Inl _ \<Rightarrow> Rejected)"

definition runRequest :: "'b request \<Rightarrow> 'b cache \<Rightarrow> 'b outcome \<times> 'b cache" where
  "runRequest req c =
     (case req of
        AddGroup rg \<Rightarrow> (Done, AddResourceGroup c rg)
      | DeleteGroup rg \<Rightarrow> (Done, DeleteResourceGroup c rg)
      | CreateObject now rg obj \<Rightarrow> (case Create now c rg obj of (res, c', _, _) \<Rightarrow> (outcomeOf res, c'))
      | UpdateObject now rg obj \<Rightarrow> (case Update now c rg obj of (res, c', _, _) \<Rightarrow> (outcomeOf res, c'))
      | GetObject rg key obj \<Rightarrow>
          ((case Get c rg key obj of (Inr _, Some x) \<Rightarrow> Found x | (Inr _, None) \<Rightarrow> Crashed | (Inl e, _) \<Rightarrow> outcomeOf (Inl e)), c)
      | PatchObject now rg obj p \<Rightarrow> (case Patch now c rg obj p of (res, c', _) \<Rightarrow> (outcomeOf res, c')))"

definition storeOf :: "'b cache \<Rightarrow> 'b objectStore" where
  "storeOf c = (\<lambda>rg. map_option (\<lambda>t r. objectAt t r) (resourceGroupTracker_of c rg))"

lemma storeOf_put: "storeOf (c\<lparr>resourceGroups := mput (resourceGroups c) rg t\<rparr>) = (storeOf c)(rg \<mapsto> (\<lambda>r. objectAt t r))"
  by (auto simp: storeOf_def resourceGroupTracker_of_def)

lemma runRequest_step:
  assumes "reachableCache sch (\<lambda>_. True) c"
  shows "reachableCache sch (\<lambda>_. True) (snd (runRequest req c))"
proof (cases req)
  case (GetObject rg key obj)
  then show ?thesis using assms by (simp add: runRequest_def)
qed (use assms in \<open>auto simp: runRequest_def split: prod.splits intro: reachableCache.step cacheStep.intros\<close>)

section \<open>Writes refine\<close>

lemma checkOwners_ownersIn:
  "checkOwners sch t (oNamespace obj) (GetOwnerReferences obj) = None \<longleftrightarrow> ownersIn sch (\<lambda>r. objectAt t r) obj"
  unfolding ownersIn_def checkOwners_None by (intro ball_cong refl) (auto split: sum.splits)

lemma checkOwners_rejected: "checkOwners sch t ns os = Some e \<Longrightarrow> outcomeOf (Inl e) = Rejected"
  by (induction os) (auto simp: newOwnReferenceFromOwnerReference_def outcomeOf_def split: sum.splits option.splits)

lemma dropOldOwners_error: "dropOldOwners sch ns news r olds t = (Inl e, t') \<Longrightarrow> \<exists>s. e = Panic s"
  by (induction olds arbitrary: t) (auto split: if_splits sum.splits)

lemma addNewOwners_error: "addNewOwners sch ns olds r news t = (Inl e, t') \<Longrightarrow> \<exists>s. e = Panic s"
  by (induction news arbitrary: t) (auto split: if_splits sum.splits)

lemma updateTracker_error: "updateTrackerOwnerReferences sch t old new r = (Inl e, t') \<Longrightarrow> \<exists>s. e = Panic s"
  by (auto simp: updateTrackerOwnerReferences_def Let_def split: prod.splits sum.splits
      intro: dropOldOwners_error addNewOwners_error)

lemma updateTracker_done:
  assumes "updateTrackerOwnerReferences sch t old new r = (res, t')" "\<forall>s. res \<noteq> Inl (Panic s)"
  shows "res = Inr ()"
  using assms updateTracker_error [of sch t old new r] by (cases res) auto

lemma objectAt_put_ref:
  "objectAt (putObject t gvk key o1) = (\<lambda>r. objectAt t r)(\<lparr>refGVK = gvk, refKey = key\<rparr> \<mapsto> o1)"
  by (auto simp: ownReference_eq_iff fun_eq_iff)

text \<open>A write under the lock of the tracker, when the update of the index does not fail.\<close>

lemma storeLocked_refines:
  assumes st: "storeLocked now c rg t gvk obj re = (res, t', obj', calls)" and gvk: "oGVK obj = gvk"
    and safe: "\<forall>s. res \<noteq> Inl (Panic s)"
  shows "specWrite (cScheme c) now rg re obj (\<lambda>r. objectAt t r) = (outcomeOf res, \<lambda>r. objectAt t' r)"
proof (cases "checkOwners (cScheme c) t (oNamespace obj) (GetOwnerReferences obj)")
  case (Some e)
  then have "res = Inl e" "t' = t" using st by (simp_all add: storeLocked_def)
  with Some checkOwners_ownersIn [of "cScheme c" t obj]
  show ?thesis by (simp add: specWrite_def checkOwners_rejected [OF Some])
next
  case None
  then have own: "ownersIn (cScheme c) (\<lambda>r. objectAt t r) obj" by (simp add: checkOwners_ownersIn)
  let ?r = "\<lparr>refGVK = gvk, refKey = ObjectKeyFromObject obj\<rparr>"
  have put: "res = Inr () \<and> objectAt t' = (\<lambda>r. objectAt t r)(?r \<mapsto> o2)"
    if "updateTrackerOwnerReferences (cScheme c) (putObject (ensureGVK t gvk) gvk (ObjectKeyFromObject obj) o2) old o2 ?r = (res, t')" for old o2
    using updateTracker_done [OF that safe] updateTracker_getObject [OF that] by (auto simp: ownReference_eq_iff fun_eq_iff)
  show ?thesis
  proof (cases "getObject t gvk (ObjectKeyFromObject obj)")
    case free: None
    show ?thesis
    proof (cases re)
      case False
      obtain o2 where o2: "beforeCreate now rg obj = Inr o2" using beforeCreate_Inr by blast
      then have "updateTrackerOwnerReferences (cScheme c) (putObject (ensureGVK t gvk) gvk (ObjectKeyFromObject obj) o2) None o2 ?r = (res, t')"
        using st None free False by (auto simp: storeLocked_def Let_def split: prod.splits sum.splits)
      from put [OF this] show ?thesis using free False o2 own gvk by (simp add: specWrite_def Let_def outcomeOf_def)
    qed (use st None free own gvk in \<open>auto simp: storeLocked_def specWrite_def Let_def outcomeOf_def\<close>)
  next
    case (Some tracked)
    show ?thesis
    proof (cases "re \<and> oResourceVersion tracked = oResourceVersion obj")
      case True
      obtain o2 where o2: "beforeUpdate now rg tracked obj = Inr o2" using beforeUpdate_Inr by blast
      then have "updateTrackerOwnerReferences (cScheme c) (putObject (ensureGVK t gvk) gvk (ObjectKeyFromObject obj) o2) (Some tracked) o2 ?r
          = (res, t')"
        using st None Some True by (auto simp: storeLocked_def Let_def split: prod.splits sum.splits)
      from put [OF this] show ?thesis using Some True o2 own gvk by (simp add: specWrite_def Let_def outcomeOf_def)
    next
      case False
      with st None Some own gvk show ?thesis
        by (auto simp: storeLocked_def specWrite_def Let_def outcomeOf_def split: if_splits)
    qed
  qed
qed

lemma store_refines:
  assumes reach: "reachableCache sch (\<lambda>_. True) c" and st: "store now c rg obj re = (res, c', obj', calls)"
  shows "specStore sch now rg re obj (storeOf c) = (outcomeOf res, storeOf c')"
proof -
  have sch: "cScheme c = sch" using reach distinctKeys.reachable_scheme by blast
  have safe: "\<forall>s. res \<noteq> Inl (Panic s)" using store_error [OF reach] st by (cases res) auto
  show ?thesis
  proof (cases "\<exists>o0 gvk t. rg \<noteq> '''' \<and> obj = Some o0 \<and> GVKForObject sch o0 = Inr gvk \<and> (re \<longrightarrow> oName o0 \<noteq> '''')
      \<and> resourceGroupTracker_of c rg = Some t")
    case True
    then obtain o0 gvk t where o0: "rg \<noteq> ''''" "obj = Some o0" "GVKForObject sch o0 = Inr gvk" "re \<longrightarrow> oName o0 \<noteq> ''''"
        "resourceGroupTracker_of c rg = Some t" by blast
    obtain t' o2 where l: "storeLocked now c rg t gvk (o0\<lparr>oGVK := gvk\<rparr>) re = (res, t', o2, calls)"
        "c' = c\<lparr>resourceGroups := mput (resourceGroups c) rg t'\<rparr>"
      using st o0 sch by (auto simp: store_def gvkGetAndSet_def split: prod.splits)
    have "specWrite sch now rg re (o0\<lparr>oGVK := gvk\<rparr>) (\<lambda>r. objectAt t r) = (outcomeOf res, \<lambda>r. objectAt t' r)"
      using storeLocked_refines [OF l(1) _ safe] sch by simp
    moreover have "storeOf c rg = Some (\<lambda>r. objectAt t r)" using o0(5) by (simp add: storeOf_def)
    ultimately show ?thesis using o0(1-4) unfolding l(2) storeOf_put by (auto simp: specStore_def)
  next
    case False
    then show ?thesis
      using st sch
      by (auto simp: store_def specStore_def gvkGetAndSet_def storeOf_def outcomeOf_def split: if_splits option.splits sum.splits)
  qed
qed

lemma Get_refines:
  assumes "cScheme c = sch"
  shows "fst (runRequest (GetObject rg key obj) c) = specGet sch rg key obj (storeOf c)"
  using assms
  by (auto simp: runRequest_def Get_def specGet_def gvkGetAndSet_def storeOf_def outcomeOf_def getObject_def split: option.splits sum.splits)

lemma Patch_refines:
  assumes reach: "reachableCache sch (\<lambda>_. True) c"
  shows "specRequest sch (PatchObject now rg (Some obj) p) (storeOf c) = apsnd storeOf (runRequest (PatchObject now rg (Some obj) p) c)"
proof -
  have sch: "cScheme c = sch" using reach distinctKeys.reachable_scheme by blast
  obtain res x where g: "Get c rg (ObjectKeyFromObject obj) (Some obj) = (res, x)" by fastforce
  have get: "specGet sch rg (ObjectKeyFromObject obj) (Some obj) (storeOf c) =
      (case (res, x) of (Inr _, Some x) \<Rightarrow> Found x | (Inr _, None) \<Rightarrow> Crashed | (Inl e, _) \<Rightarrow> outcomeOf (Inl e))"
    using Get_refines [OF sch, of rg "ObjectKeyFromObject obj" "Some obj"] g by (simp add: runRequest_def)
  have notFound: "outcomeOf (Inl e) \<noteq> Found y" for e :: apiError and y :: "'a object"
    by (simp add: outcomeOf_def split: apiError.splits)
  show ?thesis
  proof (cases "\<exists>x'. res = Inr () \<and> x = Some x'")
    case False
    then consider e where "res = Inl e" | "res = Inr ()" "x = None" by (cases res; cases x) auto
    then show ?thesis
      by cases (use g get notFound in \<open>auto simp: specRequest_def runRequest_def Patch_def outcomeOf_def split: outcome.splits\<close>)
  next
    case True
    then obtain x' where x': "res = Inr ()" "x = Some x'" by blast
    show ?thesis
    proof (cases "patched sch p x'")
      case None
      with x' g get show ?thesis
        by (auto simp: specRequest_def runRequest_def Patch_def patched_def getEncoder_def sch outcomeOf_def split: sum.splits if_splits)
    next
      case (Some y)
      obtain res' c' o' calls where st: "store now c rg (Some y) True = (res', c', o', calls)" by (metis prod_cases4)
      from Some have "Patch now c rg (Some obj) p = (res', c', calls)"
        using x' g st
        by (auto simp: Patch_def patched_def getEncoder_def sch split: sum.splits if_splits)
      with store_refines [OF reach st] Some x' get show ?thesis by (simp add: specRequest_def runRequest_def)
    qed
  qed
qed

lemma runRequest_refines:
  assumes reach: "reachableCache sch (\<lambda>_. True) c"
  shows "specRequest sch req (storeOf c) = apsnd storeOf (runRequest req c)"
proof (cases req)
  case (AddGroup rg)
  then show ?thesis
    by (auto simp: specRequest_def runRequest_def AddResourceGroup_def storeOf_put storeOf_def resourceGroupTracker_of_def emptyTracker_def
        getObject_def fun_eq_iff split: option.splits)
next
  case (DeleteGroup rg)
  then show ?thesis
    by (auto simp: specRequest_def runRequest_def DeleteResourceGroup_def storeOf_def resourceGroupTracker_of_def fun_eq_iff)
next
  case (CreateObject now rg obj)
  then show ?thesis
    using store_refines [OF reach] by (auto simp: specRequest_def runRequest_def Create_def split: prod.splits)
next
  case (UpdateObject now rg obj)
  then show ?thesis
    using store_refines [OF reach] by (auto simp: specRequest_def runRequest_def Update_def split: prod.splits)
next
  case (GetObject rg key obj)
  moreover have "cScheme c = sch" using reach distinctKeys.reachable_scheme by blast
  ultimately show ?thesis using Get_refines [of c sch rg key obj] by (simp add: specRequest_def runRequest_def)
next
  case (PatchObject now rg obj p)
  then show ?thesis
    using Patch_refines [OF reach] by (cases obj) (simp_all add: specRequest_def runRequest_def Patch_def outcomeOf_def)
qed

interpretation cacheStore: functional_refinement runRequest "specRequest sch" storeOf "reachableCache sch (\<lambda>_. True)" for sch
  by unfold_locales (simp_all add: runRequest_step runRequest_refines)

lemma storeOf_new: "storeOf (NewCache sch) = Map.empty"
  by (simp add: storeOf_def NewCache_def resourceGroupTracker_of_def fun_eq_iff)

lemma specStore_safe: "fst (specStore sch now rg re obj s) \<noteq> Crashed"
  by (auto simp: specStore_def specWrite_def Let_def split: option.splits sum.splits prod.splits if_splits)

lemma specGet_safe: "specGet sch rg key obj s \<noteq> Crashed"
  by (auto simp: specGet_def split: option.splits sum.splits)

text \<open>A patch of no object at all.\<close>

definition patchesNil :: "'b request \<Rightarrow> bool" where
  "patchesNil req = (case req of PatchObject _ _ None _ \<Rightarrow> True | _ \<Rightarrow> False)"

lemma specRequest_crash: "fst (specRequest sch req s) = Crashed \<longleftrightarrow> patchesNil req"
proof (cases req)
  case (PatchObject now rg obj p)
  then show ?thesis
    by (cases obj) (auto simp: specRequest_def patchesNil_def specStore_safe specGet_safe split: outcome.splits option.splits)
qed (auto simp: specRequest_def patchesNil_def specStore_safe specGet_safe)

lemma runAll_spec_crash:
  "map (\<lambda>out. out = Crashed) (fst (runAll (specRequest sch) rs s)) = map patchesNil rs"
proof (induction rs arbitrary: s)
  case (Cons r rs)
  obtain out s1 where "specRequest sch r s = (out, s1)" by fastforce
  with Cons.IH [of s1] specRequest_crash [of sch r s] show ?case by (auto split: prod.splits)
qed simp

text \<open>
  C5. For requests that address one object the cache refines a plain store of objects. Take any reachable cache, whatever happened to it before, deletions and the
  work of the garbage collector and the syncer included. Then every sequence of requests of the kinds Create, Update, Patch, Get,
  add and delete a resource group gets the outcomes that the specification gives on the objects the cache holds, and leaves the
  objects it leaves. The specification has no ownership index: the index and its update never show in an outcome. The requests that crash are exactly the patches
  of a nil object. Delete and List are not requests of this specification.
\<close>

theorem cache_refines_store:
  assumes "reachableCache sch (\<lambda>_. True) c"
  shows "runAll (specRequest sch) rs (storeOf c) = apsnd storeOf (runAll runRequest rs c)
   \<and> map (\<lambda>out. out = Crashed) (fst (runAll runRequest rs c)) = map patchesNil rs"
  using cacheStore.run_refines [OF assms] cacheStore.run_outcomes [OF assms] runAll_spec_crash by metis

text \<open>On the cache of the samples: an update without the stored version, a patch of nil, a create of what exists and a get of nil.\<close>

definition sampleRequests :: "string request list" where
  "sampleRequests =
     [UpdateObject 2 ''rg'' (Some (sampleObject ''ConfigMap'' ''parent'' [] [])),
      PatchObject 2 ''rg'' None \<lparr>patchType = MergePatchType, patchDataOf = (\<lambda>_. Inr ''new'')\<rparr>,
      CreateObject 2 ''rg'' (Some (sampleObject ''ConfigMap'' ''parent'' [] [])),
      GetObject ''rg'' (refKey (sampleRef ''ConfigMap'' ''parent'')) None]"

theorem cache_refines_store_witness:
  "\<exists>s. runAll (specRequest sampleScheme) sampleRequests (storeOf ownerCache) = ([Stale, Crashed, Exists, Rejected], s)
     \<and> storeOf (snd (runAll runRequest sampleRequests ownerCache)) = s"
proof -
  have "reachableCache sampleScheme (\<lambda>_. True) ownerCache"
    unfolding ownerCache_def by (intro afterCreates_reachable startedCache_reachable) simp
  note refines = cache_refines_store [OF this, of sampleRequests]
  have "fst (runAll runRequest sampleRequests ownerCache) = [Stale, Crashed, Exists, Rejected]"
    by (simp add: sampleRequests_def runRequest_def Patch_def Get_def ownerCache_eval startedCache_eval sample_eval store_eval stampedObject_def
        outcomeOf_def)
  with refines show ?thesis by (metis apsnd_conv prod.collapse)
qed

end
