(* ===== verification/Cache_Locks.thy ===== *)
theory Cache_Locks
  imports Cache_Types
begin

text \<open>
  The locks of \<^verbatim>\<open>internal/cloud/runtime/cache\<close>: one of the cache, one of each tracker, one of each informer, all
  \<^verbatim>\<open>sync.RWMutex\<close>. The other theories take an operation under the lock of its tracker as one step; here operations are the lock
  operations they perform, and the goroutines that perform them interleave.
\<close>

section \<open>Lock operations\<close>

datatype lockName = CacheLock | TrackerLock string | InformerLock GroupVersionKind

datatype lockOp = RLock lockName | RUnlock lockName | Lock lockName | Unlock lockName

text \<open>An event for a kind, when it has an informer: the cache is locked around the informer.\<close>

definition informLocks :: "GroupVersionKind \<times> bool \<Rightarrow> lockOp list" where
  "informLocks e =
     (case e of (gvk, hasInformer) \<Rightarrow>
        [RLock CacheLock] @ (if hasInformer then [RLock (InformerLock gvk), RUnlock (InformerLock gvk)] else []) @ [RUnlock CacheLock])"

text \<open>\<^verbatim>\<open>resourceGroupTracker\<close> looks up the tracker under the lock of the cache.\<close>

definition lookupLocks :: "lockOp list" where
  "lookupLocks = [RLock CacheLock, RUnlock CacheLock]"

text \<open>Get and List; Create, Update, the two ends of a deletion and a sync work item, with the events they send.\<close>

definition readLocks :: "string \<Rightarrow> lockOp list" where
  "readLocks rg = lookupLocks @ [RLock (TrackerLock rg), RUnlock (TrackerLock rg)]"

definition writeLocks :: "string \<Rightarrow> (GroupVersionKind \<times> bool) list \<Rightarrow> lockOp list" where
  "writeLocks rg events = lookupLocks @ [Lock (TrackerLock rg)] @ concat (map informLocks events) @ [Unlock (TrackerLock rg)]"

text \<open>Adding and deleting a resource group, getting an informer; adding a handler to an informer.\<close>

definition groupLocks :: "lockOp list" where
  "groupLocks = [Lock CacheLock, Unlock CacheLock]"

definition addHandlerLocks :: "GroupVersionKind \<Rightarrow> lockOp list" where
  "addHandlerLocks gvk = [Lock (InformerLock gvk), Unlock (InformerLock gvk)]"

text \<open>The sync loop holds the lock of the cache while it locks one tracker after the other.\<close>

definition syncGroupLocks :: "string list \<Rightarrow> lockOp list" where
  "syncGroupLocks rgs = [RLock CacheLock] @ concat (map (\<lambda>rg. [RLock (TrackerLock rg), RUnlock (TrackerLock rg)]) rgs) @ [RUnlock CacheLock]"

datatype cacheTask =
    ReadTask string
  | WriteTask string "(GroupVersionKind \<times> bool) list"
  | GroupTask
  | AddHandlerTask GroupVersionKind
  | SyncLoopTask "string list"

fun locksOf :: "cacheTask \<Rightarrow> lockOp list" where
  "locksOf (ReadTask rg) = readLocks rg"
| "locksOf (WriteTask rg events) = writeLocks rg events"
| "locksOf GroupTask = groupLocks"
| "locksOf (AddHandlerTask gvk) = addHandlerLocks gvk"
| "locksOf (SyncLoopTask rgs) = syncGroupLocks rgs"

section \<open>Goroutines\<close>

text \<open>
  A goroutine: the locks it holds, for writing if the flag is set, whether it has announced itself as a writer (a call of Lock that waits for
  the readers to leave), and the operations it has still to do.
\<close>

record goroutine =
  gHeld :: "(lockName \<times> bool) list"
  gWaiting :: bool
  gTodo :: "lockOp list"

definition spawn :: "lockOp list \<Rightarrow> goroutine" where
  "spawn ops = \<lparr>gHeld = [], gWaiting = False, gTodo = ops\<rparr>"

definition pendingOn :: "lockName \<Rightarrow> goroutine \<Rightarrow> bool" where
  "pendingOn l g \<longleftrightarrow> gWaiting g \<and> gTodo g \<noteq> [] \<and> hd (gTodo g) = Lock l"

definition holds :: "lockName \<Rightarrow> goroutine \<Rightarrow> bool" where
  "holds l g \<longleftrightarrow> (l, True) \<in> set (gHeld g) \<or> (l, False) \<in> set (gHeld g)"

text \<open>
  One step of the goroutine \<open>g\<close> among all the goroutines. A writer announces itself when no other one has; from then on new readers wait,
  and the writer goes on when all holders have left.
\<close>

definition advance :: "goroutine list \<Rightarrow> goroutine \<Rightarrow> goroutine option" where
  "advance gs g =
     (case gTodo g of
        [] \<Rightarrow> None
      | RLock l # ops \<Rightarrow>
          if list_ex (\<lambda>h. pendingOn l h \<or> (l, True) \<in> set (gHeld h)) gs then None
          else Some (g\<lparr>gHeld := (l, False) # gHeld g, gTodo := ops\<rparr>)
      | RUnlock l # ops \<Rightarrow> Some (g\<lparr>gHeld := remove1 (l, False) (gHeld g), gTodo := ops\<rparr>)
      | Lock l # ops \<Rightarrow>
          if gWaiting g
          then (if list_ex (holds l) gs then None else Some (g\<lparr>gHeld := (l, True) # gHeld g, gWaiting := False, gTodo := ops\<rparr>))
          else (if list_ex (\<lambda>h. pendingOn l h \<or> (l, True) \<in> set (gHeld h)) gs then None else Some (g\<lparr>gWaiting := True\<rparr>))
      | Unlock l # ops \<Rightarrow> Some (g\<lparr>gHeld := remove1 (l, True) (gHeld g), gTodo := ops\<rparr>))"

inductive lockStep :: "goroutine list \<Rightarrow> goroutine list \<Rightarrow> bool" where
  step: "i < length gs \<Longrightarrow> advance gs (gs ! i) = Some g \<Longrightarrow> lockStep gs (gs[i := g])"

text \<open>Each goroutine performs a list of tasks; a Patch is a read followed by a write.\<close>

inductive reachableLocks :: "cacheTask list list \<Rightarrow> goroutine list \<Rightarrow> bool" for work where
  start: "reachableLocks work (map (\<lambda>tasks. spawn (concat (map locksOf tasks))) work)"
| step: "reachableLocks work gs \<Longrightarrow> lockStep gs gs' \<Longrightarrow> reachableLocks work gs'"

definition finished :: "goroutine list \<Rightarrow> bool" where
  "finished gs \<longleftrightarrow> (\<forall>g \<in> set gs. gTodo g = [])"

text \<open>All goroutines that are not finished wait for each other.\<close>

definition deadlocked :: "goroutine list \<Rightarrow> bool" where
  "deadlocked gs \<longleftrightarrow> \<not> finished gs \<and> (\<forall>g \<in> set gs. advance gs g = None)"

end
