(* ===== verification/Lock_Properties.thy ===== *)
theory Lock_Properties
  imports Cache_Locks
begin

text \<open>
  Deadlock freedom of all the operations that lock a tracker, then the cache, then an informer; and the deadlock of the sync loop, which
  locks in another order.
\<close>

section \<open>Ordered locking\<close>

primrec lockRank :: "lockName \<Rightarrow> nat" where
  "lockRank (TrackerLock rg) = 0"
| "lockRank CacheLock = 1"
| "lockRank (InformerLock gvk) = 2"

text \<open>The operations acquire locks above those that are held, release what is held, and release everything in the end.\<close>

fun ordered :: "(lockName \<times> bool) list \<Rightarrow> lockOp list \<Rightarrow> bool" where
  "ordered held [] \<longleftrightarrow> held = []"
| "ordered held (RLock l # ops) \<longleftrightarrow> (\<forall>(l', w) \<in> set held. lockRank l' < lockRank l) \<and> ordered ((l, False) # held) ops"
| "ordered held (RUnlock l # ops) \<longleftrightarrow> (l, False) \<in> set held \<and> ordered (remove1 (l, False) held) ops"
| "ordered held (Lock l # ops) \<longleftrightarrow> (\<forall>(l', w) \<in> set held. lockRank l' < lockRank l) \<and> ordered ((l, True) # held) ops"
| "ordered held (Unlock l # ops) \<longleftrightarrow> (l, True) \<in> set held \<and> ordered (remove1 (l, True) held) ops"

lemma ordered_append: "ordered held ops \<Longrightarrow> ordered [] ops' \<Longrightarrow> ordered held (ops @ ops')"
  by (induction held ops rule: ordered.induct) auto

lemma ordered_informs: "ordered [(TrackerLock rg, w)] rest \<Longrightarrow> ordered [(TrackerLock rg, w)] (concat (map informLocks events) @ rest)"
  by (induction events) (auto simp: informLocks_def)

lemma ordered_locksOf: "(\<And>rgs. t \<noteq> SyncLoopTask rgs) \<Longrightarrow> ordered [] (locksOf t)"
  by (cases t) (auto simp: readLocks_def writeLocks_def lookupLocks_def groupLocks_def addHandlerLocks_def intro: ordered_informs)

lemma ordered_tasks: "\<forall>t \<in> set tasks. \<forall>rgs. t \<noteq> SyncLoopTask rgs \<Longrightarrow> ordered [] (concat (map locksOf tasks))"
  by (induction tasks) (auto intro: ordered_append ordered_locksOf)

section \<open>Progress\<close>

definition goroutineOk :: "goroutine \<Rightarrow> bool" where
  "goroutineOk g \<longleftrightarrow> ordered (gHeld g) (gTodo g) \<and> (gWaiting g \<longrightarrow> (\<exists>l ops. gTodo g = Lock l # ops))"

lemma advance_ok: "advance gs g = Some g' \<Longrightarrow> goroutineOk g \<Longrightarrow> goroutineOk g'"
  by (auto simp: advance_def goroutineOk_def split: list.splits lockOp.splits if_splits)

lemma lockStep_ok: "lockStep gs gs' \<Longrightarrow> \<forall>g \<in> set gs. goroutineOk g \<Longrightarrow> \<forall>g \<in> set gs'. goroutineOk g"
proof (induction rule: lockStep.induct)
  case (step i gs g)
  then have "goroutineOk g" using advance_ok nth_mem by blast
  with step.prems show ?case using set_update_subset_insert [of gs i g] by blast
qed

lemma reachableLocks_ok:
  assumes "\<forall>tasks \<in> set work. \<forall>t \<in> set tasks. \<forall>rgs. t \<noteq> SyncLoopTask rgs" "reachableLocks work gs"
  shows "\<forall>g \<in> set gs. goroutineOk g"
  using assms(2)
proof (induction rule: reachableLocks.induct)
  case start
  with assms(1) show ?case by (auto simp: goroutineOk_def spawn_def intro: ordered_tasks)
next
  case (step gs gs')
  then show ?case using lockStep_ok by blast
qed

text \<open>The lock a goroutine waits for.\<close>

definition wants :: "goroutine \<Rightarrow> lockName \<Rightarrow> bool" where
  "wants g l \<longleftrightarrow> (\<exists>ops. gTodo g = RLock l # ops \<or> gTodo g = Lock l # ops)"

lemma blocked_wants: "advance gs g = None \<Longrightarrow> gTodo g \<noteq> [] \<Longrightarrow> \<exists>l. wants g l"
  by (auto simp: advance_def wants_def split: list.splits lockOp.splits if_splits)

lemma holder_above:
  assumes "goroutineOk g" "holds l g" "advance gs g = None"
  shows "\<exists>l'. wants g l' \<and> lockRank l < lockRank l'"
proof -
  have "gTodo g \<noteq> []" using assms(1,2) by (auto simp: goroutineOk_def holds_def)
  then obtain l' where l': "wants g l'" using blocked_wants [OF assms(3)] by blast
  then have "lockRank l < lockRank l'" using assms(1,2) by (auto simp: goroutineOk_def wants_def holds_def)
  with l' show ?thesis by blast
qed

text \<open>A goroutine that waits for a lock waits for a holder, if need be through another writer.\<close>

lemma blocked_holder:
  assumes stuck: "\<forall>g \<in> set gs. advance gs g = None" and g: "g \<in> set gs" "wants g l"
  shows "\<exists>h \<in> set gs. holds l h"
proof (rule ccontr)
  assume none: "\<not> (\<exists>h \<in> set gs. holds l h)"
  have free: "\<not> pendingOn l h" if h: "h \<in> set gs" for h
  proof
    assume "pendingOn l h"
    then obtain ops where "gTodo h = Lock l # ops" "gWaiting h" by (auto simp: pendingOn_def neq_Nil_conv)
    then have "advance gs h \<noteq> None" using none by (auto simp: advance_def list_ex_iff)
    with stuck h show False by simp
  qed
  have "(l, True) \<notin> set (gHeld h)" if "h \<in> set gs" for h using none that by (auto simp: holds_def)
  then have "advance gs g \<noteq> None"
    using g(2) free none by (auto simp: advance_def wants_def list_ex_iff)
  with stuck g(1) show False by simp
qed

lemma no_deadlock:
  assumes ok: "\<forall>g \<in> set gs. goroutineOk g"
  shows "\<not> deadlocked gs"
proof
  assume d: "deadlocked gs"
  then have stuck: "\<forall>g \<in> set gs. advance gs g = None" by (simp add: deadlocked_def)
  have above: "\<exists>h \<in> set gs. \<exists>l'. wants h l' \<and> lockRank l < lockRank l'" if "g \<in> set gs" "wants g l" for g l
    using blocked_holder [OF stuck that] holder_above ok stuck by blast
  have chain: "\<exists>g \<in> set gs. \<exists>l. wants g l \<and> n \<le> lockRank l" for n
  proof (induction n)
    case 0
    from d obtain g where "g \<in> set gs" "gTodo g \<noteq> []" by (auto simp: deadlocked_def finished_def)
    then show ?case using blocked_wants stuck by blast
  next
    case (Suc n)
    then show ?case using above by (meson Suc_leI le_less_trans)
  qed
  obtain g l where "lockRank l \<ge> 3" using chain [of 3] by blast
  then show False by (cases l) simp_all
qed

text \<open>Every step does work, so that the goroutines finish.\<close>

definition workLeft :: "goroutine list \<Rightarrow> nat" where
  "workLeft gs = sum_list (map (\<lambda>g. 2 * length (gTodo g) - (if gWaiting g then 1 else 0)) gs)"

lemma advance_work:
  assumes "advance gs g = Some g'" "goroutineOk g"
  shows "2 * length (gTodo g') - (if gWaiting g' then 1 else 0) < 2 * length (gTodo g) - (if gWaiting g then 1 else (0::nat))"
  using assms by (auto simp: advance_def goroutineOk_def split: list.splits lockOp.splits if_splits)

lemma lockStep_work:
  assumes "lockStep gs gs'" "\<forall>g \<in> set gs. goroutineOk g"
  shows "workLeft gs' < workLeft gs"
  using assms
proof (induction rule: lockStep.induct)
  case (step i gs g)
  let ?f = "\<lambda>g. 2 * length (gTodo g) - (if gWaiting g then 1 else (0::nat))"
  have "?f g < ?f (gs ! i)" using advance_work step nth_mem by blast
  moreover have "?f (gs ! i) \<le> workLeft gs" unfolding workLeft_def by (rule elem_le_sum_list [of i "map ?f gs", simplified]) (use step in simp)
  moreover have "workLeft (gs[i := g]) = workLeft gs + ?f g - ?f (gs ! i)"
    unfolding workLeft_def map_update using step(1) by (simp add: sum_list_update)
  ultimately show ?case by linarith
qed

lemma can_finish:
  assumes "\<forall>tasks \<in> set work. \<forall>t \<in> set tasks. \<forall>rgs. t \<noteq> SyncLoopTask rgs"
  shows "reachableLocks work gs \<Longrightarrow> \<exists>gs'. lockStep\<^sup>*\<^sup>* gs gs' \<and> finished gs'"
proof (induction "workLeft gs" arbitrary: gs rule: less_induct)
  case less
  note ok = reachableLocks_ok [OF assms less.prems]
  show ?case
  proof (cases "finished gs")
    case False
    then obtain i g where "i < length gs" "advance gs (gs ! i) = Some g"
      using no_deadlock [OF ok] by (auto simp: deadlocked_def in_set_conv_nth)
    then have st: "lockStep gs (gs[i := g])" by (rule lockStep.step)
    from less.hyps [OF lockStep_work [OF st ok] reachableLocks.step [OF less.prems st]]
    show ?thesis using st by (meson converse_rtranclp_into_rtranclp)
  qed blast
qed

section \<open>Exclusion\<close>

text \<open>A goroutine that holds a lock for writing is the only one that holds it.\<close>

definition exclusive :: "goroutine list \<Rightarrow> bool" where
  "exclusive gs \<longleftrightarrow> (\<forall>i < length gs. \<forall>j < length gs. \<forall>l. i \<noteq> j \<longrightarrow> (l, True) \<in> set (gHeld (gs ! i)) \<longrightarrow> \<not> holds l (gs ! j))"

lemma advance_held:
  assumes "advance gs g = Some g'"
  shows "set (gHeld g') \<subseteq> set (gHeld g)
     \<or> (\<exists>l. set (gHeld g') = insert (l, False) (set (gHeld g)) \<and> (\<forall>h \<in> set gs. (l, True) \<notin> set (gHeld h)))
     \<or> (\<exists>l. set (gHeld g') = insert (l, True) (set (gHeld g)) \<and> (\<forall>h \<in> set gs. \<not> holds l h))"
proof (cases "gTodo g")
  case (Cons op ops)
  then show ?thesis
    using assms set_remove1_subset by (cases op) (force simp: advance_def list_ex_iff split: if_splits)+
qed (use assms in \<open>simp add: advance_def\<close>)

lemma lockStep_exclusive: "lockStep gs gs' \<Longrightarrow> exclusive gs \<Longrightarrow> exclusive gs'"
proof (induction rule: lockStep.induct)
  case (step i gs g)
  have new: "holds l g \<Longrightarrow> (\<exists>w. (l, w) \<in> set (gHeld (gs ! i))) \<or> (\<forall>h \<in> set gs. (l, True) \<notin> set (gHeld h))"
    and neww: "(l, True) \<in> set (gHeld g) \<Longrightarrow> (l, True) \<in> set (gHeld (gs ! i)) \<or> (\<forall>h \<in> set gs. \<not> holds l h)" for l
    using advance_held [OF step(2)] by (auto simp: holds_def)
  show ?case
    unfolding exclusive_def
  proof (intro allI impI)
    fix j k l assume jk: "j < length (gs[i := g])" "k < length (gs[i := g])" "j \<noteq> k" "(l, True) \<in> set (gHeld (gs[i := g] ! j))"
    have ex: "\<not> holds l (gs ! b)" if "a < length gs" "b < length gs" "a \<noteq> b" "(l, True) \<in> set (gHeld (gs ! a))" for a b
      using step(3) that unfolding exclusive_def by blast
    consider "j = i" | "k = i" "j \<noteq> i" | "j \<noteq> i" "k \<noteq> i" by blast
    then show "\<not> holds l (gs[i := g] ! k)"
    proof cases
      case 1
      then have "(l, True) \<in> set (gHeld g)" "gs[i := g] ! k = gs ! k" using jk step(1) by auto
      with neww [of l] ex [of i k] jk 1 nth_mem [of k gs] show ?thesis by auto
    next
      case 2
      then have j: "(l, True) \<in> set (gHeld (gs ! j))" using jk by simp
      have "\<not> (\<exists>w. (l, w) \<in> set (gHeld (gs ! i)))" using ex [of j i] j jk 2 step(1) by (simp add: holds_def) (metis (full_types))
      with new [of l] j jk nth_mem [of j gs] 2 show ?thesis by auto
    next
      case 3
      with ex [of j k] jk show ?thesis by simp
    qed
  qed
qed

lemma reachable_exclusive: "reachableLocks work gs \<Longrightarrow> exclusive gs"
proof (induction rule: reachableLocks.induct)
  case start
  show ?case by (auto simp: exclusive_def spawn_def)
next
  case (step gs gs')
  then show ?case using lockStep_exclusive by blast
qed

text \<open>
  C10. Any number of goroutines that read, write, patch and delete objects, send events, add and delete resource groups, get informers and add handlers
  can not deadlock: from every state they can go on until all of them are finished, every step does some of the work that is left, and
  whoever holds a lock for writing holds it alone.
\<close>

theorem locks_progress:
  assumes "\<forall>tasks \<in> set work. \<forall>t \<in> set tasks. \<forall>rgs. t \<noteq> SyncLoopTask rgs" "reachableLocks work gs"
  shows "\<not> deadlocked gs \<and> (\<exists>gs'. lockStep\<^sup>*\<^sup>* gs gs' \<and> finished gs') \<and> (\<forall>gs'. lockStep gs gs' \<longrightarrow> workLeft gs' < workLeft gs) \<and> exclusive gs"
proof -
  note ok = reachableLocks_ok [OF assms]
  show ?thesis using no_deadlock [OF ok] can_finish [OF assms] lockStep_work [OF _ ok] reachable_exclusive [OF assms(2)] by blast
qed

theorem locks_progress_witness:
  "\<exists>gs'. lockStep\<^sup>*\<^sup>* (map (\<lambda>tasks. spawn (concat (map locksOf tasks)))
     [[ReadTask ''rg'', WriteTask ''rg'' [(\<lparr>gvkGroup = '''', gvkVersion = ''v1'', gvkKind = ''Pod''\<rparr>, True)]], [GroupTask]]) gs' \<and> finished gs'"
proof -
  let ?work = "[[ReadTask ''rg'', WriteTask ''rg'' [(\<lparr>gvkGroup = '''', gvkVersion = ''v1'', gvkKind = ''Pod''\<rparr>, True)]], [GroupTask]]"
  have "\<forall>tasks \<in> set ?work. \<forall>t \<in> set tasks. \<forall>rgs. t \<noteq> SyncLoopTask rgs" by simp
  from locks_progress [OF this reachableLocks.start] show ?thesis by blast
qed

section \<open>The sync loop\<close>

lemma reachableLocks_advance:
  "reachableLocks work gs \<Longrightarrow> i < length gs \<Longrightarrow> advance gs (gs ! i) = Some g \<Longrightarrow> gs' = gs[i := g] \<Longrightarrow> reachableLocks work gs'"
  by (auto intro: reachableLocks.step lockStep.step)

text \<open>
  C11. The sync loop can deadlock the cache: it holds the lock of the cache for reading while it waits for a tracker; a writer that holds this
  tracker needs the lock of the cache to send its event; a third goroutine that adds a resource group waits for the sync loop, and as a waiting
  writer keeps the second one from reading. None of the three can go on, and with the lock of the cache no other operation either.
\<close>

theorem sync_loop_deadlock:
  "\<exists>gs. reachableLocks [[WriteTask rg [(gvk, hasInformer)]], [SyncLoopTask [rg]], [GroupTask]] gs \<and> deadlocked gs
     \<and> list_all (\<lambda>g. gTodo g \<noteq> []) gs \<and> (\<forall>ops. advance (gs @ [spawn (lookupLocks @ ops)]) (spawn (lookupLocks @ ops)) = None)"
proof -
  let ?ev = "informLocks (gvk, hasInformer) @ [Unlock (TrackerLock rg)]"
  let ?s = "[RLock (TrackerLock rg), RUnlock (TrackerLock rg), RUnlock CacheLock]"
  define gs where "gs w0 h0 t0 h1 t1 w2 = [\<lparr>gHeld = h0, gWaiting = w0, gTodo = t0\<rparr>, \<lparr>gHeld = h1, gWaiting = False, gTodo = t1\<rparr>,
    \<lparr>gHeld = [], gWaiting = w2, gTodo = [Lock CacheLock, Unlock CacheLock]\<rparr>]" for w0 h0 t0 h1 t1 w2
  note simps = gs_def advance_def pendingOn_def holds_def
  let ?work = "[[WriteTask rg [(gvk, hasInformer)]], [SyncLoopTask [rg]], [GroupTask]]"
  have "reachableLocks ?work (gs False [] ([RLock CacheLock, RUnlock CacheLock, Lock (TrackerLock rg)] @ ?ev) [] (RLock CacheLock # ?s) False)"
    using reachableLocks.start [of ?work] by (simp add: gs_def spawn_def writeLocks_def lookupLocks_def syncGroupLocks_def groupLocks_def)
  then have "reachableLocks ?work (gs False [(CacheLock, False)] ([RUnlock CacheLock, Lock (TrackerLock rg)] @ ?ev) [] (RLock CacheLock # ?s) False)"
    by (rule reachableLocks_advance [where i = 0]) (simp_all add: simps)
  then have "reachableLocks ?work (gs False [] ([Lock (TrackerLock rg)] @ ?ev) [] (RLock CacheLock # ?s) False)"
    by (rule reachableLocks_advance [where i = 0]) (simp_all add: simps)
  then have "reachableLocks ?work (gs True [] ([Lock (TrackerLock rg)] @ ?ev) [] (RLock CacheLock # ?s) False)"
    by (rule reachableLocks_advance [where i = 0]) (simp_all add: simps)
  then have "reachableLocks ?work (gs False [(TrackerLock rg, True)] ?ev [] (RLock CacheLock # ?s) False)"
    by (rule reachableLocks_advance [where i = 0]) (simp_all add: simps)
  then have "reachableLocks ?work (gs False [(TrackerLock rg, True)] ?ev [(CacheLock, False)] ?s False)"
    by (rule reachableLocks_advance [where i = 1]) (simp_all add: simps)
  then have r: "reachableLocks ?work (gs False [(TrackerLock rg, True)] ?ev [(CacheLock, False)] ?s True)"
    by (rule reachableLocks_advance [where i = 2]) (simp_all add: simps)
  have "deadlocked (gs False [(TrackerLock rg, True)] ?ev [(CacheLock, False)] ?s True)"
    by (simp add: deadlocked_def finished_def simps informLocks_def)
  moreover have "advance (gs False [(TrackerLock rg, True)] ?ev [(CacheLock, False)] ?s True @ [spawn (lookupLocks @ ops)])
      (spawn (lookupLocks @ ops)) = None" for ops
    by (simp add: simps spawn_def lookupLocks_def)
  moreover have "list_all (\<lambda>g. gTodo g \<noteq> []) (gs False [(TrackerLock rg, True)] ?ev [(CacheLock, False)] ?s True)" by (simp add: gs_def informLocks_def)
  ultimately show ?thesis using r by blast
qed

end
