(* ===== verification/Deletion_Properties.thy ===== *)
theory Deletion_Properties
  imports Cache_Samples
begin

text \<open>
  The properties of Delete and of the garbage collector: what happens to the hierarchy below the deleted object and to
  everything else, when the recursion returns, and the ways in which it does not do its work.
\<close>

section \<open>Delete in terms of the locked recursion\<close>

definition deleteRef :: "GroupVersionKind \<Rightarrow> 'b object \<Rightarrow> ownReference" where
  "deleteRef gvk o0 = \<lparr>refGVK = gvk, refKey = ObjectKeyFromObject o0\<rparr>"

lemma Delete_unfold:
  assumes "rg \<noteq> ''''" "oName o0 \<noteq> ''''" "GVKForObject (cScheme c) o0 = Inr gvk" "resourceGroupTracker_of c rg = Some t"
  shows "Delete fuel now c rg (Some o0) =
    (case doTryDeleteLocked fuel now c rg t (deleteRef gvk o0) of
       None \<Rightarrow> None
     | Some (Inl e, t', calls) \<Rightarrow>
         Some (Inl e, c\<lparr>resourceGroups := mput (resourceGroups c) rg t'\<rparr>, Some (o0\<lparr>oGVK := gvk\<rparr>), calls)
     | Some (Inr True, t', calls) \<Rightarrow>
         Some (Inr (), c\<lparr>resourceGroups := mput (resourceGroups c) rg t'\<rparr>, Some (o0\<lparr>oGVK := gvk\<rparr>), calls)
     | Some (Inr False, t', calls) \<Rightarrow>
         (case gcAdd c rg (deleteRef gvk o0) of
            Inl e \<Rightarrow> Some (Inl e, c\<lparr>resourceGroups := mput (resourceGroups c) rg t'\<rparr>, Some (o0\<lparr>oGVK := gvk\<rparr>), calls)
          | Inr added \<Rightarrow>
             Some (Inr (), c\<lparr>resourceGroups := mput (resourceGroups c) rg t'\<rparr>, Some (o0\<lparr>oGVK := gvk\<rparr>), calls @ added)))"
  using assms
  by (auto simp: Delete_def gvkGetAndSet_def Let_def deleteRef_def tryDelete_def
      split: option.splits sum.splits bool.splits)

text \<open>A Delete that returned, on an existing resource group, is a run of the recursion.\<close>

lemma Delete_run:
  assumes "Delete fuel now c rg (Some o0) = Some (res, c', o1, calls)"
    and "rg \<noteq> ''''" "oName o0 \<noteq> ''''" "GVKForObject (cScheme c) o0 = Inr gvk" "resourceGroupTracker_of c rg = Some t"
    and "resourceGroupTracker_of c' rg = Some t'"
  obtains d calls1 where "doTryDeleteLocked fuel now c rg t (deleteRef gvk o0) = Some (d, t', calls1)"
    "res = Inr () \<Longrightarrow> d = Inr True \<and> calls = calls1 \<or>
       d = Inr False \<and> (\<exists>q. garbageCollectorQueue c = Some q \<and> calls = calls1 @ [QAdd q (gcItem rg (deleteRef gvk o0))])"
    "\<And>e. d = Inl e \<Longrightarrow> res = Inl e"
proof (cases "doTryDeleteLocked fuel now c rg t (deleteRef gvk o0)")
  case None
  with assms show ?thesis by (simp add: Delete_unfold)
next
  case (Some x)
  obtain d t1 calls1 where x: "x = (d, t1, calls1)" by (metis prod_cases3)
  have eq: "t1 = t'"
  proof (cases d)
    case (Inr b)
    with assms Some x show ?thesis
      by (cases b; cases "gcAdd c rg (deleteRef gvk o0)") (auto simp: Delete_unfold resourceGroupTracker_of_def)
  qed (use assms Some x in \<open>auto simp: Delete_unfold resourceGroupTracker_of_def\<close>)
  show ?thesis
  proof (rule that [OF Some [unfolded x eq]])
    assume "res = Inr ()"
    show "d = Inr True \<and> calls = calls1 \<or>
       d = Inr False \<and> (\<exists>q. garbageCollectorQueue c = Some q \<and> calls = calls1 @ [QAdd q (gcItem rg (deleteRef gvk o0))])"
    proof (cases d)
      case (Inr b)
      with assms Some x \<open>res = Inr ()\<close> gcAdd_Inr [of c rg "deleteRef gvk o0"] show ?thesis
        by (cases b; cases "gcAdd c rg (deleteRef gvk o0)") (auto simp: Delete_unfold)
    qed (use assms Some x \<open>res = Inr ()\<close> in \<open>auto simp: Delete_unfold\<close>)
  next
    show "res = Inl e" if "d = Inl e" for e using that assms Some x by (auto simp: Delete_unfold)
  qed
qed

section \<open>The hierarchy\<close>

text \<open>
  C8. Cascading deletion: after a Delete that succeeds on a resource group whose ownership index is acyclic,
  every object of the hierarchy below the deleted object, that object included, is either gone or carries a deletion time
  and has been queued for the garbage collector; and an object went away only if it had no finalizers.
\<close>

theorem Delete_cascades:
  assumes "Delete fuel now c rg (Some o0) = Some (Inr (), c', o1, calls)"
    and "rg \<noteq> ''''" "oName o0 \<noteq> ''''" "GVKForObject (cScheme c) o0 = Inr gvk" "now \<noteq> 0"
    and "resourceGroupTracker_of c rg = Some t" "resourceGroupTracker_of c' rg = Some t'" "acyclic (ownEdges t)"
  shows "(\<forall>x \<in> below t \<lparr>refGVK = gvk, refKey = ObjectKeyFromObject o0\<rparr>. objectAt t' x = None
      \<or> marked t' x \<and> (\<exists>q. garbageCollectorQueue c = Some q \<and>
           QAdd q (GcItem \<lparr>gcResourceGroup = rg, gcGVK = refGVK x, gcKey = refKey x\<rparr>) \<in> set calls))
    \<and> (\<forall>x obj. objectAt t x = Some obj \<longrightarrow> objectAt t' x = None \<longrightarrow> GetFinalizers obj = [])"
proof -
  obtain d calls1 where run: "doTryDeleteLocked fuel now c rg t (deleteRef gvk o0) = Some (d, t', calls1)"
    and ok: "d = Inr True \<and> calls = calls1 \<or>
       d = Inr False \<and> (\<exists>q. garbageCollectorQueue c = Some q \<and> calls = calls1 @ [QAdd q (gcItem rg (deleteRef gvk o0))])"
    using Delete_run [OF assms(1-4,6,7)] by blast
  have kids: "handled c rg t' calls x" if "x \<in> below t (deleteRef gvk o0)" "x \<noteq> deleteRef gvk o0" for x
    using doTryDelete_settles(1) [OF assms(5) run] assms(8) ok that by (force simp: handled_def)
  moreover have "handled c rg t' calls (deleteRef gvk o0)"
    using doTryDelete_settles(1) [OF assms(5) run] assms(8) ok by (force simp: handled_def)
  ultimately have "\<forall>x \<in> below t (deleteRef gvk o0). handled c rg t' calls x" by metis
  moreover have "GetFinalizers obj = []" if "objectAt t x = Some obj" "objectAt t' x = None" for x obj
    using doTryDelete_step(1) [OF assms(5) run, rule_format, OF assms(8), of x] that by (simp add: deletionStep_def)
  ultimately show ?thesis by (auto simp: handled_def gcItem_def deleteRef_def)
qed

theorem Delete_cascades_witness:
  "\<exists>c' o1 calls t'. Delete 3 2 ownerCache ''rg'' (Some (sampleObject ''ConfigMap'' ''parent'' [] [])) =
       Some (Inr (), c', o1, calls)
     \<and> resourceGroupTracker_of c' ''rg'' = Some t'
     \<and> (objectAt t' (sampleRef ''Secret'' ''child'') = None \<or> marked t' (sampleRef ''Secret'' ''child''))"
proof -
  let ?o = "sampleObject ''ConfigMap'' ''parent'' [] []"
  have "\<exists>c' o1 calls t'. Delete 3 2 ownerCache ''rg'' (Some ?o) = Some (Inr (), c', o1, calls)
      \<and> resourceGroupTracker_of c' ''rg'' = Some t'"
    by (simp add: delete_eval ownerCache_eval startedCache_eval sample_eval store_eval stampedObject_def)
  then obtain c' o1 calls t' where del: "Delete 3 2 ownerCache ''rg'' (Some ?o) = Some (Inr (), c', o1, calls)"
    and t': "resourceGroupTracker_of c' ''rg'' = Some t'" by blast
  have root: "\<lparr>refGVK = coreGVK ''ConfigMap'', refKey = ObjectKeyFromObject ?o\<rparr> = sampleRef ''ConfigMap'' ''parent''"
    by (simp add: sample_eval ObjectKeyFromObject_def)
  have "sampleRef ''Secret'' ''child'' \<in> below ownerTracker (sampleRef ''ConfigMap'' ''parent'')"
    using ownerTracker_edges by (auto simp: below_def)
  then show ?thesis
    using Delete_cascades [OF del, of "coreGVK ''ConfigMap''" ownerTracker t', unfolded root] del t'
      ownerCache_tracker ownerTracker_acyclic
    by (auto simp: ownerCache_eval startedCache_eval sampleScheme_def sampleObject_def)
qed

text \<open>
  C30. A Delete touches only the hierarchy: an object that is not below the deleted one keeps its value, and an owner
  that is not below it keeps its index entries, whether the Delete succeeds or fails and whatever the shape of the index.
\<close>

theorem Delete_frame:
  assumes "Delete fuel now c rg (Some o0) = Some (res, c', o1, calls)"
    and "rg \<noteq> ''''" "oName o0 \<noteq> ''''" "GVKForObject (cScheme c) o0 = Inr gvk"
    and "resourceGroupTracker_of c rg = Some t" "resourceGroupTracker_of c' rg = Some t'"
    and "x \<notin> below t \<lparr>refGVK = gvk, refKey = ObjectKeyFromObject o0\<rparr>"
  shows "objectAt t' x = objectAt t x \<and> ownedBy t' x = ownedBy t x"
proof -
  obtain d calls1 where run: "doTryDeleteLocked fuel now c rg t (deleteRef gvk o0) = Some (d, t', calls1)"
    using Delete_run [OF assms(1-6)] by blast
  show ?thesis
    using doTryDelete_frame(1) [OF run] doTryDelete_frame_owned(1) [OF run] assms(7) by (simp add: deleteRef_def)
qed

theorem Delete_frame_witness:
  "\<exists>c' o1 calls t'. Delete 3 2 ownerCache ''rg'' (Some (sampleObject ''Secret'' ''child'' [] [])) =
       Some (Inr (), c', o1, calls)
     \<and> resourceGroupTracker_of c' ''rg'' = Some t'
     \<and> objectAt t' (sampleRef ''ConfigMap'' ''parent'') = objectAt ownerTracker (sampleRef ''ConfigMap'' ''parent'')"
proof -
  let ?o = "sampleObject ''Secret'' ''child'' [] []"
  have "\<exists>c' o1 calls t'. Delete 3 2 ownerCache ''rg'' (Some ?o) = Some (Inr (), c', o1, calls)
      \<and> resourceGroupTracker_of c' ''rg'' = Some t'"
    by (simp add: delete_eval ownerCache_eval startedCache_eval sample_eval store_eval stampedObject_def)
  then obtain c' o1 calls t' where del: "Delete 3 2 ownerCache ''rg'' (Some ?o) = Some (Inr (), c', o1, calls)"
    and t': "resourceGroupTracker_of c' ''rg'' = Some t'" by blast
  have root: "\<lparr>refGVK = coreGVK ''Secret'', refKey = ObjectKeyFromObject ?o\<rparr> = sampleRef ''Secret'' ''child''"
    by (simp add: sample_eval ObjectKeyFromObject_def)
  have "sampleRef ''ConfigMap'' ''parent'' \<notin> below ownerTracker (sampleRef ''Secret'' ''child'')"
    using acyclic_not_below [OF ownerTracker_acyclic] ownerTracker_edges by auto
  then show ?thesis
    using Delete_frame [OF del, of "coreGVK ''Secret''" ownerTracker t' "sampleRef ''ConfigMap'' ''parent''", unfolded root]
      del t' ownerCache_tracker
    by (auto simp: ownerCache_eval startedCache_eval sampleScheme_def sampleObject_def)
qed

text \<open>
  C9. On an acyclic ownership index Delete returns: the size of the index bounds the depth of the recursion.
\<close>

theorem Delete_returns:
  assumes "\<And>t. resourceGroupTracker_of c rg = Some t \<Longrightarrow> acyclic (ownEdges t) \<and> deleteFuel t \<le> fuel"
  shows "\<exists>r. Delete fuel now c rg obj = Some r"
proof (cases "rg = '''' \<or> obj = None")
  case True
  then show ?thesis by (auto simp: Delete_def)
next
  case False
  then obtain o0 where o0: "rg \<noteq> ''''" "obj = Some o0" by auto
  have td: "tryDelete fuel now c rg r = None \<longleftrightarrow> False" for r
  proof (cases "resourceGroupTracker_of c rg")
    case (Some t)
    with assms [OF Some] doTryDelete_returns [of t fuel now c rg r] show ?thesis
      by (auto simp: tryDelete_def)
  qed (simp add: tryDelete_def)
  with o0 show ?thesis
    by (auto simp: Delete_def Let_def td split: sum.splits option.splits bool.splits)
qed

theorem Delete_returns_witness:
  "\<exists>r. Delete 2 2 ownerCache ''rg'' (Some (sampleObject ''ConfigMap'' ''parent'' [] [])) = Some r"
proof (rule Delete_returns)
  fix t assume "resourceGroupTracker_of ownerCache ''rg'' = Some t"
  then have "t = ownerTracker" by (simp add: ownerCache_tracker)
  then show "acyclic (ownEdges t) \<and> deleteFuel t \<le> 2"
    using ownerTracker_acyclic by (simp add: deleteFuel_def ownerTracker_def)
qed

section \<open>Where the deletion does not work\<close>





text \<open>
  Before the cache is started there is no garbage collector queue, and a Delete of an object with
  finalizers panics on it, after having marked the object.
\<close>

lemma Delete_before_start_panics:
  assumes "rg \<noteq> ''''" "oName o0 \<noteq> ''''" "GVKForObject (cScheme c) o0 = Inr gvk" "resourceGroupTracker_of c rg = Some t"
    and "getObject t gvk (ObjectKeyFromObject o0) = Some obj" "GetFinalizers obj \<noteq> []" "garbageCollectorQueue c = None"
    and "ownedBy t \<lparr>refGVK = gvk, refKey = ObjectKeyFromObject o0\<rparr> = []" "now \<noteq> 0"
  shows "\<exists>c' o1 calls t'. Delete (Suc n) now c rg (Some o0) = Some (Inl (Panic ''nil garbageCollectorQueue''), c', o1, calls)
     \<and> resourceGroupTracker_of c' rg = Some t' \<and> marked t' \<lparr>refGVK = gvk, refKey = ObjectKeyFromObject o0\<rparr>"
proof -
  let ?r = "deleteRef gvk o0" and ?t1 = "t\<lparr>ownedObjects := mdel (ownedObjects t) (deleteRef gvk o0)\<rparr>"
  obtain res t' calls where fin: "finishDelete now c rg ?t1 ?r obj = (res, t', calls)" by (metis prod_cases3)
  have at: "objectAt t ?r = Some obj" using assms(5) by (simp add: deleteRef_def)
  from fin have "res = Inr False" using assms(6) by (cases rule: finishDelete_cases) auto
  moreover have "marked t' ?r" using finishDelete_step(2) [OF fin _ assms(9)] at \<open>res = Inr False\<close> by auto
  moreover have "doTryDeleteLocked (Suc n) now c rg t ?r = Some (res, t', calls)"
    using at fin assms(8) by (simp add: doTryDelete_Suc deleteRef_def)
  ultimately show ?thesis
    using assms(7) by (auto simp: Delete_unfold [OF assms(1-4)] gcAdd_def resourceGroupTracker_of_def deleteRef_def)
qed

end
