(* ===== verification/Loop_Properties.thy ===== *)
theory Loop_Properties
  imports Cache_Samples
begin

text \<open>The properties of the garbage collector and of the syncer.\<close>

section \<open>Garbage collector\<close>

lemma gc_gcItem:
  assumes "garbageCollectorQueue c = Some q" "tryDelete fuel now c rg r = Some (res, c', calls)"
  shows "processGarbageCollectorWorkItem fuel jitter now c (Some (gcItem rg r)) =
    Some (Inr True, c', [QDone q (gcItem rg r)] @ calls @ [QForget q (gcItem rg r)] @
      (if res = Inr True then []
       else [QAddAfter q (gcItem rg r) (jitter (garbageCollectorRequeueAfter c) (garbageCollectorRequeueAfterJitterFactor c))])
      @ [QDone q (gcItem rg r)])"
  using assms by (simp add: processGarbageCollectorWorkItem_def gcItem_def)

text \<open>
  C40. What the garbage collector does with a request for an object that owns nothing: without finalizers the
  object is gone and the request is forgotten; with finalizers it stays, marked for deletion, and the request comes back
  after the jittered requeue time. In both cases the item is marked done, and no other object changes.
\<close>

theorem gc_work_item:
  assumes "garbageCollectorQueue c = Some q" "resourceGroupTracker_of c rg = Some t" "objectAt t r = Some obj"
    and "ownedBy t r = []" "now \<noteq> 0"
  shows "\<exists>c' calls informed t'. processGarbageCollectorWorkItem (Suc n) jitter now c (Some (gcItem rg r)) =
       Some (Inr True, c', [QDone q (gcItem rg r)] @ informed @ [QForget q (gcItem rg r)] @ calls @ [QDone q (gcItem rg r)])
     \<and> resourceGroupTracker_of c' rg = Some t' \<and> (\<forall>x. x \<noteq> r \<longrightarrow> objectAt t' x = objectAt t x)
     \<and> (if GetFinalizers obj = [] then objectAt t' r = None \<and> calls = [] \<and> informed = []
        else marked t' r \<and> calls = [QAddAfter q (gcItem rg r)
               (jitter (garbageCollectorRequeueAfter c) (garbageCollectorRequeueAfterJitterFactor c))])"
proof -
  let ?t1 = "t\<lparr>ownedObjects := mdel (ownedObjects t) r\<rparr>"
  obtain res t' informed where fin: "finishDelete now c rg ?t1 r obj = (res, t', informed)" by (metis prod_cases3)
  have at: "objectAt ?t1 r = Some obj" using assms(3) by simp
  obtain d where d: "res = Inr d" "if d then objectAt t' r = None else marked t' r"
    using finishDelete_step(2) [OF fin at assms(5)] by blast
  have dfin: "d \<longleftrightarrow> GetFinalizers obj = []" "d \<Longrightarrow> informed = []"
    using fin d(1) by (cases rule: finishDelete_cases; simp)+
  have "tryDelete (Suc n) now c rg r = Some (res, c\<lparr>resourceGroups := mput (resourceGroups c) rg t'\<rparr>, informed)"
    using assms(2,3,4) fin by (simp add: tryDelete_def doTryDelete_Suc)
  moreover have "\<forall>x. x \<noteq> r \<longrightarrow> objectAt t' x = objectAt t x" using finishDelete_frame [OF fin] by simp
  ultimately show ?thesis
    using d dfin
    by (intro exI [of _ "c\<lparr>resourceGroups := mput (resourceGroups c) rg t'\<rparr>"] exI [of _ informed] exI [of _ t']
        exI [of _ "if d then [] else [QAddAfter q (gcItem rg r)
          (jitter (garbageCollectorRequeueAfter c) (garbageCollectorRequeueAfterJitterFactor c))]"])
       (simp add: gc_gcItem [OF assms(1)] resourceGroupTracker_of_def)
qed

theorem gc_work_item_witness:
  "\<exists>c' t'. processGarbageCollectorWorkItem 1 (\<lambda>d f. d) 2 ownerCache (Some (gcItem ''rg'' (sampleRef ''Secret'' ''child''))) =
       Some (Inr True, c', [QDone GcQueue (gcItem ''rg'' (sampleRef ''Secret'' ''child'')),
         QForget GcQueue (gcItem ''rg'' (sampleRef ''Secret'' ''child'')), QDone GcQueue (gcItem ''rg'' (sampleRef ''Secret'' ''child''))])
     \<and> resourceGroupTracker_of c' ''rg'' = Some t' \<and> objectAt t' (sampleRef ''Secret'' ''child'') = None"
proof -
  have "objectAt ownerTracker (sampleRef ''Secret'' ''child'') =
      Some (stampedObject ''Secret'' ''child'' [] [sampleOwner ''ConfigMap'' ''parent''])"
    "ownedBy ownerTracker (sampleRef ''Secret'' ''child'') = []" "garbageCollectorQueue ownerCache = Some GcQueue"
    by (simp_all add: ownerTracker_def sampleRef_def coreGVK_def getObject_def ownedBy_def mget_or_def ownerCache_eval startedCache_eval)
  from gc_work_item [OF this(3) ownerCache_tracker this(1,2), of 2 0 "\<lambda>d f. d"] show ?thesis
    by (auto simp: GetFinalizers_def stampedObject_def sampleObject_def)
qed

text \<open>
  A request for an object that no longer exists, or for a resource group that was deleted, is never
  dropped: every time the garbage collector processes it nothing changes and it is queued again.
\<close>

lemma gc_missing_requeued:
  assumes "garbageCollectorQueue c = Some q"
    and "case resourceGroupTracker_of c rg of None \<Rightarrow> True | Some t \<Rightarrow> objectAt t r = None"
  shows "\<exists>c'. processGarbageCollectorWorkItem (Suc n) jitter now c (Some (gcItem rg r)) =
       Some (Inr True, c', [QDone q (gcItem rg r), QForget q (gcItem rg r),
         QAddAfter q (gcItem rg r) (jitter (garbageCollectorRequeueAfter c) (garbageCollectorRequeueAfterJitterFactor c)),
         QDone q (gcItem rg r)])
     \<and> (\<forall>g. resourceGroupTracker_of c' g = resourceGroupTracker_of c g)"
proof (cases "resourceGroupTracker_of c rg")
  case None
  then have "tryDelete (Suc n) now c rg r = Some (Inl (BadRequest (ResourceGroupNotExist rg)), c, [])"
    by (simp add: tryDelete_def)
  from gc_gcItem [OF assms(1) this] show ?thesis by simp
next
  case (Some t)
  then have "tryDelete (Suc n) now c rg r =
      Some (Inl (NotFound (unsafeGuessGroupVersionResource (refGVK r)) (refKey r)),
        c\<lparr>resourceGroups := mput (resourceGroups c) rg t\<rparr>, [])"
    using assms(2) by (simp add: tryDelete_def doTryDelete_Suc)
  from gc_gcItem [OF assms(1) this] Some show ?thesis by (simp add: resourceGroupTracker_of_def)
qed

section \<open>Syncer\<close>

text \<open>
  On a reachable cache \<^verbatim>\<open>syncGroup\<close> queues exactly the objects whose last sync, in whole seconds, is
  at least one sync period ago, in every resource group.
\<close>

lemma syncGroup_exact:
  assumes "reachableCache sch clock c" "\<forall>t. clock t \<longrightarrow> formattable t" "syncQueue c = Some q"
  shows "\<exists>calls. syncGroup now c = Inr calls \<and>
     (\<forall>rr. QAdd q (ResyncItem rr) \<in> set calls \<longleftrightarrow>
        (\<exists>t obj last. resourceGroupTracker_of c (rrResourceGroup rr) = Some t
           \<and> getObject t (rrGVK rr) (rrKey rr) = Some obj
           \<and> clock last \<and> mget (GetAnnotations obj) lastSyncTimeAnnotation = Some (Format_RFC3339 last)
           \<and> truncSecond last \<le> now - syncPeriod c))"
proof -
  let ?calls = "concat (map (\<lambda>(rg, t). syncResourceGroupTracker now c q rg t) (resourceGroups c))"
  have stamp: "needsSync (syncPeriod c) now obj \<longleftrightarrow>
      (\<exists>last. clock last \<and> mget (GetAnnotations obj) lastSyncTimeAnnotation = Some (Format_RFC3339 last)
         \<and> truncSecond last \<le> now - syncPeriod c)"
    if "resourceGroupTracker_of c rg = Some t" "getObject t g k = Some obj" for rg t g k obj
  proof -
    have "objectOk sch clock \<lparr>refGVK = g, refKey = k\<rparr> obj"
      using okObject.obj.reachable [OF assms(1) that(1)] that(2)
      unfolding okObject.holds_def by (metis ownReference.select_convs)
    then obtain t0 where "clock t0" "mget (GetAnnotations obj) lastSyncTimeAnnotation = Some (Format_RFC3339 t0)"
      by (auto simp: objectOk_def stamped_def)
    with assms(2) needsSync_stamped show ?thesis by blast
  qed
  have "QAdd q (ResyncItem rr) \<in> set ?calls \<longleftrightarrow> (\<exists>t. resourceGroupTracker_of c (rrResourceGroup rr) = Some t
      \<and> (\<exists>obj. getObject t (rrGVK rr) (rrKey rr) = Some obj \<and> needsSync (syncPeriod c) now obj))" for rr
  proof -
    have "QAdd q (ResyncItem rr) \<in> set ?calls \<longleftrightarrow>
        (\<exists>rg t. resourceGroupTracker_of c rg = Some t \<and> QAdd q (ResyncItem rr) \<in> set (syncResourceGroupTracker now c q rg t))"
      using mget_iff_in_set [OF reachable_groups_distinct [OF assms(1)]] by (auto simp: resourceGroupTracker_of_def)
    also have "\<dots> \<longleftrightarrow> (\<exists>t. resourceGroupTracker_of c (rrResourceGroup rr) = Some t
      \<and> (\<exists>obj. getObject t (rrGVK rr) (rrKey rr) = Some obj \<and> needsSync (syncPeriod c) now obj))"
      using set_syncResourceGroupTracker [OF distinctKeys.reachable [OF assms(1)], of _ _ q rr now c q]
      by (intro iffI; elim exE conjE) (auto intro!: exI [of _ "rrResourceGroup rr"])
    finally show ?thesis .
  qed
  moreover have "(\<exists>t. resourceGroupTracker_of c rg = Some t \<and> (\<exists>obj. getObject t g k = Some obj \<and> needsSync (syncPeriod c) now obj))
    \<longleftrightarrow> (\<exists>t obj last. resourceGroupTracker_of c rg = Some t \<and> getObject t g k = Some obj \<and> clock last
        \<and> mget (GetAnnotations obj) lastSyncTimeAnnotation = Some (Format_RFC3339 last)
        \<and> truncSecond last \<le> now - syncPeriod c)" for rg g k
    by (intro iffI; elim exE conjE; frule (1) stamp) blast+
  ultimately show ?thesis using assms(3) by (intro exI [of _ ?calls]) (simp add: syncGroup_def)
qed

text \<open>
  A sync of an existing object changes nothing but its last sync annotation, which becomes the current time: the
  resource version stays, every handler of its kind gets one generic event with the new object, and the item is forgotten and
  done. The object is not due again before a sync period, less the second lost in the annotation, has passed.
\<close>

lemma sync_work_item:
  assumes "syncQueue c = Some q" "resourceGroupTracker_of c rg = Some t" "getObject t gvk key = Some obj"
    and "formattable now" "rr = \<lparr>rrResourceGroup = rg, rrGVK = gvk, rrKey = key\<rparr>"
  shows "\<exists>c' t' obj'. processSyncWorkItem now c (Some (ResyncItem rr)) =
       (Inr True, c', informSync c rg obj' @ [QForget q (ResyncItem rr), QDone q (ResyncItem rr)])
     \<and> resourceGroupTracker_of c' rg = Some t' \<and> getObject t' gvk key = Some obj'
     \<and> obj' = obj\<lparr>oAnnotations := Some (mput (GetAnnotations obj) lastSyncTimeAnnotation (Format_RFC3339 now))\<rparr>
     \<and> (\<forall>later. later - now \<le> syncPeriod c - nsSecond \<longrightarrow> \<not> needsSync (syncPeriod c) later obj')
     \<and> (\<forall>later. later - now \<ge> syncPeriod c \<longrightarrow> needsSync (syncPeriod c) later obj')"
proof -
  have "needsSync period later (syncStamp now obj) \<longleftrightarrow> truncSecond now \<le> later - period" for period later
    using assms(4) by (intro needsSync_stamped) (simp_all add: syncStamp_def appendAnnotations_def object_getters)
  moreover note truncSecond_le [of now] truncSecond_gt [of now]
  moreover have "syncStamp now obj =
      obj\<lparr>oAnnotations := Some (mput (GetAnnotations obj) lastSyncTimeAnnotation (Format_RFC3339 now))\<rparr>"
    by (simp add: syncStamp_def appendAnnotations_def)
  ultimately show ?thesis
    using assms(1,2,3,5)
    by (intro exI [of _ "c\<lparr>resourceGroups := mput (resourceGroups c) rg (putObject t gvk key (syncStamp now obj))\<rparr>"]
        exI [of _ "putObject t gvk key (syncStamp now obj)"] exI [of _ "syncStamp now obj"])
       (auto simp: processSyncWorkItem_def Let_def resourceGroupTracker_of_def)
qed

end
