(* ===== verification/Runtime_Events.thy ===== *)
theory Runtime_Events
  imports Cache_Invariant
begin

text \<open>
  Events on their way from the cache to a controller's queue: \<^verbatim>\<open>event/event.go\<close>, \<^verbatim>\<open>predicate/predicate.go\<close>,
  \<^verbatim>\<open>handler/enqueue_object.go\<close> and \<^verbatim>\<open>source/informer_source.go\<close> of \<^verbatim>\<open>internal/cloud/runtime\<close>. An object of
  an event may be nil. A source keeps the pointer of an informer of the cache: the model keeps the informer's kind, which is
  its key in the cache, and \<open>None\<close> is a nil pointer.
\<close>

section \<open>Events, predicates and handlers\<close>

record 'b CreateEvent =
  ceResourceGroup :: string
  ceObject :: "'b object option"

record 'b UpdateEvent =
  ueResourceGroup :: string
  ueObjectOld :: "'b object option"
  ueObjectNew :: "'b object option"

record 'b DeleteEvent =
  deResourceGroup :: string
  deObject :: "'b object option"

record 'b GenericEvent =
  geResourceGroup :: string
  geObject :: "'b object option"

record 'b Predicate =
  pCreate :: "'b CreateEvent \<Rightarrow> bool"
  pDelete :: "'b DeleteEvent \<Rightarrow> bool"
  pUpdate :: "'b UpdateEvent \<Rightarrow> bool"
  pGeneric :: "'b GenericEvent \<Rightarrow> bool"

record 'b EventHandler =
  ehCreate :: "'b CreateEvent \<Rightarrow> queueName \<Rightarrow> queueCall list"
  ehUpdate :: "'b UpdateEvent \<Rightarrow> queueName \<Rightarrow> queueCall list"
  ehDelete :: "'b DeleteEvent \<Rightarrow> queueName \<Rightarrow> queueCall list"
  ehGeneric :: "'b GenericEvent \<Rightarrow> queueName \<Rightarrow> queueCall list"

definition requestFor :: "string \<Rightarrow> 'b object \<Rightarrow> queueItem" where
  "requestFor rg o1 = ReconcileItem \<lparr>reqResourceGroup = rg,
     reqNamespacedName = \<lparr>nnNamespace = oNamespace o1, nnName = oName o1\<rparr>\<rparr>"

definition enqueueCreate :: "'b CreateEvent \<Rightarrow> queueName \<Rightarrow> queueCall list" where
  "enqueueCreate evt q = (case ceObject evt of
      None \<Rightarrow> [] | Some o1 \<Rightarrow> [QAdd q (requestFor (ceResourceGroup evt) o1)])"

definition enqueueUpdate :: "'b UpdateEvent \<Rightarrow> queueName \<Rightarrow> queueCall list" where
  "enqueueUpdate evt q = (case ueObjectNew evt of
      Some o1 \<Rightarrow> [QAdd q (requestFor (ueResourceGroup evt) o1)]
    | None \<Rightarrow> (case ueObjectOld evt of
        Some o1 \<Rightarrow> [QAdd q (requestFor (ueResourceGroup evt) o1)]
      | None \<Rightarrow> []))"

definition enqueueDelete :: "'b DeleteEvent \<Rightarrow> queueName \<Rightarrow> queueCall list" where
  "enqueueDelete evt q = (case deObject evt of
      None \<Rightarrow> [] | Some o1 \<Rightarrow> [QAdd q (requestFor (deResourceGroup evt) o1)])"

definition enqueueGeneric :: "'b GenericEvent \<Rightarrow> queueName \<Rightarrow> queueCall list" where
  "enqueueGeneric evt q = (case geObject evt of
      None \<Rightarrow> [] | Some o1 \<Rightarrow> [QAdd q (requestFor (geResourceGroup evt) o1)])"

definition EnqueueRequestForObject :: "'b EventHandler" where
  "EnqueueRequestForObject = \<lparr>ehCreate = enqueueCreate, ehUpdate = enqueueUpdate,
     ehDelete = enqueueDelete, ehGeneric = enqueueGeneric\<rparr>"

section \<open>Informer source\<close>

definition handlerOnCreate ::
  "'b EventHandler \<Rightarrow> queueName \<Rightarrow> 'b Predicate list \<Rightarrow> string \<Rightarrow> 'b object \<Rightarrow> queueCall list" where
  "handlerOnCreate eh q ps rg obj =
     (let c = \<lparr>ceResourceGroup = rg, ceObject = Some obj\<rparr>
      in if list_all (\<lambda>p. pCreate p c) ps then ehCreate eh c q else [])"

definition handlerOnUpdate ::
  "'b EventHandler \<Rightarrow> queueName \<Rightarrow> 'b Predicate list \<Rightarrow> string \<Rightarrow> 'b object \<Rightarrow> 'b object \<Rightarrow> queueCall list" where
  "handlerOnUpdate eh q ps rg oldObj newObj =
     (let u = \<lparr>ueResourceGroup = rg, ueObjectOld = Some oldObj, ueObjectNew = Some newObj\<rparr>
      in if list_all (\<lambda>p. pUpdate p u) ps then ehUpdate eh u q else [])"

definition handlerOnDelete ::
  "'b EventHandler \<Rightarrow> queueName \<Rightarrow> 'b Predicate list \<Rightarrow> string \<Rightarrow> 'b object \<Rightarrow> queueCall list" where
  "handlerOnDelete eh q ps rg obj =
     (let d = \<lparr>deResourceGroup = rg, deObject = Some obj\<rparr>
      in if list_all (\<lambda>p. pDelete p d) ps then ehDelete eh d q else [])"

definition handlerOnGeneric ::
  "'b EventHandler \<Rightarrow> queueName \<Rightarrow> 'b Predicate list \<Rightarrow> string \<Rightarrow> 'b object \<Rightarrow> queueCall list" where
  "handlerOnGeneric eh q ps rg obj =
     (let d = \<lparr>geResourceGroup = rg, geObject = Some obj\<rparr>
      in if list_all (\<lambda>p. pGeneric p d) ps then ehGeneric eh d q else [])"

definition informerEventHandler :: "'b EventHandler \<Rightarrow> queueName \<Rightarrow> 'b Predicate list \<Rightarrow> 'b InformEventHandler" where
  "informerEventHandler eh q ps = \<lparr>OnCreate = handlerOnCreate eh q ps, OnUpdate = handlerOnUpdate eh q ps,
     OnDelete = handlerOnDelete eh q ps, OnGeneric = handlerOnGeneric eh q ps\<rparr>"

datatype Source = Informer "GroupVersionKind option"

definition sourceStart ::
  "'b cache \<Rightarrow> Source \<Rightarrow> 'b EventHandler \<Rightarrow> queueName \<Rightarrow> 'b Predicate list \<Rightarrow> (apiError + unit) \<times> 'b cache" where
  "sourceStart c src eh q ps = (case src of
      Informer None \<Rightarrow> (Inl (GoError ''must specify Informer.Informer''), c)
    | Informer (Some gvk) \<Rightarrow>
       (case mget (informers c) gvk of
          None \<Rightarrow> (Inl (GoError ''must specify Informer.Informer''), c)
        | Some i \<Rightarrow> (Inr (), c\<lparr>informers := mput (informers c) gvk (AddEventHandler i (informerEventHandler eh q ps))\<rparr>)))"

section \<open>What the handlers are told\<close>

lemmas event_defs = informerEventHandler_def handlerOnCreate_def handlerOnUpdate_def handlerOnDelete_def handlerOnGeneric_def
  EnqueueRequestForObject_def enqueueCreate_def enqueueUpdate_def enqueueDelete_def enqueueGeneric_def

lemma requestFor_cong: "oNamespace a = oNamespace b \<Longrightarrow> oName a = oName b \<Longrightarrow> requestFor rg a = requestFor rg b"
  by (simp add: requestFor_def)

lemma handlersFor_sourceStart:
  "sourceStart c (Informer (Some gvk)) eh q ps = (Inr (), c') \<Longrightarrow>
     handlersFor c' g = (if g = gvk then handlersFor c g @ [informerEventHandler eh q ps] else handlersFor c g)"
  by (auto simp: sourceStart_def handlersFor_def AddEventHandler_def split: option.splits)

lemma sourceStart_keeps:
  "sourceStart c src eh q ps = (res, c') \<Longrightarrow> resourceGroups c' = resourceGroups c \<and> cScheme c' = cScheme c
     \<and> cStarted c' = cStarted c"
  by (auto simp: sourceStart_def split: Source.splits option.splits)

lemma informed:
  assumes "informerEventHandler eh q ps \<in> set (handlersFor c (oGVK o1))"
  shows "set (handlerOnCreate eh q ps rg o1) \<subseteq> set (informCreate c rg o1)"
    and "set (handlerOnUpdate eh q ps rg old o1) \<subseteq> set (informUpdate c rg old o1)"
    and "set (handlerOnDelete eh q ps rg o1) \<subseteq> set (informDelete c rg o1)"
    and "set (handlerOnGeneric eh q ps rg o1) \<subseteq> set (informSync c rg o1)"
  using assms by (force simp: inform_defs informerEventHandler_def)+

end
