(* ===== verification/Controller_Runtime.thy ===== *)
theory Controller_Runtime
  imports Runtime_Events
begin

text \<open>
  The controller runtime of the in-memory cloud: \<^verbatim>\<open>controller/controller.go\<close>, \<^verbatim>\<open>manager/manager.go\<close>,
  \<^verbatim>\<open>resourcegroup/cached_resourcegroup.go\<close>, \<^verbatim>\<open>reconcile/reconcile.go\<close> and \<^verbatim>\<open>builder/builder.go\<close>.
  \<^item> A reconciler is a function of the request and the cache.
  \<^item> The manager keeps pointers to its controllers; the builder's pointer to the controller it built is the position of
    the controller in that list.
  \<^item> Goroutines are not started: the error of polling for the workers to come up, if any, is a parameter, and
    \<^verbatim>\<open>processNextWorkItem\<close> is one step of a worker.
\<close>

section \<open>Requests\<close>

definition requestString :: "Request \<Rightarrow> string" where
  "requestString r =
     (let nn = nnNamespace (reqNamespacedName r) @ ''/'' @ nnName (reqNamespacedName r)
      in if reqResourceGroup r = '''' then nn else reqResourceGroup r @ ''/'' @ nn)"

record Result =
  rRequeue :: bool
  rRequeueAfter :: duration

type_synonym 'b Reconciler = "Request \<Rightarrow> 'b cache \<Rightarrow> (apiError + Result) \<times> 'b cache \<times> queueCall list"

section \<open>Controller\<close>

record 'b watchDescription =
  wdSrc :: Source
  wdHandler :: "'b EventHandler"
  wdPredicates :: "'b Predicate list"

record 'b Options =
  optConcurrency :: int
  optReconciler :: "'b Reconciler option"

record 'b controller =
  ctlName :: string
  ctlReconciler :: "'b Reconciler"
  ctlConcurrency :: int
  ctlCacheSyncTimeout :: duration
  ctlQueue :: "queueName option"
  ctlStartWatches :: "'b watchDescription list"
  ctlStarted :: bool

definition New :: "string \<Rightarrow> 'b Options \<Rightarrow> apiError + 'b controller" where
  "New name options =
     (if name = '''' then Inl (GoError ''name cannot be empty'')
      else case optReconciler options of
        None \<Rightarrow> Inl (GoError ''reconciler cannot be nil'')
      | Some r \<Rightarrow>
        if optConcurrency options < 1 then Inl (GoError ''concurrency cannot be less then 1'')
        else Inr \<lparr>ctlName = name, ctlReconciler = r, ctlConcurrency = optConcurrency options,
                  ctlCacheSyncTimeout = 2 * nsMinute, ctlQueue = None, ctlStartWatches = [], ctlStarted = False\<rparr>)"

definition Watch ::
  "'b cache \<Rightarrow> 'b controller \<Rightarrow> Source \<Rightarrow> 'b EventHandler \<Rightarrow> 'b Predicate list \<Rightarrow>
   (apiError + unit) \<times> 'b cache \<times> 'b controller" where
  "Watch c ctl src eh ps =
     (if \<not> ctlStarted ctl
      then (Inr (), c, ctl\<lparr>ctlStartWatches := ctlStartWatches ctl @ [\<lparr>wdSrc = src, wdHandler = eh, wdPredicates = ps\<rparr>]\<rparr>)
      else case ctlQueue ctl of
             None \<Rightarrow> (Inl (Panic ''nil queue''), c, ctl)
           | Some q \<Rightarrow> (case sourceStart c src eh q ps of (res, c') \<Rightarrow> (res, c', ctl)))"

fun startSources :: "'b cache \<Rightarrow> queueName \<Rightarrow> 'b watchDescription list \<Rightarrow> (apiError + unit) \<times> 'b cache" where
  "startSources c q [] = (Inr (), c)"
| "startSources c q (w # ws) =
     (case sourceStart c (wdSrc w) (wdHandler w) q (wdPredicates w) of
        (Inl e, c') \<Rightarrow> (Inl e, c')
      | (Inr _, c') \<Rightarrow> startSources c' q ws)"

definition controllerStart ::
  "bool \<Rightarrow> string option \<Rightarrow> 'b cache \<Rightarrow> 'b controller \<Rightarrow> (apiError + unit) \<times> 'b cache \<times> 'b controller" where
  "controllerStart ctxNil workersPoll c ctl =
     (if ctxNil then (Inl (GoError ''context cannot be nil''), c, ctl)
      else if ctlStarted ctl then (Inl (GoError ''controller started more than once''), c, ctl)
      else (let q = ControllerQueue (ctlName ctl); ctl1 = ctl\<lparr>ctlQueue := Some q\<rparr>
            in case startSources c q (ctlStartWatches ctl1) of
                 (Inl e, c1) \<Rightarrow> (Inl e, c1, ctl1)
               | (Inr _, c1) \<Rightarrow>
                 (let ctl2 = ctl1\<lparr>ctlStartWatches := []\<rparr>
                  in case workersPoll of
                       Some err \<Rightarrow> (Inl (GoError (''failed to start reconcile workers: '' @ err)), c1, ctl2)
                     | None \<Rightarrow> (Inr (), c1, ctl2\<lparr>ctlStarted := True\<rparr>))))"

definition reconcileHandler ::
  "'b cache \<Rightarrow> 'b controller \<Rightarrow> queueName \<Rightarrow> queueItem \<Rightarrow> 'b cache \<times> queueCall list" where
  "reconcileHandler c ctl q obj =
     (case obj of
        ReconcileItem req \<Rightarrow>
          (case ctlReconciler ctl req c of
             (Inl _, c', calls) \<Rightarrow> (c', calls @ [QAddRateLimited q obj])
           | (Inr result, c', calls) \<Rightarrow>
               (c', calls @
                 (if rRequeueAfter result > 0 then [QForget q obj, QAddAfter q obj (rRequeueAfter result)]
                  else if rRequeue result then [QAddRateLimited q obj]
                  else [QForget q obj])))
      | _ \<Rightarrow> (c, [QForget q obj]))"

definition processNextWorkItem ::
  "'b cache \<Rightarrow> 'b controller \<Rightarrow> queueItem option \<Rightarrow> (apiError + bool) \<times> 'b cache \<times> queueCall list" where
  "processNextWorkItem c ctl item =
     (case ctlQueue ctl of
        None \<Rightarrow> (Inl (Panic ''nil queue''), c, [])
      | Some q \<Rightarrow>
        (case item of
           None \<Rightarrow> (Inr False, c, [])
         | Some obj \<Rightarrow>
           (case reconcileHandler c ctl q obj of (c', calls) \<Rightarrow> (Inr True, c', calls @ [QDone q obj]))))"

section \<open>Resource groups\<close>

text \<open>A client of a resource group: the operations of the cache with the name of the group.\<close>

record 'b cachedClient =
  clGet :: "'b cache \<Rightarrow> NamespacedName \<Rightarrow> 'b object option \<Rightarrow> (apiError + unit) \<times> 'b object option"
  clList :: "'b cache \<Rightarrow> 'b object \<Rightarrow> 'b objectList option \<Rightarrow> ListOptions \<Rightarrow> (apiError + unit) \<times> 'b objectList option"
  clCreate :: "gotime \<Rightarrow> 'b cache \<Rightarrow> 'b object option \<Rightarrow> 'b writeResult"
  clDelete :: "nat \<Rightarrow> gotime \<Rightarrow> 'b cache \<Rightarrow> 'b object option \<Rightarrow> 'b writeResult option"
  clUpdate :: "gotime \<Rightarrow> 'b cache \<Rightarrow> 'b object option \<Rightarrow> 'b writeResult"
  clPatch :: "gotime \<Rightarrow> 'b cache \<Rightarrow> 'b object option \<Rightarrow> 'b patch \<Rightarrow> (apiError + unit) \<times> 'b cache \<times> queueCall list"

record cachedResourceGroup =
  rgName :: string

definition NewResourceGroup :: "string \<Rightarrow> cachedResourceGroup" where
  "NewResourceGroup name = \<lparr>rgName = name\<rparr>"

definition GetClient :: "cachedResourceGroup \<Rightarrow> 'b cachedClient" where
  "GetClient cc = \<lparr>clGet = (\<lambda>c. Get c (rgName cc)), clList = (\<lambda>c. List c (rgName cc)),
     clCreate = (\<lambda>now c. Create now c (rgName cc)), clDelete = (\<lambda>fuel now c. Delete fuel now c (rgName cc)),
     clUpdate = (\<lambda>now c. Update now c (rgName cc)), clPatch = (\<lambda>now c. Patch now c (rgName cc))\<rparr>"

section \<open>Manager\<close>

record 'b manager =
  mgrScheme :: "'b scheme"
  mgrCache :: "'b cache"
  mgrControllers :: "'b controller list"
  mgrStarted :: bool

definition managerNew :: "'b scheme \<Rightarrow> 'b manager" where
  "managerNew sch = \<lparr>mgrScheme = sch, mgrCache = NewCache sch, mgrControllers = [], mgrStarted = False\<rparr>"

definition managerAddResourceGroup :: "'b manager \<Rightarrow> string \<Rightarrow> 'b manager" where
  "managerAddResourceGroup m name = m\<lparr>mgrCache := AddResourceGroup (mgrCache m) name\<rparr>"

definition managerDeleteResourceGroup :: "'b manager \<Rightarrow> string \<Rightarrow> 'b manager" where
  "managerDeleteResourceGroup m name = m\<lparr>mgrCache := DeleteResourceGroup (mgrCache m) name\<rparr>"

definition GetResourceGroup :: "'b manager \<Rightarrow> string \<Rightarrow> cachedResourceGroup" where
  "GetResourceGroup m name = NewResourceGroup name"

definition AddController :: "'b manager \<Rightarrow> 'b controller \<Rightarrow> (apiError + unit) \<times> 'b manager" where
  "AddController m ctl =
     (if mgrStarted m then (Inl (GoError ''cannot add controller to a manager already started''), m)
      else (Inr (), m\<lparr>mgrControllers := mgrControllers m @ [ctl]\<rparr>))"

text \<open>The loop over the controllers: the controllers before the one that fails stay started. \<open>polls\<close> gives the error of
  polling for the workers of each, if any.\<close>

fun startControllers ::
  "(string \<Rightarrow> string option) \<Rightarrow> 'b cache \<Rightarrow> 'b controller list \<Rightarrow> (apiError + unit) \<times> 'b cache \<times> 'b controller list" where
  "startControllers polls c [] = (Inr (), c, [])"
| "startControllers polls c (ctl # ctls) =
     (case controllerStart False (polls (ctlName ctl)) c ctl of
        (Inl e, c', ctl') \<Rightarrow> (Inl (formatError ''failed to start controllers'' e), c', ctl' # ctls)
      | (Inr _, c', ctl') \<Rightarrow>
          (case startControllers polls c' ctls of (res, c'', ctls') \<Rightarrow> (res, c'', ctl' # ctls')))"

definition managerStart ::
  "bool \<Rightarrow> string option \<times> string option \<times> string option \<Rightarrow> (string \<Rightarrow> string option) \<Rightarrow> 'b manager \<Rightarrow> (apiError + unit) \<times> 'b manager" where
  "managerStart ctxNil cachePolls polls m =
     (if ctxNil then (Inl (GoError ''context cannot be nil''), m)
      else if mgrStarted m then (Inl (GoError ''manager started more than once''), m)
      else case Start ctxNil cachePolls (mgrCache m) of
             (Inl e, c) \<Rightarrow> (Inl (formatError ''failed to start cache'' e), m\<lparr>mgrCache := c\<rparr>)
           | (Inr _, c) \<Rightarrow>
             (case startControllers polls c (mgrControllers m) of
                (Inl e, c', ctls) \<Rightarrow> (Inl e, m\<lparr>mgrCache := c', mgrControllers := ctls\<rparr>)
              | (Inr _, c', ctls) \<Rightarrow> (Inr (), m\<lparr>mgrCache := c', mgrControllers := ctls, mgrStarted := True\<rparr>)))"

section \<open>Builder\<close>

record 'b ForInput =
  fiObject :: "'b object option"
  fiPredicates :: "'b Predicate list"
  fiErr :: "apiError option"

record 'b WatchesInput =
  wiSrc :: Source
  wiHandler :: "'b EventHandler"
  wiPredicates :: "'b Predicate list"

record 'b Builder =
  bForInput :: "'b ForInput"
  bWatchesInput :: "'b WatchesInput list"
  bGlobalPredicates :: "'b Predicate list"
  bCtrl :: "nat option"
  bCtrlOptions :: "'b Options"
  bName :: string

definition ControllerManagedBy :: "'b Builder" where
  "ControllerManagedBy = \<lparr>bForInput = \<lparr>fiObject = None, fiPredicates = [], fiErr = None\<rparr>, bWatchesInput = [],
     bGlobalPredicates = [], bCtrl = None, bCtrlOptions = \<lparr>optConcurrency = 0, optReconciler = None\<rparr>, bName = ''''\<rparr>"

text \<open>An option of For or Watches (\<^verbatim>\<open>WithPredicates\<close>) replaces the predicates: the last one wins.\<close>

definition applyToFor :: "'b Predicate list \<Rightarrow> 'b ForInput \<Rightarrow> 'b ForInput" where
  "applyToFor ps input = input\<lparr>fiPredicates := ps\<rparr>"

definition applyToWatches :: "'b Predicate list \<Rightarrow> 'b WatchesInput \<Rightarrow> 'b WatchesInput" where
  "applyToWatches ps input = input\<lparr>wiPredicates := ps\<rparr>"

definition For :: "'b Builder \<Rightarrow> 'b object option \<Rightarrow> 'b Predicate list list \<Rightarrow> 'b Builder" where
  "For b obj opts =
     (if \<not> Option.is_none (fiObject (bForInput b))
      then b\<lparr>bForInput := (bForInput b)\<lparr>fiErr := Some (GoError ''method For(...) should only be called once, could not assign multiple objects for reconciliation'')\<rparr>\<rparr>
      else b\<lparr>bForInput := fold applyToFor opts \<lparr>fiObject = obj, fiPredicates = [], fiErr = None\<rparr>\<rparr>)"

definition Watches :: "'b Builder \<Rightarrow> Source \<Rightarrow> 'b EventHandler \<Rightarrow> 'b Predicate list list \<Rightarrow> 'b Builder" where
  "Watches b src eh opts =
     b\<lparr>bWatchesInput := bWatchesInput b @ [fold applyToWatches opts \<lparr>wiSrc = src, wiHandler = eh, wiPredicates = []\<rparr>]\<rparr>"

definition WithEventFilter :: "'b Builder \<Rightarrow> 'b Predicate \<Rightarrow> 'b Builder" where
  "WithEventFilter b p = b\<lparr>bGlobalPredicates := bGlobalPredicates b @ [p]\<rparr>"

definition WithOptions :: "'b Builder \<Rightarrow> 'b Options \<Rightarrow> 'b Builder" where
  "WithOptions b options = b\<lparr>bCtrlOptions := options\<rparr>"

definition Named :: "'b Builder \<Rightarrow> string \<Rightarrow> 'b Builder" where
  "Named b name = b\<lparr>bName := name\<rparr>"

definition getControllerName :: "'b Builder \<Rightarrow> GroupVersionKind option \<Rightarrow> apiError + string" where
  "getControllerName b gvk =
     (if bName b \<noteq> '''' then Inr (bName b)
      else case gvk of
        None \<Rightarrow> Inl (GoError ''one of For() or Named() must be called'')
      | Some g \<Rightarrow> Inr (ToLower (gvkKind g)))"

definition doController ::
  "'b manager \<Rightarrow> 'b Builder \<Rightarrow> 'b Reconciler \<Rightarrow> (apiError + unit) \<times> 'b manager \<times> 'b Builder" where
  "doController m b r =
     (let o1 = bCtrlOptions b;
          o2 = (case optReconciler o1 of None \<Rightarrow> o1\<lparr>optReconciler := Some r\<rparr> | Some _ \<Rightarrow> o1);
          gvk = (case fiObject (bForInput b) of
                   None \<Rightarrow> Inr None
                 | Some obj \<Rightarrow> (case GVKForObject (mgrScheme m) obj of Inl e \<Rightarrow> Inl (GoError e) | Inr g \<Rightarrow> Inr (Some g)))
      in case gvk of
           Inl e \<Rightarrow> (Inl e, m, b)
         | Inr g \<Rightarrow>
           (let o3 = (if optConcurrency o2 \<le> 0 then o2\<lparr>optConcurrency := 1\<rparr> else o2)
            in case getControllerName b g of
                 Inl e \<Rightarrow> (Inl e, m, b)
               | Inr controllerName \<Rightarrow>
                 (case New controllerName o3 of
                    Inl e \<Rightarrow> (Inl e, m, b\<lparr>bCtrl := None\<rparr>)
                  | Inr ctl \<Rightarrow>
                    (case AddController m ctl of
                       (res, m') \<Rightarrow> (res, m', b\<lparr>bCtrl := Some (length (mgrControllers m))\<rparr>)))))"

text \<open>Watch on the controller at position \<open>i\<close>.\<close>

definition watchAt ::
  "'b manager \<Rightarrow> nat \<Rightarrow> Source \<Rightarrow> 'b EventHandler \<Rightarrow> 'b Predicate list \<Rightarrow> (apiError + unit) \<times> 'b manager" where
  "watchAt m i src eh ps =
     (if i < length (mgrControllers m)
      then case Watch (mgrCache m) (mgrControllers m ! i) src eh ps of
             (res, c, ctl) \<Rightarrow> (res, m\<lparr>mgrCache := c, mgrControllers := (mgrControllers m)[i := ctl]\<rparr>)
      else (Inl (Panic ''nil controller''), m))"

fun doWatches :: "'b manager \<Rightarrow> nat \<Rightarrow> 'b Predicate list \<Rightarrow> 'b WatchesInput list \<Rightarrow> (apiError + unit) \<times> 'b manager" where
  "doWatches m i gps [] = (Inr (), m)"
| "doWatches m i gps (w # ws) =
     (case watchAt m i (wiSrc w) (wiHandler w) (gps @ wiPredicates w) of
        (Inl e, m') \<Rightarrow> (Inl e, m')
      | (Inr _, m') \<Rightarrow> doWatches m' i gps ws)"

definition doWatch :: "'b manager \<Rightarrow> 'b Builder \<Rightarrow> nat \<Rightarrow> (apiError + unit) \<times> 'b manager" where
  "doWatch m b i =
     (let gps = bGlobalPredicates b
      in case (case fiObject (bForInput b) of
                 None \<Rightarrow> (Inr (), m)
               | Some obj \<Rightarrow>
                 (case GetInformer (mgrCache m) obj of
                    Inl e \<Rightarrow> (Inl e, m)
                  | Inr (c', gvk) \<Rightarrow>
                      watchAt (m\<lparr>mgrCache := c'\<rparr>) i (Informer (Some gvk)) EnqueueRequestForObject
                        (gps @ fiPredicates (bForInput b)))) of
           (Inl e, m') \<Rightarrow> (Inl e, m')
         | (Inr _, m') \<Rightarrow>
           if length (bWatchesInput b) = 0 \<and> Option.is_none (fiObject (bForInput b))
           then (Inl (GoError ''there are no watches configured, controller will never get triggered. Use For(), Owns() or Watches() to set them up''), m')
           else doWatches m' i gps (bWatchesInput b))"

definition Build ::
  "'b manager option \<Rightarrow> 'b Builder \<Rightarrow> 'b Reconciler option \<Rightarrow> (apiError + nat) \<times> 'b manager option" where
  "Build mgr b rec =
     (case rec of
        None \<Rightarrow> (Inl (GoError ''must provide a non-nil Reconciler''), mgr)
      | Some r \<Rightarrow>
        (case mgr of
           None \<Rightarrow> (Inl (GoError ''must provide a non-nil Manager''), None)
         | Some m \<Rightarrow>
           (case fiErr (bForInput b) of
              Some e \<Rightarrow> (Inl e, mgr)
            | None \<Rightarrow>
              (case doController m b r of
                 (Inl e, m1, b1) \<Rightarrow> (Inl e, Some m1)
               | (Inr _, m1, b1) \<Rightarrow>
                 (case bCtrl b1 of
                    None \<Rightarrow> (Inl (Panic ''nil controller''), Some m1)
                  | Some i \<Rightarrow>
                    (case doWatch m1 b1 i of
                       (Inl e, m2) \<Rightarrow> (Inl e, Some m2)
                     | (Inr _, m2) \<Rightarrow> (Inr i, Some m2)))))))"

definition Complete ::
  "'b manager option \<Rightarrow> 'b Builder \<Rightarrow> 'b Reconciler option \<Rightarrow> (apiError + unit) \<times> 'b manager option" where
  "Complete mgr b rec = (case Build mgr b rec of (Inl e, m) \<Rightarrow> (Inl e, m) | (Inr _, m) \<Rightarrow> (Inr (), m))"

end
