(* ===== verification/Runtime_Properties.thy ===== *)
theory Runtime_Properties
  imports Controller_Runtime Cache_Properties
begin

text \<open>
  The properties of the controller runtime: how a controller that was built and started gets its requests, and what each
  change of an object puts into its queue from then on; and that a manager cannot be started again after a failed start.
\<close>

section \<open>From the cache to the queue\<close>

lemma Create_informs:
  assumes "GVKForObject (cScheme c) o0 = Inr gvk" "Create now c rg (Some o0) = (Inr (), c', Some o1, calls)"
  shows "oGVK o1 = gvk" "requestFor rg o1 = requestFor rg o0" "calls = informCreate c rg o1"
proof -
  have "oGVK o1 = gvk \<and> requestFor rg o1 = requestFor rg o0 \<and> calls = informCreate c rg o1"
    using assms(2) [unfolded Create_def]
  proof (cases rule: store_cases)
    case (locked p0 gvk' t t' o2)
    have eq: "gvk' = gvk" "p0 = o0" "o2 = o1" using locked(2,3,8) assms(1) by auto
    from locked(6) show ?thesis
    proof (cases rule: storeLocked_elim)
      case created
      then show ?thesis
        using beforeCreate_fields [OF created(4)] by (simp add: eq requestFor_def afterCreate_def)
    qed simp_all
  qed simp
  then show "oGVK o1 = gvk" "requestFor rg o1 = requestFor rg o0" "calls = informCreate c rg o1" by blast+
qed

section \<open>A controller from the builder to its queue\<close>

text \<open>What a step of the cache leaves as it is, unless it adds a handler for the kind: the handlers, and the queues of a started cache.\<close>

definition addsHandler :: "GroupVersionKind \<Rightarrow> 'b cache \<Rightarrow> 'b cache \<Rightarrow> bool" where
  "addsHandler gvk c c' \<longleftrightarrow>
     (\<exists>i h. mget (informers c) gvk = Some i \<and> c' = c\<lparr>informers := mput (informers c) gvk (AddEventHandler i h)\<rparr>)"

definition sameSetup :: "'b cache \<Rightarrow> 'b cache \<Rightarrow> bool" where
  "sameSetup c c' \<longleftrightarrow> informers c' = informers c \<and> garbageCollectorQueue c' = garbageCollectorQueue c
     \<and> syncQueue c' = syncQueue c \<and> cStarted c' = cStarted c"

lemma sameSetup_groups [simp]: "sameSetup c c" "sameSetup c (c\<lparr>resourceGroups := gs\<rparr>)"
  by (simp_all add: sameSetup_def)

lemma sameSetup_adds: "sameSetup c c' \<Longrightarrow> \<not> addsHandler gvk c c'"
proof
  assume "sameSetup c c'" "addsHandler gvk c c'"
  then obtain i h where "mget (informers c) gvk = Some i" "mput (informers c) gvk (AddEventHandler i h) = informers c"
    by (auto simp: sameSetup_def addsHandler_def)
  then have "AddEventHandler i h = i" by (metis mget_mput option.inject)
  then have "handlers i @ [h] = handlers i" unfolding AddEventHandler_def by (metis informer.select_convs(1) informer.surjective informer.update_convs(1))
  then show False by simp
qed

lemma store_sameSetup: "store now c rg obj re = (res, c', obj', calls) \<Longrightarrow> sameSetup c c'"
  by (elim store_cases) auto

lemma tryDelete_sameSetup: "tryDelete fuel now c rg r = Some (res, c', calls) \<Longrightarrow> sameSetup c c'"
  by (elim tryDelete_cases) auto

lemma cacheStep_setup:
  assumes "cacheStep clock c c'"
  shows "(handlersFor c' gvk = handlersFor c gvk \<or> addsHandler gvk c c')
     \<and> (cStarted c \<longrightarrow> cStarted c' \<and> garbageCollectorQueue c' = garbageCollectorQueue c \<and> syncQueue c' = syncQueue c)"
proof -
  have same: ?thesis if "sameSetup c c'" using that by (simp add: sameSetup_def handlersFor_def)
  from assms show ?thesis
  proof cases
    case (addGroup rg)
    show ?thesis by (rule same) (simp add: addGroup AddResourceGroup_def split: option.splits)
  next
    case (deleteGroup rg)
    show ?thesis by (rule same) (simp add: deleteGroup DeleteResourceGroup_def)
  next
    case (informer obj g)
    then show ?thesis
      by (auto simp: GetInformer_def GetInformerForKind_def handlersFor_def split: sum.splits option.splits if_splits)
  next
    case (addHandler g i h)
    then show ?thesis by (cases "g = gvk") (auto simp: addsHandler_def handlersFor_def)
  next
    case (start ctxNil polls res)
    then show ?thesis
      by (auto simp: Start_def startGarbageCollector_def startSyncer_def Let_def handlersFor_def
          split: if_splits prod.splits sum.splits option.splits)
  next
    case (create now rg obj res obj' calls)
    then show ?thesis by (intro same) (auto simp: Create_def intro: store_sameSetup)
  next
    case (update now rg obj res obj' calls)
    then show ?thesis by (intro same) (auto simp: Update_def intro: store_sameSetup)
  next
    case (patch now rg o0 p res calls)
    then show ?thesis by (intro same) (auto elim!: Patch_cases intro: store_sameSetup)
  next
    case (delete now fuel rg obj res obj' calls)
    then show ?thesis by (intro same) (auto elim!: Delete_cases intro: tryDelete_sameSetup)
  next
    case (collect now fuel jitter item res calls)
    then show ?thesis
      by (intro same) (auto simp: processGarbageCollectorWorkItem_def intro: tryDelete_sameSetup split: option.splits queueItem.splits)
  next
    case (sync now item res calls)
    then show ?thesis by (intro same) (auto elim!: sync_cases)
  qed
qed

text \<open>
  The life of a started cache after a controller was set up for a kind: any steps of clients, of the garbage collector and
  of the syncer, and the set-up of controllers for other kinds.
\<close>

inductive runsOn :: "(gotime \<Rightarrow> bool) \<Rightarrow> GroupVersionKind \<Rightarrow> 'b cache \<Rightarrow> 'b cache \<Rightarrow> bool" for clock gvk c0 where
  start: "runsOn clock gvk c0 c0"
| step: "runsOn clock gvk c0 c \<Longrightarrow> cacheStep clock c c' \<Longrightarrow> \<not> addsHandler gvk c c' \<Longrightarrow> runsOn clock gvk c0 c'"

lemma runsOn_keeps:
  assumes "runsOn clock gvk c0 c" "reachableCache sch clock c0" "cStarted c0"
  shows "reachableCache sch clock c \<and> handlersFor c gvk = handlersFor c0 gvk
    \<and> cStarted c \<and> garbageCollectorQueue c = garbageCollectorQueue c0 \<and> syncQueue c = syncQueue c0"
  using assms
proof (induction rule: runsOn.induct)
  case (step c c')
  then show ?case using cacheStep_setup [OF step.hyps(2), of gvk] by (auto intro: reachableCache.step)
qed simp

text \<open>The request that is queued when all the predicates accept the event.\<close>

definition queued :: "bool \<Rightarrow> queueName \<Rightarrow> queueItem \<Rightarrow> queueCall list" where
  "queued accepted q item = (if accepted then [QAdd q item] else [])"

text \<open>The requests of a controller that watches a kind alone, with \<^verbatim>\<open>EnqueueRequestForObject\<close>, for every event of the cache.\<close>

lemma informed_queued:
  assumes "handlersFor c (oGVK new) = [informerEventHandler EnqueueRequestForObject q ps]"
  shows "informCreate c rg new = queued (list_all (\<lambda>p. pCreate p \<lparr>ceResourceGroup = rg, ceObject = Some new\<rparr>) ps) q (requestFor rg new)"
    and "informUpdate c rg old new =
      queued (list_all (\<lambda>p. pUpdate p \<lparr>ueResourceGroup = rg, ueObjectOld = Some old, ueObjectNew = Some new\<rparr>) ps) q (requestFor rg new)"
    and "informDelete c rg new = queued (list_all (\<lambda>p. pDelete p \<lparr>deResourceGroup = rg, deObject = Some new\<rparr>) ps) q (requestFor rg new)"
    and "informSync c rg new = queued (list_all (\<lambda>p. pGeneric p \<lparr>geResourceGroup = rg, geObject = Some new\<rparr>) ps) q (requestFor rg new)"
  using assms by (simp_all add: inform_defs event_defs queued_def)

lemma watched_create:
  assumes "reachableCache sch clock c" "handlersFor c gvk = [informerEventHandler EnqueueRequestForObject q ps]"
    and "GVKForObject sch o0 = Inr gvk" "Create now c rg (Some o0) = (Inr (), c', Some o1, calls)"
  shows "calls = queued (list_all (\<lambda>p. pCreate p \<lparr>ceResourceGroup = rg, ceObject = Some o1\<rparr>) ps) q (requestFor rg o0)"
proof -
  have "cScheme c = sch" using assms(1) distinctKeys.reachable_scheme by blast
  with Create_informs [OF _ assms(4)] assms(3) have "oGVK o1 = gvk" "requestFor rg o1 = requestFor rg o0" "calls = informCreate c rg o1"
    by blast+
  with informed_queued(1) assms(2) show ?thesis by metis
qed

lemma watched_update:
  assumes "reachableCache sch clock c" "handlersFor c gvk = [informerEventHandler EnqueueRequestForObject q ps]"
    and "GVKForObject sch o0 = Inr gvk" "Update now c rg (Some o0) = (Inr (), c', Some o1, calls)"
  shows "\<exists>t old. resourceGroupTracker_of c rg = Some t \<and> getObject t gvk (ObjectKeyFromObject o0) = Some old
     \<and> calls = (if unchanged o0 old then []
         else queued (if IsZero (oDeletionTimestamp old) \<and> \<not> IsZero (oDeletionTimestamp o1)
                      then list_all (\<lambda>p. pDelete p \<lparr>deResourceGroup = rg, deObject = Some o1\<rparr>) ps
                      else list_all (\<lambda>p. pUpdate p \<lparr>ueResourceGroup = rg, ueObjectOld = Some old, ueObjectNew = Some o1\<rparr>) ps)
                q (requestFor rg o0))"
proof -
  from Update_changes [OF assms(1,3,4)]
  obtain t old where t: "resourceGroupTracker_of c rg = Some t" "getObject t gvk (ObjectKeyFromObject o0) = Some old"
    and o1: "oGVK o1 = gvk" "requestFor rg o1 = requestFor rg o0"
    and calls: "calls = (if unchanged o0 old then [] else
        if IsZero (oDeletionTimestamp old) \<and> \<not> IsZero (oDeletionTimestamp o1) then informDelete c rg o1 else informUpdate c rg old o1)"
    by (auto simp: requestFor_def)
  with informed_queued(2,3) [of c o1 q ps rg] assms(2) show ?thesis
    by (intro exI [of _ t] exI [of _ old]) simp
qed

lemma keyed_request: "objectOk sch clock \<lparr>refGVK = gvk, refKey = ObjectKeyFromObject o0\<rparr> old \<Longrightarrow> requestFor rg old = requestFor rg o0 \<and> oGVK old = gvk"
  by (auto simp: objectOk_def keyed_def requestFor_def ObjectKeyFromObject_def)

lemma watched_delete:
  assumes "reachableCache sch clock c" "handlersFor c gvk = [informerEventHandler EnqueueRequestForObject q ps]"
    and "garbageCollectorQueue c = Some GcQueue" "now \<noteq> 0" "GVKForObject sch o0 = Inr gvk" "resourceGroupTracker_of c rg = Some t"
    and "ownedBy t r = []" "r = \<lparr>refGVK = gvk, refKey = ObjectKeyFromObject o0\<rparr>"
    and "Delete (Suc n) now c rg (Some o0) = Some (Inr (), c', obj', calls)"
  shows "\<exists>old. objectAt t r = Some old \<and>
      (if GetFinalizers old = [] then calls = []
       else \<exists>t' new. resourceGroupTracker_of c' rg = Some t' \<and> objectAt t' r = Some new \<and> \<not> IsZero (oDeletionTimestamp new)
         \<and> calls = (if IsZero (oDeletionTimestamp old)
                    then queued (list_all (\<lambda>p. pDelete p \<lparr>deResourceGroup = rg, deObject = Some new\<rparr>) ps) q (requestFor rg o0) else [])
                   @ [QAdd GcQueue (gcItem rg r)])"
proof -
  have sch: "cScheme c = sch" using assms(1) distinctKeys.reachable_scheme by blast
  have key: "ObjectKeyFromObject (o0\<lparr>oGVK := gvk\<rparr>) = ObjectKeyFromObject o0" by (simp add: ObjectKeyFromObject_def)
  obtain x cs where td: "tryDelete (Suc n) now c rg r = Some (Inr x, c', cs)"
    and calls: "calls = cs @ (if x then [] else [QAdd GcQueue (gcItem rg r)])"
    using assms(9,5,3) sch
    by (auto simp: Delete_def gvkGetAndSet_def gcAdd_def gcItem_def Let_def key assms(8) split: if_splits option.splits sum.splits bool.splits)
  then obtain old where old: "objectAt t r = Some old"
    using assms(6) by (auto simp: tryDelete_def doTryDelete_Suc split: option.splits)
  obtain t' where fin: "finishDelete now c rg (t\<lparr>ownedObjects := mdel (ownedObjects t) r\<rparr>) r old = (Inr x, t', cs)"
    and c': "c' = c\<lparr>resourceGroups := mput (resourceGroups c) rg t'\<rparr>"
    using td assms(6,7) old by (auto simp: tryDelete_def doTryDelete_Suc split: prod.splits)
  have "objectOk sch clock r old"
    using okObject.obj.reachable [OF assms(1,6)] old unfolding okObject.holds_def by blast
  then have req: "requestFor rg old = requestFor rg o0" "oGVK old = gvk" using keyed_request assms(8) by blast+
  have t': "resourceGroupTracker_of c' rg = Some t'" by (simp add: c' resourceGroupTracker_of_def)
  from fin show ?thesis
  proof (cases rule: finishDelete_cases)
    case waiting
    then show ?thesis using old t' calls by (intro exI [of _ old]) simp
  next
    case (marked obj2)
    let ?new = "obj2\<lparr>oDeletionTimestamp := Some now\<rparr>"
    have new: "oGVK ?new = gvk" "requestFor rg ?new = requestFor rg o0"
      using beforeUpdate_fields [OF marked(4)] req by (simp_all add: requestFor_def)
    have "cs = queued (list_all (\<lambda>p. pDelete p \<lparr>deResourceGroup = rg, deObject = Some ?new\<rparr>) ps) q (requestFor rg o0)"
      using marked(2,6) assms(4) informed_queued(3) [of c ?new q ps rg] assms(2) new by (simp add: afterUpdate_def)
    then show ?thesis
      using old t' calls marked assms(4) by (intro exI [of _ old]) (auto intro!: exI [of _ ?new])
  qed (use old calls in auto)
qed

lemma watched_sync:
  assumes "reachableCache sch clock c" "handlersFor c gvk = [informerEventHandler EnqueueRequestForObject q ps]" "syncQueue c = Some SyncQueue"
    and "resourceGroupTracker_of c rg = Some t" "getObject t gvk key = Some old" "rr = \<lparr>rrResourceGroup = rg, rrGVK = gvk, rrKey = key\<rparr>"
  shows "\<exists>c'. processSyncWorkItem now c (Some (ResyncItem rr)) = (Inr True, c',
      queued (list_all (\<lambda>p. pGeneric p \<lparr>geResourceGroup = rg, geObject = Some (syncStamp now old)\<rparr>) ps) q (requestFor rg old)
      @ [QForget SyncQueue (ResyncItem rr), QDone SyncQueue (ResyncItem rr)])"
proof -
  have "objectOk sch clock \<lparr>refGVK = gvk, refKey = key\<rparr> old"
    using okObject.obj.reachable [OF assms(1,4)] assms(5) unfolding okObject.holds_def by (metis ownReference.select_convs)
  then have new: "oGVK (syncStamp now old) = gvk" "requestFor rg (syncStamp now old) = requestFor rg old"
    by (simp_all add: objectOk_def keyed_def syncStamp_def requestFor_def)
  show ?thesis
    using assms(3-6) informed_queued(4) [of c "syncStamp now old" q ps rg] assms(2) new by (simp add: processSyncWorkItem_def Let_def)
qed

text \<open>
  The cache of a manager that was started with one controller built for a kind: the cache is started and the kind has one handler.
\<close>

definition watchingCache :: "'b scheme \<Rightarrow> GroupVersionKind \<Rightarrow> 'b InformEventHandler \<Rightarrow> 'b cache" where
  "watchingCache sch gvk h = (NewCache sch)\<lparr>garbageCollectorQueue := Some GcQueue, syncQueue := Some SyncQueue, cStarted := True,
     informers := [(gvk, \<lparr>handlers = [h]\<rparr>)]\<rparr>"

lemma watchingCache_fields [simp]:
  "handlersFor (watchingCache sch gvk h) gvk = [h]" "cStarted (watchingCache sch gvk h)"
  "garbageCollectorQueue (watchingCache sch gvk h) = Some GcQueue" "syncQueue (watchingCache sch gvk h) = Some SyncQueue"
  by (simp_all add: watchingCache_def handlersFor_def)

lemma watchingCache_reachable:
  assumes "GVKForObject sch obj = Inr gvk"
  shows "reachableCache sch clock (watchingCache sch gvk h)"
proof -
  let ?c1 = "(NewCache sch)\<lparr>informers := [(gvk, \<lparr>handlers = []\<rparr>)]\<rparr>"
  let ?c2 = "?c1\<lparr>garbageCollectorQueue := Some GcQueue, syncQueue := Some SyncQueue, cStarted := True\<rparr>"
  have "GetInformer (NewCache sch) obj = Inr (?c1, gvk)"
    using assms by (simp add: GetInformer_def GetInformerForKind_def NewCache_def)
  then have "reachableCache sch clock ?c1" by (rule reachableCache.step [OF reachableCache.new cacheStep.informer])
  moreover have "Start False (None, None, None) ?c1 = (Inr (), ?c2)"
    by (simp add: Start_def startGarbageCollector_def startSyncer_def NewCache_def)
  ultimately have "reachableCache sch clock ?c2" using cacheStep.start reachableCache.step by blast
  moreover have "cacheStep clock ?c2 (watchingCache sch gvk h)"
    using cacheStep.addHandler [of ?c2 gvk "\<lparr>handlers = []\<rparr>" clock h] by (simp add: watchingCache_def AddEventHandler_def)
  ultimately show ?thesis by (rule reachableCache.step)
qed

lemma built_started:
  assumes "GVKForObject sch obj = Inr gvk" "gvkKind gvk \<noteq> ''''"
  shows "\<exists>i m1 m2.
     Build (Some (managerNew sch)) (For (WithEventFilter ControllerManagedBy gp) (Some obj) [ps]) (Some r) = (Inr i, Some m1)
   \<and> managerStart False (None, None, None) (\<lambda>_. None) m1 = (Inr (), m2)
   \<and> mgrCache m2 = watchingCache sch gvk (informerEventHandler EnqueueRequestForObject (ControllerQueue (ToLower (gvkKind gvk))) (gp # ps))"
proof -
  let ?name = "ToLower (gvkKind gvk)" and ?m0 = "managerNew sch"
  let ?h = "informerEventHandler EnqueueRequestForObject (ControllerQueue ?name) (gp # ps)"
  have name: "?name \<noteq> ''''" using assms(2) by (simp add: ToLower_def)
  define wd where "wd = \<lparr>wdSrc = Informer (Some gvk), wdHandler = EnqueueRequestForObject, wdPredicates = gp # ps\<rparr>"
  define ctl where "ctl = \<lparr>ctlName = ?name, ctlReconciler = r, ctlConcurrency = 1, ctlCacheSyncTimeout = 2 * nsMinute,
    ctlQueue = None, ctlStartWatches = [wd], ctlStarted = False\<rparr>"
  define c1 where "c1 = (NewCache sch)\<lparr>informers := [(gvk, \<lparr>handlers = []\<rparr>)]\<rparr>"
  define m1 where "m1 = ?m0\<lparr>mgrCache := c1, mgrControllers := [ctl]\<rparr>"
  have build: "Build (Some ?m0) (For (WithEventFilter ControllerManagedBy gp) (Some obj) [ps]) (Some r) = (Inr 0, Some m1)"
    using assms name
    by (simp add: Build_def For_def WithEventFilter_def ControllerManagedBy_def doController_def Let_def managerNew_def
        getControllerName_def New_def AddController_def doWatch_def GetInformer_def GetInformerForKind_def NewCache_def
        watchAt_def Watch_def applyToFor_def m1_def c1_def ctl_def wd_def)
  have start: "\<exists>m2. managerStart False (None, None, None) (\<lambda>_. None) m1 = (Inr (), m2) \<and> mgrCache m2 = watchingCache sch gvk ?h"
    by (simp add: managerStart_def m1_def managerNew_def Start_def startGarbageCollector_def startSyncer_def c1_def watchingCache_def
        NewCache_def ctl_def wd_def controllerStart_def Let_def sourceStart_def AddEventHandler_def)
  with build show ?thesis by blast
qed

text \<open>
  C36. From the builder to the queue: a controller built for a kind on a fresh manager, with any predicates, is named after the
  kind in lower case, and the manager starts. From then on, whatever clients, the garbage collector and the syncer do and as long as no
  other handler is added for the kind, each change of an object of that kind, in any resource group, puts the request for the object into
  the controller's queue exactly if all predicates, the global ones and those of For, accept its event, and no other calls are made for it:
  a Create (create event), an Update (none if nothing changed, else an update event, or a delete event when it sets the
  deletion time), a Delete of an object that owns nothing (a delete event when finalizers keep an object that was not marked yet; no event
  when the object is removed at once; the garbage collector is told of an object that stays) and a periodic sync (a generic event).
\<close>

theorem built_controller_triggered:
  assumes "GVKForObject sch obj = Inr gvk" "gvkKind gvk \<noteq> ''''"
    and q: "q = ControllerQueue (ToLower (gvkKind gvk))" and all: "all = gp # ps"
  shows "\<exists>i m1 m2.
     Build (Some (managerNew sch)) (For (WithEventFilter ControllerManagedBy gp) (Some obj) [ps]) (Some r) = (Inr i, Some m1)
   \<and> managerStart False (None, None, None) (\<lambda>_. None) m1 = (Inr (), m2)
   \<and> (\<forall>c. runsOn clock gvk (mgrCache m2) c \<longrightarrow>
       (\<forall>now rg o0 c' o1 calls. GVKForObject sch o0 = Inr gvk \<longrightarrow> Create now c rg (Some o0) = (Inr (), c', Some o1, calls) \<longrightarrow>
          calls = queued (list_all (\<lambda>p. pCreate p \<lparr>ceResourceGroup = rg, ceObject = Some o1\<rparr>) all) q (requestFor rg o0))
     \<and> (\<forall>now rg o0 c' o1 calls. GVKForObject sch o0 = Inr gvk \<longrightarrow> Update now c rg (Some o0) = (Inr (), c', Some o1, calls) \<longrightarrow>
          (\<exists>t old. resourceGroupTracker_of c rg = Some t \<and> getObject t gvk (ObjectKeyFromObject o0) = Some old
             \<and> calls = (if unchanged o0 old then []
                 else queued (if IsZero (oDeletionTimestamp old) \<and> \<not> IsZero (oDeletionTimestamp o1)
                              then list_all (\<lambda>p. pDelete p \<lparr>deResourceGroup = rg, deObject = Some o1\<rparr>) all
                              else list_all (\<lambda>p. pUpdate p \<lparr>ueResourceGroup = rg, ueObjectOld = Some old, ueObjectNew = Some o1\<rparr>) all)
                        q (requestFor rg o0))))
     \<and> (\<forall>now n rg o0 t x c' obj' calls. now \<noteq> 0 \<longrightarrow> GVKForObject sch o0 = Inr gvk \<longrightarrow> resourceGroupTracker_of c rg = Some t \<longrightarrow>
          ownedBy t x = [] \<longrightarrow> x = \<lparr>refGVK = gvk, refKey = ObjectKeyFromObject o0\<rparr> \<longrightarrow>
          Delete (Suc n) now c rg (Some o0) = Some (Inr (), c', obj', calls) \<longrightarrow>
          (\<exists>old. objectAt t x = Some old \<and>
             (if GetFinalizers old = [] then calls = []
              else \<exists>t' new. resourceGroupTracker_of c' rg = Some t' \<and> objectAt t' x = Some new \<and> \<not> IsZero (oDeletionTimestamp new)
                \<and> calls = (if IsZero (oDeletionTimestamp old)
                           then queued (list_all (\<lambda>p. pDelete p \<lparr>deResourceGroup = rg, deObject = Some new\<rparr>) all) q (requestFor rg o0) else [])
                          @ [QAdd GcQueue (gcItem rg x)])))
     \<and> (\<forall>now rg t key old rr. resourceGroupTracker_of c rg = Some t \<longrightarrow> getObject t gvk key = Some old \<longrightarrow>
          rr = \<lparr>rrResourceGroup = rg, rrGVK = gvk, rrKey = key\<rparr> \<longrightarrow>
          (\<exists>c'. processSyncWorkItem now c (Some (ResyncItem rr)) = (Inr True, c',
             queued (list_all (\<lambda>p. pGeneric p \<lparr>geResourceGroup = rg, geObject = Some (syncStamp now old)\<rparr>) all) q (requestFor rg old)
             @ [QForget SyncQueue (ResyncItem rr), QDone SyncQueue (ResyncItem rr)]))))"
proof -
  obtain i m1 m2 where built: "Build (Some (managerNew sch)) (For (WithEventFilter ControllerManagedBy gp) (Some obj) [ps]) (Some r) = (Inr i, Some m1)"
    "managerStart False (None, None, None) (\<lambda>_. None) m1 = (Inr (), m2)"
    "mgrCache m2 = watchingCache sch gvk (informerEventHandler EnqueueRequestForObject q all)"
    using built_started [OF assms(1,2)] unfolding q all by blast
  have run: "reachableCache sch clock c" "handlersFor c gvk = [informerEventHandler EnqueueRequestForObject q all]"
    "garbageCollectorQueue c = Some GcQueue" "syncQueue c = Some SyncQueue" if "runsOn clock gvk (mgrCache m2) c" for c
    using runsOn_keeps [OF that [unfolded built(3)] watchingCache_reachable [OF assms(1)]] by simp_all
  show ?thesis
    using built(1,2) watched_create [OF run(1,2)] watched_update [OF run(1,2)] watched_delete [OF run(1-3)] watched_sync [OF run(1,2,4)]
    by (intro exI [of _ i] exI [of _ m1] exI [of _ m2] conjI allI impI) assumption+
qed

text \<open>A controller for Secrets that accepts every event: a Secret with a finalizer is created, synced and deleted.\<close>

definition acceptAll :: "string Predicate" where
  "acceptAll = \<lparr>pCreate = (\<lambda>_. True), pDelete = (\<lambda>_. True), pUpdate = (\<lambda>_. True), pGeneric = (\<lambda>_. True)\<rparr>"

definition secretCache :: "string InformEventHandler \<Rightarrow> string cache" where
  "secretCache h = AddResourceGroup (watchingCache sampleScheme (coreGVK ''Secret'') h) ''rg''"

definition heldTracker :: "string resourceGroupTracker" where
  "heldTracker = \<lparr>objects = [(coreGVK ''Secret'', [(\<lparr>nnNamespace = ''ns'', nnName = ''a''\<rparr>, stampedObject ''Secret'' ''a'' [''f''] [])])],
     ownedObjects = []\<rparr>"

definition heldSecret :: "string InformEventHandler \<Rightarrow> string cache" where
  "heldSecret h = (secretCache h)\<lparr>resourceGroups := [(''rg'', heldTracker)]\<rparr>"

definition secretRequest :: queueItem where
  "secretRequest = requestFor ''rg'' (sampleObject ''Secret'' ''a'' [''f''] [])"

definition secretResync :: queueItem where
  "secretResync = ResyncItem \<lparr>rrResourceGroup = ''rg'', rrGVK = coreGVK ''Secret'', rrKey = \<lparr>nnNamespace = ''ns'', nnName = ''a''\<rparr>\<rparr>"

lemmas secret_eval = secretCache_def heldSecret_def heldTracker_def watchingCache_def AddResourceGroup_def NewCache_def emptyTracker_def
  stampedObject_def sample_eval store_eval

lemma secret_created:
  "\<exists>calls. Create 1 (secretCache h) ''rg'' (Some (sampleObject ''Secret'' ''a'' [''f''] []))
     = (Inr (), heldSecret h, Some (stampedObject ''Secret'' ''a'' [''f''] []), calls)"
  by (simp add: secret_eval Itoa_1)

lemma secret_deleted:
  "\<exists>c' obj' calls. Delete (Suc 0) 2 (heldSecret h) ''rg'' (Some (sampleObject ''Secret'' ''a'' [''f''] [])) = Some (Inr (), c', obj', calls)"
  by (simp add: Delete_def tryDelete_def doTryDelete_Suc ownedBy_def finishDelete_def beforeDelete_def gcAdd_def secret_eval)

lemma secret_runs:
  "runsOn sampleClock gvk c0 (watchingCache sampleScheme (coreGVK ''Secret'') h) \<Longrightarrow> runsOn sampleClock gvk c0 (secretCache h)"
  "runsOn sampleClock gvk c0 (secretCache h) \<Longrightarrow> runsOn sampleClock gvk c0 (heldSecret h)"
proof -
  assume "runsOn sampleClock gvk c0 (watchingCache sampleScheme (coreGVK ''Secret'') h)"
  then show "runsOn sampleClock gvk c0 (secretCache h)"
    unfolding secretCache_def
    by (rule runsOn.step [OF _ cacheStep.addGroup]) (rule sameSetup_adds, simp add: AddResourceGroup_def sameSetup_def split: option.splits)
next
  obtain calls where "Create 1 (secretCache h) ''rg'' (Some (sampleObject ''Secret'' ''a'' [''f''] []))
     = (Inr (), heldSecret h, Some (stampedObject ''Secret'' ''a'' [''f''] []), calls)"
    using secret_created by blast
  then have "cacheStep sampleClock (secretCache h) (heldSecret h)"
    by (rule cacheStep.create [rotated]) simp
  moreover have "\<not> addsHandler gvk (secretCache h) (heldSecret h)"
    by (rule sameSetup_adds) (simp add: heldSecret_def)
  moreover assume "runsOn sampleClock gvk c0 (secretCache h)"
  ultimately show "runsOn sampleClock gvk c0 (heldSecret h)"
    by (rule runsOn.step [rotated])
qed

theorem built_controller_triggered_witness:
  "\<exists>i m1 m2 c1 o1 c2 c3 o3.
       Build (Some (managerNew sampleScheme)) (For (WithEventFilter ControllerManagedBy acceptAll) (Some (sampleObject ''Secret'' ''a'' [''f''] [])) [[]])
         (Some (\<lambda>req c. (Inr \<lparr>rRequeue = False, rRequeueAfter = 0\<rparr>, c, []))) = (Inr i, Some m1)
     \<and> managerStart False (None, None, None) (\<lambda>_. None) m1 = (Inr (), m2)
     \<and> Create 1 (AddResourceGroup (mgrCache m2) ''rg'') ''rg'' (Some (sampleObject ''Secret'' ''a'' [''f''] []))
         = (Inr (), c1, Some o1, [QAdd (ControllerQueue ''secret'') secretRequest])
     \<and> processSyncWorkItem 2 c1 (Some secretResync)
         = (Inr True, c2, [QAdd (ControllerQueue ''secret'') secretRequest, QForget SyncQueue secretResync, QDone SyncQueue secretResync])
     \<and> Delete 1 2 c1 ''rg'' (Some (sampleObject ''Secret'' ''a'' [''f''] []))
         = Some (Inr (), c3, o3, [QAdd (ControllerQueue ''secret'') secretRequest, QAdd GcQueue (gcItem ''rg'' (sampleRef ''Secret'' ''a''))])"
proof -
  let ?s = "sampleObject ''Secret'' ''a'' [''f''] []" and ?q = "ControllerQueue ''secret''" and ?g = "coreGVK ''Secret''"
  let ?r = "\<lambda>req (c :: string cache). (Inr \<lparr>rRequeue = False, rRequeueAfter = 0\<rparr> :: apiError + _, c, [])"
  let ?h = "informerEventHandler EnqueueRequestForObject ?q [acceptAll]" and ?x = "sampleRef ''Secret'' ''a''"
  let ?st = "stampedObject ''Secret'' ''a'' [''f''] []"
  have kind: "GVKForObject sampleScheme ?s = Inr ?g" "gvkKind ?g \<noteq> ''''" "?q = ControllerQueue (ToLower (gvkKind ?g))"
    by (simp_all add: sample_eval ToLower_def lower_char_def)
  note triggered = built_controller_triggered [OF kind refl, of acceptAll "[]" ?r sampleClock]
  obtain calls1 where create: "Create 1 (secretCache ?h) ''rg'' (Some ?s) = (Inr (), heldSecret ?h, Some ?st, calls1)"
    using secret_created by blast
  obtain c3 o3 calls3 where delete: "Delete (Suc 0) 2 (heldSecret ?h) ''rg'' (Some ?s) = Some (Inr (), c3, o3, calls3)"
    using secret_deleted by blast
  have held: "resourceGroupTracker_of (heldSecret ?h) ''rg'' = Some heldTracker" "getObject heldTracker ?g (refKey ?x) = Some ?st"
      "ownedBy heldTracker ?x = []" "?x = \<lparr>refGVK = ?g, refKey = ObjectKeyFromObject ?s\<rparr>"
    by (simp_all add: secret_eval ownedBy_def)
  have st: "GetFinalizers ?st \<noteq> []" "IsZero (oDeletionTimestamp ?st)" "requestFor ''rg'' ?st = secretRequest" "requestFor ''rg'' ?s = secretRequest"
    by (simp_all add: secret_eval secretRequest_def requestFor_def IsZero_def)
  have accept [simp]: "pCreate acceptAll e" "pDelete acceptAll e'" "pGeneric acceptAll e''" for e e' e''
    by (simp_all add: acceptAll_def)
  have resync: "secretResync = ResyncItem \<lparr>rrResourceGroup = ''rg'', rrGVK = ?g, rrKey = refKey ?x\<rparr>"
    by (simp add: secretResync_def sampleRef_def)
  show ?thesis
    using triggered
  proof (elim exE conjE, goal_cases)
    case (1 i m1 m2)
    have m2: "mgrCache m2 = watchingCache sampleScheme ?g ?h"
      using built_started [OF kind(1,2), of acceptAll "[]" ?r] kind(3) 1(1,2) by auto
    have runs: "runsOn sampleClock ?g (mgrCache m2) (secretCache ?h)" "runsOn sampleClock ?g (mgrCache m2) (heldSecret ?h)"
      unfolding m2 by (rule secret_runs runsOn.start)+
    note first = 1(3) [rule_format, OF runs(1), THEN conjunct1, rule_format, OF kind(1) create]
      and later = 1(3) [rule_format, OF runs(2), THEN conjunct2, THEN conjunct2]
    have "calls1 = [QAdd ?q secretRequest]"
      using first st by (simp add: queued_def)
    moreover have "calls3 = [QAdd ?q secretRequest, QAdd GcQueue (gcItem ''rg'' ?x)]"
      using later [THEN conjunct1, rule_format, OF _ kind(1) held(1,3,4) delete] held(2) st by (auto simp: queued_def sampleRef_def)
    moreover obtain c2 where "processSyncWorkItem 2 (heldSecret ?h) (Some secretResync)
        = (Inr True, c2, [QAdd ?q secretRequest, QForget SyncQueue secretResync, QDone SyncQueue secretResync])"
      using later [THEN conjunct2, rule_format, OF held(1,2) refl, of 2] st by (auto simp: queued_def resync)
    ultimately show ?thesis
      using 1(1,2) m2 create delete unfolding secretCache_def by (auto simp: One_nat_def)
  qed
qed

section \<open>Start\<close>

text \<open>
  The cache and the manager start at most once: when a controller fails to start, the cache is already
  running, and every later start of the manager fails on it, so the manager can never be started.
\<close>

lemma manager_start_not_retriable:
  assumes "managerStart False cachePolls polls m = (Inl e, m')" "cStarted (mgrCache m')" "\<not> mgrStarted m"
  shows "managerStart False cachePolls' polls' m' = (Inl (Formatted ''failed to start cache'' (GoError ''cache started more than once'')), m')"
proof -
  have "\<not> mgrStarted m'"
    using assms(1,3) by (auto simp: managerStart_def split: if_splits prod.splits sum.splits)
  moreover have "Start False cachePolls' (mgrCache m') = (Inl (GoError ''cache started more than once''), mgrCache m')"
    using assms(2) by (simp add: Start_def split: prod.splits)
  ultimately show ?thesis by (simp add: managerStart_def formatError_def)
qed

end
