(* ===== verification/Etcd_Server.thy ===== *)
theory Etcd_Server
  imports Controller_Runtime "HOL-Library.Word"
begin

text \<open>
  The fake etcd members of \<^verbatim>\<open>internal/server/etcd/handler.go\<close>. A request carries the local address it came in on and the
  values of the \<^verbatim>\<open>:authority\<close> metadata, if any. The resolver is the one of the mux, an argument here. Identifiers are 64 bit
  words: \<^verbatim>\<open>uint64(id)\<close> of a 64 bit integer.
\<close>

record ResponseHeader =
  rhClusterId :: "64 word"
  rhMemberId :: "64 word"

record Member =
  mbID :: "64 word"
  mbName :: string

record MemberListResponse =
  mlHeader :: "ResponseHeader option"
  mlMembers :: "Member list"

record StatusResponse =
  srHeader :: "ResponseHeader option"
  srLeader :: "64 word"

record etcdContext =
  ecLocalAddr :: string
  ecAuthority :: "string list option"

fun joinComma :: "string list \<Rightarrow> string" where
  "joinComma [] = ''''"
| "joinComma [x] = x"
| "joinComma (x # y # ys) = x @ '','' @ joinComma (y # ys)"

definition getResourceGroupAndMember ::
  "(string \<Rightarrow> string + string) \<Rightarrow> etcdContext \<Rightarrow> apiError + string \<times> string" where
  "getResourceGroupAndMember resolver ctx =
     (case resolver (ecLocalAddr ctx) of
        Inl e \<Rightarrow> Inl (GoError e)
      | Inr rg \<Rightarrow>
        (case ecAuthority ctx of
           None \<Rightarrow> Inl (GoError (''failed to get metadata when processing request to etcd in resourceGroup '' @ rg))
         | Some authority \<Rightarrow> Inr (rg, TrimPrefix (joinComma authority) ''etcd-'')))"

definition clusterIDAnnotation :: string where
  "clusterIDAnnotation = ''etcd.internal.goofy.cluster.x-k8s.io/cluster-id''"

definition memberIDAnnotation :: string where
  "memberIDAnnotation = ''etcd.internal.goofy.cluster.x-k8s.io/member-id''"

definition leaderFromAnnotation :: string where
  "leaderFromAnnotation = ''etcd.internal.goofy.cluster.x-k8s.io/leader-from''"

text \<open>\<^verbatim>\<open>client.MatchingLabels\<close>: the labels of the object include all the given ones.\<close>

definition MatchingLabels :: "(string \<times> string) list \<Rightarrow> labelSelector" where
  "MatchingLabels ls = \<lparr>selEmpty = (ls = []), selMatches = (\<lambda>m. list_all (\<lambda>(k, v). mget m k = Some v) ls)\<rparr>"

definition etcdListOptions :: ListOptions where
  "etcdListOptions = \<lparr>loNamespace = ''kube-system'',
     loLabelSelector = Some (MatchingLabels [(''component'', ''etcd''), (''tier'', ''control-plane'')])\<rparr>"

definition podListGVK :: GroupVersionKind where
  "podListGVK = \<lparr>gvkGroup = '''', gvkVersion = ''v1'', gvkKind = ''PodList''\<rparr>"

text \<open>The loop over the pods, with the responses and the leader so far. The text that \<^verbatim>\<open>Atoi\<close> adds to an error is left out.\<close>

record etcdView =
  evList :: MemberListResponse
  evStatus :: StatusResponse
  evLeaderID :: int
  evLeaderFrom :: gotime

fun inspectPods :: "string \<Rightarrow> 'b object list \<Rightarrow> etcdView \<Rightarrow> apiError + etcdView" where
  "inspectPods etcdMember [] v = Inr v"
| "inspectPods etcdMember (pod # pods) v =
     (case Atoi (mget_or '''' (GetAnnotations pod) clusterIDAnnotation) of
        (_, False) \<Rightarrow> Inl (GoError (''failed read cluster ID annotation from etcd member with name '' @ oName pod))
      | (clusterID, True) \<Rightarrow>
        (case Atoi (mget_or '''' (GetAnnotations pod) memberIDAnnotation) of
           (_, False) \<Rightarrow> Inl (GoError (''failed read member ID annotation from etcd member with name '' @ oName pod))
         | (memberID, True) \<Rightarrow>
           (let v1 = (case Parse_RFC3339 (mget_or '''' (GetAnnotations pod) leaderFromAnnotation) of
                        None \<Rightarrow> v
                      | Some t \<Rightarrow> if t > evLeaderFrom v then v\<lparr>evLeaderID := memberID, evLeaderFrom := t\<rparr> else v);
                header = \<lparr>rhClusterId = word_of_int clusterID, rhMemberId = word_of_int memberID\<rparr>;
                v2 = (if oName pod = etcdMember
                      then v1\<lparr>evList := (evList v1)\<lparr>mlHeader := Some header\<rparr>,
                              evStatus := (evStatus v1)\<lparr>srHeader := Some header\<rparr>\<rparr>
                      else v1);
                member = \<lparr>mbID = word_of_int memberID, mbName = TrimPrefix (oName pod) ''etcd-''\<rparr>
            in inspectPods etcdMember pods (v2\<lparr>evList := (evList v2)\<lparr>mlMembers := mlMembers (evList v2) @ [member]\<rparr>\<rparr>))))"

definition inspectEtcd ::
  "'b cache \<Rightarrow> 'b cachedClient \<Rightarrow> 'b object \<Rightarrow> string \<Rightarrow> apiError + MemberListResponse \<times> StatusResponse" where
  "inspectEtcd c cl blank etcdMember =
     (case clList cl c blank (Some \<lparr>lType = Typed, lGVK = podListGVK, lItems = []\<rparr>) etcdListOptions of
        (Inl e, _) \<Rightarrow> Inl (wrapError ''failed to list etcd members'' e)
      | (Inr _, None) \<Rightarrow> Inl (Panic ''nil list'')
      | (Inr _, Some etcdPods) \<Rightarrow>
        (case inspectPods etcdMember (lItems etcdPods)
                \<lparr>evList = \<lparr>mlHeader = None, mlMembers = []\<rparr>, evStatus = \<lparr>srHeader = None, srLeader = 0\<rparr>,
                 evLeaderID = 0, evLeaderFrom = 0\<rparr> of
           Inl e \<Rightarrow> Inl e
         | Inr v \<Rightarrow> Inr (evList v, (evStatus v)\<lparr>srLeader := word_of_int (evLeaderID v)\<rparr>)))"

definition Alarm :: "(string \<Rightarrow> string + string) \<Rightarrow> etcdContext \<Rightarrow> apiError + unit" where
  "Alarm resolver ctx = (case getResourceGroupAndMember resolver ctx of Inl e \<Rightarrow> Inl e | Inr _ \<Rightarrow> Inr ())"

definition Status ::
  "(string \<Rightarrow> string + string) \<Rightarrow> 'b manager \<Rightarrow> 'b object \<Rightarrow> etcdContext \<Rightarrow> apiError + StatusResponse" where
  "Status resolver m blank ctx =
     (case getResourceGroupAndMember resolver ctx of
        Inl e \<Rightarrow> Inl e
      | Inr (rg, etcdMember) \<Rightarrow>
        (case inspectEtcd (mgrCache m) (GetClient (GetResourceGroup m rg)) blank etcdMember of
           Inl e \<Rightarrow> Inl e
         | Inr (_, statusResponse) \<Rightarrow> Inr statusResponse))"

definition MemberList ::
  "(string \<Rightarrow> string + string) \<Rightarrow> 'b manager \<Rightarrow> 'b object \<Rightarrow> etcdContext \<Rightarrow> apiError + MemberListResponse" where
  "MemberList resolver m blank ctx =
     (case getResourceGroupAndMember resolver ctx of
        Inl e \<Rightarrow> Inl e
      | Inr (rg, etcdMember) \<Rightarrow>
        (case inspectEtcd (mgrCache m) (GetClient (GetResourceGroup m rg)) blank etcdMember of
           Inl e \<Rightarrow> Inl e
         | Inr (memberList, _) \<Rightarrow> Inr memberList))"

text \<open>The methods of the two services that only panic.\<close>

datatype maintenanceMethod = Defragment | Hash | HashKV | Snapshot | MoveLeader | Downgrade

datatype clusterMethod = MemberAdd | MemberRemove | MemberUpdate | MemberPromote

definition maintenanceServer :: "maintenanceMethod \<Rightarrow> apiError + unit" where
  "maintenanceServer x = Inl (Panic ''implement me'')"

definition clusterServerServer :: "clusterMethod \<Rightarrow> apiError + unit" where
  "clusterServerServer x = Inl (Panic ''implement me'')"

text \<open>
  The handler registers the two services with a gRPC server, which calls the method of a request: its answer, or the error of the method.
\<close>

datatype etcdCall = AlarmRequest | StatusRequest | MaintenanceRequest maintenanceMethod | MemberListRequest | ClusterRequest clusterMethod

datatype etcdAnswer = AlarmAnswer | StatusAnswer StatusResponse | MemberListAnswer MemberListResponse | NoAnswer

definition NewEtcdServerHandler ::
  "'b manager \<Rightarrow> (string \<Rightarrow> string + string) \<Rightarrow> 'b object \<Rightarrow> etcdCall \<Rightarrow> etcdContext \<Rightarrow> apiError + etcdAnswer" where
  "NewEtcdServerHandler m resolver blank call ctx =
     (case call of
        MemberListRequest \<Rightarrow> map_sum id MemberListAnswer (MemberList resolver m blank ctx)
      | ClusterRequest method \<Rightarrow> map_sum id (\<lambda>_. NoAnswer) (clusterServerServer method)
      | AlarmRequest \<Rightarrow> map_sum id (\<lambda>_. AlarmAnswer) (Alarm resolver ctx)
      | StatusRequest \<Rightarrow> map_sum id StatusAnswer (Status resolver m blank ctx)
      | MaintenanceRequest method \<Rightarrow> map_sum id (\<lambda>_. NoAnswer) (maintenanceServer method))"

section \<open>What the loop computes\<close>

definition podClusterID :: "'b object \<Rightarrow> int" where
  "podClusterID pod = fst (Atoi (mget_or '''' (GetAnnotations pod) clusterIDAnnotation))"

definition podMemberID :: "'b object \<Rightarrow> int" where
  "podMemberID pod = fst (Atoi (mget_or '''' (GetAnnotations pod) memberIDAnnotation))"

definition podIDsOk :: "'b object \<Rightarrow> bool" where
  "podIDsOk pod \<longleftrightarrow> snd (Atoi (mget_or '''' (GetAnnotations pod) clusterIDAnnotation))
     \<and> snd (Atoi (mget_or '''' (GetAnnotations pod) memberIDAnnotation))"

definition podLeaderFrom :: "'b object \<Rightarrow> gotime option" where
  "podLeaderFrom pod = Parse_RFC3339 (mget_or '''' (GetAnnotations pod) leaderFromAnnotation)"

definition podHeader :: "'b object \<Rightarrow> ResponseHeader" where
  "podHeader pod = \<lparr>rhClusterId = word_of_int (podClusterID pod), rhMemberId = word_of_int (podMemberID pod)\<rparr>"

definition podMember :: "'b object \<Rightarrow> Member" where
  "podMember pod = \<lparr>mbID = word_of_int (podMemberID pod), mbName = TrimPrefix (oName pod) ''etcd-''\<rparr>"

text \<open>One round of the loop, for a pod whose identifiers parse.\<close>

definition inspectStep :: "string \<Rightarrow> 'b object \<Rightarrow> etcdView \<Rightarrow> etcdView" where
  "inspectStep etcdMember pod v =
     \<lparr>evList = \<lparr>mlHeader = (if oName pod = etcdMember then Some (podHeader pod) else mlHeader (evList v)),
                mlMembers = mlMembers (evList v) @ [podMember pod]\<rparr>,
      evStatus = (if oName pod = etcdMember then (evStatus v)\<lparr>srHeader := Some (podHeader pod)\<rparr> else evStatus v),
      evLeaderID = (case podLeaderFrom pod of Some t \<Rightarrow> if t > evLeaderFrom v then podMemberID pod else evLeaderID v | None \<Rightarrow> evLeaderID v),
      evLeaderFrom = (case podLeaderFrom pod of Some t \<Rightarrow> if t > evLeaderFrom v then t else evLeaderFrom v | None \<Rightarrow> evLeaderFrom v)\<rparr>"

lemma inspectPods_Cons:
  "podIDsOk pod \<Longrightarrow> inspectPods etcdMember (pod # pods) v = inspectPods etcdMember pods (inspectStep etcdMember pod v)"
  by (cases v; cases "evList v")
     (auto simp: podIDsOk_def inspectStep_def podHeader_def podMember_def podClusterID_def podMemberID_def podLeaderFrom_def
      Let_def split: prod.splits bool.splits option.splits)

lemma inspectPods_fold:
  "\<forall>pod \<in> set pods. podIDsOk pod \<Longrightarrow> inspectPods etcdMember pods v = Inr (fold (inspectStep etcdMember) pods v)"
  by (induction pods arbitrary: v) (simp_all add: inspectPods_Cons del: inspectPods.simps(2))

lemma fold_inspect_members:
  "mlMembers (evList (fold (inspectStep em) pods v)) = mlMembers (evList v) @ map podMember pods"
  by (induction pods arbitrary: v) (simp_all add: inspectStep_def)

lemma fold_inspect_header:
  "mlHeader (evList v) = srHeader (evStatus v) \<Longrightarrow>
     mlHeader (evList (fold (inspectStep em) pods v)) = srHeader (evStatus (fold (inspectStep em) pods v))"
  by (induction pods arbitrary: v) (simp_all add: inspectStep_def)

lemma fold_inspect_no_header:
  "em \<notin> oName ` set pods \<Longrightarrow> mlHeader (evList (fold (inspectStep em) pods v)) = mlHeader (evList v)"
  by (induction pods arbitrary: v) (auto simp: inspectStep_def)

text \<open>The leader is the member whose leadership is the most recent one.\<close>

definition leaderOf :: "'b object list \<Rightarrow> etcdView \<Rightarrow> etcdView \<Rightarrow> bool" where
  "leaderOf pods v v' \<longleftrightarrow>
     (\<forall>pod t. pod \<in> set pods \<longrightarrow> podLeaderFrom pod = Some t \<longrightarrow> t \<le> evLeaderFrom v') \<and> evLeaderFrom v \<le> evLeaderFrom v'
   \<and> (evLeaderFrom v' = evLeaderFrom v \<and> evLeaderID v' = evLeaderID v
      \<or> (\<exists>pod \<in> set pods. podLeaderFrom pod = Some (evLeaderFrom v') \<and> evLeaderFrom v < evLeaderFrom v'
           \<and> evLeaderID v' = podMemberID pod))"

lemma fold_inspect_leader: "leaderOf pods v (fold (inspectStep em) pods v)"
proof (induction pods arbitrary: v)
  case Nil
  show ?case by (simp add: leaderOf_def)
next
  case (Cons pod pods)
  let ?v = "inspectStep em pod v"
  have step: "evLeaderFrom v \<le> evLeaderFrom ?v" "\<And>t. podLeaderFrom pod = Some t \<Longrightarrow> t \<le> evLeaderFrom ?v"
    "evLeaderFrom ?v = evLeaderFrom v \<and> evLeaderID ?v = evLeaderID v
     \<or> podLeaderFrom pod = Some (evLeaderFrom ?v) \<and> evLeaderFrom v < evLeaderFrom ?v \<and> evLeaderID ?v = podMemberID pod"
    by (auto simp: inspectStep_def split: option.splits)
  have ih: "leaderOf pods ?v (fold (inspectStep em) pods ?v)" by (rule Cons.IH)
  show ?case
    using step ih unfolding leaderOf_def fold_simps by (auto dest: order_trans)
qed

end
