(* ===== verification/Etcd_Properties.thy ===== *)
theory Etcd_Properties
  imports Etcd_Server Cache_Samples
begin

text \<open>
  What the fake etcd members answer: who is a member, who is the leader, when a call fails, and the response header that is
  missing.
\<close>

definition etcdPods :: "'b manager \<Rightarrow> string \<Rightarrow> 'b object \<Rightarrow> (apiError + unit) \<times> 'b objectList option" where
  "etcdPods m rg blank = List (mgrCache m) rg blank (Some \<lparr>lType = Typed, lGVK = podListGVK, lItems = []\<rparr>) etcdListOptions"

lemma inspectEtcd_view:
  assumes "etcdPods m rg blank = (Inr (), Some l)" "\<forall>pod \<in> set (lItems l). podIDsOk pod"
  shows "\<exists>v0 v. v = fold (inspectStep em) (lItems l) v0 \<and> evLeaderFrom v0 = 0 \<and> evLeaderID v0 = 0
     \<and> mlMembers (evList v0) = [] \<and> mlHeader (evList v0) = None \<and> srHeader (evStatus v0) = None
     \<and> inspectEtcd (mgrCache m) (GetClient (GetResourceGroup m rg)) blank em =
         Inr (evList v, (evStatus v)\<lparr>srLeader := word_of_int (evLeaderID v)\<rparr>)"
  by (rule exI [of _ "\<lparr>evList = \<lparr>mlHeader = None, mlMembers = []\<rparr>, evStatus = \<lparr>srHeader = None, srLeader = 0\<rparr>,
                 evLeaderID = 0, evLeaderFrom = 0\<rparr>"])
     (use assms in \<open>simp add: inspectEtcd_def GetClient_def GetResourceGroup_def NewResourceGroup_def etcdPods_def inspectPods_fold\<close>)

lemma inspectPods_fails:
  "pod \<in> set pods \<Longrightarrow> \<not> podIDsOk pod \<Longrightarrow> is_err (inspectPods em pods v)"
proof (induction pods arbitrary: v)
  case (Cons p pods)
  show ?case
  proof (cases "podIDsOk p")
    case True
    with Cons.prems have "is_err (inspectPods em pods (inspectStep em p v))" by (intro Cons.IH) auto
    with True show ?thesis by (simp only: inspectPods_Cons)
  next
    case False
    then show ?thesis by (auto simp: podIDsOk_def split: prod.splits bool.splits)
  qed
qed simp

text \<open>
  For a request that resolves to a resource group whose etcd pods (component \<open>etcd\<close>, tier \<open>control-plane\<close>, in
  \<^verbatim>\<open>kube-system\<close>) all carry a cluster and a member identifier, MemberList answers with one member for each pod, and Status
  with the identifier of the pod whose leadership started last, or 0 when no pod was ever leader.
\<close>

lemma etcd_members_and_leader:
  assumes "resolver (ecLocalAddr ctx) = Inr rg" "ecAuthority ctx = Some authority"
    and "etcdPods m rg blank = (Inr (), Some l)" "\<forall>pod \<in> set (lItems l). podIDsOk pod"
  shows "\<exists>ml sr. MemberList resolver m blank ctx = Inr ml \<and> Status resolver m blank ctx = Inr sr
     \<and> mlMembers ml = map podMember (lItems l)
     \<and> ((\<forall>pod \<in> set (lItems l). \<forall>t. podLeaderFrom pod = Some t \<longrightarrow> t \<le> 0) \<and> srLeader sr = 0
        \<or> (\<exists>pod \<in> set (lItems l). \<exists>t > 0. podLeaderFrom pod = Some t \<and> srLeader sr = word_of_int (podMemberID pod)
             \<and> (\<forall>pod' \<in> set (lItems l). \<forall>t'. podLeaderFrom pod' = Some t' \<longrightarrow> t' \<le> t)))"
proof -
  let ?em = "TrimPrefix (joinComma authority) ''etcd-''"
  obtain v0 v where v: "v = fold (inspectStep ?em) (lItems l) v0" "evLeaderFrom v0 = 0" "evLeaderID v0 = 0"
      "mlMembers (evList v0) = []"
    and ins: "inspectEtcd (mgrCache m) (GetClient (GetResourceGroup m rg)) blank ?em =
         Inr (evList v, (evStatus v)\<lparr>srLeader := word_of_int (evLeaderID v)\<rparr>)"
    using inspectEtcd_view [OF assms(3,4)] by blast
  have "leaderOf (lItems l) v0 v" unfolding v(1) by (rule fold_inspect_leader)
  then have leader: "(\<forall>pod \<in> set (lItems l). \<forall>t. podLeaderFrom pod = Some t \<longrightarrow> t \<le> 0) \<and> word_of_int (evLeaderID v) = (0 :: 64 word)
        \<or> (\<exists>pod \<in> set (lItems l). \<exists>t > 0. podLeaderFrom pod = Some t \<and> word_of_int (evLeaderID v) = (word_of_int (podMemberID pod) :: 64 word)
             \<and> (\<forall>pod' \<in> set (lItems l). \<forall>t'. podLeaderFrom pod' = Some t' \<longrightarrow> t' \<le> t))"
    unfolding leaderOf_def v(2,3) by (elim conjE disjE bexE, simp, intro disjI2) (auto intro!: bexI exI [of _ "evLeaderFrom v"])
  have members: "mlMembers (evList v) = map podMember (lItems l)" by (simp add: v(1,4) fold_inspect_members)
  show ?thesis
    using leader members ins assms(1,2) by (simp add: MemberList_def Status_def getResourceGroupAndMember_def)
qed

text \<open>
  A pod without a valid cluster or member identifier makes MemberList and Status fail for every member of the cluster.
\<close>

lemma etcd_bad_annotation_fails:
  assumes "etcdPods m rg blank = (Inr (), Some l)" "pod \<in> set (lItems l)" "\<not> podIDsOk pod" "resolver (ecLocalAddr ctx) = Inr rg"
  shows "is_err (MemberList resolver m blank ctx) \<and> is_err (Status resolver m blank ctx)"
proof -
  have "\<exists>e. inspectEtcd (mgrCache m) (GetClient (GetResourceGroup m rg)) blank em = Inl e" for em
    using assms(1) inspectPods_fails [OF assms(2,3), of em "\<lparr>evList = \<lparr>mlHeader = None, mlMembers = []\<rparr>,
        evStatus = \<lparr>srHeader = None, srLeader = 0\<rparr>, evLeaderID = 0, evLeaderFrom = 0\<rparr>"]
    by (simp add: inspectEtcd_def GetClient_def GetResourceGroup_def NewResourceGroup_def etcdPods_def is_err_def split: sum.splits)
  then obtain err where "\<And>em. inspectEtcd (mgrCache m) (GetClient (GetResourceGroup m rg)) blank em = Inl (err em)" by metis
  then show ?thesis
    using assms(4) by (simp add: MemberList_def Status_def getResourceGroupAndMember_def is_err_def split: option.splits)
qed

text \<open>
  The header is lost. A client reaches the member \<open>x\<close> through the pod \<^verbatim>\<open>etcd-x\<close>, and that name is the authority of its
  requests. The prefix is trimmed from the authority but not from the name of the pod it is compared with, so when all the pods have
  their prefix no answer carries a header: neither the identifier of the cluster nor the one of the member that answers.
\<close>

lemma etcd_header_missing:
  assumes "resolver (ecLocalAddr ctx) = Inr rg" "ecAuthority ctx = Some [''etcd-'' @ x]" "\<not> HasPrefix x ''etcd-''"
    and "etcdPods m rg blank = (Inr (), Some l)"
    and "\<forall>pod \<in> set (lItems l). podIDsOk pod \<and> HasPrefix (oName pod) ''etcd-''"
  shows "\<exists>ml sr. MemberList resolver m blank ctx = Inr ml \<and> Status resolver m blank ctx = Inr sr
     \<and> mlHeader ml = None \<and> srHeader sr = None"
proof -
  have em: "TrimPrefix (joinComma [''etcd-'' @ x]) ''etcd-'' = x" by (simp add: TrimPrefix_def HasPrefix_def)
  obtain v0 v where v: "v = fold (inspectStep x) (lItems l) v0" "mlHeader (evList v0) = None" "srHeader (evStatus v0) = None"
    and ins: "inspectEtcd (mgrCache m) (GetClient (GetResourceGroup m rg)) blank x =
         Inr (evList v, (evStatus v)\<lparr>srLeader := word_of_int (evLeaderID v)\<rparr>)"
    using inspectEtcd_view [OF assms(4), of x] assms(5) by blast
  have "x \<notin> oName ` set (lItems l)" using assms(3,5) by auto
  then have "mlHeader (evList v) = None" unfolding v(1) by (simp add: fold_inspect_no_header v(2))
  moreover have "mlHeader (evList v) = srHeader (evStatus v)" unfolding v(1) by (rule fold_inspect_header) (simp add: v(2,3))
  ultimately show ?thesis
    using ins em assms(1,2) by (simp add: MemberList_def Status_def getResourceGroupAndMember_def)
qed

end
