(* ===== verification/API_Server.thy ===== *)
theory API_Server
  imports Controller_Runtime "HOL-Library.Char_ord" "HOL-Library.List_Lexorder"
begin

text \<open>
  The fake API server of \<^verbatim>\<open>internal/server/api\<close>: the discovery documents of \<^verbatim>\<open>const.go\<close>, the routes and the handlers
  of \<^verbatim>\<open>handler.go\<close>. A request is what the router hands to a handler: the host, the path parameters, the body (the code
  ignores an error while reading it) and the content type. A handler answers with a response, the manager after it and the queue
  calls made on the way; Delete takes fuel, as in the cache.
\<close>

section \<open>Discovery documents\<close>

record APIResource =
  arName :: string
  arSingularName :: string
  arNamespaced :: bool
  arKind :: string
  arVerbs :: "string list"
  arShortNames :: "string list"
  arStorageVersionHash :: string

record APIResourceList =
  arlGroupVersion :: string
  arlAPIResources :: "APIResource list"

record APIGroup =
  agName :: string
  agVersions :: "(string \<times> string) list"
  agPreferredVersion :: "string \<times> string"

definition apiVersions :: "string list" where
  "apiVersions = [''v1'']"

definition corev1APIResourceList :: APIResourceList where
  "corev1APIResourceList = \<lparr>arlGroupVersion = ''v1'', arlAPIResources =
     [\<lparr>arName = ''nodes'', arSingularName = '''', arNamespaced = False, arKind = ''Node'',
       arVerbs = [''get'', ''list'', ''watch''], arShortNames = [''no''], arStorageVersionHash = ''''\<rparr>,
      \<lparr>arName = ''pods'', arSingularName = '''', arNamespaced = True, arKind = ''Pod'',
       arVerbs = [''create'', ''delete'', ''deletecollection'', ''get'', ''list'', ''patch'', ''update'', ''watch''],
       arShortNames = [''po''], arStorageVersionHash = ''''\<rparr>,
      \<lparr>arName = ''configmaps'', arSingularName = '''', arNamespaced = True, arKind = ''ConfigMap'',
       arVerbs = [''create'', ''delete'', ''deletecollection'', ''get'', ''list'', ''patch'', ''update'', ''watch''],
       arShortNames = [''cm''], arStorageVersionHash = ''''\<rparr>,
      \<lparr>arName = ''secrets'', arSingularName = '''', arNamespaced = True, arKind = ''Secret'',
       arVerbs = [''create'', ''delete'', ''deletecollection'', ''get'', ''list'', ''patch'', ''update'', ''watch''],
       arShortNames = [], arStorageVersionHash = ''''\<rparr>]\<rparr>"

definition apiGroupList :: "APIGroup list" where
  "apiGroupList = [\<lparr>agName = ''rbac.authorization.k8s.io'', agVersions = [(''rbac.authorization.k8s.io/v1'', ''v1'')],
     agPreferredVersion = (''rbac.authorization.k8s.io/v1'', ''v1'')\<rparr>]"

definition rbacv1APIResourceList :: APIResourceList where
  "rbacv1APIResourceList = \<lparr>arlGroupVersion = ''rbac.authorization.k8s.io/v1'', arlAPIResources =
     [\<lparr>arName = ''clusterrolebindings'', arSingularName = '''', arNamespaced = False, arKind = ''ClusterRoleBinding'',
       arVerbs = [''create'', ''delete'', ''deletecollection'', ''get'', ''list'', ''patch'', ''update'', ''watch''],
       arShortNames = [], arStorageVersionHash = ''''\<rparr>,
      \<lparr>arName = ''clusterroles'', arSingularName = '''', arNamespaced = False, arKind = ''ClusterRole'',
       arVerbs = [''create'', ''delete'', ''deletecollection'', ''get'', ''list'', ''patch'', ''update'', ''watch''],
       arShortNames = [], arStorageVersionHash = ''''\<rparr>,
      \<lparr>arName = ''rolebindings'', arSingularName = '''', arNamespaced = True, arKind = ''RoleBinding'',
       arVerbs = [''create'', ''delete'', ''deletecollection'', ''get'', ''list'', ''patch'', ''update'', ''watch''],
       arShortNames = [], arStorageVersionHash = ''''\<rparr>,
      \<lparr>arName = ''roles'', arSingularName = '''', arNamespaced = True, arKind = ''Role'',
       arVerbs = [''create'', ''delete'', ''deletecollection'', ''get'', ''list'', ''patch'', ''update'', ''watch''],
       arShortNames = [], arStorageVersionHash = ''''\<rparr>]\<rparr>"

section \<open>Requests and responses\<close>

record restRequest =
  rqHost :: string
  rqPathParameters :: "(string, string) gomap"
  rqBody :: string
  rqContentType :: string

definition PathParameter :: "restRequest \<Rightarrow> string \<Rightarrow> string" where
  "PathParameter req name = mget_or '''' (rqPathParameters req) name"

fun joinSpace :: "string list \<Rightarrow> string" where
  "joinSpace [] = ''''"
| "joinSpace [x] = x"
| "joinSpace (x # y # ys) = x @ '' '' @ joinSpace (y # ys)"

text \<open>How \<^verbatim>\<open>fmt\<close> writes a map: the entries in the order of their keys.\<close>

definition showParameters :: "(string, string) gomap \<Rightarrow> string" where
  "showParameters m = ''map['' @ joinSpace (map (\<lambda>(k, v). k @ '':'' @ v) (sort_key fst m)) @ '']''"

datatype 'b entity =
    VersionsEntity "string list"
  | ResourceListEntity APIResourceList
  | GroupListEntity "APIGroup list"
  | ListenersEntity "(string, string) gomap"
  | ObjectEntity "'b object"
  | ListEntity "'b objectList"
  | StatusEntity apiError
  | TextEntity apiError

text \<open>A response: a status code with an entity, an error text or nothing, or a handler that panicked.\<close>

datatype 'b response =
    EntityResponse nat "'b entity"
  | ErrorResponse nat apiError
  | EmptyResponse nat
  | Panicked string

text \<open>
  The libraries the handlers call: writing an entity (an error text, if it fails), \<^verbatim>\<open>Scheme.New\<close>, and the empty unstructured
  object.
\<close>

record 'b apiLibrary =
  libWriteEntity :: "'b entity \<Rightarrow> string option"
  libNew :: "GroupVersionKind \<Rightarrow> string + 'b object"
  libUnstructured :: "'b object"

record 'b apiServerHandler =
  ahManager :: "'b manager"
  ahResolver :: "string \<Rightarrow> string + string"

type_synonym 'b handled = "'b response \<times> 'b manager \<times> queueCall list"

definition WriteErrorString :: "apiError \<Rightarrow> 'b response" where
  "WriteErrorString e = (case e of Panic s \<Rightarrow> Panicked s | _ \<Rightarrow> ErrorResponse 500 e)"

definition WriteEntity :: "'b apiLibrary \<Rightarrow> 'b entity \<Rightarrow> 'b response" where
  "WriteEntity lib ent = (case libWriteEntity lib ent of None \<Rightarrow> EntityResponse 200 ent | Some e \<Rightarrow> ErrorResponse 500 (GoError e))"

section \<open>Discovery\<close>

definition apiDiscovery :: "'b apiLibrary \<Rightarrow> 'b response" where
  "apiDiscovery lib = WriteEntity lib (VersionsEntity apiVersions)"

definition apiV1Discovery :: "'b apiLibrary \<Rightarrow> 'b response" where
  "apiV1Discovery lib = WriteEntity lib (ResourceListEntity corev1APIResourceList)"

definition apisDiscovery :: "'b apiLibrary \<Rightarrow> restRequest \<Rightarrow> 'b response" where
  "apisDiscovery lib req =
     (if PathParameter req ''group'' \<noteq> ''''
      then if PathParameter req ''group'' = ''rbac.authorization.k8s.io'' \<and> PathParameter req ''version'' = ''v1''
           then WriteEntity lib (ResourceListEntity rbacv1APIResourceList)
           else WriteErrorString (GoError (''discovery info not defined for '' @ PathParameter req ''group'' @ ''/''
                  @ PathParameter req ''version''))
      else WriteEntity lib (GroupListEntity apiGroupList))"

definition getAPIResourceList :: "restRequest \<Rightarrow> APIResourceList option" where
  "getAPIResourceList req =
     (if PathParameter req ''group'' \<noteq> ''''
      then if PathParameter req ''group'' = ''rbac.authorization.k8s.io'' \<and> PathParameter req ''version'' = ''v1''
           then Some rbacv1APIResourceList else None
      else Some corev1APIResourceList)"

definition requestToGVK :: "(string \<Rightarrow> (string \<times> string) option) \<Rightarrow> restRequest \<Rightarrow> apiError + GroupVersionKind" where
  "requestToGVK parseGroupVersion req =
     (case getAPIResourceList req of
        None \<Rightarrow> Inl (GoError (''no APIResourceList defined for '' @ showParameters (rqPathParameters req)))
      | Some resourceList \<Rightarrow>
        (case parseGroupVersion (arlGroupVersion resourceList) of
           None \<Rightarrow> Inl (Panic (''invalid group version in APIResourceList: '' @ arlGroupVersion resourceList))
         | Some (g, v) \<Rightarrow>
           (case find (\<lambda>r. arName r = PathParameter req ''resource'') (arlAPIResources resourceList) of
              Some r \<Rightarrow> Inr \<lparr>gvkGroup = g, gvkVersion = v, gvkKind = arKind r\<rparr>
            | None \<Rightarrow> Inl (GoError (''Resource '' @ PathParameter req ''resource'' @ '' is not defined in the APIResourceList for ''
                        @ showParameters (rqPathParameters req))))))"

section \<open>Operations on objects\<close>

text \<open>
  What every handler does first: the resource group of the request, a client to it, the kind of the resource. The client and the kind
  go to the rest of the handler.
\<close>

definition withTarget ::
  "'b apiServerHandler \<Rightarrow> restRequest \<Rightarrow> ('b response \<Rightarrow> 'r) \<Rightarrow> ('b cachedClient \<Rightarrow> GroupVersionKind \<Rightarrow> 'r) \<Rightarrow> 'r" where
  "withTarget h req failed k =
     (case ahResolver h (rqHost req) of
        Inl e \<Rightarrow> failed (WriteErrorString (GoError e))
      | Inr resourceGroup \<Rightarrow>
        (case requestToGVK (ParseGroupVersion (mgrScheme (ahManager h))) req of
           Inl e \<Rightarrow> failed (WriteErrorString e)
         | Inr gvk \<Rightarrow> k (GetClient (GetResourceGroup (ahManager h) resourceGroup)) gvk))"

text \<open>The object in the body of a request, in the namespace of its path.\<close>

definition bodyObject :: "'b apiLibrary \<Rightarrow> 'b manager \<Rightarrow> restRequest \<Rightarrow> GroupVersionKind \<Rightarrow> apiError + 'b object" where
  "bodyObject lib m req gvk =
     (case libNew lib gvk of
        Inl e \<Rightarrow> Inl (GoError e)
      | Inr newObj \<Rightarrow>
        (case DecodeInto (mgrScheme m) (rqBody req) newObj of
           Inl e \<Rightarrow> Inl (GoError e)
         | Inr obj \<Rightarrow> Inr (obj\<lparr>oNamespace := PathParameter req ''namespace''\<rparr>)))"

text \<open>The end of Create and Update: the error of the write, or the object after it.\<close>

definition answerWrite :: "'b apiLibrary \<Rightarrow> 'b manager \<Rightarrow> 'b writeResult \<Rightarrow> 'b handled" where
  "answerWrite lib m r =
     (case r of
        (Inl e, c, _, calls) \<Rightarrow> (WriteErrorString e, m\<lparr>mgrCache := c\<rparr>, calls)
      | (Inr _, c, Some obj, calls) \<Rightarrow> (WriteEntity lib (ObjectEntity obj), m\<lparr>mgrCache := c\<rparr>, calls)
      | (Inr _, c, None, calls) \<Rightarrow> (Panicked ''nil object'', m\<lparr>mgrCache := c\<rparr>, calls))"

definition apiV1Create :: "'b apiLibrary \<Rightarrow> gotime \<Rightarrow> 'b apiServerHandler \<Rightarrow> restRequest \<Rightarrow> 'b handled" where
  "apiV1Create lib now h req = withTarget h req (\<lambda>r. (r, ahManager h, [])) (\<lambda>cloudClient gvk.
     case bodyObject lib (ahManager h) req gvk of
       Inl e \<Rightarrow> (WriteErrorString e, ahManager h, [])
     | Inr obj \<Rightarrow> answerWrite lib (ahManager h) (clCreate cloudClient now (mgrCache (ahManager h)) (Some obj)))"

definition apiV1List :: "'b apiLibrary \<Rightarrow> 'b apiServerHandler \<Rightarrow> restRequest \<Rightarrow> 'b response" where
  "apiV1List lib h req = withTarget h req id (\<lambda>cloudClient gvk.
     let listOpts = (if PathParameter req ''namespace'' \<noteq> ''''
                     then \<lparr>loNamespace = PathParameter req ''namespace'', loLabelSelector = None\<rparr>
                     else \<lparr>loNamespace = '''', loLabelSelector = None\<rparr>)
     in case clList cloudClient (mgrCache (ahManager h)) (libUnstructured lib)
               (Some \<lparr>lType = Unstructured, lGVK = gvk\<lparr>gvkKind := gvkKind gvk @ ''List''\<rparr>, lItems = []\<rparr>) listOpts of
          (Inl e, _) \<Rightarrow> WriteErrorString e
        | (Inr _, Some ls) \<Rightarrow> WriteEntity lib (ListEntity ls)
        | (Inr _, None) \<Rightarrow> Panicked ''nil list'')"

definition pathObject :: "'b apiLibrary \<Rightarrow> restRequest \<Rightarrow> GroupVersionKind \<Rightarrow> 'b object" where
  "pathObject lib req gvk = (libUnstructured lib)\<lparr>oType := Unstructured, oGVK := gvk, oName := PathParameter req ''name'',
     oNamespace := PathParameter req ''namespace''\<rparr>"

text \<open>The code of an API status, which \<^verbatim>\<open>errors.As\<close> looks for under wrapped errors; other errors are no API status.\<close>

fun unwrapError :: "apiError \<Rightarrow> apiError" where
  "unwrapError (Wrap _ e) = unwrapError e"
| "unwrapError e = e"

definition statusCode :: "apiError \<Rightarrow> nat option" where
  "statusCode e = (case unwrapError e of BadRequest _ \<Rightarrow> Some 400 | NotFound _ _ \<Rightarrow> Some 404 | AlreadyExists _ _ \<Rightarrow> Some 409
     | Conflict _ _ \<Rightarrow> Some 409 | InternalError _ \<Rightarrow> Some 500 | _ \<Rightarrow> None)"

definition answerGetError :: "apiError \<Rightarrow> 'b response" where
  "answerGetError e =
     (case statusCode e of
        Some code \<Rightarrow> EntityResponse code (StatusEntity (unwrapError e))
      | None \<Rightarrow> (case e of Panic s \<Rightarrow> Panicked s | _ \<Rightarrow> EntityResponse 500 (TextEntity e)))"

definition apiV1Get :: "'b apiLibrary \<Rightarrow> 'b apiServerHandler \<Rightarrow> restRequest \<Rightarrow> 'b response" where
  "apiV1Get lib h req = withTarget h req id (\<lambda>cloudClient gvk.
     let obj = pathObject lib req gvk
     in case clGet cloudClient (mgrCache (ahManager h)) (ObjectKeyFromObject obj) (Some obj) of
          (Inl e, _) \<Rightarrow> answerGetError e
        | (Inr _, Some obj') \<Rightarrow> WriteEntity lib (ObjectEntity obj')
        | (Inr _, None) \<Rightarrow> Panicked ''nil object'')"

definition apiV1Update :: "'b apiLibrary \<Rightarrow> gotime \<Rightarrow> 'b apiServerHandler \<Rightarrow> restRequest \<Rightarrow> 'b handled" where
  "apiV1Update lib now h req = withTarget h req (\<lambda>r. (r, ahManager h, [])) (\<lambda>cloudClient gvk.
     case bodyObject lib (ahManager h) req gvk of
       Inl e \<Rightarrow> (WriteErrorString e, ahManager h, [])
     | Inr obj \<Rightarrow> answerWrite lib (ahManager h) (clUpdate cloudClient now (mgrCache (ahManager h)) (Some obj)))"

text \<open>\<^verbatim>\<open>client.RawPatch\<close>: the data do not depend on the object.\<close>

definition RawPatch :: "string \<Rightarrow> string \<Rightarrow> 'b patch" where
  "RawPatch ty data = \<lparr>patchType = ty, patchDataOf = (\<lambda>_. Inr data)\<rparr>"

definition apiV1Patch :: "'b apiLibrary \<Rightarrow> gotime \<Rightarrow> 'b apiServerHandler \<Rightarrow> restRequest \<Rightarrow> 'b handled" where
  "apiV1Patch lib now h req = withTarget h req (\<lambda>r. (r, ahManager h, [])) (\<lambda>cloudClient gvk.
     let patch = RawPatch (rqContentType req) (rqBody req);
         obj = pathObject lib req gvk
     in case clPatch cloudClient now (mgrCache (ahManager h)) (Some obj) patch of
          (Inl e, c, calls) \<Rightarrow> (WriteErrorString e, (ahManager h)\<lparr>mgrCache := c\<rparr>, calls)
        | (Inr _, c, calls) \<Rightarrow> (WriteEntity lib (ObjectEntity obj), (ahManager h)\<lparr>mgrCache := c\<rparr>, calls))"

definition apiV1Delete :: "nat \<Rightarrow> 'b apiLibrary \<Rightarrow> gotime \<Rightarrow> 'b apiServerHandler \<Rightarrow> restRequest \<Rightarrow> 'b handled option" where
  "apiV1Delete fuel lib now h req = withTarget h req (\<lambda>r. Some (r, ahManager h, [])) (\<lambda>cloudClient gvk.
     case clDelete cloudClient fuel now (mgrCache (ahManager h)) (Some (pathObject lib req gvk)) of
       None \<Rightarrow> None
     | Some (Inl e, c, _, calls) \<Rightarrow> Some (WriteErrorString e, (ahManager h)\<lparr>mgrCache := c\<rparr>, calls)
     | Some (Inr _, c, _, calls) \<Rightarrow> Some (EmptyResponse 200, (ahManager h)\<lparr>mgrCache := c\<rparr>, calls))"

definition healthz :: "'b response" where
  "healthz = EmptyResponse 200"

section \<open>Routes\<close>

datatype httpMethod = GET | POST | PUT | PATCH | DELETE

datatype apiHandler = Healthz | ApiDiscovery | ApiV1Discovery | ApisDiscovery | ApiV1Create | ApiV1List | ApiV1Get | ApiV1Update
  | ApiV1Patch | ApiV1Delete | ApiV1PortForward

text \<open>The method, the path, the content types consumed and the handler.\<close>

type_synonym route = "httpMethod \<times> string \<times> string list \<times> apiHandler"

definition ContentTypeJSON :: string where "ContentTypeJSON = ''application/json''"
definition ContentTypeProtobuf :: string where "ContentTypeProtobuf = ''application/vnd.kubernetes.protobuf''"

text \<open>The six operations below a path, in the order the code registers them.\<close>

definition crudRoutes :: "string \<Rightarrow> route list" where
  "crudRoutes path =
     [(POST, path @ ''/{resource}'', [ContentTypeProtobuf], ApiV1Create),
      (GET, path @ ''/{resource}'', [ContentTypeJSON], ApiV1List),
      (GET, path @ ''/{resource}/{name}'', [ContentTypeJSON], ApiV1Get),
      (PUT, path @ ''/{resource}/{name}'', [ContentTypeProtobuf], ApiV1Update),
      (PATCH, path @ ''/{resource}/{name}'', [MergePatchType, StrategicMergePatchType], ApiV1Patch),
      (DELETE, path @ ''/{resource}/{name}'', [ContentTypeProtobuf], ApiV1Delete)]"

definition NewAPIServerHandler_routes :: "route list" where
  "NewAPIServerHandler_routes =
     [(GET, ''/'', [ContentTypeJSON], Healthz),
      (GET, ''/api'', [ContentTypeJSON], ApiDiscovery),
      (GET, ''/api/v1'', [ContentTypeJSON], ApiV1Discovery),
      (GET, ''/apis'', [ContentTypeJSON], ApisDiscovery),
      (GET, ''/apis/{group}/{version}'', [ContentTypeJSON], ApisDiscovery)]
     @ crudRoutes ''/api/v1'' @ crudRoutes ''/apis/{group}/{version}''
     @ crudRoutes ''/api/v1/namespaces/{namespace}'' @ crudRoutes ''/apis/{group}/{version}/namespaces/{namespace}''
     @ [(GET, ''/api/v1/namespaces/{namespace}/pods/{name}/portforward'', [ContentTypeJSON], ApiV1PortForward),
        (POST, ''/api/v1/namespaces/{namespace}/pods/{name}/portforward'', [''*/*''], ApiV1PortForward)]"

definition NewAPIServerHandler :: "'b manager \<Rightarrow> (string \<Rightarrow> string + string) \<Rightarrow> 'b apiServerHandler" where
  "NewAPIServerHandler m resolver = \<lparr>ahManager = m, ahResolver = resolver\<rparr>"

end
