(* ===== verification/API_Properties.thy ===== *)
theory API_Properties
  imports API_Server Cache_Properties
begin

text \<open>
  What a client of the fake API server sees: which resources it serves, and that what it creates can be read back.
\<close>

section \<open>Discovery\<close>

lemma resource_names_distinct: "getAPIResourceList req = Some rl \<Longrightarrow> distinct (map arName (arlAPIResources rl))"
  by (auto simp: getAPIResourceList_def corev1APIResourceList_def rbacv1APIResourceList_def split: if_splits)

lemma findSomeD: "find P xs = Some x \<Longrightarrow> x \<in> set xs \<and> P x"
  by (auto simp: find_Some_iff)

lemma find_append_skip: "y \<notin> f ` set xs \<Longrightarrow> find (\<lambda>x. f x = y) (xs @ zs) = find (\<lambda>x. f x = y) zs"
  by (induction xs) auto

lemma requestToGVK_iff:
  "requestToGVK pgv req = Inr gvk \<longleftrightarrow>
     (\<exists>rl r. getAPIResourceList req = Some rl \<and> pgv (arlGroupVersion rl) = Some (gvkGroup gvk, gvkVersion gvk)
        \<and> r \<in> set (arlAPIResources rl) \<and> arName r = PathParameter req ''resource'' \<and> gvkKind gvk = arKind r)"
  (is "?L \<longleftrightarrow> ?R")
proof
  assume ?L
  then show ?R
    by (cases gvk) (fastforce simp: requestToGVK_def dest: findSomeD split: option.splits)
next
  assume ?R
  then obtain rl r where r: "getAPIResourceList req = Some rl" "pgv (arlGroupVersion rl) = Some (gvkGroup gvk, gvkVersion gvk)"
    "r \<in> set (arlAPIResources rl)" "arName r = PathParameter req ''resource''" "gvkKind gvk = arKind r" by blast
  obtain xs ys where xs: "arlAPIResources rl = xs @ r # ys" using r(3) by (meson split_list)
  then have "PathParameter req ''resource'' \<notin> arName ` set xs" using resource_names_distinct [OF r(1)] r(4) by auto
  then have "find (\<lambda>x. arName x = PathParameter req ''resource'') (arlAPIResources rl) = Some r"
    using r(4) by (simp add: xs find_append_skip)
  with r show ?L by (cases gvk) (simp add: requestToGVK_def)
qed

text \<open>
  C34. Discovery and routing agree. The resources a request can address are those the discovery document of its group and version
  lists, each with the kind listed there: core resources under \<^verbatim>\<open>/api/v1\<close>, the RBAC ones under their group. Under any
  other group or version discovery and all the operations answer with an error.
\<close>

theorem discovery_matches_requests:
  assumes "\<And>ent. libWriteEntity lib ent = None" "pgv ''v1'' = Some ('''', ''v1'')"
    and "pgv ''rbac.authorization.k8s.io/v1'' = Some (''rbac.authorization.k8s.io'', ''v1'')"
  shows "(\<exists>gvk. requestToGVK pgv req = Inr gvk \<and> gvkKind gvk = kind) \<longleftrightarrow>
     (\<exists>rl r. (if PathParameter req ''group'' = '''' then apiV1Discovery lib else apisDiscovery lib req) = EntityResponse 200 (ResourceListEntity rl)
        \<and> r \<in> set (arlAPIResources rl) \<and> arName r = PathParameter req ''resource'' \<and> arKind r = kind)"
proof -
  have disc: "(if PathParameter req ''group'' = '''' then apiV1Discovery lib else apisDiscovery lib req) = EntityResponse 200 (ResourceListEntity rl)
      \<longleftrightarrow> getAPIResourceList req = Some rl" for rl
    by (auto simp: apiV1Discovery_def apisDiscovery_def WriteEntity_def WriteErrorString_def assms(1) getAPIResourceList_def)
  have parse: "\<exists>g v. pgv (arlGroupVersion rl) = Some (g, v)" if "getAPIResourceList req = Some rl" for rl
    using that assms(2,3) by (auto simp: getAPIResourceList_def corev1APIResourceList_def rbacv1APIResourceList_def split: if_splits)
  show ?thesis
    unfolding disc requestToGVK_iff
  proof
    assume "\<exists>rl r. getAPIResourceList req = Some rl \<and> r \<in> set (arlAPIResources rl) \<and> arName r = PathParameter req ''resource'' \<and> arKind r = kind"
    then obtain rl r where r: "getAPIResourceList req = Some rl" "r \<in> set (arlAPIResources rl)" "arName r = PathParameter req ''resource''"
      "arKind r = kind" by blast
    with parse obtain g v where "pgv (arlGroupVersion rl) = Some (g, v)" by blast
    with r show "\<exists>gvk :: GroupVersionKind. (\<exists>rl r. getAPIResourceList req = Some rl \<and> pgv (arlGroupVersion rl) = Some (gvkGroup gvk, gvkVersion gvk)
        \<and> r \<in> set (arlAPIResources rl) \<and> arName r = PathParameter req ''resource'' \<and> gvkKind gvk = arKind r) \<and> gvkKind gvk = kind"
      by - (rule exI [of _ "\<lparr>gvkGroup = g, gvkVersion = v, gvkKind = kind\<rparr>"], auto)
  qed auto
qed

definition sampleLibrary :: "string apiLibrary" where
  "sampleLibrary = \<lparr>libWriteEntity = (\<lambda>_. None), libNew = (\<lambda>gvk. Inr (sampleObject (gvkKind gvk) ''a'' [] [])),
     libUnstructured = (sampleObject '''' '''' [] [])\<lparr>oType := Unstructured\<rparr>\<rparr>"

definition sampleRequest :: restRequest where
  "sampleRequest = \<lparr>rqHost = ''127.0.0.1:20000'', rqPathParameters = [(''resource'', ''secrets''), (''namespace'', ''ns'')],
     rqBody = ''data'', rqContentType = ''application/json''\<rparr>"

lemma sampleParse_groups: "sampleParse ''v1'' = Some ('''', ''v1'')"
  "sampleParse ''rbac.authorization.k8s.io/v1'' = Some (''rbac.authorization.k8s.io'', ''v1'')"
  by (simp_all add: sampleParse_def)

theorem discovery_matches_requests_witness:
  "(\<exists>gvk. requestToGVK sampleParse sampleRequest = Inr gvk \<and> gvkKind gvk = ''Secret'')
   \<and> \<not> (\<exists>gvk. requestToGVK sampleParse sampleRequest = Inr gvk \<and> gvkKind gvk = ''Pod'')"
proof -
  have lib: "libWriteEntity sampleLibrary ent = None" for ent by (simp add: sampleLibrary_def)
  have "(\<exists>gvk. requestToGVK sampleParse sampleRequest = Inr gvk \<and> gvkKind gvk = k) \<longleftrightarrow>
      list_ex (\<lambda>r. arName r = ''secrets'' \<and> arKind r = k) (arlAPIResources corev1APIResourceList)" for k
    unfolding discovery_matches_requests [of sampleLibrary sampleParse, OF lib sampleParse_groups]
    by (auto simp: sampleRequest_def PathParameter_def mget_or_def apiV1Discovery_def WriteEntity_def lib list_ex_iff)
  then show ?thesis by (simp add: corev1APIResourceList_def)
qed

section \<open>Objects\<close>

definition named :: "restRequest \<Rightarrow> string \<Rightarrow> restRequest" where
  "named req name = req\<lparr>rqPathParameters := mput (rqPathParameters req) ''name'' name\<rparr>"

lemma named_simps [simp]:
  "rqHost (named req name) = rqHost req"
  "PathParameter (named req name) k = (if k = ''name'' then name else PathParameter req k)"
  by (simp_all add: named_def PathParameter_def mget_or_def)

lemma requestToGVK_named: "requestToGVK pgv (named req name) = Inr gvk \<longleftrightarrow> requestToGVK pgv req = Inr gvk"
  by (simp add: requestToGVK_iff getAPIResourceList_def)

text \<open>
  C19. An object created through the API server can be read back through it: a Create answered with an object stored it in the
  resource group of the host, in the namespace of the path whatever namespace the body had, with version \<^verbatim>\<open>v1\<close> and the
  decoded content; a Get on the same host with the name of the object answers with this object in unstructured form.
\<close>

theorem api_create_then_get:
  assumes "ahResolver h (rqHost req) = Inr rg" "mgrScheme (ahManager h) = sch" "cScheme (mgrCache (ahManager h)) = sch"
    and "requestToGVK (ParseGroupVersion sch) req = Inr gvk" "bodyObject lib (ahManager h) req gvk = Inr obj"
    and "oName obj \<noteq> ''''" "GVKForObject sch obj = Inr gvk"
    and "apiV1Create lib now h req = (EntityResponse 200 (ObjectEntity o1), m', calls)"
    and "GVKForObject sch (pathObject lib (named req (oName obj)) gvk) = Inr gvk"
    and "Convert sch o1 (pathObject lib (named req (oName obj)) gvk) = Inr u"
    and "libWriteEntity lib (ObjectEntity (u\<lparr>oGVK := gvk\<rparr>)) = None"
  shows "apiV1Get lib (h\<lparr>ahManager := m'\<rparr>) (named req (oName obj)) = EntityResponse 200 (ObjectEntity (u\<lparr>oGVK := gvk\<rparr>))
     \<and> oNamespace o1 = PathParameter req ''namespace'' \<and> oName o1 = oName obj \<and> oBody o1 = oBody obj \<and> oResourceVersion o1 = ''v1''"
proof -
  let ?c = "mgrCache (ahManager h)" and ?p = "pathObject lib (named req (oName obj)) gvk"
  obtain res c' o2 cs where cr: "Create now ?c rg (Some obj) = (res, c', o2, cs)" by (metis prod_cases4)
  have "answerWrite lib (ahManager h) (res, c', o2, cs) = (EntityResponse 200 (ObjectEntity o1), m', calls)"
    using assms(8) unfolding apiV1Create_def withTarget_def
    by (simp add: assms(1,2,4,5) GetClient_def GetResourceGroup_def NewResourceGroup_def cr)
  then have r: "res = Inr ()" "o2 = Some o1" "m' = (ahManager h)\<lparr>mgrCache := c'\<rparr>"
    by (auto simp: answerWrite_def WriteErrorString_def WriteEntity_def split: sum.splits option.splits apiError.splits)
  have gvk: "?p\<lparr>oGVK := gvk\<rparr> = ?p" by (simp add: pathObject_def)
  have ns: "oNamespace obj = PathParameter req ''namespace''"
    using assms(5) by (auto simp: bodyObject_def split: sum.splits)
  have key: "ObjectKeyFromObject ?p = ObjectKeyFromObject obj" by (simp add: pathObject_def ObjectKeyFromObject_def ns)
  have "Get c' rg (ObjectKeyFromObject obj) (Some ?p) = (Inr (), Some (u\<lparr>oGVK := gvk\<rparr>)) \<and>
      o1 = obj\<lparr>oGVK := gvk, oCreationTimestamp := now,
               oAnnotations := Some (mput (GetAnnotations obj) lastSyncTimeAnnotation (Format_RFC3339 now)),
               oResourceVersion := ''v1''\<rparr>"
    using Create_reads_back [OF cr [unfolded r], of gvk ?p u] assms(3,6,7,9,10) by (simp add: gvk)
  moreover have "requestToGVK (ParseGroupVersion sch) (named req (oName obj)) = Inr gvk" using assms(4) by (simp add: requestToGVK_named)
  ultimately show ?thesis
    using assms(1,2,11) ns
    by (simp add: apiV1Get_def withTarget_def r GetClient_def GetResourceGroup_def NewResourceGroup_def Let_def key WriteEntity_def)
qed

definition sampleManager :: "string manager" where
  "sampleManager = (managerNew sampleScheme)\<lparr>mgrCache := startedCache\<rparr>"

definition sampleHandler :: "string apiServerHandler" where
  "sampleHandler = NewAPIServerHandler sampleManager (\<lambda>_. Inr ''rg'')"

lemma sampleRequest_gvk: "requestToGVK sampleParse sampleRequest = Inr (coreGVK ''Secret'')"
  by (simp add: requestToGVK_def getAPIResourceList_def sampleRequest_def PathParameter_def mget_or_def corev1APIResourceList_def
      sampleParse_groups coreGVK_def)

theorem api_create_then_get_witness:
  "\<exists>o1 m' calls u. apiV1Create sampleLibrary 1 sampleHandler sampleRequest = (EntityResponse 200 (ObjectEntity o1), m', calls)
     \<and> apiV1Get sampleLibrary (sampleHandler\<lparr>ahManager := m'\<rparr>) (named sampleRequest ''a'') = EntityResponse 200 (ObjectEntity u)
     \<and> oBody o1 = ''data''"
proof -
  let ?o = "(sampleObject ''Secret'' ''a'' [] [])\<lparr>oBody := ''data''\<rparr>" and ?h = sampleHandler
  have sch: "mgrScheme (ahManager ?h) = sampleScheme" "cScheme (mgrCache (ahManager ?h)) = sampleScheme" "ahResolver ?h = (\<lambda>_. Inr ''rg'')"
      "mgrCache (ahManager ?h) = startedCache" "ParseGroupVersion sampleScheme = sampleParse"
    by (simp_all add: sampleHandler_def NewAPIServerHandler_def sampleManager_def managerNew_def startedCache_eval sampleScheme_def)
  have lib: "libWriteEntity sampleLibrary ent = None" for ent by (simp add: sampleLibrary_def)
  have body: "bodyObject sampleLibrary (ahManager ?h) sampleRequest (coreGVK ''Secret'') = Inr ?o"
    by (simp add: bodyObject_def sampleLibrary_def sch) (simp add: sample_eval sampleRequest_def PathParameter_def mget_or_def)
  have "\<exists>c' o1 calls. Create 1 startedCache ''rg'' (Some ?o) = (Inr (), c', Some o1, calls)"
    by (simp add: startedCache_eval sample_eval store_eval emptyTracker_def)
  then have "\<exists>o1 m' calls. apiV1Create sampleLibrary 1 ?h sampleRequest = (EntityResponse 200 (ObjectEntity o1), m', calls)"
    by (auto simp: apiV1Create_def withTarget_def sch sampleRequest_gvk body GetClient_def GetResourceGroup_def NewResourceGroup_def
        answerWrite_def WriteEntity_def lib)
  then obtain o1 m' calls where cr: "apiV1Create sampleLibrary 1 ?h sampleRequest = (EntityResponse 200 (ObjectEntity o1), m', calls)"
    by blast
  have gvk: "GVKForObject sampleScheme (pathObject sampleLibrary r (coreGVK ''Secret'')) = Inr (coreGVK ''Secret'')"
    "GVKForObject sampleScheme ?o = Inr (coreGVK ''Secret'')" for r
    by (simp_all add: sampleScheme_def pathObject_def sampleObject_def)
  show ?thesis
    using api_create_then_get [OF _ sch(1,2) _ body _ gvk(2) cr gvk(1)] cr
    by (simp add: sch sampleRequest_gvk) (simp add: sampleScheme_def sampleLibrary_def sampleObject_def pathObject_def)
qed

text \<open>
  The answer to a patch: the object addressed by the path, as it was built from the request. Neither the patch nor the stored object
  has a part in it.
\<close>

lemma patch_answers_stub:
  assumes "apiV1Patch lib now h req = (EntityResponse 200 ent, m', calls)"
  shows "\<exists>gvk. ent = ObjectEntity (pathObject lib req gvk) \<and> requestToGVK (ParseGroupVersion (mgrScheme (ahManager h))) req = Inr gvk"
  using assms
  by (auto simp: apiV1Patch_def withTarget_def WriteErrorString_def WriteEntity_def Let_def
      split: sum.splits option.splits apiError.splits prod.splits)

end
