(* ===== verification/Port_Forward.thy ===== *)
theory Port_Forward
  imports API_Server "HOL-Library.Word"
begin

text \<open>
  The port forward streams of \<^verbatim>\<open>internal/server/api/portforward/httpstreams.go\<close> and the handler of
  \<^verbatim>\<open>internal/server/api/handler.go\<close> that starts them. One goroutine runs the main loop, one
  monitors each pair of streams, one forwards each complete pair. They share the map from request identifiers to pairs and the pairs,
  which live in a heap: an address is an index of \<open>pfHeap\<close>, in the order of allocation. The steps of the goroutines between two
  acquisitions of a lock are the definitions below; \<open>pfStep\<close> interleaves them in any order.
\<close>

text \<open>The verb \<^verbatim>\<open>%q\<close> of \<^verbatim>\<open>fmt\<close> on ASCII strings.\<close>

definition hexDigit :: "nat \<Rightarrow> char" where
  "hexDigit n = ''0123456789abcdef'' ! n"

definition quoteChar :: "char \<Rightarrow> string" where
  "quoteChar c =
     (if c = CHR 0x22 \<or> c = CHR 0x5C then [CHR 0x5C, c]
      else if of_char c = (7::nat) then [CHR 0x5C, CHR ''a'']
      else if of_char c = (8::nat) then [CHR 0x5C, CHR ''b'']
      else if of_char c = (9::nat) then [CHR 0x5C, CHR ''t'']
      else if of_char c = (10::nat) then [CHR 0x5C, CHR ''n'']
      else if of_char c = (11::nat) then [CHR 0x5C, CHR ''v'']
      else if of_char c = (12::nat) then [CHR 0x5C, CHR ''f'']
      else if of_char c = (13::nat) then [CHR 0x5C, CHR ''r'']
      else if of_char c < (32::nat) \<or> of_char c \<ge> (127::nat)
      then [CHR 0x5C, CHR ''x'', hexDigit (of_char c div 16), hexDigit (of_char c mod 16)]
      else [c])"

definition Quote :: "string \<Rightarrow> string" where
  "Quote s = CHR 0x22 # concat (map quoteChar s) @ [CHR 0x22]"

record stream =
  stType :: string
  stRequestID :: string
  stIdentifier :: "32 word"
  stPort :: string

definition StreamType :: string where "StreamType = ''streamType''"
definition StreamTypeError :: string where "StreamTypeError = ''error''"
definition StreamTypeData :: string where "StreamTypeData = ''data''"

record httpStreamPair =
  prRequestID :: string
  dataStream :: "stream option"
  errorStream :: "stream option"
  prComplete :: bool

datatype loopState = Waiting | Adding nat stream | Stopped

datatype monitorState = Monitoring | Removing | Ended

text \<open>
  The state: the connection, as \<^verbatim>\<open>fmt\<close> prints it, the pod, the channel of streams (capacity 1), the heap, the map of pairs, the main loop, the monitor of each pair, the
  forwards that were started and the ones that ended, what was written to error streams, the streams removed from the connection, the
  streams closed, and the panic that ended the process, if any.
\<close>

record httpStreamHandler =
  pfConn :: "string option"
  pfPodName :: string
  pfPodNamespace :: string
  pfChan :: "stream list"
  pfHeap :: "httpStreamPair list"
  streamPairs :: "(string, nat) gomap"
  pfLoop :: loopState
  pfMonitors :: "monitorState list"
  pfForwards :: "nat list"
  pfForwarded :: "nat list"
  pfWritten :: "(stream \<times> string) list"
  pfRemoved :: "(stream option \<times> stream option) list"
  pfClosed :: "stream list"
  pfPanic :: "string option"

definition NewHTTPStreamHandler :: "string option \<Rightarrow> string \<Rightarrow> string \<Rightarrow> httpStreamHandler" where
  "NewHTTPStreamHandler conn podName podNamespace =
     \<lparr>pfConn = conn, pfPodName = podName, pfPodNamespace = podNamespace, pfChan = [], pfHeap = [], streamPairs = [], pfLoop = Waiting, pfMonitors = [], pfForwards = [],
     pfForwarded = [], pfWritten = [], pfRemoved = [], pfClosed = [], pfPanic = None\<rparr>"

section \<open>Streams and pairs\<close>

text \<open>The handler of a new stream: the stream goes to the channel, if its type is valid.\<close>

definition HTTPStreamReceived :: "httpStreamHandler \<Rightarrow> stream \<Rightarrow> string + httpStreamHandler" where
  "HTTPStreamReceived h stream =
     (let streamType = stType stream
      in if streamType = '''' then Inl (Quote StreamType @ '' header is required'')
         else if streamType \<noteq> StreamTypeError \<and> streamType \<noteq> StreamTypeData then Inl (''invalid stream type '' @ Quote streamType)
         else Inr (h\<lparr>pfChan := pfChan h @ [stream]\<rparr>))"

definition requestID :: "stream \<Rightarrow> string" where
  "requestID stream =
     (if stRequestID stream \<noteq> '''' then stRequestID stream
      else if stType stream = StreamTypeError then Itoa (uint (stIdentifier stream))
      else if stType stream = StreamTypeData then Itoa (uint (stIdentifier stream) - 2)
      else '''')"

definition newPortForwardPair :: "string \<Rightarrow> httpStreamPair" where
  "newPortForwardPair rid = \<lparr>prRequestID = rid, dataStream = None, errorStream = None, prComplete = False\<rparr>"

definition getStreamPair :: "httpStreamHandler \<Rightarrow> string \<Rightarrow> (nat \<times> bool) \<times> httpStreamHandler" where
  "getStreamPair h rid =
     (case mget (streamPairs h) rid of
        Some p \<Rightarrow> ((p, False), h)
      | None \<Rightarrow>
        (let p = length (pfHeap h)
         in ((p, True), h\<lparr>pfHeap := pfHeap h @ [newPortForwardPair rid], streamPairs := mput (streamPairs h) rid p\<rparr>)))"

text \<open>The end of add: the channel \<^verbatim>\<open>complete\<close> is closed when both streams are there. Closing it twice panics.\<close>

definition completeIfFull :: "httpStreamPair \<Rightarrow> (apiError + bool) \<times> httpStreamPair" where
  "completeIfFull p =
     (case (errorStream p, dataStream p) of
        (Some _, Some _) \<Rightarrow> if prComplete p then (Inl (Panic ''close of closed channel''), p) else (Inr True, p\<lparr>prComplete := True\<rparr>)
      | _ \<Rightarrow> (Inr False, p))"

definition add :: "httpStreamPair \<Rightarrow> stream \<Rightarrow> (apiError + bool) \<times> httpStreamPair" where
  "add p stream =
     (if stType stream = StreamTypeError
      then (case errorStream p of
              Some _ \<Rightarrow> (Inl (GoError ''error stream already assigned''), p)
            | None \<Rightarrow> completeIfFull (p\<lparr>errorStream := Some stream\<rparr>))
      else if stType stream = StreamTypeData
      then (case dataStream p of
              Some _ \<Rightarrow> (Inl (GoError ''data stream already assigned''), p)
            | None \<Rightarrow> completeIfFull (p\<lparr>dataStream := Some stream\<rparr>))
      else completeIfFull p)"

definition printError :: "httpStreamHandler \<Rightarrow> nat \<Rightarrow> string \<Rightarrow> httpStreamHandler" where
  "printError h a s =
     (case errorStream (pfHeap h ! a) of None \<Rightarrow> h | Some e \<Rightarrow> h\<lparr>pfWritten := pfWritten h @ [(e, s)]\<rparr>)"

section \<open>The goroutines\<close>

text \<open>The main loop takes a stream and finds or creates its pair; a new pair gets a monitor.\<close>

definition runReceive :: "httpStreamHandler \<Rightarrow> stream \<Rightarrow> stream list \<Rightarrow> httpStreamHandler" where
  "runReceive h stream rest =
     (case getStreamPair (h\<lparr>pfChan := rest\<rparr>) (requestID stream) of
        ((p, created), h1) \<Rightarrow>
          (if created then h1\<lparr>pfMonitors := pfMonitors h1 @ [Monitoring]\<rparr> else h1)\<lparr>pfLoop := Adding p stream\<rparr>)"

text \<open>Then it adds the stream to the pair, and starts the forward when the pair is complete.\<close>

definition runAdd :: "httpStreamHandler \<Rightarrow> nat \<Rightarrow> stream \<Rightarrow> httpStreamHandler" where
  "runAdd h a stream =
     (case add (pfHeap h ! a) stream of
        (Inl (Panic s), p) \<Rightarrow> h\<lparr>pfPanic := Some s\<rparr>
      | (Inl (GoError e), p) \<Rightarrow>
          (printError h a (''error processing stream for request '' @ requestID stream @ '': '' @ e))\<lparr>pfLoop := Waiting\<rparr>
      | (Inl _, p) \<Rightarrow> h\<lparr>pfLoop := Waiting\<rparr>
      | (Inr complete, p) \<Rightarrow>
          h\<lparr>pfHeap := (pfHeap h)[a := p], pfLoop := Waiting,
            pfForwards := (if complete then pfForwards h @ [a] else pfForwards h)\<rparr>)"

definition removeStreamPair :: "httpStreamHandler \<Rightarrow> string \<Rightarrow> httpStreamHandler" where
  "removeStreamPair h rid =
     (if pfConn h \<noteq> None
      then (case mget (streamPairs h) rid of
              None \<Rightarrow> h\<lparr>pfPanic := Some ''nil pointer dereference''\<rparr>
            | Some a \<Rightarrow> h\<lparr>pfRemoved := pfRemoved h @ [(dataStream (pfHeap h ! a), errorStream (pfHeap h ! a))],
                          streamPairs := mdel (streamPairs h) rid\<rparr>)
      else h\<lparr>streamPairs := mdel (streamPairs h) rid\<rparr>)"

text \<open>A monitor: the timeout or the completion ends its wait, then it removes the pair.\<close>

definition monitorTimeout :: "httpStreamHandler \<Rightarrow> nat \<Rightarrow> httpStreamHandler" where
  "monitorTimeout h a =
     (printError h a (''(conn='' @ (case pfConn h of None \<Rightarrow> ''<nil>'' | Some c \<Rightarrow> c) @ '', request='' @ prRequestID (pfHeap h ! a) @ '') timed out waiting for streams''))
       \<lparr>pfMonitors := (pfMonitors h)[a := Removing]\<rparr>"

definition monitorComplete :: "httpStreamHandler \<Rightarrow> nat \<Rightarrow> httpStreamHandler" where
  "monitorComplete h a = h\<lparr>pfMonitors := (pfMonitors h)[a := Removing]\<rparr>"

definition monitorRemove :: "httpStreamHandler \<Rightarrow> nat \<Rightarrow> httpStreamHandler" where
  "monitorRemove h a = (removeStreamPair h (prRequestID (pfHeap h ! a)))\<lparr>pfMonitors := (pfMonitors h)[a := Ended]\<rparr>"

text \<open>A forwarder gets the pod, its namespace, the port and the data stream.\<close>

type_synonym PortForwarder = "string \<Rightarrow> string \<Rightarrow> string \<Rightarrow> stream \<Rightarrow> string option"

text \<open>A forward: the forwarder runs on the data stream, its error goes to the error stream, both streams are closed.\<close>

definition portForward :: "PortForwarder \<Rightarrow> httpStreamHandler \<Rightarrow> nat \<Rightarrow> httpStreamHandler" where
  "portForward forwarder h a =
     (case (dataStream (pfHeap h ! a), errorStream (pfHeap h ! a)) of
        (Some d, Some e) \<Rightarrow>
          (let h1 = (case forwarder (pfPodName h) (pfPodNamespace h) (stPort d) d of
                       None \<Rightarrow> h
                     | Some err \<Rightarrow> h\<lparr>pfWritten := pfWritten h @ [(e, ''error forwarding port '' @ stPort d @ '' to pod ''
                           @ pfPodNamespace h @ ''/'' @ pfPodName h @ '': '' @ err)]\<rparr>)
           in h1\<lparr>pfClosed := pfClosed h1 @ [e, d], pfForwarded := pfForwarded h1 @ [a]\<rparr>)
      | _ \<Rightarrow> h\<lparr>pfPanic := Some ''nil pointer dereference''\<rparr>)"

text \<open>
  The steps. A stream is received when the channel has room, the loop may end whenever it waits (the connection is closed), the
  timeout of a monitor may fire at any time. After a panic there is no step.
\<close>

inductive pfStep :: "PortForwarder \<Rightarrow> httpStreamHandler \<Rightarrow> httpStreamHandler \<Rightarrow> bool"
  for forwarder where
  received: "pfPanic h = None \<Longrightarrow> pfChan h = [] \<Longrightarrow> HTTPStreamReceived h s = Inr h' \<Longrightarrow> pfStep forwarder h h'"
| close: "pfPanic h = None \<Longrightarrow> pfLoop h = Waiting \<Longrightarrow> pfStep forwarder h (h\<lparr>pfLoop := Stopped\<rparr>)"
| receive: "pfPanic h = None \<Longrightarrow> pfLoop h = Waiting \<Longrightarrow> pfChan h = s # rest \<Longrightarrow> pfStep forwarder h (runReceive h s rest)"
| addStream: "pfPanic h = None \<Longrightarrow> pfLoop h = Adding a s \<Longrightarrow> pfStep forwarder h (runAdd h a s)"
| timeout: "pfPanic h = None \<Longrightarrow> a < length (pfMonitors h) \<Longrightarrow> pfMonitors h ! a = Monitoring \<Longrightarrow> pfStep forwarder h (monitorTimeout h a)"
| completed: "pfPanic h = None \<Longrightarrow> a < length (pfMonitors h) \<Longrightarrow> pfMonitors h ! a = Monitoring \<Longrightarrow> prComplete (pfHeap h ! a) \<Longrightarrow>
    pfStep forwarder h (monitorComplete h a)"
| remove: "pfPanic h = None \<Longrightarrow> a < length (pfMonitors h) \<Longrightarrow> pfMonitors h ! a = Removing \<Longrightarrow> pfStep forwarder h (monitorRemove h a)"
| forward: "pfPanic h = None \<Longrightarrow> a \<in> set (pfForwards h) \<Longrightarrow> a \<notin> set (pfForwarded h) \<Longrightarrow> pfStep forwarder h (portForward forwarder h a)"

inductive reachablePf :: "PortForwarder \<Rightarrow> httpStreamHandler \<Rightarrow> bool" for forwarder where
  new: "reachablePf forwarder (NewHTTPStreamHandler conn podName podNamespace)"
| step: "reachablePf forwarder h \<Longrightarrow> pfStep forwarder h h' \<Longrightarrow> reachablePf forwarder h'"

section \<open>The tunnel\<close>

text \<open>
  What HTTPStreamTunnel returns, by the order in which the context is done and the two copies end, and by the error of the context.
\<close>

datatype tunnelEvent = ContextDone | CopyEnded "string option"

datatype contextError = Canceled | ContextError string

definition contextResult :: "contextError option \<Rightarrow> string option" where
  "contextResult err = (case err of Some (ContextError e) \<Rightarrow> Some e | _ \<Rightarrow> None)"

definition HTTPStreamTunnel :: "tunnelEvent \<Rightarrow> tunnelEvent \<Rightarrow> contextError option \<Rightarrow> string option" where
  "HTTPStreamTunnel event1 event2 ctxErr =
     (case event1 of
        ContextDone \<Rightarrow> contextResult ctxErr
      | CopyEnded err1 \<Rightarrow>
        (case event2 of
           ContextDone \<Rightarrow> (case err1 of Some e \<Rightarrow> Some e | None \<Rightarrow> contextResult ctxErr)
         | CopyEnded err2 \<Rightarrow> (case err1 of Some e \<Rightarrow> Some e | None \<Rightarrow> err2)))"

section \<open>The route\<close>

text \<open>
  The libraries under a port forward: the negotiation of the protocol, the upgrade of the connection (none, if it failed), dialing an
  address, and the order in which the two copies over a dialed connection end.
\<close>

record portForwardLibrary =
  libHandshake :: "restRequest \<Rightarrow> string list \<Rightarrow> string option"
  libUpgrade :: "restRequest \<Rightarrow> string option"
  libDial :: "string \<Rightarrow> string option"
  libTunnel :: "string \<Rightarrow> stream \<Rightarrow> tunnelEvent \<times> tunnelEvent \<times> contextError option"

definition PortForwardProtocolV1Name :: string where
  "PortForwardProtocolV1Name = ''portforward.k8s.io''"

definition doPortForward :: "portForwardLibrary \<Rightarrow> string \<Rightarrow> stream \<Rightarrow> string option" where
  "doPortForward pl address stream =
     (case libDial pl address of
        Some err \<Rightarrow> Some (''failed to dial '' @ Quote address @ '': '' @ err)
      | None \<Rightarrow> (case libTunnel pl address stream of (event1, event2, ctxErr) \<Rightarrow> HTTPStreamTunnel event1 event2 ctxErr))"

text \<open>
  The handler answers with an error, or runs a stream handler with a forwarder until its connection is closed. The idle timeout it sets
  is one of the reasons why the library closes the connection.
\<close>

definition apiV1PortForward :: "portForwardLibrary \<Rightarrow> restRequest \<Rightarrow> 'b response + httpStreamHandler \<times> PortForwarder" where
  "apiV1PortForward pl req =
     (let podName = PathParameter req ''name'';
          podNamespace = PathParameter req ''namespace''
      in case libHandshake pl req [PortForwardProtocolV1Name] of
           Some err \<Rightarrow> Inl (WriteErrorString (GoError err))
         | None \<Rightarrow>
           (case libUpgrade pl req of
              None \<Rightarrow> Inl (WriteErrorString (GoError ''failed to get upgraded connection''))
            | Some conn \<Rightarrow>
              Inr (NewHTTPStreamHandler (Some conn) podName podNamespace, \<lambda>_ _ _ stream. doPortForward pl (rqHost req) stream)))"

end
