(* ===== verification/Proxy_Dial.thy ===== *)
theory Proxy_Dial
  imports Port_Forward
begin

text \<open>
  The client side of a port forward: \<^verbatim>\<open>internal/server/proxy\<close>. The libraries that build a client, open a connection
  and create or close its streams are functions of the record \<open>dialLibrary\<close>; the state of an opened connection is the list of the
  streams created on it, each with a flag that tells whether it was closed, and whether Close was called on the connection.
\<close>

section \<open>Data\<close>

record 'r restConfig =
  rcTimeout :: int
  rcOther :: 'r

record 'r Proxy =
  pxKind :: string
  pxNamespace :: string
  pxResourceName :: string
  pxKubeConfig :: "'r restConfig option"
  pxKeepAlive :: "int option"
  pxPort :: int

record ('r, 'c, 't) Dialer =
  dlProxy :: "'r Proxy"
  dlClientset :: "'c option"
  dlProxyTransport :: "'t option"
  dlTimeout :: int

record proxyConnection =
  pcStreams :: "(stream \<times> bool) list"
  pcClosed :: bool

text \<open>The zero time is \<open>None\<close>.\<close>

record Conn =
  cnStream :: stream
  cnReadDeadline :: "gotime option"
  cnWriteDeadline :: "gotime option"

record Addr =
  adPort :: string
  adIdentifier :: "32 word"

text \<open>
  The library: a client set, a transport with its upgrader, the connection of a request (its path) with a protocol, the identifier of a
  new stream with given headers on a connection, and the errors of closing a stream and a connection.
\<close>

record ('r, 'c, 't) dialLibrary =
  dlNewForConfig :: "'r restConfig \<Rightarrow> string + 'c"
  dlRoundTripperFor :: "'r restConfig \<Rightarrow> string + 't"
  dlDial :: "'t option \<Rightarrow> string list \<Rightarrow> string \<Rightarrow> string option"
  dlCreateStream :: "proxyConnection \<Rightarrow> (string, string) gomap \<Rightarrow> string + 32 word"
  dlCloseStream :: "stream \<Rightarrow> string option"
  dlCloseConn :: "proxyConnection \<Rightarrow> string option"

section \<open>Addresses and connections\<close>

definition proxyScheme :: string where "proxyScheme = ''proxy''"

definition Network :: "Addr \<Rightarrow> string" where
  "Network a = PortForwardProtocolV1Name"

definition Addr_String :: "Addr \<Rightarrow> string" where
  "Addr_String a = proxyScheme @ ''://'' @ Itoa (uint (adIdentifier a)) @ ''.'' @ PortForwardProtocolV1Name @ ''.local:'' @ adPort a"

definition NewAddrFromConn :: "Conn \<Rightarrow> Addr" where
  "NewAddrFromConn c = \<lparr>adPort = stPort (cnStream c), adIdentifier = stIdentifier (cnStream c)\<rparr>"

definition LocalAddr :: "Conn \<Rightarrow> Addr" where
  "LocalAddr c = NewAddrFromConn c"

definition RemoteAddr :: "Conn \<Rightarrow> Addr" where
  "RemoteAddr c = NewAddrFromConn c"

definition SetDeadline :: "Conn \<Rightarrow> gotime option \<Rightarrow> Conn" where
  "SetDeadline c t = c\<lparr>cnReadDeadline := t, cnWriteDeadline := t\<rparr>"

definition SetWriteDeadline :: "Conn \<Rightarrow> gotime option \<Rightarrow> Conn" where
  "SetWriteDeadline c t = c\<lparr>cnWriteDeadline := t\<rparr>"

definition SetReadDeadline :: "Conn \<Rightarrow> gotime option \<Rightarrow> Conn" where
  "SetReadDeadline c t = c\<lparr>cnReadDeadline := t\<rparr>"

definition NewConn :: "stream \<Rightarrow> Conn" where
  "NewConn stream = \<lparr>cnStream = stream, cnReadDeadline = None, cnWriteDeadline = None\<rparr>"

text \<open>\<^verbatim>\<open>NewAggregate\<close> drops the nil errors; no error is left of a list of nils.\<close>

definition NewAggregate :: "string option list \<Rightarrow> string list option" where
  "NewAggregate errs = (case List.map_filter id errs of [] \<Rightarrow> None | es \<Rightarrow> Some es)"

definition closeStream :: "stream \<Rightarrow> proxyConnection \<Rightarrow> proxyConnection" where
  "closeStream s conn = conn\<lparr>pcStreams := map (\<lambda>(s', closed). (s', closed \<or> s' = s)) (pcStreams conn)\<rparr>"

definition closeConn :: "proxyConnection \<Rightarrow> proxyConnection" where
  "closeConn conn = conn\<lparr>pcClosed := True\<rparr>"

definition Conn_Close :: "('r, 'c, 't) dialLibrary \<Rightarrow> Conn \<Rightarrow> proxyConnection \<Rightarrow> string list option \<times> proxyConnection" where
  "Conn_Close lib c conn =
     (let conn1 = closeStream (cnStream c) conn
      in (NewAggregate [dlCloseStream lib (cnStream c), dlCloseConn lib conn1], closeConn conn1))"

section \<open>Dialing\<close>

definition defaultTimeout :: int where "defaultTimeout = 10 * 1000000000"

type_synonym ('r, 'c, 't) dialOption = "('r, 'c, 't) Dialer \<Rightarrow> string + ('r, 'c, 't) Dialer"

definition DialTimeout :: "int \<Rightarrow> ('r, 'c, 't) dialOption" where
  "DialTimeout duration d = Inr (d\<lparr>dlTimeout := duration\<rparr>)"

fun applyOptions :: "('r, 'c, 't) dialOption list \<Rightarrow> ('r, 'c, 't) Dialer \<Rightarrow> string + ('r, 'c, 't) Dialer" where
  "applyOptions [] d = Inr d"
| "applyOptions (option # options) d = (case option d of Inl e \<Rightarrow> Inl e | Inr d' \<Rightarrow> applyOptions options d')"

text \<open>
  The timeout is written into the configuration that the caller's proxy points to. The proxy of the dialer points to the same one, unless
  an option replaced it.
\<close>

definition NewDialer :: "('r, 'c, 't) dialLibrary \<Rightarrow> 'r Proxy \<Rightarrow> ('r, 'c, 't) dialOption list \<Rightarrow> apiError + ('r, 'c, 't) Dialer" where
  "NewDialer lib p options =
     (if pxPort p = 0 then Inl (GoError ''port required'')
      else case applyOptions options \<lparr>dlProxy = p, dlClientset = None, dlProxyTransport = None, dlTimeout = 0\<rparr> of
        Inl e \<Rightarrow> Inl (GoError e)
      | Inr d0 \<Rightarrow>
        (let d1 = (if dlTimeout d0 = 0 then d0\<lparr>dlTimeout := defaultTimeout\<rparr> else d0)
         in case pxKubeConfig p of
              None \<Rightarrow> Inl (Panic ''nil pointer dereference'')
            | Some cfg \<Rightarrow>
              (let cfg1 = cfg\<lparr>rcTimeout := dlTimeout d1\<rparr>
               in case dlNewForConfig lib cfg1 of
                    Inl e \<Rightarrow> Inl (GoError e)
                  | Inr clientset \<Rightarrow>
                    (case dlRoundTripperFor lib cfg1 of
                       Inl e \<Rightarrow> Inl (GoError e)
                     | Inr transport \<Rightarrow>
                       Inr (d1\<lparr>dlProxy := (dlProxy d1)\<lparr>pxKubeConfig := Some cfg1\<rparr>, dlProxyTransport := Some transport,
                               dlClientset := Some clientset\<rparr>)))))"

text \<open>A stream with the headers it was created with.\<close>

definition PortHeader :: string where "PortHeader = ''port''"
definition PortForwardRequestIDHeader :: string where "PortForwardRequestIDHeader = ''requestID''"

definition streamOf :: "(string, string) gomap \<Rightarrow> 32 word \<Rightarrow> stream" where
  "streamOf headers ident = \<lparr>stType = mget_or '''' headers StreamType, stRequestID = mget_or '''' headers PortForwardRequestIDHeader,
     stIdentifier = ident, stPort = mget_or '''' headers PortHeader\<rparr>"

definition createStream ::
  "('r, 'c, 't) dialLibrary \<Rightarrow> proxyConnection \<Rightarrow> (string, string) gomap \<Rightarrow> (string + stream) \<times> proxyConnection" where
  "createStream lib conn headers =
     (case dlCreateStream lib conn headers of
        Inl e \<Rightarrow> (Inl e, conn)
      | Inr ident \<Rightarrow> (Inr (streamOf headers ident), conn\<lparr>pcStreams := pcStreams conn @ [(streamOf headers ident, False)]\<rparr>))"

text \<open>The early returns of DialContext: the connection is closed, its error is aggregated with the first one.\<close>

definition abandon :: "('r, 'c, 't) dialLibrary \<Rightarrow> string \<Rightarrow> proxyConnection \<Rightarrow> (string list + Conn) \<times> proxyConnection option" where
  "abandon lib e conn =
     (case NewAggregate [Some e, dlCloseConn lib conn] of None \<Rightarrow> (Inl [], Some (closeConn conn)) | Some es \<Rightarrow> (Inl es, Some (closeConn conn)))"

definition DialContext ::
  "('r, 'c, 't) dialLibrary \<Rightarrow> ('r, 'c, 't) Dialer \<Rightarrow> string \<Rightarrow> (string list + Conn) \<times> proxyConnection option" where
  "DialContext lib d addr =
     (case dlDial lib (dlProxyTransport d) [pxKind (dlProxy d), pxNamespace (dlProxy d), addr, ''portforward''] PortForwardProtocolV1Name of
        Some e \<Rightarrow> (Inl [''error upgrading connection: '' @ e], None)
      | None \<Rightarrow>
        (let connection = \<lparr>pcStreams = [], pcClosed = False\<rparr>;
             headers1 = mput [] PortHeader (Itoa (pxPort (dlProxy d)));
             headers2 = mput headers1 PortForwardRequestIDHeader ''0'';
             headers3 = mput headers2 StreamType StreamTypeError
         in case createStream lib connection headers3 of
              (Inl e, connection1) \<Rightarrow> abandon lib e connection1
            | (Inr errStream, connection1) \<Rightarrow>
              (case dlCloseStream lib errStream of
                 Some e \<Rightarrow> abandon lib e connection1
               | None \<Rightarrow>
                 (let connection2 = closeStream errStream connection1;
                      headers4 = mput headers3 StreamType StreamTypeData
                  in case createStream lib connection2 headers4 of
                       (Inl e, connection3) \<Rightarrow> abandon lib (''error creating forwarding stream: '' @ e) connection3
                     | (Inr datStream, connection3) \<Rightarrow> (Inr (NewConn datStream), Some connection3)))))"

definition DialContextWithAddr ::
  "('r, 'c, 't) dialLibrary \<Rightarrow> ('r, 'c, 't) Dialer \<Rightarrow> string \<Rightarrow> (string list + Conn) \<times> proxyConnection option" where
  "DialContextWithAddr lib d addr = DialContext lib d addr"

end
