(* ===== verification/Port_Forward_Properties.thy ===== *)
theory Port_Forward_Properties
  imports Port_Forward
begin

text \<open>
  The interleavings of the goroutines of a port forward: an invariant of all the reachable states, and what a pair of streams leads to.
\<close>

section \<open>The invariant\<close>

definition validType :: "stream \<Rightarrow> bool" where
  "validType s \<longleftrightarrow> stType s = StreamTypeError \<or> stType s = StreamTypeData"

text \<open>A pair holds streams of its request with the right types, and is complete when it holds both.\<close>

definition pairOk :: "httpStreamPair \<Rightarrow> bool" where
  "pairOk p \<longleftrightarrow> (\<forall>s. errorStream p = Some s \<longrightarrow> stType s = StreamTypeError \<and> requestID s = prRequestID p)
     \<and> (\<forall>s. dataStream p = Some s \<longrightarrow> stType s = StreamTypeData \<and> requestID s = prRequestID p)
     \<and> (prComplete p \<longleftrightarrow> errorStream p \<noteq> None \<and> dataStream p \<noteq> None)"

text \<open>The map holds exactly the pairs whose monitor has not ended.\<close>

definition mapOk :: "httpStreamHandler \<Rightarrow> bool" where
  "mapOk h \<longleftrightarrow> length (pfMonitors h) = length (pfHeap h)
     \<and> (\<forall>rid a. mget (streamPairs h) rid = Some a \<longleftrightarrow>
          a < length (pfHeap h) \<and> prRequestID (pfHeap h ! a) = rid \<and> pfMonitors h ! a \<noteq> Ended)"

definition loopOk :: "httpStreamHandler \<Rightarrow> bool" where
  "loopOk h \<longleftrightarrow> (\<forall>s \<in> set (pfChan h). validType s)
     \<and> (\<forall>a s. pfLoop h = Adding a s \<longrightarrow> a < length (pfHeap h) \<and> prRequestID (pfHeap h ! a) = requestID s \<and> validType s)"

text \<open>The forwards are those of the complete pairs, each started once.\<close>

definition forwardsOk :: "httpStreamHandler \<Rightarrow> bool" where
  "forwardsOk h \<longleftrightarrow> distinct (pfForwards h) \<and> distinct (pfForwarded h) \<and> set (pfForwarded h) \<subseteq> set (pfForwards h)
     \<and> set (pfForwards h) = {a. a < length (pfHeap h) \<and> prComplete (pfHeap h ! a)}"

definition pfOk :: "httpStreamHandler \<Rightarrow> bool" where
  "pfOk h \<longleftrightarrow> pfPanic h = None \<and> mapOk h \<and> loopOk h \<and> forwardsOk h \<and> (\<forall>p \<in> set (pfHeap h). pairOk p)"

lemmas pf_inv_defs = pfOk_def mapOk_def loopOk_def forwardsOk_def

lemma printError_simps [simp]:
  "pfPanic (printError h a s) = pfPanic h" "pfChan (printError h a s) = pfChan h" "pfHeap (printError h a s) = pfHeap h"
  "streamPairs (printError h a s) = streamPairs h" "pfMonitors (printError h a s) = pfMonitors h"
  "pfForwards (printError h a s) = pfForwards h" "pfForwarded (printError h a s) = pfForwarded h" "pfLoop (printError h a s) = pfLoop h"
  by (simp_all add: printError_def split: option.splits)

text \<open>Adding a stream of a valid type to a good pair never closes the channel twice.\<close>

lemma add_ok:
  assumes "pairOk p" "validType s" "requestID s = prRequestID p" "add p s = (res, p')"
  shows "pairOk p' \<and> prRequestID p' = prRequestID p
     \<and> ((\<exists>e. res = Inl (GoError e) \<and> p' = p) \<or> (\<exists>complete. res = Inr complete \<and> \<not> prComplete p \<and> (complete \<longleftrightarrow> prComplete p')))"
  using assms
  by (auto simp: add_def completeIfFull_def pairOk_def validType_def StreamTypeError_def StreamTypeData_def split: option.splits if_splits)

lemma pfOk_receive:
  assumes "pfOk h" "pfLoop h = Waiting" "pfChan h = s # rest"
  shows "pfOk (runReceive h s rest)"
proof (cases "mget (streamPairs h) (requestID s)")
  case (Some a)
  then have "a < length (pfHeap h)" "prRequestID (pfHeap h ! a) = requestID s" using assms(1) by (simp_all add: pf_inv_defs)
  moreover have "runReceive h s rest = h\<lparr>pfChan := rest, pfLoop := Adding a s\<rparr>"
    using Some by (simp add: runReceive_def getStreamPair_def)
  ultimately show ?thesis using assms by (auto simp: pf_inv_defs)
next
  case None
  let ?p = "newPortForwardPair (requestID s)" and ?n = "length (pfHeap h)"
  have map: "mapOk h" "loopOk h" "forwardsOk h" using assms(1) by (simp_all add: pfOk_def)
  have h': "runReceive h s rest = h\<lparr>pfChan := rest, pfHeap := pfHeap h @ [?p],
      streamPairs := mput (streamPairs h) (requestID s) ?n, pfMonitors := pfMonitors h @ [Monitoring], pfLoop := Adding ?n s\<rparr>"
    using None by (simp add: runReceive_def getStreamPair_def Let_def)
  have free: "pfMonitors h ! a = Ended" if "a < length (pfHeap h)" "prRequestID (pfHeap h ! a) = requestID s" for a
    using map(1) None that unfolding mapOk_def by (metis option.distinct(1))
  have "mapOk (runReceive h s rest)"
    using map(1) None free unfolding mapOk_def h' by (auto simp: nth_append newPortForwardPair_def less_Suc_eq)
  moreover have "loopOk (runReceive h s rest)"
    using map(2) assms(3) unfolding loopOk_def h' by (simp add: nth_append newPortForwardPair_def)
  moreover have "forwardsOk (runReceive h s rest)"
    using map(3) unfolding forwardsOk_def h' by (auto simp: nth_append newPortForwardPair_def less_Suc_eq)
  moreover have "\<forall>p \<in> set (pfHeap (runReceive h s rest)). pairOk p"
    using assms(1) unfolding h' by (simp add: pfOk_def pairOk_def newPortForwardPair_def)
  ultimately show ?thesis using assms(1) by (simp add: pfOk_def h')
qed

lemma pfOk_add:
  assumes "pfOk h" "pfLoop h = Adding a s"
  shows "pfOk (runAdd h a s)"
proof -
  have a: "a < length (pfHeap h)" "prRequestID (pfHeap h ! a) = requestID s" "validType s"
    using assms by (simp_all add: pf_inv_defs)
  obtain res p' where ad: "add (pfHeap h ! a) s = (res, p')" by (metis prod.collapse)
  have "pairOk (pfHeap h ! a)" using assms(1) a(1) by (simp add: pfOk_def)
  from add_ok [OF this a(3) a(2) [symmetric] ad]
  consider (refused) e where "res = Inl (GoError e)" "p' = pfHeap h ! a"
    | (added) complete where "res = Inr complete" "\<not> prComplete (pfHeap h ! a)" "complete \<longleftrightarrow> prComplete p'" "pairOk p'"
        "prRequestID p' = prRequestID (pfHeap h ! a)"
    by blast
  then show ?thesis
  proof cases
    case refused
    with ad assms(1) show ?thesis by (auto simp: runAdd_def pf_inv_defs)
  next
    case added
    have h': "runAdd h a s = h\<lparr>pfHeap := (pfHeap h)[a := p'], pfLoop := Waiting,
        pfForwards := (if complete then pfForwards h @ [a] else pfForwards h)\<rparr>"
      using ad added(1) by (simp add: runAdd_def)
    have "mapOk (runAdd h a s)"
      using assms(1) added(5) a(1) unfolding pfOk_def mapOk_def h' by (auto simp: nth_list_update)
    moreover have "loopOk (runAdd h a s)" using assms(1) by (simp add: pfOk_def loopOk_def h')
    moreover have "forwardsOk (runAdd h a s)"
      using assms(1) added(2,3) a(1) unfolding pfOk_def forwardsOk_def h' by (auto simp: nth_list_update split: if_splits)
    moreover have "\<forall>p \<in> set (pfHeap (runAdd h a s)). pairOk p"
      using assms(1) added(4) set_update_subset_insert [of "pfHeap h" a p'] unfolding h' pfOk_def by auto
    ultimately show ?thesis using assms(1) by (simp add: pfOk_def h')
  qed
qed

lemma pfOk_monitor:
  assumes "pfOk h" "a < length (pfMonitors h)" "pfMonitors h ! a \<noteq> Ended" "m \<noteq> Ended"
    and same: "pfPanic h1 = pfPanic h" "pfChan h1 = pfChan h" "pfHeap h1 = pfHeap h" "streamPairs h1 = streamPairs h"
      "pfForwards h1 = pfForwards h" "pfForwarded h1 = pfForwarded h" "pfLoop h1 = pfLoop h"
  shows "pfOk (h1\<lparr>pfMonitors := (pfMonitors h)[a := m]\<rparr>)"
proof -
  have "mapOk (h1\<lparr>pfMonitors := (pfMonitors h)[a := m]\<rparr>)"
    using assms(1-4) unfolding pfOk_def mapOk_def by (auto simp: nth_list_update same)
  then show ?thesis using assms(1) by (auto simp: pfOk_def loopOk_def forwardsOk_def same)
qed

lemma pfOk_remove:
  assumes "pfOk h" "a < length (pfMonitors h)" "pfMonitors h ! a = Removing"
  shows "pfOk (monitorRemove h a)"
proof -
  let ?rid = "prRequestID (pfHeap h ! a)"
  have map: "mapOk h" and len: "a < length (pfHeap h)" using assms by (simp_all add: pfOk_def mapOk_def)
  have at: "mget (streamPairs h) ?rid = Some a" using map len assms(3) by (simp add: mapOk_def)
  have other: "b = a" if "b < length (pfHeap h)" "prRequestID (pfHeap h ! b) = ?rid" "pfMonitors h ! b \<noteq> Ended" for b
    using map that at unfolding mapOk_def by (metis option.inject)
  have fields: "pfPanic (monitorRemove h a) = pfPanic h" "pfHeap (monitorRemove h a) = pfHeap h" "pfLoop (monitorRemove h a) = pfLoop h"
      "pfChan (monitorRemove h a) = pfChan h" "streamPairs (monitorRemove h a) = mdel (streamPairs h) ?rid"
      "pfMonitors (monitorRemove h a) = (pfMonitors h)[a := Ended]" "pfForwards (monitorRemove h a) = pfForwards h"
      "pfForwarded (monitorRemove h a) = pfForwarded h"
    using at by (simp_all add: monitorRemove_def removeStreamPair_def)
  have "mapOk (monitorRemove h a)"
    using map other len unfolding mapOk_def fields by (auto simp: nth_list_update)
  then show ?thesis using assms(1) unfolding pfOk_def loopOk_def forwardsOk_def fields by blast
qed

lemma pfOk_forward:
  assumes "pfOk h" "a \<in> set (pfForwards h)" "a \<notin> set (pfForwarded h)"
  shows "pfOk (portForward forwarder h a)"
proof -
  have a: "a < length (pfHeap h)" "prComplete (pfHeap h ! a)" using assms by (auto simp: pfOk_def forwardsOk_def)
  then have "pairOk (pfHeap h ! a)" using assms(1) by (simp add: pfOk_def)
  with a(2) obtain d e where "dataStream (pfHeap h ! a) = Some d" "errorStream (pfHeap h ! a) = Some e" by (auto simp: pairOk_def)
  with assms show ?thesis by (auto simp: portForward_def pf_inv_defs Let_def split: option.splits)
qed

lemma pfStep_ok: "pfStep forwarder h h' \<Longrightarrow> pfOk h \<Longrightarrow> pfOk h'"
proof (induction rule: pfStep.induct)
  case (received h s h')
  then show ?case by (auto simp: HTTPStreamReceived_def Let_def pf_inv_defs validType_def split: if_splits)
next
  case (timeout h a)
  then show ?case unfolding monitorTimeout_def by (intro pfOk_monitor) simp_all
next
  case (completed h a)
  then show ?case unfolding monitorComplete_def by (intro pfOk_monitor) simp_all
next
  case (close h)
  then show ?case by (auto simp: pf_inv_defs)
qed (blast intro: pfOk_receive pfOk_add pfOk_remove pfOk_forward)+

lemma reachablePf_ok: "reachablePf forwarder h \<Longrightarrow> pfOk h"
proof (induction rule: reachablePf.induct)
  case new
  show ?case by (simp add: NewHTTPStreamHandler_def pf_inv_defs)
qed (blast intro: pfStep_ok)

text \<open>
  C20. Whatever the interleaving of the main loop, the monitors and the forwards, and whenever the timeouts fire, a port forward never
  panics: the channel of a pair is closed once, and each monitor removes its own pair, not one that came later with the same request
  identifier. A pair is forwarded at most once, and only with an error and a data stream of its own request.
\<close>

theorem port_forward_safe:
  assumes "reachablePf forwarder h"
  shows "pfPanic h = None \<and> distinct (pfForwards h)
     \<and> (\<forall>rid a. mget (streamPairs h) rid = Some a \<longrightarrow> pfMonitors h ! a \<noteq> Ended \<and> prRequestID (pfHeap h ! a) = rid)
     \<and> (\<forall>a \<in> set (pfForwards h). \<exists>d e. dataStream (pfHeap h ! a) = Some d \<and> errorStream (pfHeap h ! a) = Some e
          \<and> stType d = StreamTypeData \<and> stType e = StreamTypeError \<and> requestID d = requestID e)"
proof -
  have ok: "pfOk h" using assms by (rule reachablePf_ok)
  have "\<exists>d e. dataStream (pfHeap h ! a) = Some d \<and> errorStream (pfHeap h ! a) = Some e
      \<and> stType d = StreamTypeData \<and> stType e = StreamTypeError \<and> requestID d = requestID e" if "a \<in> set (pfForwards h)" for a
  proof -
    have "a < length (pfHeap h)" "prComplete (pfHeap h ! a)" using ok that by (auto simp: pfOk_def forwardsOk_def)
    moreover from this have "pairOk (pfHeap h ! a)" using ok by (simp add: pfOk_def)
    ultimately show ?thesis by (auto simp: pairOk_def)
  qed
  with ok show ?thesis by (simp add: pf_inv_defs)
qed

text \<open>One stream on an idle handler: the two steps of the main loop.\<close>

definition runStream :: "httpStreamHandler \<Rightarrow> stream \<Rightarrow> httpStreamHandler" where
  "runStream h s = (let h1 = runReceive h s [] in case pfLoop h1 of Adding a s' \<Rightarrow> runAdd h1 a s' | _ \<Rightarrow> h1)"

definition sampleStream :: "string \<Rightarrow> string \<Rightarrow> 32 word \<Rightarrow> stream" where
  "sampleStream ty rid n = \<lparr>stType = ty, stRequestID = rid, stIdentifier = n, stPort = ''2379''\<rparr>"

definition sampleHandler :: httpStreamHandler where
  "sampleHandler = NewHTTPStreamHandler (Some ''conn'') ''etcd-m1'' ''kube-system''"

lemma sampleHandler_reachable: "reachablePf forwarder sampleHandler"
  by (simp add: sampleHandler_def reachablePf.new)

lemma runStream_steps:
  assumes "reachablePf forwarder h" "pfLoop h = Waiting" "pfChan h = []" "validType s"
  shows "reachablePf forwarder (runStream h s)"
proof -
  have panic: "pfPanic h = None" using reachablePf_ok [OF assms(1)] by (simp add: pfOk_def)
  let ?h = "h\<lparr>pfChan := [s]\<rparr>"
  have "HTTPStreamReceived h s = Inr ?h"
    using assms(3,4) by (auto simp: HTTPStreamReceived_def Let_def validType_def StreamTypeError_def StreamTypeData_def)
  then have "reachablePf forwarder ?h" using reachablePf.step [OF assms(1)] pfStep.received [OF panic assms(3)] by blast
  then have r: "reachablePf forwarder (runReceive ?h s [])"
    using reachablePf.step pfStep.receive [of ?h s "[]"] panic assms(2) by fastforce
  have same: "runReceive ?h s [] = runReceive h s []" by (simp add: runReceive_def getStreamPair_def split: option.splits)
  have "\<exists>a. pfLoop (runReceive h s []) = Adding a s" by (simp add: runReceive_def split: prod.splits)
  then obtain a where a: "pfLoop (runReceive h s []) = Adding a s" by blast
  have "pfPanic (runReceive h s []) = None" using reachablePf_ok [OF r] same by (simp add: pfOk_def)
  from reachablePf.step [OF r [unfolded same] pfStep.addStream [OF this a]] show ?thesis by (simp add: runStream_def Let_def a)
qed

text \<open>
  A request is forwarded once both its streams are there, in either order: on an idle handler without a pair for the request, an
  error and a data stream with the same request identifier start exactly one new forward, on a pair that holds these two streams.
\<close>

lemma port_forward_starts:
  assumes "pfLoop h = Waiting" "mget (streamPairs h) (requestID s1) = None" "requestID s2 = requestID s1"
    and "{stType s1, stType s2} = {StreamTypeError, StreamTypeData}"
  shows "\<exists>a h'. runStream (runStream h s1) s2 = h' \<and> pfForwards h' = pfForwards h @ [a] \<and> pfLoop h' = Waiting \<and> pfPanic h' = pfPanic h
     \<and> {errorStream (pfHeap h' ! a), dataStream (pfHeap h' ! a)} = {Some s1, Some s2}"
proof -
  have ne: "StreamTypeError \<noteq> StreamTypeData" by (simp add: StreamTypeError_def StreamTypeData_def)
  from assms(4) ne consider "stType s1 = StreamTypeError" "stType s2 = StreamTypeData" | "stType s1 = StreamTypeData" "stType s2 = StreamTypeError"
    by (auto simp: doubleton_eq_iff)
  then show ?thesis
    using assms(1-3) ne ne [symmetric]
    by cases (auto simp: runStream_def runReceive_def getStreamPair_def runAdd_def add_def completeIfFull_def newPortForwardPair_def Let_def nth_append)
qed

text \<open>Streams of a client that sends no request identifiers: an error stream and the data stream created next have the same identifier.\<close>

lemma requestID_legacy:
  assumes "stRequestID e = ''''" "stRequestID d = ''''" "stType e = StreamTypeError" "stType d = StreamTypeData"
    and "uint (stIdentifier d) = uint (stIdentifier e) + 2"
  shows "requestID d = requestID e"
  using assms by (simp add: requestID_def StreamTypeError_def StreamTypeData_def)

theorem port_forward_safe_witness:
  "pfPanic (runStream (runStream sampleHandler (sampleStream ''error'' ''7'' 1)) (sampleStream ''error'' ''7'' 5)) = None"
proof -
  let ?f = "\<lambda>_ _ _ _. None"
  have v: "validType (sampleStream ''error'' rid n)" for rid n by (simp add: validType_def sampleStream_def StreamTypeError_def)
  let ?h1 = "runStream sampleHandler (sampleStream ''error'' ''7'' 1)"
  have r1: "reachablePf ?f ?h1"
    by (rule runStream_steps [OF sampleHandler_reachable]) (simp_all add: sampleHandler_def NewHTTPStreamHandler_def v)
  have idle: "pfLoop ?h1 = Waiting" "pfChan ?h1 = []"
    by (simp_all add: runStream_def runReceive_def getStreamPair_def runAdd_def add_def completeIfFull_def newPortForwardPair_def Let_def
        sampleHandler_def NewHTTPStreamHandler_def sampleStream_def StreamTypeError_def)
  from port_forward_safe [OF runStream_steps [OF r1 idle v]] show ?thesis by blast
qed

end
