(* ===== verification/Proxy_Properties.thy ===== *)
theory Proxy_Properties
  imports Proxy_Dial Port_Forward_Properties
begin

text \<open>
  What dialing guarantees, and how the two ends of a port forward fit: the streams the client opens start one forward on the server, to
  the host the client sent its request to.
\<close>

lemma NewAggregate_error [simp]: "NewAggregate [Some e, e'] = Some (e # (case e' of None \<Rightarrow> [] | Some x \<Rightarrow> [x]))"
  by (simp add: NewAggregate_def map_filter_simps split: option.splits)

lemma header_names [simp]: "PortHeader \<noteq> StreamType" "PortForwardRequestIDHeader \<noteq> StreamType" "PortHeader \<noteq> PortForwardRequestIDHeader"
  "StreamType \<noteq> PortHeader" "StreamType \<noteq> PortForwardRequestIDHeader" "PortForwardRequestIDHeader \<noteq> PortHeader"
  "StreamTypeError \<noteq> StreamTypeData" "StreamTypeData \<noteq> StreamTypeError"
  by (simp_all add: PortHeader_def PortForwardRequestIDHeader_def StreamType_def StreamTypeError_def StreamTypeData_def)

lemma abandon_closes: "abandon lib e conn = (Inl (e # (case dlCloseConn lib conn of None \<Rightarrow> [] | Some x \<Rightarrow> [x])), Some (closeConn conn))"
  by (simp add: abandon_def)

text \<open>The streams of a request of the proxy.\<close>

definition dialedStream :: "string \<Rightarrow> int \<Rightarrow> 32 word \<Rightarrow> stream" where
  "dialedStream ty port ident = \<lparr>stType = ty, stRequestID = ''0'', stIdentifier = ident, stPort = Itoa port\<rparr>"

lemma DialContext_success:
  assumes "DialContext lib d addr = (Inr c, conn)"
  shows "\<exists>ie id. c = NewConn (dialedStream StreamTypeData (pxPort (dlProxy d)) id)
     \<and> conn = Some \<lparr>pcStreams = [(dialedStream StreamTypeError (pxPort (dlProxy d)) ie, True),
                                (dialedStream StreamTypeData (pxPort (dlProxy d)) id, False)], pcClosed = False\<rparr>"
  using assms
  by (auto simp: DialContext_def createStream_def abandon_closes Let_def streamOf_def closeStream_def dialedStream_def
      mget_or_def split: option.splits sum.splits)

text \<open>
  C35. Dialing never leaks a connection: when DialContext fails, the connection was not opened or Close was called on it, and the error is
  not empty; when it succeeds, the connection is open and carries the closed error stream and the open data stream of the returned
  connection, both with request identifier 0 and the port of the proxy.
\<close>

theorem dial_no_leak:
  assumes "DialContext lib d addr = (res, conn)"
  shows "(\<forall>es. res = Inl es \<longrightarrow> es \<noteq> [] \<and> (case conn of None \<Rightarrow> True | Some cn \<Rightarrow> pcClosed cn))
     \<and> (\<forall>c. res = Inr c \<longrightarrow> (\<exists>e. conn = Some \<lparr>pcStreams = [(e, True), (cnStream c, False)], pcClosed = False\<rparr>
          \<and> stType e = StreamTypeError \<and> stType (cnStream c) = StreamTypeData
          \<and> stRequestID e = ''0'' \<and> stRequestID (cnStream c) = ''0''
          \<and> stPort e = Itoa (pxPort (dlProxy d)) \<and> adPort (RemoteAddr c) = Itoa (pxPort (dlProxy d))))"
proof -
  have "es \<noteq> [] \<and> (case conn of None \<Rightarrow> True | Some cn \<Rightarrow> pcClosed cn)" if "res = Inl es" for es
    using assms that
    by (auto simp: DialContext_def createStream_def abandon_closes closeConn_def Let_def split: option.splits sum.splits)
  moreover have "\<exists>e. conn = Some \<lparr>pcStreams = [(e, True), (cnStream c, False)], pcClosed = False\<rparr>
      \<and> stType e = StreamTypeError \<and> stType (cnStream c) = StreamTypeData \<and> stRequestID e = ''0'' \<and> stRequestID (cnStream c) = ''0''
      \<and> stPort e = Itoa (pxPort (dlProxy d)) \<and> adPort (RemoteAddr c) = Itoa (pxPort (dlProxy d))" if "res = Inr c" for c
    using DialContext_success [of lib d addr c conn] assms that
    by (auto simp: dialedStream_def NewConn_def RemoteAddr_def NewAddrFromConn_def)
  ultimately show ?thesis by blast
qed

definition sampleDialLibrary :: "(unit, unit, unit) dialLibrary" where
  "sampleDialLibrary = \<lparr>dlNewForConfig = (\<lambda>_. Inr ()), dlRoundTripperFor = (\<lambda>_. Inr ()), dlDial = (\<lambda>_ _ _. None),
     dlCreateStream = (\<lambda>conn _. Inr (of_nat (2 * length (pcStreams conn) + 1))), dlCloseStream = (\<lambda>_. None), dlCloseConn = (\<lambda>_. None)\<rparr>"

definition sampleDialer :: "(unit, unit, unit) Dialer" where
  "sampleDialer = \<lparr>dlProxy = \<lparr>pxKind = ''pods'', pxNamespace = ''kube-system'', pxResourceName = ''etcd-m1'',
     pxKubeConfig = Some \<lparr>rcTimeout = defaultTimeout, rcOther = ()\<rparr>, pxKeepAlive = None, pxPort = 2379\<rparr>, dlClientset = Some (),
     dlProxyTransport = Some (), dlTimeout = defaultTimeout\<rparr>"

lemma sampleDialer_new:
  "NewDialer sampleDialLibrary ((dlProxy sampleDialer)\<lparr>pxKubeConfig := Some \<lparr>rcTimeout = 0, rcOther = ()\<rparr>\<rparr>) [] = Inr sampleDialer"
  by (simp add: NewDialer_def sampleDialer_def sampleDialLibrary_def Let_def)

lemma sampleDial:
  "DialContext sampleDialLibrary sampleDialer addr =
     (Inr (NewConn (dialedStream StreamTypeData 2379 3)),
      Some \<lparr>pcStreams = [(dialedStream StreamTypeError 2379 1, True), (dialedStream StreamTypeData 2379 3, False)], pcClosed = False\<rparr>)"
  by (simp add: DialContext_def sampleDialLibrary_def sampleDialer_def createStream_def Let_def streamOf_def closeStream_def dialedStream_def mget_or_def)

text \<open>The same dialer with a library that can open the connection, but no streams on it.\<close>

definition failingDialLibrary :: "(unit, unit, unit) dialLibrary" where
  "failingDialLibrary = sampleDialLibrary\<lparr>dlCreateStream := (\<lambda>_ _. Inl ''stream refused'')\<rparr>"

lemma failingDial: "\<exists>es cn. DialContext failingDialLibrary sampleDialer addr = (Inl es, Some cn)"
  by (simp add: DialContext_def failingDialLibrary_def sampleDialLibrary_def sampleDialer_def createStream_def abandon_closes Let_def)

theorem dial_no_leak_witness:
  "adPort (RemoteAddr (NewConn (dialedStream StreamTypeData 2379 3))) = Itoa 2379
   \<and> (\<exists>es cn. DialContext failingDialLibrary sampleDialer ''etcd-m1'' = (Inl es, Some cn) \<and> es \<noteq> [] \<and> pcClosed cn)"
proof -
  obtain es cn where f: "DialContext failingDialLibrary sampleDialer ''etcd-m1'' = (Inl es, Some cn)" using failingDial by blast
  show ?thesis
    using dial_no_leak [OF sampleDial [of "''etcd-m1''"]] dial_no_leak [OF f] f by (auto simp: sampleDialer_def)
qed

text \<open>The error a forward reports on the error stream.\<close>

definition forwardReport :: "httpStreamHandler \<Rightarrow> stream \<Rightarrow> stream \<Rightarrow> string option \<Rightarrow> (stream \<times> string) list" where
  "forwardReport h d e err =
     (case err of None \<Rightarrow> []
      | Some x \<Rightarrow> [(e, ''error forwarding port '' @ stPort d @ '' to pod '' @ pfPodNamespace h @ ''/'' @ pfPodName h @ '': '' @ x)])"

text \<open>
  C21. The two ends of a port forward fit. When the client dials, its error stream and its data stream are accepted by the handler that
  the API server starts for the request, without any other step the second of them starts exactly one forward, and this forward is of the data
  stream of the client's connection to the address the request was sent to, whatever pod and port were asked for; its error is written to the
  error stream and both streams are closed.
\<close>

theorem dial_reaches_server:
  assumes dial: "DialContext lib d addr = (Inr c, Some conn)"
    and serve: "apiV1PortForward pl req = Inr (h, forwarder)"
  shows "\<exists>e h1 h2. pcStreams conn = [(e, True), (cnStream c, False)]
     \<and> h1 = runStream (runStream h e) (cnStream c) \<and> reachablePf forwarder h1 \<and> pfForwards h1 = [0]
     \<and> h2 = portForward forwarder h1 0 \<and> reachablePf forwarder h2
     \<and> pfWritten h2 = forwardReport h (cnStream c) e (doPortForward pl (rqHost req) (cnStream c))
     \<and> pfClosed h2 = [e, cnStream c]"
proof -
  obtain ie id where c: "c = NewConn (dialedStream StreamTypeData (pxPort (dlProxy d)) id)"
    and conn: "pcStreams conn = [(dialedStream StreamTypeError (pxPort (dlProxy d)) ie, True),
                                 (dialedStream StreamTypeData (pxPort (dlProxy d)) id, False)]"
    using DialContext_success [OF dial] by auto
  let ?e = "dialedStream StreamTypeError (pxPort (dlProxy d)) ie" and ?d = "dialedStream StreamTypeData (pxPort (dlProxy d)) id"
  have cs: "cnStream c = ?d" by (simp add: c NewConn_def)
  from serve have h: "\<exists>cn. h = NewHTTPStreamHandler (Some cn) (PathParameter req ''name'') (PathParameter req ''namespace'')"
    and f: "forwarder = (\<lambda>_ _ _ stream. doPortForward pl (rqHost req) stream)"
    by (auto simp: apiV1PortForward_def Let_def split: option.splits)
  have valid: "validType ?e" "validType ?d" by (simp_all add: validType_def dialedStream_def)
  have rid: "requestID ?e = ''0''" "requestID ?d = ''0''" by (simp_all add: requestID_def dialedStream_def)
  let ?h1 = "runStream h ?e" and ?h2 = "runStream (runStream h ?e) ?d"
  from h obtain cn where h: "h = NewHTTPStreamHandler (Some cn) (PathParameter req ''name'') (PathParameter req ''namespace'')" by blast
  have idle0: "pfLoop h = Waiting" "pfChan h = []" by (simp_all add: h NewHTTPStreamHandler_def)
  have h1: "?h1 = h\<lparr>pfHeap := [\<lparr>prRequestID = ''0'', dataStream = None, errorStream = Some ?e, prComplete = False\<rparr>],
      streamPairs := [(''0'', 0)], pfMonitors := [Monitoring]\<rparr>"
    using rid by (simp add: runStream_def runReceive_def getStreamPair_def runAdd_def add_def completeIfFull_def newPortForwardPair_def
        Let_def h NewHTTPStreamHandler_def dialedStream_def)
  have h2: "?h2 = ?h1\<lparr>pfHeap := [\<lparr>prRequestID = ''0'', dataStream = Some ?d, errorStream = Some ?e, prComplete = True\<rparr>], pfForwards := [0]\<rparr>"
    unfolding h1 using rid by (simp add: runStream_def runReceive_def getStreamPair_def runAdd_def add_def completeIfFull_def
        Let_def h NewHTTPStreamHandler_def dialedStream_def)
  have r0: "reachablePf forwarder h" unfolding h by (rule reachablePf.new)
  have r1: "reachablePf forwarder ?h1" using r0 idle0 valid(1) by (rule runStream_steps)
  have "pfLoop ?h1 = Waiting" "pfChan ?h1 = []" by (simp_all add: h1 idle0)
  with r1 have r2: "reachablePf forwarder ?h2" using valid(2) by (rule runStream_steps)
  have fw: "pfForwards ?h2 = [0]" "pfForwarded ?h2 = []" "pfWritten ?h2 = []" "pfClosed ?h2 = []"
    "pfPodName ?h2 = pfPodName h" "pfPodNamespace ?h2 = pfPodNamespace h"
    "dataStream (pfHeap ?h2 ! 0) = Some ?d" "errorStream (pfHeap ?h2 ! 0) = Some ?e"
    unfolding h2 unfolding h1 by (simp_all add: h NewHTTPStreamHandler_def)
  have "pfPanic ?h2 = None" using reachablePf_ok [OF r2] by (simp add: pfOk_def)
  then have r3: "reachablePf forwarder (portForward forwarder ?h2 0)"
    using reachablePf.step [OF r2 pfStep.forward [of ?h2 0]] fw by simp
  have "pfWritten (portForward forwarder ?h2 0) = forwardReport h ?d ?e (doPortForward pl (rqHost req) ?d)"
    and "pfClosed (portForward forwarder ?h2 0) = [?e, ?d]"
    using fw by (auto simp: portForward_def forwardReport_def f Let_def split: option.splits)
  with conn r2 r3 fw(1) cs show ?thesis by auto
qed

definition samplePortForwardLibrary :: portForwardLibrary where
  "samplePortForwardLibrary = \<lparr>libHandshake = (\<lambda>_ _. None), libUpgrade = (\<lambda>_. Some ''conn''), libDial = (\<lambda>_. Some ''refused''),
     libTunnel = (\<lambda>_ _. (CopyEnded None, CopyEnded None, None))\<rparr>"

definition samplePortForwardRequest :: restRequest where
  "samplePortForwardRequest = \<lparr>rqHost = ''10.0.0.1:20000'', rqPathParameters = [(''namespace'', ''kube-system''), (''name'', ''etcd-m1'')],
     rqBody = '''', rqContentType = ''''\<rparr>"

definition sampleServed :: "httpStreamHandler \<times> PortForwarder" where
  "sampleServed = (NewHTTPStreamHandler (Some ''conn'') ''etcd-m1'' ''kube-system'',
     \<lambda>_ _ _ stream. doPortForward samplePortForwardLibrary ''10.0.0.1:20000'' stream)"

lemma sampleServed_served: "apiV1PortForward samplePortForwardLibrary samplePortForwardRequest = Inr sampleServed"
  by (simp add: apiV1PortForward_def samplePortForwardLibrary_def samplePortForwardRequest_def PathParameter_def mget_or_def sampleServed_def)

theorem dial_reaches_server_witness:
  "\<exists>h2. reachablePf (snd sampleServed) h2 \<and> pfWritten h2 = [(dialedStream StreamTypeError 2379 1,
     ''error forwarding port 2379 to pod kube-system/etcd-m1: failed to dial \"10.0.0.1:20000\": refused'')]"
proof -
  let ?d = "dialedStream StreamTypeData 2379 3" and ?e = "dialedStream StreamTypeError 2379 1"
  have err: "doPortForward samplePortForwardLibrary (rqHost samplePortForwardRequest) ?d
      = Some ''failed to dial \"10.0.0.1:20000\": refused''"
    by (simp add: doPortForward_def samplePortForwardLibrary_def samplePortForwardRequest_def Quote_def quoteChar_def)
  have "dec_of_nat 2379 = ''2379''" by code_simp
  then have "forwardReport (fst sampleServed) ?d ?e (Some ''failed to dial \"10.0.0.1:20000\": refused'') =
      [(?e, ''error forwarding port 2379 to pod kube-system/etcd-m1: failed to dial \"10.0.0.1:20000\": refused'')]"
    by (simp add: forwardReport_def sampleServed_def NewHTTPStreamHandler_def dialedStream_def Itoa_def digit_char_def)
  moreover have "apiV1PortForward samplePortForwardLibrary samplePortForwardRequest = Inr (fst sampleServed, snd sampleServed)"
    by (simp add: sampleServed_served)
  ultimately show ?thesis using dial_reaches_server [OF sampleDial] err by (fastforce simp: NewConn_def)
qed

end
