(* ===== verification/Mux.thy ===== *)
theory Mux
  imports Go_Prelude
begin

text \<open>
  The server that fronts the workload clusters: \<^verbatim>\<open>internal/server/mux.go\<close>, \<^verbatim>\<open>listener.go\<close> and \<^verbatim>\<open>certs.go\<close>.
  Keys, certificates and TLS key pairs are opaque values; making them (\<^verbatim>\<open>crypto\<close>, \<^verbatim>\<open>cluster-api/util/certs\<close>),
  opening a TCP listener and serving on it are the functions of the record \<open>platform\<close>. A server that runs is not modelled:
  the mux keeps, as in the code, which listeners it has opened.
\<close>

section \<open>Certificates\<close>

datatype IP = IPv4 nat nat nat nat | IPv6loopback | ParseIP string

datatype ExtKeyUsage = ExtKeyUsageServerAuth | ExtKeyUsageClientAuth

record AltNames =
  anDNSNames :: "string list"
  anIPs :: "IP list"

record certConfig =
  ccCommonName :: string
  ccOrganization :: "string list"
  ccAltNames :: AltNames
  ccUsages :: "ExtKeyUsage list"

definition apiServerCertificateConfig :: "string \<Rightarrow> certConfig" where
  "apiServerCertificateConfig controlPlaneIP =
     (let altNames = \<lparr>anDNSNames = [''localhost''], anIPs = [IPv4 127 0 0 1, IPv6loopback, ParseIP controlPlaneIP]\<rparr>
      in \<lparr>ccCommonName = ''kube-apiserver'', ccOrganization = [], ccAltNames = altNames, ccUsages = [ExtKeyUsageServerAuth]\<rparr>)"

definition adminClientCertificateConfig :: certConfig where
  "adminClientCertificateConfig =
     \<lparr>ccCommonName = ''kubernetes-admin'', ccOrganization = [''system:masters''],
      ccAltNames = \<lparr>anDNSNames = [], anIPs = []\<rparr>, ccUsages = [ExtKeyUsageClientAuth]\<rparr>"

definition etcdServerCertificateConfig :: "string \<Rightarrow> string \<Rightarrow> certConfig" where
  "etcdServerCertificateConfig podName podIP =
     (let altNames = \<lparr>anDNSNames = [''localhost'', podName], anIPs = [IPv4 127 0 0 1, IPv6loopback, ParseIP podIP]\<rparr>
      in \<lparr>ccCommonName = podName, ccOrganization = [], ccAltNames = altNames,
          ccUsages = [ExtKeyUsageServerAuth, ExtKeyUsageClientAuth]\<rparr>)"

text \<open>
  \<open>plListen\<close> is \<^verbatim>\<open>net.Listen\<close> on a host and port, \<open>plServe\<close> the error that \<^verbatim>\<open>ServeTLS\<close> has reported when
  the code looks at it after 100 milliseconds.
\<close>

record ('c, 'k, 'l) platform =
  plNewPrivateKey :: "string + 'k"
  plNewSignedCert :: "certConfig \<Rightarrow> 'k \<Rightarrow> 'c \<Rightarrow> 'k \<Rightarrow> string + 'c"
  plX509KeyPair :: "'c \<Rightarrow> 'k \<Rightarrow> string + 'l"
  plListen :: "string \<Rightarrow> string option"
  plServe :: "string \<Rightarrow> string option"

definition newCertAndKey :: "('c, 'k, 'l) platform \<Rightarrow> 'c \<Rightarrow> 'k \<Rightarrow> certConfig \<Rightarrow> string + 'c \<times> 'k" where
  "newCertAndKey pl caCert caKey config =
     (case plNewPrivateKey pl of
        Inl e \<Rightarrow> Inl (''unable to create private key: '' @ e)
      | Inr key \<Rightarrow>
        (case plNewSignedCert pl config key caCert caKey of
           Inl e \<Rightarrow> Inl (''unable to create certificate: '' @ e)
         | Inr cert \<Rightarrow> Inr (cert, key)))"

section \<open>Listener\<close>

record ('c, 'k, 'l) WorkloadClusterListener =
  wlHost :: string
  wlPort :: int
  apiServers :: "string list"
  apiServerCaCertificate :: "'c option"
  apiServerCaKey :: "'k option"
  apiServerServingCertificate :: "'l option"
  adminCertificate :: "'c option"
  adminKey :: "'k option"
  etcdMembers :: "string list"
  etcdServingCertificates :: "(string, 'l) gomap"
  wlListener :: bool

definition HostPort :: "('c, 'k, 'l) WorkloadClusterListener \<Rightarrow> string" where
  "HostPort wcl = JoinHostPort (wlHost wcl) (Itoa (wlPort wcl))"

definition Address :: "('c, 'k, 'l) WorkloadClusterListener \<Rightarrow> string" where
  "Address wcl = ''https://'' @ HostPort wcl"

section \<open>Mux\<close>

definition minPort :: int where "minPort = 20000"

definition maxPort :: int where "maxPort = 24000"

record ('c, 'k, 'l) WorkloadClustersMux =
  mxHost :: string
  mxMinPort :: int
  mxMaxPort :: int
  mxPortIndex :: int
  workloadClusterListeners :: "(string, ('c, 'k, 'l) WorkloadClusterListener) gomap"
  workloadClusterNameByHost :: "(string, string) gomap"

definition NewWorkloadClustersMux :: "string \<Rightarrow> ('c, 'k, 'l) WorkloadClustersMux" where
  "NewWorkloadClustersMux host = \<lparr>mxHost = host, mxMinPort = minPort, mxMaxPort = maxPort, mxPortIndex = minPort,
     workloadClusterListeners = [], workloadClusterNameByHost = []\<rparr>"

definition resourceGroupResolver :: "('c, 'k, 'l) WorkloadClustersMux \<Rightarrow> string \<Rightarrow> string + string" where
  "resourceGroupResolver m host =
     (case mget (workloadClusterNameByHost m) host of
        None \<Rightarrow> Inl (''failed to get workloadClusterListener for host '' @ host)
      | Some wclName \<Rightarrow> Inr wclName)"

text \<open>Which of the two handlers serves a request.\<close>

datatype serverKind = EtcdServer | APIServer

definition mixedHandler :: "int \<Rightarrow> string \<Rightarrow> serverKind" where
  "mixedHandler protoMajor contentType =
     (if protoMajor = 2 \<and> HasPrefix contentType ''application/grpc'' then EtcdServer else APIServer)"

definition getCertificate :: "('c, 'k, 'l) WorkloadClustersMux \<Rightarrow> string \<Rightarrow> string \<Rightarrow> string + 'l option" where
  "getCertificate m hostPort serverName =
     (case mget (workloadClusterNameByHost m) hostPort of
        None \<Rightarrow> Inl (''failed to get listener name for workload cluster serving on '' @ hostPort)
      | Some wclName \<Rightarrow>
        (case mget (workloadClusterListeners m) wclName of
           None \<Rightarrow> Inl (''failed to get listener with name '' @ wclName @ '' for workload cluster serving on '' @ hostPort)
         | Some wcl \<Rightarrow>
           if serverName \<in> set (etcdMembers wcl) then Inr (mget (etcdServingCertificates wcl) serverName)
           else Inr (apiServerServingCertificate wcl)))"

definition initWorkloadClusterListenerWithPortLocked ::
  "('c, 'k, 'l) WorkloadClustersMux \<Rightarrow> string \<Rightarrow> int \<Rightarrow>
   ('c, 'k, 'l) WorkloadClusterListener \<times> ('c, 'k, 'l) WorkloadClustersMux" where
  "initWorkloadClusterListenerWithPortLocked m wclName port =
     (let wcl = \<lparr>wlHost = mxHost m, wlPort = port, apiServers = [], apiServerCaCertificate = None, apiServerCaKey = None,
                 apiServerServingCertificate = None, adminCertificate = None, adminKey = None, etcdMembers = [],
                 etcdServingCertificates = [], wlListener = False\<rparr>
      in (wcl, m\<lparr>workloadClusterListeners := mput (workloadClusterListeners m) wclName wcl,
                 workloadClusterNameByHost := mput (workloadClusterNameByHost m) (HostPort wcl) wclName\<rparr>))"

definition ResourceGroupAnnotationName :: string where
  "ResourceGroupAnnotationName = ''goofycluster.infrastructure.cluster.x-k8s.io/resourceGroup''"

text \<open>
  What HotRestart reads of a GoofyCluster: its key, the control plane endpoint and the annotation that
  names the resource group.
\<close>

record clusterInfo =
  ciName :: string
  ciHost :: string
  ciPort :: int
  ciResourceGroup :: "string option"

text \<open>
  The loop: \<open>ports\<close> is the set the code checks (it never inserts into it), \<open>maxP\<close> the largest port so far.
  The result is the error or the largest port, and the mux the loop leaves behind.
\<close>

fun hotRestartLoop ::
  "('c, 'k, 'l) WorkloadClustersMux \<Rightarrow> int list \<Rightarrow> int \<Rightarrow> clusterInfo list \<Rightarrow>
   (string + int) \<times> ('c, 'k, 'l) WorkloadClustersMux" where
  "hotRestartLoop m ports maxP [] = (Inr maxP, m)"
| "hotRestartLoop m ports maxP (c # cs) =
     (if ciHost c = '''' then hotRestartLoop m ports maxP cs
      else if ciHost c \<noteq> mxHost m
      then (Inl (''unable to restart the WorkloadClustersMux, the host address is changed from '' @ ciHost c @ '' to '' @ mxHost m), m)
      else if ciPort c \<in> set ports
      then (Inl (''unable to restart the WorkloadClustersMux, there are two or more clusters using port '' @ Itoa (ciPort c)), m)
      else case ciResourceGroup c of
             None \<Rightarrow> (Inl (''unable to restart the WorkloadClustersMux, cluster '' @ ciName c @ '' doesn't have the '' @ ResourceGroupAnnotationName
                      @ '' annotation''), m)
           | Some rg \<Rightarrow>
               hotRestartLoop (snd (initWorkloadClusterListenerWithPortLocked m rg (ciPort c))) ports
                 (if maxP < ciPort c then ciPort c else maxP) cs)"

text \<open>
  The port index becomes the largest port plus one, in the arithmetic of the 64 bit \<^verbatim>\<open>int\<close>. In \<open>getFreePortLocked\<close> the
  index is only incremented when it is at most \<open>mxMaxPort\<close>, which is \<open>maxPort\<close> in every mux of the program.
\<close>

definition HotRestart ::
  "('c, 'k, 'l) WorkloadClustersMux \<Rightarrow> clusterInfo list \<Rightarrow> (string + unit) \<times> ('c, 'k, 'l) WorkloadClustersMux" where
  "HotRestart m clusters =
     (if clusters = [] then (Inr (), m)
      else if length (workloadClusterListeners m) > 0
      then (Inl ''WorkloadClustersMux cannot be hot restarted when there are already initialized listeners'', m)
      else case hotRestartLoop m [] (mxMinPort m - 1) clusters of
             (Inl e, m') \<Rightarrow> (Inl e, m')
           | (Inr maxP, m') \<Rightarrow> (Inr (), m'\<lparr>mxPortIndex := int64 (maxP + 1)\<rparr>))"

definition getFreePortLocked :: "('c, 'k, 'l) WorkloadClustersMux \<Rightarrow> (string + int) \<times> ('c, 'k, 'l) WorkloadClustersMux" where
  "getFreePortLocked m =
     (let port = mxPortIndex m
      in if port > mxMaxPort m
         then (Inl (''no more free ports in the '' @ Itoa (mxMinPort m) @ ''-'' @ Itoa (mxMaxPort m) @ '' range''), m)
         else (Inr port, m\<lparr>mxPortIndex := port + 1\<rparr>))"

definition InitWorkloadClusterListener ::
  "('c, 'k, 'l) WorkloadClustersMux \<Rightarrow> string \<Rightarrow>
   (string + ('c, 'k, 'l) WorkloadClusterListener) \<times> ('c, 'k, 'l) WorkloadClustersMux" where
  "InitWorkloadClusterListener m wclName =
     (case mget (workloadClusterListeners m) wclName of
        Some wcl \<Rightarrow> (Inr wcl, m)
      | None \<Rightarrow>
        (case getFreePortLocked m of
           (Inl e, m1) \<Rightarrow> (Inl e, m1)
         | (Inr port, m1) \<Rightarrow>
             (case initWorkloadClusterListenerWithPortLocked m1 wclName port of (wcl, m2) \<Rightarrow> (Inr wcl, m2))))"

definition putListener ::
  "('c, 'k, 'l) WorkloadClustersMux \<Rightarrow> string \<Rightarrow> ('c, 'k, 'l) WorkloadClusterListener \<Rightarrow> ('c, 'k, 'l) WorkloadClustersMux" where
  "putListener m wclName wcl = m\<lparr>workloadClusterListeners := mput (workloadClusterListeners m) wclName wcl\<rparr>"

text \<open>
  The parts of AddAPIServer, in order: the serving certificate, the admin certificate, the listener. Each
  gives the listener it leaves behind, and the error if there is one.
\<close>

definition ensureServingCertificate ::
  "('c, 'k, 'l) platform \<Rightarrow> string \<Rightarrow> 'c \<Rightarrow> 'k \<Rightarrow> ('c, 'k, 'l) WorkloadClusterListener \<Rightarrow>
   string option \<times> ('c, 'k, 'l) WorkloadClusterListener" where
  "ensureServingCertificate pl podName caCert caKey wcl =
     (case apiServerServingCertificate wcl of
        Some _ \<Rightarrow> (None, wcl)
      | None \<Rightarrow>
        (case newCertAndKey pl caCert caKey (apiServerCertificateConfig (wlHost wcl)) of
           Inl e \<Rightarrow> (Some (''failed to create serving certificate for API server '' @ podName @ '': '' @ e), wcl)
         | Inr (cert, key) \<Rightarrow>
           (case plX509KeyPair pl cert key of
              Inl e \<Rightarrow> (Some (''failed to create X509KeyPair for API server '' @ podName @ '': '' @ e), wcl)
            | Inr certificate \<Rightarrow> (None, wcl\<lparr>apiServerServingCertificate := Some certificate\<rparr>))))"

definition ensureAdminCertificate ::
  "('c, 'k, 'l) platform \<Rightarrow> string \<Rightarrow> 'c \<Rightarrow> 'k \<Rightarrow> ('c, 'k, 'l) WorkloadClusterListener \<Rightarrow>
   string option \<times> ('c, 'k, 'l) WorkloadClusterListener" where
  "ensureAdminCertificate pl podName caCert caKey wcl =
     (case adminCertificate wcl of
        Some _ \<Rightarrow> (None, wcl)
      | None \<Rightarrow>
        (case newCertAndKey pl caCert caKey adminClientCertificateConfig of
           Inl e \<Rightarrow> (Some (''failed to create admin certificate for API server '' @ podName @ '': '' @ e), wcl)
         | Inr (cert, key) \<Rightarrow> (None, wcl\<lparr>adminCertificate := Some cert, adminKey := Some key\<rparr>)))"

definition ensureListener ::
  "('c, 'k, 'l) platform \<Rightarrow> string \<Rightarrow> ('c, 'k, 'l) WorkloadClusterListener \<Rightarrow>
   string option \<times> ('c, 'k, 'l) WorkloadClusterListener" where
  "ensureListener pl wclName wcl =
     (if wlListener wcl then (None, wcl)
      else case plListen pl (HostPort wcl) of
             Some e \<Rightarrow> (Some (''failed to start WorkloadClusterListener '' @ wclName @ '', '' @ HostPort wcl @ '': '' @ e), wcl)
           | None \<Rightarrow> (plServe pl (HostPort wcl), wcl\<lparr>wlListener := True\<rparr>))"

definition AddAPIServer ::
  "('c, 'k, 'l) platform \<Rightarrow> ('c, 'k, 'l) WorkloadClustersMux \<Rightarrow> string \<Rightarrow> string \<Rightarrow> 'c \<Rightarrow> 'k \<Rightarrow>
   (string + unit) \<times> ('c, 'k, 'l) WorkloadClustersMux" where
  "AddAPIServer pl m wclName podName caCert caKey =
     (case mget (workloadClusterListeners m) wclName of
        None \<Rightarrow> (Inl (''workloadClusterListener with name '' @ wclName @ '' must be initialized before adding an APIserver''), m)
      | Some wcl0 \<Rightarrow>
        (let wcl1 = wcl0\<lparr>apiServers := set_insert podName (apiServers wcl0),
                         apiServerCaCertificate := Some caCert, apiServerCaKey := Some caKey\<rparr>
         in case ensureServingCertificate pl podName caCert caKey wcl1 of
              (Some e, wcl2) \<Rightarrow> (Inl e, putListener m wclName wcl2)
            | (None, wcl2) \<Rightarrow>
              (case ensureAdminCertificate pl podName caCert caKey wcl2 of
                 (Some e, wcl3) \<Rightarrow> (Inl e, putListener m wclName wcl3)
               | (None, wcl3) \<Rightarrow>
                 (case ensureListener pl wclName wcl3 of
                    (Some e, wcl4) \<Rightarrow> (Inl e, putListener m wclName wcl4)
                  | (None, wcl4) \<Rightarrow> (Inr (), putListener m wclName wcl4)))))"

definition HasAPIServer :: "('c, 'k, 'l) WorkloadClustersMux \<Rightarrow> string \<Rightarrow> string \<Rightarrow> bool" where
  "HasAPIServer m wclName podName =
     (case mget (workloadClusterListeners m) wclName of None \<Rightarrow> False | Some wcl \<Rightarrow> podName \<in> set (apiServers wcl))"

definition ensureEtcdCertificate ::
  "('c, 'k, 'l) platform \<Rightarrow> string \<Rightarrow> 'c \<Rightarrow> 'k \<Rightarrow> ('c, 'k, 'l) WorkloadClusterListener \<Rightarrow>
   string option \<times> ('c, 'k, 'l) WorkloadClusterListener" where
  "ensureEtcdCertificate pl podName caCert caKey wcl =
     (case mget (etcdServingCertificates wcl) podName of
        Some _ \<Rightarrow> (None, wcl)
      | None \<Rightarrow>
        (case newCertAndKey pl caCert caKey (etcdServerCertificateConfig podName (wlHost wcl)) of
           Inl e \<Rightarrow> (Some (''failed to create serving certificate for etcd member '' @ podName @ '': '' @ e), wcl)
         | Inr (cert, key) \<Rightarrow>
           (case plX509KeyPair pl cert key of
              Inl e \<Rightarrow> (Some (''failed to create X509KeyPair for etcd member '' @ podName @ '': '' @ e), wcl)
            | Inr certificate \<Rightarrow>
                (None, wcl\<lparr>etcdServingCertificates := mput (etcdServingCertificates wcl) podName certificate\<rparr>))))"

definition AddEtcdMember ::
  "('c, 'k, 'l) platform \<Rightarrow> ('c, 'k, 'l) WorkloadClustersMux \<Rightarrow> string \<Rightarrow> string \<Rightarrow> 'c \<Rightarrow> 'k \<Rightarrow>
   (string + unit) \<times> ('c, 'k, 'l) WorkloadClustersMux" where
  "AddEtcdMember pl m wclName podName caCert caKey =
     (case mget (workloadClusterListeners m) wclName of
        None \<Rightarrow> (Inl (''workloadClusterListener with name '' @ wclName @ '' must be initialized before adding an APIserver''), m)
      | Some wcl0 \<Rightarrow>
        (let wcl1 = wcl0\<lparr>etcdMembers := set_insert podName (etcdMembers wcl0)\<rparr>
         in case ensureEtcdCertificate pl podName caCert caKey wcl1 of
              (Some e, wcl2) \<Rightarrow> (Inl e, putListener m wclName wcl2)
            | (None, wcl2) \<Rightarrow> (Inr (), putListener m wclName wcl2)))"

definition HasEtcdMember :: "('c, 'k, 'l) WorkloadClustersMux \<Rightarrow> string \<Rightarrow> string \<Rightarrow> bool" where
  "HasEtcdMember m wclName podName =
     (case mget (workloadClusterListeners m) wclName of None \<Rightarrow> False | Some wcl \<Rightarrow> podName \<in> set (etcdMembers wcl))"

definition ListListeners :: "('c, 'k, 'l) WorkloadClustersMux \<Rightarrow> (string, string) gomap" where
  "ListListeners m = fold (\<lambda>(k, l) ret. mput ret k (Address l)) (workloadClusterListeners m) []"

text \<open>Shutdown stops the two servers, given the errors of stopping each; the maps of the mux stay as they are.\<close>

definition Shutdown :: "string option \<Rightarrow> string option \<Rightarrow> string option" where
  "Shutdown debugServer muxServer =
     (case debugServer of
        Some e \<Rightarrow> Some (''failed to shutdown the debug server: '' @ e)
      | None \<Rightarrow> (case muxServer of Some e \<Rightarrow> Some (''failed to shutdown the mux server: '' @ e) | None \<Rightarrow> None))"

end
