(* ===== verification/Mux_Properties.thy ===== *)
theory Mux_Properties
  imports Mux
begin

text \<open>
  The properties of the mux: the bookkeeping of ports and hosts that the API server and etcd handlers rely on to find the
  resource group of a request, the capacity of the port range, which certificate is served, and what a failure leaves behind.
\<close>

section \<open>Bookkeeping\<close>

definition muxOk :: "('c, 'k, 'l) WorkloadClustersMux \<Rightarrow> bool" where
  "muxOk m \<longleftrightarrow>
     (\<forall>n w. mget (workloadClusterListeners m) n = Some w \<longrightarrow>
        wlHost w = mxHost m \<and> wlPort w < mxPortIndex m \<and> mget (workloadClusterNameByHost m) (HostPort w) = Some n)
   \<and> (\<forall>h n. mget (workloadClusterNameByHost m) h = Some n \<longrightarrow>
        (\<exists>w. mget (workloadClusterListeners m) n = Some w \<and> HostPort w = h))"

inductive muxStep :: "('c, 'k, 'l) WorkloadClustersMux \<Rightarrow> ('c, 'k, 'l) WorkloadClustersMux \<Rightarrow> bool" where
  init: "InitWorkloadClusterListener m name = (res, m') \<Longrightarrow> muxStep m m'"
| addAPI: "AddAPIServer pl m name pod caCert caKey = (res, m') \<Longrightarrow> muxStep m m'"
| addEtcd: "AddEtcdMember pl m name pod caCert caKey = (res, m') \<Longrightarrow> muxStep m m'"
| hotRestart: "HotRestart m clusters = (Inr (), m') \<Longrightarrow>
    distinct (map ciPort (filter (\<lambda>c. ciHost c \<noteq> '''') clusters)) \<Longrightarrow>
    distinct (map ciResourceGroup (filter (\<lambda>c. ciHost c \<noteq> '''') clusters)) \<Longrightarrow>
    \<forall>c\<in>set clusters. ciHost c \<noteq> '''' \<longrightarrow> ciPort c < max_int64 \<Longrightarrow> muxStep m m'"

inductive reachableMux :: "string \<Rightarrow> ('c, 'k, 'l) WorkloadClustersMux \<Rightarrow> bool" for host where
  new: "reachableMux host (NewWorkloadClustersMux host)"
| step: "reachableMux host m \<Longrightarrow> muxStep m m' \<Longrightarrow> reachableMux host m'"

lemma HostPort_eq_iff: "wlHost w = wlHost w' \<Longrightarrow> HostPort w = HostPort w' \<longleftrightarrow> wlPort w = wlPort w'"
  by (simp add: HostPort_def)

lemma muxOk_listenerD:
  assumes "muxOk m" "mget (workloadClusterListeners m) n = Some w"
  shows "wlHost w = mxHost m" "wlPort w < mxPortIndex m" "mget (workloadClusterNameByHost m) (HostPort w) = Some n"
  using assms unfolding muxOk_def by blast+

lemma muxOk_hostD:
  "muxOk m \<Longrightarrow> mget (workloadClusterNameByHost m) h = Some n \<Longrightarrow>
     \<exists>w. mget (workloadClusterListeners m) n = Some w \<and> HostPort w = h"
  unfolding muxOk_def by blast

lemma muxOk_ports_distinct:
  "muxOk m \<Longrightarrow> mget (workloadClusterListeners m) n = Some w \<Longrightarrow> mget (workloadClusterListeners m) n' = Some w' \<Longrightarrow>
     wlPort w = wlPort w' \<Longrightarrow> n = n'"
  unfolding muxOk_def by (metis HostPort_def option.inject)

text \<open>Registering a new name on a new port keeps the bookkeeping, with the port index above all the ports.\<close>

definition muxOkBelow :: "('c, 'k, 'l) WorkloadClustersMux \<Rightarrow> int \<Rightarrow> bool" where
  "muxOkBelow m maxP \<longleftrightarrow> muxOk (m\<lparr>mxPortIndex := maxP + 1\<rparr>)"

lemma muxOk_register_fresh:
  assumes "muxOkBelow m maxP" "mget (workloadClusterListeners m) name = None"
    and "\<And>n w. mget (workloadClusterListeners m) n = Some w \<Longrightarrow> wlPort w \<noteq> port"
  shows "muxOkBelow (snd (initWorkloadClusterListenerWithPortLocked m name port)) (if maxP < port then port else maxP)"
proof -
  let ?M = "if maxP < port then port else maxP"
  obtain w m' where i: "initWorkloadClusterListenerWithPortLocked m name port = (w, m')" by fastforce
  have w: "wlHost w = mxHost m" "wlPort w = port"
    and m': "workloadClusterListeners m' = mput (workloadClusterListeners m) name w"
      "workloadClusterNameByHost m' = mput (workloadClusterNameByHost m) (HostPort w) name" "mxHost m' = mxHost m"
    using i by (auto simp: initWorkloadClusterListenerWithPortLocked_def Let_def)
  have ok: "wlHost x = mxHost m" "wlPort x \<le> maxP" "mget (workloadClusterNameByHost m) (HostPort x) = Some n"
    "HostPort x \<noteq> HostPort w" if "mget (workloadClusterListeners m) n = Some x" for n x
    using muxOk_listenerD [OF assms(1) [unfolded muxOkBelow_def], of n x] assms(3) [OF that] that w
    by (auto simp: HostPort_def)
  have hosts: "\<exists>x. mget (workloadClusterListeners m) n = Some x \<and> HostPort x = h"
    if "mget (workloadClusterNameByHost m) h = Some n" for h n
    using muxOk_hostD [OF assms(1) [unfolded muxOkBelow_def], of h n] that by simp
  have "muxOk (m'\<lparr>mxPortIndex := ?M + 1\<rparr>)"
    unfolding muxOk_def
  proof (intro conjI allI impI)
    fix n x assume "mget (workloadClusterListeners (m'\<lparr>mxPortIndex := ?M + 1\<rparr>)) n = Some x"
    then consider "n = name" "x = w" | "n \<noteq> name" "mget (workloadClusterListeners m) n = Some x"
      by (auto simp: m' split: if_splits)
    note cs = this
    show "wlHost x = mxHost (m'\<lparr>mxPortIndex := ?M + 1\<rparr>)" using cs ok by cases (simp_all add: w m')
    show "wlPort x < mxPortIndex (m'\<lparr>mxPortIndex := ?M + 1\<rparr>)" using cs ok(2) [of n x] by cases (simp_all add: w)
    show "mget (workloadClusterNameByHost (m'\<lparr>mxPortIndex := ?M + 1\<rparr>)) (HostPort x) = Some n"
      using cs ok by cases (simp_all add: m')
  next
    fix h n assume "mget (workloadClusterNameByHost (m'\<lparr>mxPortIndex := ?M + 1\<rparr>)) h = Some n"
    then have "(if h = HostPort w then Some name else mget (workloadClusterNameByHost m) h) = Some n" by (simp add: m')
    then consider "h = HostPort w" "n = name" | "mget (workloadClusterNameByHost m) h = Some n"
      by (cases "h = HostPort w") simp_all
    then show "\<exists>x. mget (workloadClusterListeners (m'\<lparr>mxPortIndex := ?M + 1\<rparr>)) n = Some x \<and> HostPort x = h"
    proof cases
      case 2
      then obtain x where x: "mget (workloadClusterListeners m) n = Some x" "HostPort x = h" using hosts by blast
      moreover from x(1) assms(2) have "n \<noteq> name" by auto
      ultimately show ?thesis by (intro exI [of _ x]) (simp add: m')
    qed (simp add: m')
  qed
  with i show ?thesis by (simp add: muxOkBelow_def)
qed


lemma muxOk_register:
  assumes "muxOk m" "mget (workloadClusterListeners m) name = None"
    and "initWorkloadClusterListenerWithPortLocked m name (mxPortIndex m) = (w, m')"
  shows "muxOk (m'\<lparr>mxPortIndex := mxPortIndex m + 1\<rparr>)"
proof -
  have "muxOkBelow m (mxPortIndex m - 1)" using assms(1) by (simp add: muxOkBelow_def)
  moreover have "wlPort x \<noteq> mxPortIndex m" if "mget (workloadClusterListeners m) n = Some x" for n x
    using muxOk_listenerD(2) [OF assms(1) that] by simp
  ultimately show ?thesis
    using muxOk_register_fresh [OF _ assms(2), of "mxPortIndex m - 1" "mxPortIndex m"] assms(3)
    by (simp add: muxOkBelow_def)
qed

lemma muxOk_init:
  assumes "muxOk m" "InitWorkloadClusterListener m name = (res, m')"
  shows "muxOk m'"
proof (cases "mget (workloadClusterListeners m) name")
  case None
  show ?thesis
  proof (cases "mxPortIndex m > mxMaxPort m")
    case True
    with assms None show ?thesis by (simp add: InitWorkloadClusterListener_def getFreePortLocked_def Let_def)
  next
    case False
    obtain w m1 where i: "initWorkloadClusterListenerWithPortLocked m name (mxPortIndex m) = (w, m1)" by fastforce
    have "m' = m1\<lparr>mxPortIndex := mxPortIndex m + 1\<rparr>"
      using assms(2) None False i
      by (auto simp: InitWorkloadClusterListener_def getFreePortLocked_def Let_def initWorkloadClusterListenerWithPortLocked_def)
    with muxOk_register [OF assms(1) None i] show ?thesis by simp
  qed
qed (use assms in \<open>simp add: InitWorkloadClusterListener_def\<close>)

text \<open>AddAPIServer and AddEtcdMember change certificates, members and the socket of one listener only.\<close>

definition sameEndpoint :: "('c, 'k, 'l) WorkloadClusterListener \<Rightarrow> ('c, 'k, 'l) WorkloadClusterListener \<Rightarrow> bool" where
  "sameEndpoint w w' \<longleftrightarrow> wlHost w' = wlHost w \<and> wlPort w' = wlPort w"

lemma muxOk_putListener:
  assumes "muxOk m" "mget (workloadClusterListeners m) name = Some w" "sameEndpoint w w'"
  shows "muxOk (putListener m name w')"
proof -
  have "HostPort w' = HostPort w" using assms(3) by (simp add: sameEndpoint_def HostPort_def)
  with assms(3) muxOk_listenerD [OF assms(1)] assms(2) show ?thesis
    unfolding muxOk_def
    by (auto simp: putListener_def sameEndpoint_def dest!: muxOk_hostD [OF assms(1)])
qed

lemma ensure_sameEndpoint:
  "ensureServingCertificate pl pod caCert caKey w = (e, w') \<Longrightarrow> sameEndpoint w w'"
  "ensureAdminCertificate pl pod caCert caKey w = (e, w') \<Longrightarrow> sameEndpoint w w'"
  "ensureListener pl name w = (e, w') \<Longrightarrow> sameEndpoint w w'"
  by (auto simp: ensureServingCertificate_def ensureAdminCertificate_def ensureListener_def sameEndpoint_def
      split: option.splits sum.splits if_splits)

text \<open>What the parts of AddAPIServer and AddEtcdMember leave in a listener.\<close>

lemma ensure_fields:
  "ensureServingCertificate pl pod caCert caKey w = (e, w') \<Longrightarrow> apiServers w' = apiServers w \<and> etcdMembers w' = etcdMembers w
     \<and> (e = None \<longrightarrow> apiServerServingCertificate w' \<noteq> None)
     \<and> (apiServerServingCertificate w \<noteq> None \<longrightarrow> apiServerServingCertificate w' = apiServerServingCertificate w)"
  "ensureAdminCertificate pl pod caCert caKey w = (e, w') \<Longrightarrow> apiServers w' = apiServers w \<and> etcdMembers w' = etcdMembers w
     \<and> apiServerServingCertificate w' = apiServerServingCertificate w"
  "ensureListener pl name w = (e, w') \<Longrightarrow> apiServers w' = apiServers w \<and> etcdMembers w' = etcdMembers w
     \<and> apiServerServingCertificate w' = apiServerServingCertificate w \<and> (e = None \<longrightarrow> wlListener w')"
  "ensureEtcdCertificate pl pod caCert caKey w = (e, w') \<Longrightarrow> sameEndpoint w w' \<and> etcdMembers w' = etcdMembers w \<and> apiServers w' = apiServers w
     \<and> apiServerServingCertificate w' = apiServerServingCertificate w
     \<and> (e = None \<longrightarrow> mget (etcdServingCertificates w') pod \<noteq> None)"
  by (auto simp: ensureServingCertificate_def ensureAdminCertificate_def ensureListener_def ensureEtcdCertificate_def
      sameEndpoint_def split: option.splits sum.splits if_splits)

lemma AddAPIServer_cases:
  assumes "AddAPIServer pl m name pod caCert caKey = (res, m')"
  obtains (unknown) e where "mget (workloadClusterListeners m) name = None" "res = Inl e" "m' = m"
  | (known) w w' where "mget (workloadClusterListeners m) name = Some w" "m' = putListener m name w'" "sameEndpoint w w'"
      "set (apiServers w') = insert pod (set (apiServers w))" "etcdMembers w' = etcdMembers w"
      "res = Inr () \<Longrightarrow> apiServerServingCertificate w' \<noteq> None \<and> wlListener w'"
      "apiServerServingCertificate w \<noteq> None \<Longrightarrow> apiServerServingCertificate w' = apiServerServingCertificate w"
proof (cases "mget (workloadClusterListeners m) name")
  case None
  with assms have "\<exists>e. res = Inl e \<and> m' = m" by (auto simp: AddAPIServer_def)
  with None unknown show ?thesis by blast
next
  case (Some w)
  let ?w1 = "w\<lparr>apiServers := set_insert pod (apiServers w), apiServerCaCertificate := Some caCert, apiServerCaKey := Some caKey\<rparr>"
  obtain e2 w2 where 2: "ensureServingCertificate pl pod caCert caKey ?w1 = (e2, w2)" by fastforce
  obtain e3 w3 where 3: "ensureAdminCertificate pl pod caCert caKey w2 = (e3, w3)" by fastforce
  obtain e4 w4 where 4: "ensureListener pl name w3 = (e4, w4)" by fastforce
  define w' where "w' = (case e2 of Some _ \<Rightarrow> w2 | None \<Rightarrow> (case e3 of Some _ \<Rightarrow> w3 | None \<Rightarrow> w4))"
  have m': "m' = putListener m name w'" and res: "res = Inr () \<Longrightarrow> e2 = None \<and> e3 = None \<and> e4 = None"
    using assms Some 2 3 4 by (auto simp: AddAPIServer_def Let_def w'_def split: option.splits)
  note f = ensure_fields(1) [OF 2] ensure_fields(2) [OF 3] ensure_fields(3) [OF 4]
    ensure_sameEndpoint(1) [OF 2] ensure_sameEndpoint(2) [OF 3] ensure_sameEndpoint(3) [OF 4]
  show ?thesis
  proof (rule known [OF Some m'])
    show "sameEndpoint w w'" "set (apiServers w') = insert pod (set (apiServers w))" "etcdMembers w' = etcdMembers w"
      "apiServerServingCertificate w \<noteq> None \<Longrightarrow> apiServerServingCertificate w' = apiServerServingCertificate w"
      using f by (simp_all add: w'_def sameEndpoint_def split: option.splits)
    show "apiServerServingCertificate w' \<noteq> None \<and> wlListener w'" if "res = Inr ()"
      using f res [OF that] by (simp add: w'_def)
  qed
qed

lemma AddEtcdMember_cases:
  assumes "AddEtcdMember pl m name pod caCert caKey = (res, m')"
  obtains (unknown) e where "mget (workloadClusterListeners m) name = None" "res = Inl e" "m' = m"
  | (known) w w' where "mget (workloadClusterListeners m) name = Some w" "m' = putListener m name w'" "sameEndpoint w w'"
      "set (etcdMembers w') = insert pod (set (etcdMembers w))"
      "res = Inr () \<Longrightarrow> mget (etcdServingCertificates w') pod \<noteq> None"
      "apiServers w' = apiServers w"
proof (cases "mget (workloadClusterListeners m) name")
  case None
  with assms have "\<exists>e. res = Inl e \<and> m' = m" by (auto simp: AddEtcdMember_def)
  with None unknown show ?thesis by blast
next
  case (Some w)
  obtain e w' where e: "ensureEtcdCertificate pl pod caCert caKey (w\<lparr>etcdMembers := set_insert pod (etcdMembers w)\<rparr>) = (e, w')"
    by fastforce
  note f = ensure_fields(4) [OF e]
  have "m' = putListener m name w'" "res = Inr () \<Longrightarrow> e = None"
    using assms Some e by (auto simp: AddEtcdMember_def Let_def split: option.splits)
  then show ?thesis using f known [OF Some] by (simp add: sameEndpoint_def)
qed

lemma hotRestartLoop_ok:
  assumes "hotRestartLoop m [] maxP cs = (Inr maxP', m')" "muxOkBelow m maxP"
    and "distinct (map ciPort (filter (\<lambda>c. ciHost c \<noteq> '''') cs))"
    and "distinct (map ciResourceGroup (filter (\<lambda>c. ciHost c \<noteq> '''') cs))"
    and "\<And>n w c. mget (workloadClusterListeners m) n = Some w \<Longrightarrow> c \<in> set cs \<Longrightarrow> ciHost c \<noteq> '''' \<Longrightarrow>
           wlPort w \<noteq> ciPort c \<and> ciResourceGroup c \<noteq> Some n"
  shows "muxOkBelow m' maxP'"
  using assms
proof (induction cs arbitrary: m maxP)
  case (Cons c cs)
  show ?case
  proof (cases "ciHost c = ''''")
    case True
    with Cons.prems show ?thesis by (intro Cons.IH [of m maxP]) auto
  next
    case False
    with Cons.prems(1) obtain rg where rg: "ciResourceGroup c = Some rg" "ciHost c = mxHost m"
      by (auto split: if_splits option.splits)
    let ?m = "snd (initWorkloadClusterListenerWithPortLocked m rg (ciPort c))"
    have fresh: "mget (workloadClusterListeners m) rg = None"
      using Cons.prems(5) [of rg _ c] False rg by (cases "mget (workloadClusterListeners m) rg") auto
    have ok: "muxOkBelow ?m (if maxP < ciPort c then ciPort c else maxP)"
      using Cons.prems(5) [of _ _ c] False by (intro muxOk_register_fresh [OF Cons.prems(2) fresh]) auto
    have step: "hotRestartLoop ?m [] (if maxP < ciPort c then ciPort c else maxP) cs = (Inr maxP', m')"
      using Cons.prems(1) False rg by simp
    show ?thesis
    proof (rule Cons.IH [OF step ok])
      fix n w x assume nw: "mget (workloadClusterListeners ?m) n = Some w" and x: "x \<in> set cs" "ciHost x \<noteq> ''''"
      have "ciPort x \<noteq> ciPort c" "ciResourceGroup x \<noteq> ciResourceGroup c"
        using Cons.prems(3,4) False x by (auto simp: image_iff)
      moreover have "n = rg \<Longrightarrow> wlPort w = ciPort c" "n \<noteq> rg \<Longrightarrow> mget (workloadClusterListeners m) n = Some w"
        using nw by (auto simp: initWorkloadClusterListenerWithPortLocked_def Let_def)
      ultimately show "wlPort w \<noteq> ciPort x \<and> ciResourceGroup x \<noteq> Some n"
        using Cons.prems(5) [of n w x] x rg by (cases "n = rg") auto
    qed (use Cons.prems(3,4) False in auto)
  qed
qed simp

text \<open>The range of a mux is the one it was made with, and no listener has the largest integer as its port.\<close>

definition portsOk :: "('c, 'k, 'l) WorkloadClustersMux \<Rightarrow> bool" where
  "portsOk m \<longleftrightarrow> mxMinPort m = minPort \<and> mxMaxPort m = maxPort
     \<and> (\<forall>n w. mget (workloadClusterListeners m) n = Some w \<longrightarrow> wlPort w < max_int64)"

lemma portsOk_portIndex [simp]: "portsOk (m\<lparr>mxPortIndex := i\<rparr>) \<longleftrightarrow> portsOk m"
  by (simp add: portsOk_def)

lemma portsOk_register:
  "portsOk m \<Longrightarrow> port < max_int64 \<Longrightarrow> portsOk (snd (initWorkloadClusterListenerWithPortLocked m name port))"
  by (auto simp: portsOk_def initWorkloadClusterListenerWithPortLocked_def Let_def split: if_splits)

lemma portsOk_putListener:
  "portsOk m \<Longrightarrow> mget (workloadClusterListeners m) name = Some w \<Longrightarrow> sameEndpoint w w' \<Longrightarrow> portsOk (putListener m name w')"
  by (auto simp: portsOk_def putListener_def sameEndpoint_def)

lemma hotRestartLoop_ports:
  "hotRestartLoop m ports maxP cs = (Inr maxP', m') \<Longrightarrow> portsOk m \<Longrightarrow> maxP < max_int64 \<Longrightarrow>
   \<forall>c\<in>set cs. ciHost c \<noteq> '''' \<longrightarrow> ciPort c < max_int64 \<Longrightarrow> portsOk m' \<and> maxP \<le> maxP' \<and> maxP' < max_int64"
  by (induction m ports maxP cs rule: hotRestartLoop.induct) (force simp: portsOk_register split: if_splits option.splits)+

lemma hotRestart_ports:
  assumes "HotRestart m cs = (Inr (), m')" "portsOk m" "\<forall>c\<in>set cs. ciHost c \<noteq> '''' \<longrightarrow> ciPort c < max_int64"
  shows "portsOk m' \<and> (cs = [] \<and> m' = m
    \<or> (\<exists>maxP m1. hotRestartLoop m [] (mxMinPort m - 1) cs = (Inr maxP, m1) \<and> m' = m1\<lparr>mxPortIndex := maxP + 1\<rparr>))"
proof (cases "cs = []")
  case False
  with assms(1) obtain maxP m1 where loop: "hotRestartLoop m [] (mxMinPort m - 1) cs = (Inr maxP, m1)"
    and m': "m' = m1\<lparr>mxPortIndex := int64 (maxP + 1)\<rparr>"
    by (auto simp: HotRestart_def split: prod.splits sum.splits if_splits)
  have "mxMinPort m - 1 < max_int64" "mxMinPort m = 20000"
    using assms(2) by (simp_all add: portsOk_def minPort_def max_int64_def)
  with hotRestartLoop_ports [OF loop assms(2) _ assms(3)] have "portsOk m1" "int64 (maxP + 1) = maxP + 1"
    by (auto intro!: int64_id)
  with loop m' show ?thesis by simp
qed (use assms in \<open>simp add: HotRestart_def\<close>)

lemma muxOk_hotRestart:
  assumes "HotRestart m cs = (Inr (), m')" "muxOk m" "portsOk m" "\<forall>c\<in>set cs. ciHost c \<noteq> '''' \<longrightarrow> ciPort c < max_int64"
    and "distinct (map ciPort (filter (\<lambda>c. ciHost c \<noteq> '''') cs))"
    and "distinct (map ciResourceGroup (filter (\<lambda>c. ciHost c \<noteq> '''') cs))"
  shows "muxOk m'"
proof (cases "cs = []")
  case False
  with assms(1) have empty: "workloadClusterListeners m = []" by (auto simp: HotRestart_def split: if_splits)
  with False hotRestart_ports [OF assms(1,3,4)] obtain maxP m1 where loop: "hotRestartLoop m [] (mxMinPort m - 1) cs = (Inr maxP, m1)"
    and m': "m' = m1\<lparr>mxPortIndex := maxP + 1\<rparr>"
    by auto
  have "muxOkBelow m (mxMinPort m - 1)" using assms(2) empty by (simp add: muxOkBelow_def muxOk_def)
  from hotRestartLoop_ok [OF loop this assms(5,6)] empty m' show ?thesis by (simp add: muxOkBelow_def)
qed (use assms in \<open>simp add: HotRestart_def\<close>)

lemma muxStep_ports: "muxStep m m' \<Longrightarrow> portsOk m \<Longrightarrow> portsOk m'"
proof (induction rule: muxStep.induct)
  case (init m name res m')
  then show ?case
    by (auto simp: InitWorkloadClusterListener_def getFreePortLocked_def Let_def initWorkloadClusterListenerWithPortLocked_def
        portsOk_def maxPort_def max_int64_def split: option.splits prod.splits sum.splits if_splits)
next
  case (addAPI pl m name pod caCert caKey res m')
  from addAPI(1) show ?case by (cases rule: AddAPIServer_cases) (use addAPI(2) in \<open>auto intro: portsOk_putListener\<close>)
next
  case (addEtcd pl m name pod caCert caKey res m')
  from addEtcd(1) show ?case by (cases rule: AddEtcdMember_cases) (use addEtcd(2) in \<open>auto intro: portsOk_putListener\<close>)
next
  case (hotRestart m clusters m')
  then show ?case using hotRestart_ports by blast
qed

lemma reachableMux_ports: "reachableMux host m \<Longrightarrow> portsOk m"
proof (induction rule: reachableMux.induct)
  case new
  show ?case by (simp add: NewWorkloadClustersMux_def portsOk_def)
qed (blast intro: muxStep_ports)

lemma muxStep_ok: "muxStep m m' \<Longrightarrow> muxOk m \<Longrightarrow> portsOk m \<Longrightarrow> muxOk m'"
proof (induction rule: muxStep.induct)
  case (init m name res m')
  then show ?case by (blast intro: muxOk_init)
next
  case (addAPI pl m name pod caCert caKey res m')
  from addAPI(1) show ?case by (cases rule: AddAPIServer_cases) (use addAPI(2) in \<open>auto intro: muxOk_putListener\<close>)
next
  case (addEtcd pl m name pod caCert caKey res m')
  from addEtcd(1) show ?case by (cases rule: AddEtcdMember_cases) (use addEtcd(2) in \<open>auto intro: muxOk_putListener\<close>)
next
  case (hotRestart m clusters m')
  then show ?case by (blast intro: muxOk_hotRestart)
qed

lemma reachableMux_ok: "reachableMux host m \<Longrightarrow> muxOk m"
proof (induction rule: reachableMux.induct)
  case new
  show ?case by (simp add: NewWorkloadClustersMux_def muxOk_def)
qed (blast intro: muxStep_ok reachableMux_ports)

text \<open>
  C15. In every mux reached from a fresh one by initialising listeners, adding API servers and etcd members, and a hot restart
  over clusters with distinct ports (below the largest integer, so that the next port is one too) and resource groups, no two workload clusters share a port, and the address of a
  listener resolves to the name of its cluster: a request is never served from another cluster's resource group.
\<close>

theorem mux_resolves:
  assumes "reachableMux host m" "mget (workloadClusterListeners m) name = Some wcl"
  shows "resourceGroupResolver m (HostPort wcl) = Inr name
     \<and> (\<forall>name' wcl'. mget (workloadClusterListeners m) name' = Some wcl' \<longrightarrow> wlPort wcl' = wlPort wcl \<longrightarrow> name' = name)
     \<and> (\<forall>h name'. resourceGroupResolver m h = Inr name' \<longrightarrow>
          (\<exists>wcl'. mget (workloadClusterListeners m) name' = Some wcl' \<and> HostPort wcl' = h))"
proof -
  have ok: "muxOk m" using assms(1) by (rule reachableMux_ok)
  show ?thesis
    using muxOk_listenerD(3) [OF ok assms(2)] muxOk_ports_distinct [OF ok _ assms(2)] muxOk_hostD [OF ok]
    by (auto simp: resourceGroupResolver_def split: option.splits)
qed

definition sampleMux :: "(string, string, string) WorkloadClustersMux" where
  "sampleMux = snd (InitWorkloadClusterListener (NewWorkloadClustersMux ''10.0.0.1'') ''wkl-1'')"

definition samplePlatform :: "(string, string, string) platform" where
  "samplePlatform = \<lparr>plNewPrivateKey = Inr ''key'', plNewSignedCert = (\<lambda>config key caCert caKey. Inr (ccCommonName config)),
     plX509KeyPair = (\<lambda>cert key. Inr (cert @ ''/'' @ key)), plListen = (\<lambda>_. None), plServe = (\<lambda>_. None)\<rparr>"

lemma sampleMux_reachable: "reachableMux ''10.0.0.1'' sampleMux"
  unfolding sampleMux_def
  by (rule reachableMux.step [OF reachableMux.new]) (rule muxStep.init [OF prod.collapse [symmetric]])

lemma sampleMux_listener: "\<exists>wcl. mget (workloadClusterListeners sampleMux) ''wkl-1'' = Some wcl \<and> wlPort wcl = 20000"
  by (simp add: sampleMux_def InitWorkloadClusterListener_def NewWorkloadClustersMux_def getFreePortLocked_def Let_def
      initWorkloadClusterListenerWithPortLocked_def minPort_def maxPort_def)

theorem mux_resolves_witness:
  "\<exists>wcl. mget (workloadClusterListeners sampleMux) ''wkl-1'' = Some wcl \<and> resourceGroupResolver sampleMux (HostPort wcl) = Inr ''wkl-1''"
  using mux_resolves [OF sampleMux_reachable] sampleMux_listener by blast

section \<open>Ports\<close>

fun initAll ::
  "('c, 'k, 'l) WorkloadClustersMux \<Rightarrow> string list \<Rightarrow> (int option) list \<times> ('c, 'k, 'l) WorkloadClustersMux" where
  "initAll m [] = ([], m)"
| "initAll m (n # ns) =
     (case InitWorkloadClusterListener m n of
        (res, m1) \<Rightarrow> (case initAll m1 ns of (ports, m2) \<Rightarrow>
          ((case res of Inl _ \<Rightarrow> None | Inr wcl \<Rightarrow> Some (wlPort wcl)) # ports, m2)))"

lemma Init_new:
  assumes "mget (workloadClusterListeners m) n = None" "InitWorkloadClusterListener m n = (res, m')"
  shows "if mxPortIndex m > mxMaxPort m then is_err res \<and> m' = m
         else (\<exists>wcl. res = Inr wcl \<and> wlPort wcl = mxPortIndex m \<and> mxPortIndex m' = mxPortIndex m + 1 \<and> mxMaxPort m' = mxMaxPort m
                 \<and> workloadClusterListeners m' = mput (workloadClusterListeners m) n wcl)"
  using assms
  by (auto simp: InitWorkloadClusterListener_def getFreePortLocked_def Let_def initWorkloadClusterListenerWithPortLocked_def)

lemma initAll_ports:
  assumes "distinct ns" "\<And>n. n \<in> set ns \<Longrightarrow> mget (workloadClusterListeners m) n = None"
  shows "fst (initAll m ns) =
    map (\<lambda>i. if mxPortIndex m + int i \<le> mxMaxPort m then Some (mxPortIndex m + int i) else None) [0..<length ns]"
  using assms
proof (induction ns arbitrary: m)
  case (Cons n ns)
  obtain res m1 where i: "InitWorkloadClusterListener m n = (res, m1)" by fastforce
  obtain ports m2 where r: "initAll m1 ns = (ports, m2)" by fastforce
  have idx: "map f [0..<length (n # ns)] = f 0 # map (\<lambda>j. f (Suc j)) [0..<length ns]" for f :: "nat \<Rightarrow> int option"
    by (simp add: map_upt_Suc del: upt_Suc)
  note new = Init_new [OF Cons.prems(2) [of n] i, simplified]
  show ?case
  proof (cases "mxPortIndex m > mxMaxPort m")
    case True
    with new have "is_err res" "m1 = m" by auto
    with Cons.IH [of m] Cons.prems True i r show ?thesis
      unfolding idx by (cases res) auto
  next
    case False
    with new obtain wcl where n: "res = Inr wcl" "wlPort wcl = mxPortIndex m" "mxPortIndex m1 = mxPortIndex m + 1"
      "mxMaxPort m1 = mxMaxPort m" "workloadClusterListeners m1 = mput (workloadClusterListeners m) n wcl" by auto
    have "fst (initAll m1 ns) = map (\<lambda>i. if mxPortIndex m1 + int i \<le> mxMaxPort m1 then Some (mxPortIndex m1 + int i) else None) [0..<length ns]"
      using Cons.prems n(5) by (intro Cons.IH) auto
    with False i r n show ?thesis unfolding idx by (auto simp: algebra_simps)
  qed
qed simp

text \<open>
  C32. The port range has room for 4001 workload clusters: initialising the listeners of distinct clusters on a fresh mux
  gives them the ports 20000, 20001 and so on in order, and from the 4002nd cluster on there is no port and no listener.
\<close>

theorem mux_capacity:
  assumes "distinct names"
  shows "fst (initAll (NewWorkloadClustersMux host :: ('c, 'k, 'l) WorkloadClustersMux) names) =
    map (\<lambda>i. if i < 4001 then Some (20000 + int i) else None) [0..<length names]"
proof -
  let ?m = "NewWorkloadClustersMux host :: ('c, 'k, 'l) WorkloadClustersMux"
  have "fst (initAll ?m names) =
      map (\<lambda>i. if mxPortIndex ?m + int i \<le> mxMaxPort ?m then Some (mxPortIndex ?m + int i) else None) [0..<length names]"
    by (rule initAll_ports [OF assms]) (simp add: NewWorkloadClustersMux_def)
  also have "\<dots> = map (\<lambda>i. if i < 4001 then Some (20000 + int i) else None) [0..<length names]"
    by (intro map_cong) (auto simp: NewWorkloadClustersMux_def minPort_def maxPort_def)
  finally show ?thesis .
qed

theorem mux_capacity_witness:
  "fst (initAll (NewWorkloadClustersMux ''h'' :: (string, string, string) WorkloadClustersMux) [''a'', ''b'']) = [Some 20000, Some 20001]"
  using mux_capacity [of "[''a'', ''b'']" "''h''"] by (simp add: upt_rec)

text \<open>
  Initialising a listener is idempotent: a cluster that has a listener keeps it, with its port, and the mux does not change.
\<close>

lemma init_idempotent:
  assumes "InitWorkloadClusterListener m name = (Inr wcl, m')"
  shows "InitWorkloadClusterListener m' name = (Inr wcl, m')"
proof (cases "mget (workloadClusterListeners m) name")
  case None
  with Init_new [OF None assms] show ?thesis by (auto simp: InitWorkloadClusterListener_def split: if_splits)
qed (use assms in \<open>simp add: InitWorkloadClusterListener_def\<close>)

section \<open>Certificates\<close>

lemma getCertificate_listener:
  assumes "muxOk m" "mget (workloadClusterListeners m) name = Some w"
  shows "getCertificate m (HostPort w) s =
    (if s \<in> set (etcdMembers w) then Inr (mget (etcdServingCertificates w) s) else Inr (apiServerServingCertificate w))"
  using muxOk_listenerD(3) [OF assms] assms(2) by (simp add: getCertificate_def)

text \<open>
  A key pair that a certificate authority issued for a configuration: a new private key, a certificate for that
  configuration signed by the authority, and the pair the TLS library makes of them.
\<close>

definition issuedFor :: "('c, 'k, 'l) platform \<Rightarrow> 'c \<Rightarrow> 'k \<Rightarrow> certConfig \<Rightarrow> 'l \<Rightarrow> bool" where
  "issuedFor pl caCert caKey config l \<longleftrightarrow>
     (case newCertAndKey pl caCert caKey config of
        Inl e \<Rightarrow> False
      | Inr (cert, key) \<Rightarrow> plX509KeyPair pl cert key = Inr l)"

text \<open>The pair a listener serves after one was ensured: the pair it had, or else a new one issued for the configuration.\<close>

definition ensured :: "('c, 'k, 'l) platform \<Rightarrow> 'c \<Rightarrow> 'k \<Rightarrow> certConfig \<Rightarrow> 'l option \<Rightarrow> 'l \<Rightarrow> bool" where
  "ensured pl caCert caKey config before l \<longleftrightarrow>
     (case before of Some l0 \<Rightarrow> l = l0 | None \<Rightarrow> issuedFor pl caCert caKey config l)"

lemmas ensured_simps = ensured_def issuedFor_def ensureServingCertificate_def ensureAdminCertificate_def ensureListener_def
  ensureEtcdCertificate_def

lemma ensure_certificates:
  "ensureServingCertificate pl pod caCert caKey w = (None, w') \<Longrightarrow> etcdServingCertificates w' = etcdServingCertificates w
     \<and> (\<exists>l. apiServerServingCertificate w' = Some l
          \<and> ensured pl caCert caKey (apiServerCertificateConfig (wlHost w)) (apiServerServingCertificate w) l)"
  "ensureAdminCertificate pl pod caCert caKey w = (e, w') \<Longrightarrow> etcdServingCertificates w' = etcdServingCertificates w"
  "ensureListener pl name w = (e, w') \<Longrightarrow> etcdServingCertificates w' = etcdServingCertificates w"
  "ensureEtcdCertificate pl pod caCert caKey w = (None, w') \<Longrightarrow>
     (\<exists>l. (\<forall>s. mget (etcdServingCertificates w') s = (if s = pod then Some l else mget (etcdServingCertificates w) s))
        \<and> ensured pl caCert caKey (etcdServerCertificateConfig pod (wlHost w)) (mget (etcdServingCertificates w) pod) l)"
  by (auto simp: ensured_simps split: option.splits sum.splits if_splits)

lemma AddAPIServer_ensures:
  assumes "AddAPIServer pl m name pod caCert caKey = (Inr (), m')" "mget (workloadClusterListeners m) name = Some w"
  obtains w' l where "m' = putListener m name w'" "sameEndpoint w w'" "pod \<in> set (apiServers w')" "etcdMembers w' = etcdMembers w"
    "etcdServingCertificates w' = etcdServingCertificates w" "apiServerServingCertificate w' = Some l"
    "ensured pl caCert caKey (apiServerCertificateConfig (wlHost w)) (apiServerServingCertificate w) l"
proof -
  let ?w = "w\<lparr>apiServers := set_insert pod (apiServers w), apiServerCaCertificate := Some caCert, apiServerCaKey := Some caKey\<rparr>"
  from assms obtain w2 w3 w' where steps: "ensureServingCertificate pl pod caCert caKey ?w = (None, w2)"
    "ensureAdminCertificate pl pod caCert caKey w2 = (None, w3)" "ensureListener pl name w3 = (None, w')" "m' = putListener m name w'"
    by (auto simp: AddAPIServer_def Let_def split: prod.splits option.splits)
  show ?thesis
    using that [of w'] ensure_certificates(1) [OF steps(1)] ensure_certificates(2) [OF steps(2)] ensure_certificates(3) [OF steps(3)]
      ensure_fields(1) [OF steps(1)] ensure_fields(2) [OF steps(2)] ensure_fields(3) [OF steps(3)]
      ensure_sameEndpoint(1) [OF steps(1)] ensure_sameEndpoint(2) [OF steps(2)] ensure_sameEndpoint(3) [OF steps(3)] steps(4)
    by (auto simp: sameEndpoint_def)
qed

lemma AddEtcdMember_ensures:
  assumes "AddEtcdMember pl m name pod caCert caKey = (Inr (), m')" "mget (workloadClusterListeners m) name = Some w"
  obtains w' l where "m' = putListener m name w'" "sameEndpoint w w'" "set (etcdMembers w') = insert pod (set (etcdMembers w))"
    "apiServers w' = apiServers w" "apiServerServingCertificate w' = apiServerServingCertificate w"
    "\<And>s. mget (etcdServingCertificates w') s = (if s = pod then Some l else mget (etcdServingCertificates w) s)"
    "ensured pl caCert caKey (etcdServerCertificateConfig pod (wlHost w)) (mget (etcdServingCertificates w) pod) l"
proof -
  let ?w = "w\<lparr>etcdMembers := set_insert pod (etcdMembers w)\<rparr>"
  from assms obtain w' where step: "ensureEtcdCertificate pl pod caCert caKey ?w = (None, w')" "m' = putListener m name w'"
    by (auto simp: AddEtcdMember_def Let_def split: prod.splits option.splits)
  obtain l where "\<And>s. mget (etcdServingCertificates w') s = (if s = pod then Some l else mget (etcdServingCertificates w) s)"
    "ensured pl caCert caKey (etcdServerCertificateConfig pod (wlHost w)) (mget (etcdServingCertificates w) pod) l"
    using ensure_certificates(4) [OF step(1)] by (auto cong: if_cong)
  then show ?thesis
    using ensure_fields(4) [OF step(1)] step(2) by (intro that [of w' l]) (auto simp: sameEndpoint_def)
qed

text \<open>
  C33. After AddAPIServer and AddEtcdMember succeeded for a cluster, it is known for every server name which certificate a TLS
  handshake on the cluster's address gets: the pod of the new etcd member gets its own etcd certificate, issued for that
  pod by the authority that was passed in unless the member had one already; an earlier member gets the certificate it had;
  and every other name gets the API server's certificate, the one the listener had before or, the first time, one
  issued for the API server. Adding the etcd member does not change what the other names get.
\<close>

theorem certificates_served:
  assumes "reachableMux host m" "mget (workloadClusterListeners m) name = Some w"
    and "AddAPIServer pl m name pod1 caCert caKey = (Inr (), m1)" "AddEtcdMember pl' m1 name pod2 caCert' caKey' = (Inr (), m2)"
  shows "\<exists>apiCert etcdCert.
       ensured pl caCert caKey (apiServerCertificateConfig (wlHost w)) (apiServerServingCertificate w) apiCert
     \<and> ensured pl' caCert' caKey' (etcdServerCertificateConfig pod2 (wlHost w)) (mget (etcdServingCertificates w) pod2) etcdCert
     \<and> (\<forall>s. getCertificate m1 (HostPort w) s =
          Inr (if s \<in> set (etcdMembers w) then mget (etcdServingCertificates w) s else Some apiCert))
     \<and> (\<forall>s. getCertificate m2 (HostPort w) s =
          (if s = pod2 then Inr (Some etcdCert) else getCertificate m1 (HostPort w) s))
     \<and> HasAPIServer m2 name pod1 \<and> HasEtcdMember m2 name pod2"
proof -
  have ok: "muxOk m" using assms(1) by (rule reachableMux_ok)
  obtain w1 l1 where 1: "m1 = putListener m name w1" "sameEndpoint w w1" "pod1 \<in> set (apiServers w1)" "etcdMembers w1 = etcdMembers w"
    "etcdServingCertificates w1 = etcdServingCertificates w" "apiServerServingCertificate w1 = Some l1"
    "ensured pl caCert caKey (apiServerCertificateConfig (wlHost w)) (apiServerServingCertificate w) l1"
    using AddAPIServer_ensures [OF assms(3,2)] by blast
  have ok1: "muxOk m1" using muxOk_putListener [OF ok assms(2) 1(2)] 1(1) by simp
  have at1: "mget (workloadClusterListeners m1) name = Some w1" by (simp add: 1(1) putListener_def)
  obtain w2 l2 where 2: "m2 = putListener m1 name w2" "sameEndpoint w1 w2" "set (etcdMembers w2) = insert pod2 (set (etcdMembers w1))"
    "apiServers w2 = apiServers w1" "apiServerServingCertificate w2 = apiServerServingCertificate w1"
    "\<And>s. mget (etcdServingCertificates w2) s = (if s = pod2 then Some l2 else mget (etcdServingCertificates w1) s)"
    "ensured pl' caCert' caKey' (etcdServerCertificateConfig pod2 (wlHost w1)) (mget (etcdServingCertificates w1) pod2) l2"
    using AddEtcdMember_ensures [OF assms(4) at1] by blast
  have ok2: "muxOk m2" using muxOk_putListener [OF ok1 at1 2(2)] 2(1) by simp
  have at2: "mget (workloadClusterListeners m2) name = Some w2" by (simp add: 2(1) putListener_def)
  have hp: "HostPort w1 = HostPort w" "HostPort w2 = HostPort w" "wlHost w1 = wlHost w"
    using 1(2) 2(2) by (simp_all add: sameEndpoint_def HostPort_def)
  show ?thesis
    using getCertificate_listener [OF ok1 at1] getCertificate_listener [OF ok2 at2] 1(3-7) 2(3-7) at2 hp
    by (intro exI [of _ l1] exI [of _ l2]) (simp add: HasAPIServer_def HasEtcdMember_def)
qed

theorem certificates_served_witness:
  "\<exists>w m1 m2. mget (workloadClusterListeners sampleMux) ''wkl-1'' = Some w
     \<and> AddAPIServer samplePlatform sampleMux ''wkl-1'' ''kube-apiserver-1'' ''ca'' ''key'' = (Inr (), m1)
     \<and> AddEtcdMember samplePlatform m1 ''wkl-1'' ''etcd-1'' ''ca'' ''key'' = (Inr (), m2)
     \<and> getCertificate m2 (HostPort w) ''etcd-1'' = Inr (Some ''etcd-1/key'')
     \<and> getCertificate m2 (HostPort w) ''etcd-2'' = Inr (Some ''kube-apiserver/key'')
     \<and> HasAPIServer m2 ''wkl-1'' ''kube-apiserver-1'' \<and> HasEtcdMember m2 ''wkl-1'' ''etcd-1''"
proof -
  obtain w where w: "mget (workloadClusterListeners sampleMux) ''wkl-1'' = Some w"
    and new: "apiServerServingCertificate w = None" "etcdMembers w = []" "etcdServingCertificates w = []"
    by (simp add: sampleMux_def InitWorkloadClusterListener_def NewWorkloadClustersMux_def getFreePortLocked_def Let_def
        initWorkloadClusterListenerWithPortLocked_def minPort_def maxPort_def)
  have "fst (AddAPIServer samplePlatform sampleMux ''wkl-1'' ''kube-apiserver-1'' ''ca'' ''key'') = Inr ()"
    using w by (simp add: AddAPIServer_def Let_def ensureServingCertificate_def ensureAdminCertificate_def ensureListener_def
        newCertAndKey_def samplePlatform_def split: option.splits if_splits)
  then obtain m1 where 1: "AddAPIServer samplePlatform sampleMux ''wkl-1'' ''kube-apiserver-1'' ''ca'' ''key'' = (Inr (), m1)"
    by (metis prod.collapse)
  obtain w1 where "mget (workloadClusterListeners m1) ''wkl-1'' = Some w1"
    using 1 by (cases rule: AddAPIServer_cases) (use w in \<open>auto simp: putListener_def\<close>)
  then have "fst (AddEtcdMember samplePlatform m1 ''wkl-1'' ''etcd-1'' ''ca'' ''key'') = Inr ()"
    by (simp add: AddEtcdMember_def Let_def ensureEtcdCertificate_def newCertAndKey_def samplePlatform_def split: option.splits)
  then obtain m2 where 2: "AddEtcdMember samplePlatform m1 ''wkl-1'' ''etcd-1'' ''ca'' ''key'' = (Inr (), m2)"
    by (metis prod.collapse)
  from certificates_served [OF sampleMux_reachable w 1 2] new w 1 2 show ?thesis
    by (auto simp: ensured_def issuedFor_def newCertAndKey_def samplePlatform_def apiServerCertificateConfig_def
        etcdServerCertificateConfig_def Let_def)
qed

section \<open>Where the mux does not keep its promises\<close>

text \<open>
  A pod is registered before its certificate exists: when the serving certificate cannot be created, AddAPIServer and
  AddEtcdMember fail, but HasAPIServer and HasEtcdMember answer true from then on, and a handshake with the etcd member's
  name gets no certificate.
\<close>

lemma failed_add_registered:
  assumes "reachableMux host m" "mget (workloadClusterListeners m) name = Some w" "plNewPrivateKey pl = Inl e"
    and "apiServerServingCertificate w = None" "mget (etcdServingCertificates w) pod = None"
  shows "\<exists>e1 m1 e2 m2. AddAPIServer pl m name pod caCert caKey = (Inl e1, m1) \<and> HasAPIServer m1 name pod
     \<and> AddEtcdMember pl m name pod caCert caKey = (Inl e2, m2) \<and> HasEtcdMember m2 name pod
     \<and> getCertificate m2 (HostPort w) pod = Inr None"
proof -
  have ok: "muxOk m" using assms(1) by (rule reachableMux_ok)
  let ?w1 = "w\<lparr>apiServers := set_insert pod (apiServers w), apiServerCaCertificate := Some caCert, apiServerCaKey := Some caKey\<rparr>"
  let ?w2 = "w\<lparr>etcdMembers := set_insert pod (etcdMembers w)\<rparr>"
  have "\<exists>e1. AddAPIServer pl m name pod caCert caKey = (Inl e1, putListener m name ?w1)"
    using assms(2,3,4) by (simp add: AddAPIServer_def Let_def ensureServingCertificate_def newCertAndKey_def)
  moreover have "\<exists>e2. AddEtcdMember pl m name pod caCert caKey = (Inl e2, putListener m name ?w2)"
    using assms(2,3,5) by (simp add: AddEtcdMember_def Let_def ensureEtcdCertificate_def newCertAndKey_def)
  moreover have "HasAPIServer (putListener m name ?w1) name pod" "HasEtcdMember (putListener m name ?w2) name pod"
    by (simp_all add: HasAPIServer_def HasEtcdMember_def putListener_def)
  moreover have "getCertificate (putListener m name ?w2) (HostPort w) pod = Inr None"
    using getCertificate_listener [OF muxOk_putListener [OF ok assms(2), of ?w2], of name ?w2 pod] assms(5)
    by (simp add: sameEndpoint_def putListener_def HostPort_def)
  ultimately show ?thesis by blast
qed

text \<open>
  The check of HotRestart for two clusters on the same port never fires, because the ports are never recorded: two
  clusters with the same endpoint are both accepted, and the address of the first resolves to the resource group of the second.
\<close>

lemma hotRestart_accepts_duplicate_ports:
  assumes "workloadClusterListeners m = []" "host = mxHost m" "host \<noteq> ''''" "rg1 \<noteq> rg2"
  shows "\<exists>m' w1. HotRestart m [\<lparr>ciName = n1, ciHost = host, ciPort = p, ciResourceGroup = Some rg1\<rparr>,
                        \<lparr>ciName = n2, ciHost = host, ciPort = p, ciResourceGroup = Some rg2\<rparr>] = (Inr (), m')
     \<and> mget (workloadClusterListeners m') rg1 = Some w1 \<and> resourceGroupResolver m' (HostPort w1) = Inr rg2"
  using assms
  by (simp add: HotRestart_def initWorkloadClusterListenerWithPortLocked_def Let_def resourceGroupResolver_def HostPort_def)

end
