(* ===== verification/Mux_Refinement.thy ===== *)
theory Mux_Refinement
  imports Mux_Properties Refinement
begin

text \<open>
  What the mux promises: the clusters in the order of their initialisation, each on the next port, and the pods registered for them. The
  mux is the second instance of the locale of refinements.
\<close>

section \<open>The specification\<close>

record muxSpec =
  msClusters :: "string list"
  msAPIServers :: "(string \<times> string) set"
  msEtcdMembers :: "(string \<times> string) set"

datatype ('c, 'k, 'l) muxRequest =
    InitCluster string
  | RegisterAPIServer "('c, 'k, 'l) platform" string string 'c 'k
  | RegisterEtcdMember "('c, 'k, 'l) platform" string string 'c 'k
  | ResolveHost string
  | AskAPIServer string string
  | AskEtcdMember string string

datatype muxOutcome = ServedOn int | NoPort | Cluster string | UnknownHost | Answer bool | Attempted

definition indexOf :: "'a \<Rightarrow> 'a list \<Rightarrow> nat" where
  "indexOf x xs = length (takeWhile (\<lambda>y. y \<noteq> x) xs)"

definition specHost :: "string \<Rightarrow> nat \<Rightarrow> string" where
  "specHost host i = JoinHostPort host (Itoa (20000 + int i))"

definition specMux :: "string \<Rightarrow> ('c, 'k, 'l) muxRequest \<Rightarrow> muxSpec \<Rightarrow> muxOutcome \<times> muxSpec" where
  "specMux host req s =
     (case req of
        InitCluster name \<Rightarrow>
          if name \<in> set (msClusters s) then (ServedOn (20000 + int (indexOf name (msClusters s))), s)
          else if length (msClusters s) = 4001 then (NoPort, s)
          else (ServedOn (20000 + int (length (msClusters s))), s\<lparr>msClusters := msClusters s @ [name]\<rparr>)
      | RegisterAPIServer _ name pod _ _ \<Rightarrow>
          (Attempted, if name \<in> set (msClusters s) then s\<lparr>msAPIServers := insert (name, pod) (msAPIServers s)\<rparr> else s)
      | RegisterEtcdMember _ name pod _ _ \<Rightarrow>
          (Attempted, if name \<in> set (msClusters s) then s\<lparr>msEtcdMembers := insert (name, pod) (msEtcdMembers s)\<rparr> else s)
      | ResolveHost h \<Rightarrow>
          (case find (\<lambda>i. h = specHost host i) [0..<length (msClusters s)] of
             None \<Rightarrow> UnknownHost | Some i \<Rightarrow> Cluster (msClusters s ! i), s)
      | AskAPIServer name pod \<Rightarrow> (Answer ((name, pod) \<in> msAPIServers s), s)
      | AskEtcdMember name pod \<Rightarrow> (Answer ((name, pod) \<in> msEtcdMembers s), s))"

section \<open>The requests on the mux\<close>

definition runMux :: "('c, 'k, 'l) muxRequest \<Rightarrow> ('c, 'k, 'l) WorkloadClustersMux \<Rightarrow> muxOutcome \<times> ('c, 'k, 'l) WorkloadClustersMux" where
  "runMux req m =
     (case req of
        InitCluster name \<Rightarrow>
          (case InitWorkloadClusterListener m name of (Inl _, m') \<Rightarrow> (NoPort, m') | (Inr wcl, m') \<Rightarrow> (ServedOn (wlPort wcl), m'))
      | RegisterAPIServer pl name pod caCert caKey \<Rightarrow> (Attempted, snd (AddAPIServer pl m name pod caCert caKey))
      | RegisterEtcdMember pl name pod caCert caKey \<Rightarrow> (Attempted, snd (AddEtcdMember pl m name pod caCert caKey))
      | ResolveHost h \<Rightarrow> (case resourceGroupResolver m h of Inl _ \<Rightarrow> UnknownHost | Inr name \<Rightarrow> Cluster name, m)
      | AskAPIServer name pod \<Rightarrow> (Answer (HasAPIServer m name pod), m)
      | AskEtcdMember name pod \<Rightarrow> (Answer (HasEtcdMember m name pod), m))"

abbreviation clustersOf :: "('c, 'k, 'l) WorkloadClustersMux \<Rightarrow> string list" where
  "clustersOf m \<equiv> mkeys (workloadClusterListeners m)"

definition muxView :: "('c, 'k, 'l) WorkloadClustersMux \<Rightarrow> muxSpec" where
  "muxView m = \<lparr>msClusters = clustersOf m, msAPIServers = {(name, pod). HasAPIServer m name pod},
     msEtcdMembers = {(name, pod). HasEtcdMember m name pod}\<rparr>"

lemma clusters_view: "msClusters (muxView m) = clustersOf m"
  by (simp add: muxView_def)

text \<open>A mux that was never hot restarted: the clusters are on consecutive ports, in their order.\<close>

definition muxFresh :: "string \<Rightarrow> ('c, 'k, 'l) WorkloadClustersMux \<Rightarrow> bool" where
  "muxFresh host m \<longleftrightarrow> muxOk m \<and> mxHost m = host \<and> mxMinPort m = minPort \<and> mxMaxPort m = maxPort \<and> distinct (clustersOf m)
     \<and> mxPortIndex m = minPort + int (length (clustersOf m)) \<and> length (clustersOf m) \<le> 4001
     \<and> (\<forall>i < length (clustersOf m). \<exists>w. mget (workloadClusterListeners m) (clustersOf m ! i) = Some w \<and> wlPort w = minPort + int i)"

lemma mkeys_mput_old: "mget m k \<noteq> None \<Longrightarrow> mkeys (mput m k v) = mkeys m"
  by (auto simp: update_keys map_of_eq_None_iff)

lemma mkeys_mput_new: "mget m k = None \<Longrightarrow> mkeys (mput m k v) = mkeys m @ [k]"
  by (auto simp: update_keys map_of_eq_None_iff)

lemma indexOf_nth: "distinct xs \<Longrightarrow> i < length xs \<Longrightarrow> indexOf (xs ! i) xs = i"
proof (induction xs arbitrary: i)
  case (Cons x xs)
  then show ?case by (cases i) (auto simp: indexOf_def)
qed simp

lemma muxFresh_listener:
  assumes "muxFresh host m" "mget (workloadClusterListeners m) name = Some w"
  shows "wlPort w = 20000 + int (indexOf name (clustersOf m))" "HostPort w = specHost host (indexOf name (clustersOf m))"
    "indexOf name (clustersOf m) < length (clustersOf m)" "clustersOf m ! indexOf name (clustersOf m) = name"
proof -
  have "name \<in> set (clustersOf m)" using assms(2) by (metis map_of_eq_None_iff option.distinct(1) set_map)
  then obtain i where i: "i < length (clustersOf m)" "clustersOf m ! i = name" by (metis in_set_conv_nth)
  then have idx: "indexOf name (clustersOf m) = i" using assms(1) indexOf_nth unfolding muxFresh_def by blast
  with i assms show port: "wlPort w = 20000 + int (indexOf name (clustersOf m))"
    unfolding muxFresh_def minPort_def by fastforce
  have "wlHost w = host" using assms muxOk_listenerD(1) unfolding muxFresh_def by blast
  with port show "HostPort w = specHost host (indexOf name (clustersOf m))" by (simp add: HostPort_def specHost_def)
  show "indexOf name (clustersOf m) < length (clustersOf m)" "clustersOf m ! indexOf name (clustersOf m) = name"
    using i idx by simp_all
qed

lemma specHost_inject [simp]: "specHost host i = specHost host j \<longleftrightarrow> i = j"
  by (simp add: specHost_def)

section \<open>Each request refines\<close>

lemma resolve_refines:
  assumes fresh: "muxFresh host m"
  shows "(case resourceGroupResolver m h of Inl _ \<Rightarrow> UnknownHost | Inr name \<Rightarrow> Cluster name) =
     (case find (\<lambda>i. h = specHost host i) [0..<length (clustersOf m)] of None \<Rightarrow> UnknownHost | Some i \<Rightarrow> Cluster (clustersOf m ! i))"
proof (cases "mget (workloadClusterNameByHost m) h")
  case None
  have "h \<noteq> specHost host i" if i: "i < length (clustersOf m)" for i
  proof
    assume h: "h = specHost host i"
    obtain w where w: "mget (workloadClusterListeners m) (clustersOf m ! i) = Some w" "wlPort w = minPort + int i"
      using fresh i unfolding muxFresh_def by blast
    then have "HostPort w = h" using muxFresh_listener [OF fresh w(1)] h by (simp add: specHost_def minPort_def)
    then show False using muxOk_listenerD(3) [OF _ w(1)] fresh None by (simp add: muxFresh_def)
  qed
  then have "find (\<lambda>i. h = specHost host i) [0..<length (clustersOf m)] = None" by (auto simp: find_None_iff)
  with None show ?thesis by (simp add: resourceGroupResolver_def)
next
  case (Some name)
  then obtain w where w: "mget (workloadClusterListeners m) name = Some w" "HostPort w = h"
    using muxOk_hostD fresh unfolding muxFresh_def by blast
  let ?i = "indexOf name (clustersOf m)"
  have i: "h = specHost host ?i" "?i < length (clustersOf m)" "clustersOf m ! ?i = name" using muxFresh_listener [OF fresh w(1)] w(2) by simp_all
  have "find (\<lambda>j. h = specHost host j) [0..<length (clustersOf m)] = Some ?i"
  proof (cases "find (\<lambda>j. h = specHost host j) [0..<length (clustersOf m)]")
    case None
    with i(1,2) show ?thesis by (auto simp: find_None_iff)
  next
    case (Some j)
    then have "h = specHost host j" by (auto simp: find_Some_iff)
    with i(1) Some show ?thesis by simp
  qed
  with Some i(3) show ?thesis by (simp add: resourceGroupResolver_def)
qed

lemma init_known:
  assumes "muxFresh host m" "mget (workloadClusterListeners m) name = Some w"
  shows "specMux host (InitCluster name) (muxView m) = apsnd muxView (runMux (InitCluster name) m)
     \<and> muxFresh host (snd (runMux (InitCluster name) m))"
proof -
  have "name \<in> set (clustersOf m)" using muxFresh_listener(3,4) [OF assms] by (metis nth_mem)
  with muxFresh_listener(1) [OF assms] assms show ?thesis
    by (simp add: specMux_def runMux_def muxView_def InitWorkloadClusterListener_def)
qed

lemma init_full:
  assumes "muxFresh host m" "mget (workloadClusterListeners m) name = None" "length (clustersOf m) = 4001"
  shows "specMux host (InitCluster name) (muxView m) = apsnd muxView (runMux (InitCluster name) m)
     \<and> muxFresh host (snd (runMux (InitCluster name) m))"
proof -
  have "name \<notin> set (clustersOf m)" using assms(2) by (metis map_of_eq_None_iff set_map)
  moreover have "mxPortIndex m > mxMaxPort m" using assms by (simp add: muxFresh_def minPort_def maxPort_def)
  ultimately show ?thesis using assms
    by (simp add: specMux_def runMux_def muxView_def InitWorkloadClusterListener_def getFreePortLocked_def Let_def)
qed

lemma init_next:
  assumes fresh: "muxFresh host m" and new: "mget (workloadClusterListeners m) name = None" and room: "length (clustersOf m) \<noteq> 4001"
  shows "specMux host (InitCluster name) (muxView m) = apsnd muxView (runMux (InitCluster name) m)
     \<and> muxFresh host (snd (runMux (InitCluster name) m))"
proof -
  have out: "name \<notin> set (clustersOf m)" using new by (metis map_of_eq_None_iff set_map)
  have idx: "mxPortIndex m = 20000 + int (length (clustersOf m))" "length (clustersOf m) < 4001" "\<not> mxPortIndex m > mxMaxPort m"
    using fresh room by (simp_all add: muxFresh_def minPort_def maxPort_def)
  obtain res m' where i: "InitWorkloadClusterListener m name = (res, m')" by fastforce
  obtain wcl where wcl: "res = Inr wcl" "wlPort wcl = mxPortIndex m" "mxPortIndex m' = mxPortIndex m + 1"
      "workloadClusterListeners m' = mput (workloadClusterListeners m) name wcl"
    using Init_new [OF new i] idx(3) by auto
  have rest: "mxHost m' = mxHost m" "mxMinPort m' = mxMinPort m" "mxMaxPort m' = mxMaxPort m" "apiServers wcl = []" "etcdMembers wcl = []"
    using i new idx(3) wcl(1)
    by (auto simp: InitWorkloadClusterListener_def getFreePortLocked_def Let_def initWorkloadClusterListenerWithPortLocked_def)
  have keys: "clustersOf m' = clustersOf m @ [name]" unfolding wcl(4) using new by (rule mkeys_mput_new)
  have look: "mget (workloadClusterListeners m') n = (if n = name then Some wcl else mget (workloadClusterListeners m) n)" for n
    by (simp add: wcl(4))
  have "muxFresh host m'"
    unfolding muxFresh_def
  proof (intro conjI allI impI)
    show "muxOk m'" using muxOk_init i fresh unfolding muxFresh_def by blast
    show "\<exists>w. mget (workloadClusterListeners m') (clustersOf m' ! j) = Some w \<and> wlPort w = minPort + int j" if "j < length (clustersOf m')" for j
    proof (cases "j < length (clustersOf m)")
      case True
      then have "clustersOf m ! j \<noteq> name" using out by (metis nth_mem)
      moreover have "clustersOf m' ! j = clustersOf m ! j" unfolding keys using True by (rule nth_append_left)
      moreover have "\<exists>w. mget (workloadClusterListeners m) (clustersOf m ! j) = Some w \<and> wlPort w = minPort + int j"
        using fresh True unfolding muxFresh_def by blast
      ultimately show ?thesis unfolding look by simp
    next
      case False
      then have "j = length (clustersOf m)" using that unfolding keys by simp
      moreover from this have "clustersOf m' ! j = name" unfolding keys by (simp only: nth_append_length)
      ultimately show ?thesis unfolding look using wcl(2) idx(1) by (simp add: minPort_def)
    qed
  qed (use fresh out idx wcl(3) in \<open>auto simp: muxFresh_def keys rest simp del: length_map\<close>)
  moreover have "HasAPIServer m' n p = HasAPIServer m n p" "HasEtcdMember m' n p = HasEtcdMember m n p" for n p
    using new rest by (simp_all add: HasAPIServer_def HasEtcdMember_def wcl(4))
  ultimately show ?thesis
    using i wcl(1,2) out room idx(1) keys by (simp add: specMux_def runMux_def muxView_def)
qed

lemma muxFresh_putListener:
  assumes fresh: "muxFresh host m" and w: "mget (workloadClusterListeners m) name = Some w" "sameEndpoint w w'"
  shows "muxFresh host (putListener m name w') \<and> clustersOf (putListener m name w') = clustersOf m"
proof -
  let ?m = "putListener m name w'"
  have ls: "workloadClusterListeners ?m = mput (workloadClusterListeners m) name w'" by (simp add: putListener_def)
  have keys: "clustersOf ?m = clustersOf m" unfolding ls using w(1) by (intro mkeys_mput_old) simp
  have same: "mxHost ?m = mxHost m" "mxMinPort ?m = mxMinPort m" "mxMaxPort ?m = mxMaxPort m" "mxPortIndex ?m = mxPortIndex m"
    by (simp_all add: putListener_def)
  have look: "mget (workloadClusterListeners ?m) n = (if n = name then Some w' else mget (workloadClusterListeners m) n)" for n
    by (simp add: ls)
  have "muxFresh host ?m"
    unfolding muxFresh_def
  proof (intro conjI allI impI)
    show "muxOk ?m" using muxOk_putListener fresh w unfolding muxFresh_def by blast
    show "\<exists>v. mget (workloadClusterListeners ?m) (clustersOf ?m ! j) = Some v \<and> wlPort v = minPort + int j" if j: "j < length (clustersOf ?m)" for j
    proof -
      obtain v where v: "mget (workloadClusterListeners m) (clustersOf m ! j) = Some v" "wlPort v = minPort + int j"
        using fresh j unfolding keys muxFresh_def by blast
      show ?thesis
      proof (cases "clustersOf m ! j = name")
        case True
        then show ?thesis unfolding keys look using v w by (simp add: sameEndpoint_def)
      qed (use v in \<open>simp add: keys look\<close>)
    qed
  qed (use fresh in \<open>auto simp: muxFresh_def keys same simp del: length_map\<close>)
  with keys show ?thesis by blast
qed

lemma register_refines:
  assumes fresh: "muxFresh host m"
  shows "specMux host (RegisterAPIServer pl name pod caCert caKey) (muxView m) = apsnd muxView (runMux (RegisterAPIServer pl name pod caCert caKey) m)
       \<and> muxFresh host (snd (AddAPIServer pl m name pod caCert caKey))" (is ?api)
    and "specMux host (RegisterEtcdMember pl name pod caCert caKey) (muxView m) = apsnd muxView (runMux (RegisterEtcdMember pl name pod caCert caKey) m)
       \<and> muxFresh host (snd (AddEtcdMember pl m name pod caCert caKey))" (is ?etcd)
proof -
  have known: "name \<in> set (clustersOf m) \<longleftrightarrow> mget (workloadClusterListeners m) name \<noteq> None" by (metis map_of_eq_None_iff set_map)
  show ?api
  proof -
    obtain res m' where a: "AddAPIServer pl m name pod caCert caKey = (res, m')" by fastforce
    then show ?thesis
    proof (cases rule: AddAPIServer_cases)
      case (unknown e)
      with a fresh known show ?thesis by (simp add: specMux_def runMux_def muxView_def)
    next
      case (known w w')
      have "{(n, p). HasAPIServer m' n p} = insert (name, pod) {(n, p). HasAPIServer m n p}" "HasEtcdMember m' = HasEtcdMember m"
        using known(1,2,4,5) by (auto simp: HasAPIServer_def HasEtcdMember_def putListener_def fun_eq_iff split: if_splits option.splits)
      with muxFresh_putListener [OF fresh known(1,3)] a known(1,2) \<open>name \<in> set (clustersOf m) \<longleftrightarrow> _\<close>
      show ?thesis by (simp add: specMux_def runMux_def muxView_def)
    qed
  qed
  show ?etcd
  proof -
    obtain res m' where a: "AddEtcdMember pl m name pod caCert caKey = (res, m')" by fastforce
    then show ?thesis
    proof (cases rule: AddEtcdMember_cases)
      case (unknown e)
      with a fresh known show ?thesis by (simp add: specMux_def runMux_def muxView_def)
    next
      case (known w w')
      have "{(n, p). HasEtcdMember m' n p} = insert (name, pod) {(n, p). HasEtcdMember m n p}" "HasAPIServer m' = HasAPIServer m"
        using known(1,2,4,6) by (auto simp: HasAPIServer_def HasEtcdMember_def putListener_def fun_eq_iff split: if_splits option.splits)
      with muxFresh_putListener [OF fresh known(1,3)] a known(1,2) \<open>name \<in> set (clustersOf m) \<longleftrightarrow> _\<close>
      show ?thesis by (simp add: specMux_def runMux_def muxView_def)
    qed
  qed
qed

lemma runMux_refines:
  assumes "muxFresh host m"
  shows "specMux host req (muxView m) = apsnd muxView (runMux req m) \<and> muxFresh host (snd (runMux req m))"
proof (cases req)
  case (InitCluster name)
  show ?thesis
  proof (cases "mget (workloadClusterListeners m) name")
    case None
    then show ?thesis
      unfolding InitCluster using init_full [OF assms None] init_next [OF assms None] by blast
  next
    case (Some w)
    from init_known [OF assms this] show ?thesis unfolding InitCluster .
  qed
next
  case (RegisterAPIServer pl name pod caCert caKey)
  with register_refines(1) [OF assms, of pl name pod caCert caKey] show ?thesis by (simp add: runMux_def)
next
  case (RegisterEtcdMember pl name pod caCert caKey)
  with register_refines(2) [OF assms, of pl name pod caCert caKey] show ?thesis by (simp add: runMux_def)
next
  case (ResolveHost h)
  with resolve_refines [OF assms, of h] assms show ?thesis by (simp add: specMux_def runMux_def clusters_view cong: option.case_cong)
qed (use assms in \<open>simp_all add: specMux_def runMux_def muxView_def\<close>)

interpretation portAllocator: functional_refinement runMux "specMux host" muxView "muxFresh host" for host
  by unfold_locales (simp_all add: runMux_refines)

text \<open>
  C14. The mux refines an allocator: every sequence of requests on a new mux (initialise clusters, register API servers and etcd members, resolve
  hosts, ask for registered pods) gets the answers of a specification that keeps a list of clusters, the i-th on port 20000 + i, up to 4001 of them,
  and two sets of registered pods. Registration depends on the cluster only, not on whether the certificates and the socket could be made.
\<close>

theorem mux_refines_allocator:
  "fst (runAll runMux reqs (NewWorkloadClustersMux host :: ('c, 'k, 'l) WorkloadClustersMux)) =
   fst (runAll (specMux host) reqs \<lparr>msClusters = [], msAPIServers = {}, msEtcdMembers = {}\<rparr>)"
proof -
  let ?m = "NewWorkloadClustersMux host :: ('c, 'k, 'l) WorkloadClustersMux"
  have "muxFresh host ?m" by (simp add: muxFresh_def NewWorkloadClustersMux_def muxOk_def)
  moreover have "muxView ?m = \<lparr>msClusters = [], msAPIServers = {}, msEtcdMembers = {}\<rparr>"
    by (simp add: muxView_def NewWorkloadClustersMux_def HasAPIServer_def HasEtcdMember_def)
  ultimately show ?thesis using portAllocator.run_outcomes [of host ?m reqs] by simp
qed

end
