(* ===== verification/Resource_Store.thy ===== *)
theory Resource_Store
  imports Controller_Runtime Cache_Invariant
begin

text \<open>
  The contract between the reconcilers and the cloud: what a client that creates objects and accepts the ones that already
  exist may rely on. The client's lemmas are proved from the contract; the client of a resource group of the cache is shown to keep it.
\<close>

section \<open>Creating what is missing\<close>

text \<open>
  The pattern of the machine reconciler: objects are created one after the other, each with the message of its error; the error that
  says that the object exists is accepted, any other one ends the sequence.
\<close>

fun ensureAll ::
  "('s \<Rightarrow> 'o \<Rightarrow> ('e + unit) \<times> 's) \<Rightarrow> ('e \<Rightarrow> bool) \<Rightarrow> 's \<Rightarrow> (string \<times> 'o) list \<Rightarrow>
   (string \<times> 'e + unit) \<times> 's" where
  "ensureAll create exists s [] = (Inr (), s)"
| "ensureAll create exists s ((msg, x) # xs) =
     (case create s x of
        (Inl e, s') \<Rightarrow> if \<not> exists e then (Inl (msg, e), s') else ensureAll create exists s' xs
      | (Inr _, s') \<Rightarrow> ensureAll create exists s' xs)"

locale create_store =
  fixes lookup :: "'s \<Rightarrow> 'k \<Rightarrow> 'v option"
    and create :: "'s \<Rightarrow> 'o \<Rightarrow> ('e + unit) \<times> 's"
    and exists :: "'e \<Rightarrow> bool"
    and key :: "'o \<Rightarrow> 'k"
    and val :: "'o \<Rightarrow> 'v"
    and valid :: "'s \<Rightarrow> 'o \<Rightarrow> bool"
  assumes create_free: "valid s x \<Longrightarrow> lookup s (key x) = None \<Longrightarrow>
      \<exists>s'. create s x = (Inr (), s') \<and> lookup s' = (lookup s)(key x \<mapsto> val x)"
    and create_taken: "valid s x \<Longrightarrow> lookup s (key x) \<noteq> None \<Longrightarrow>
      \<exists>e s'. create s x = (Inl e, s') \<and> exists e \<and> lookup s' = lookup s"
    and valid_kept: "valid s x \<Longrightarrow> valid s y \<Longrightarrow> valid (snd (create s y)) x"
begin

lemma ensure_step:
  assumes "valid s x"
  shows "\<exists>s'. ensureAll create exists s ((msg, x) # xs) = ensureAll create exists s' xs
     \<and> s' = snd (create s x)
     \<and> lookup s' = (if lookup s (key x) = None then (lookup s)(key x \<mapsto> val x) else lookup s)"
  using create_free [OF assms] create_taken [OF assms] by (cases "lookup s (key x) = None") auto

text \<open>
  With valid objects the sequence always ends well. What was there stays as it was, what is new is one of the objects, and afterwards
  all of them are there.
\<close>

lemma ensureAll_ok:
  assumes "\<forall>x \<in> snd ` set xs. valid s x"
  shows "\<exists>s'. ensureAll create exists s xs = (Inr (), s')
     \<and> lookup s \<subseteq>\<^sub>m lookup s' \<and> dom (lookup s') = dom (lookup s) \<union> key ` snd ` set xs
     \<and> (\<forall>k v. lookup s' k = Some v \<longrightarrow> lookup s k = Some v \<or> (\<exists>x \<in> snd ` set xs. key x = k \<and> v = val x))
     \<and> (\<forall>y. valid s y \<longrightarrow> valid s' y)"
  using assms
proof (induction xs arbitrary: s)
  case (Cons m xs)
  obtain msg x where m: "m = (msg, x)" by (cases m)
  have x: "valid s x" using Cons.prems m by simp
  obtain s1 where s1: "ensureAll create exists s (m # xs) = ensureAll create exists s1 xs" "s1 = snd (create s x)"
      "lookup s1 = (if lookup s (key x) = None then (lookup s)(key x \<mapsto> val x) else lookup s)"
    using ensure_step [OF x] m by blast
  have kept: "\<forall>y. valid s y \<longrightarrow> valid s1 y" using valid_kept x s1(2) by blast
  then have "\<forall>y \<in> snd ` set xs. valid s1 y" using Cons.prems by auto
  from Cons.IH [OF this] obtain s' where s': "ensureAll create exists s1 xs = (Inr (), s')" "lookup s1 \<subseteq>\<^sub>m lookup s'"
      "dom (lookup s') = dom (lookup s1) \<union> key ` snd ` set xs"
      "\<forall>k v. lookup s' k = Some v \<longrightarrow> lookup s1 k = Some v \<or> (\<exists>y \<in> snd ` set xs. key y = k \<and> v = val y)"
      "\<forall>y. valid s1 y \<longrightarrow> valid s' y"
    by blast
  have le: "lookup s \<subseteq>\<^sub>m lookup s1" using s1(3) by (auto simp: map_le_def)
  have "dom (lookup s1) = insert (key x) (dom (lookup s))" using s1(3) by auto
  then have "dom (lookup s') = dom (lookup s) \<union> key ` snd ` set (m # xs)" using s'(3) m by auto
  moreover have "lookup s' k = Some v \<Longrightarrow> lookup s k = Some v \<or> (\<exists>y \<in> snd ` set (m # xs). key y = k \<and> v = val y)" for k v
    using s'(4) s1(3) m by (fastforce split: if_splits)
  ultimately show ?case
    using s1(1) s'(1,2,5) kept map_le_trans [OF le s'(2)] by auto
qed auto

text \<open>Once all the keys are taken nothing changes any more, whatever the objects of the second run are.\<close>

lemma ensureAll_taken:
  assumes "\<forall>x \<in> snd ` set xs. valid s x" "\<forall>x \<in> snd ` set xs. lookup s (key x) \<noteq> None"
  shows "\<exists>s'. ensureAll create exists s xs = (Inr (), s') \<and> lookup s' = lookup s \<and> (\<forall>y. valid s y \<longrightarrow> valid s' y)"
  using assms
proof (induction xs arbitrary: s)
  case (Cons m xs)
  obtain msg x where m: "m = (msg, x)" by (cases m)
  have x: "valid s x" "lookup s (key x) \<noteq> None" using Cons.prems m by auto
  obtain s1 where s1: "ensureAll create exists s (m # xs) = ensureAll create exists s1 xs" "s1 = snd (create s x)" "lookup s1 = lookup s"
    using ensure_step [OF x(1)] m x(2) by metis
  have kept: "\<forall>y. valid s y \<longrightarrow> valid s1 y" using valid_kept x(1) s1(2) by blast
  have "\<forall>y \<in> snd ` set xs. valid s1 y" "\<forall>y \<in> snd ` set xs. lookup s1 (key y) \<noteq> None" using Cons.prems kept s1(3) by auto
  from Cons.IH [OF this] kept s1 show ?case by metis
qed auto

end

section \<open>The client of a resource group\<close>

text \<open>The cache and the queue calls so far; a request is the object and the time of the call.\<close>

type_synonym 'b cloudState = "'b cache \<times> queueCall list"

definition cloudCreate :: "string \<Rightarrow> 'b cloudState \<Rightarrow> gotime \<times> 'b object \<Rightarrow> (apiError + unit) \<times> 'b cloudState" where
  "cloudCreate rg s x =
     (case clCreate (GetClient (NewResourceGroup rg)) (fst x) (fst s) (Some (snd x)) of
        (r, c, _, calls) \<Rightarrow> (r, c, snd s @ calls))"

definition cloudLookup :: "string \<Rightarrow> 'b cloudState \<Rightarrow> ownReference \<Rightarrow> 'b object option" where
  "cloudLookup rg s r = (case resourceGroupTracker_of (fst s) rg of None \<Rightarrow> None | Some t \<Rightarrow> objectAt t r)"

definition kindOf :: "'b scheme \<Rightarrow> 'b object \<Rightarrow> GroupVersionKind" where
  "kindOf sch obj = (case GVKForObject sch obj of Inr g \<Rightarrow> g | Inl _ \<Rightarrow> oGVK obj)"

definition cloudKey :: "'b scheme \<Rightarrow> gotime \<times> 'b object \<Rightarrow> ownReference" where
  "cloudKey sch x = \<lparr>refGVK = kindOf sch (snd x), refKey = ObjectKeyFromObject (snd x)\<rparr>"

text \<open>The object as a Create stores it.\<close>

definition cloudStored :: "'b scheme \<Rightarrow> gotime \<times> 'b object \<Rightarrow> 'b object" where
  "cloudStored sch x = (snd x)\<lparr>oGVK := kindOf sch (snd x), oCreationTimestamp := fst x,
     oAnnotations := Some (mput (GetAnnotations (snd x)) lastSyncTimeAnnotation (Format_RFC3339 (fst x))),
     oResourceVersion := ''v1''\<rparr>"

definition cloudValid :: "'b scheme \<Rightarrow> string \<Rightarrow> 'b cloudState \<Rightarrow> gotime \<times> 'b object \<Rightarrow> bool" where
  "cloudValid sch rg s x \<longleftrightarrow> cScheme (fst s) = sch \<and> rg \<noteq> '''' \<and> resourceGroupTracker_of (fst s) rg \<noteq> None
     \<and> (\<exists>g. GVKForObject sch (snd x) = Inr g) \<and> oOwnerReferences (snd x) = None"

lemma Itoa_one: "Itoa 1 = ''1''"
  by code_simp

lemma storeLocked_unowned:
  assumes "oOwnerReferences obj = None"
  shows "storeLocked now c rg t gvk obj False =
    (case getObject t gvk (ObjectKeyFromObject obj) of
       Some _ \<Rightarrow> (Inl (AlreadyExists (unsafeGuessGroupVersionResource gvk) (ObjectKeyFromObject obj)), ensureGVK t gvk, obj, [])
     | None \<Rightarrow>
       (let obj' = obj\<lparr>oCreationTimestamp := now,
                 oAnnotations := Some (mput (GetAnnotations obj) lastSyncTimeAnnotation (Format_RFC3339 now)), oResourceVersion := ''v1''\<rparr>
        in (Inr (), putObject (ensureGVK t gvk) gvk (ObjectKeyFromObject obj) obj', obj', informCreate c rg obj')))"
  using assms
  by (simp add: storeLocked_def Let_def beforeCreate_def updateTrackerOwnerReferences_def GetOwnerReferences_def nilList_def
      appendAnnotations_def Itoa_one afterCreate_def GetAnnotations_def split: option.splits)

lemma cloudCreate_valid:
  assumes "cloudValid sch rg s x" "resourceGroupTracker_of (fst s) rg = Some t"
  shows "\<exists>res t' calls. cloudCreate rg s x = (res, (fst s)\<lparr>resourceGroups := mput (resourceGroups (fst s)) rg t'\<rparr>, snd s @ calls)
     \<and> (if objectAt t (cloudKey sch x) = None then res = Inr () \<and> objectAt t' = (objectAt t)(cloudKey sch x \<mapsto> cloudStored sch x)
        else (\<exists>e. res = Inl e \<and> IsAlreadyExists e) \<and> objectAt t' = objectAt t)"
proof -
  obtain g where g: "GVKForObject sch (snd x) = Inr g" "cScheme (fst s) = sch" "rg \<noteq> ''''" "oOwnerReferences (snd x) = None"
    using assms(1) by (auto simp: cloudValid_def)
  let ?o = "(snd x)\<lparr>oGVK := g\<rparr>"
  have key: "cloudKey sch x = \<lparr>refGVK = g, refKey = ObjectKeyFromObject (snd x)\<rparr>" "kindOf sch (snd x) = g"
    using g by (simp_all add: cloudKey_def kindOf_def)
  obtain res t' o2 calls where sl: "storeLocked (fst x) (fst s) rg t g ?o False = (res, t', o2, calls)" by (metis prod_cases4)
  have "cloudCreate rg s x = (res, (fst s)\<lparr>resourceGroups := mput (resourceGroups (fst s)) rg t'\<rparr>, snd s @ calls)"
    using g assms(2) sl
    by (simp add: cloudCreate_def GetClient_def NewResourceGroup_def Create_def store_def gvkGetAndSet_def)
  moreover have "if objectAt t (cloudKey sch x) = None
      then res = Inr () \<and> objectAt t' = (objectAt t)(cloudKey sch x \<mapsto> cloudStored sch x)
      else (\<exists>e. res = Inl e \<and> IsAlreadyExists e) \<and> objectAt t' = objectAt t"
    using sl g(4)
    by (auto simp: storeLocked_unowned key cloudStored_def Let_def  fun_eq_iff GetAnnotations_def
        ObjectKeyFromObject_def split: option.splits)
  ultimately show ?thesis by blast
qed

interpretation cloud: create_store "cloudLookup rg" "cloudCreate rg" IsAlreadyExists "cloudKey sch" "cloudStored sch" "cloudValid sch rg"
  for rg sch
proof
  fix s x y
  assume x: "cloudValid sch rg s x"
  obtain t where t: "resourceGroupTracker_of (fst s) rg = Some t" using x by (auto simp: cloudValid_def)
  have lk: "cloudLookup rg s = objectAt t" by (simp add: cloudLookup_def t fun_eq_iff)
  have put: "cloudLookup rg ((fst s)\<lparr>resourceGroups := mput (resourceGroups (fst s)) rg t'\<rparr>, calls) = objectAt t'" for t' calls
    by (simp add: cloudLookup_def resourceGroupTracker_of_def fun_eq_iff)
  note c = cloudCreate_valid [OF x t]
  show "\<exists>s'. cloudCreate rg s x = (Inr (), s') \<and> cloudLookup rg s' = (cloudLookup rg s)(cloudKey sch x \<mapsto> cloudStored sch x)"
    if "cloudLookup rg s (cloudKey sch x) = None"
    using c that lk put by fastforce
  show "\<exists>e s'. cloudCreate rg s x = (Inl e, s') \<and> IsAlreadyExists e \<and> cloudLookup rg s' = cloudLookup rg s"
    if "cloudLookup rg s (cloudKey sch x) \<noteq> None"
    using c that lk put by fastforce
  assume y: "cloudValid sch rg s y"
  show "cloudValid sch rg (snd (cloudCreate rg s y)) x"
    using cloudCreate_valid [OF y t] x by (auto simp: cloudValid_def resourceGroupTracker_of_def)
qed

end
