(* ===== verification/Goofy_Controllers.thy ===== *)
theory Goofy_Controllers
  imports Resource_Store Mux Etcd_Server
begin

text \<open>
  The two reconcilers of \<^verbatim>\<open>internal/controllers\<close>. The management cluster (the client of the reconcilers, the patch
  helper, the secrets) and the decoding of PEM data are arguments. The cloud is the manager with its cache, the workload cluster listeners
  are the mux. A reconcile answers with its error or nothing (the result is always the zero \<^verbatim>\<open>ctrl.Result\<close>).
\<close>

section \<open>Data of the management cluster\<close>

record GoofyMachine =
  gmNamespace :: string
  gmName :: string
  gmFinalizers :: "string list"
  gmDeletionTimestamp :: "gotime option"
  gmProviderID :: "string option"
  gmReady :: bool

record GoofyCluster =
  gclNamespace :: string
  gclName :: string
  gclAnnotations :: "(string, string) gomap option"
  gclFinalizers :: "string list"
  gclDeletionTimestamp :: "gotime option"
  gclHost :: string
  gclPort :: int
  gclReady :: bool

text \<open>What the reconcilers read of a Cluster and of a Machine of Cluster API.\<close>

record Cluster =
  cluNamespace :: string
  cluName :: string
  cluInfrastructureRef :: "string option"
  cluInfrastructureReady :: bool
  cluControlPlaneInitialized :: bool

record Machine =
  maNamespace :: string
  maName :: string
  maControlPlane :: bool
  maDataSecretName :: "string option"
  maInfrastructureRef :: string

definition MachineFinalizer :: string where
  "MachineFinalizer = ''goofymachine.infrastructure.cluster.x-k8s.io''"

definition ClusterFinalizer :: string where
  "ClusterFinalizer = ''goofycluster.infrastructure.cluster.x-k8s.io''"

definition KRef :: "string \<Rightarrow> string \<Rightarrow> string" where
  "KRef namespace name = (if namespace \<noteq> '''' then namespace @ ''/'' @ name else name)"

text \<open>\<^verbatim>\<open>klog.KObj(cluster).String()\<close>, the name of the resource group and of the listener.\<close>

definition KObj :: "Cluster \<Rightarrow> string" where
  "KObj cluster = KRef (cluNamespace cluster) (cluName cluster)"

text \<open>
  \<^verbatim>\<open>controllerutil.AddFinalizer\<close> and \<^verbatim>\<open>RemoveFinalizer\<close>; the objects the reconcilers add to do not
  have the finalizer yet.
\<close>

definition AddFinalizer :: "string \<Rightarrow> string list \<Rightarrow> string list" where
  "AddFinalizer f fs = (if f \<in> set fs then fs else fs @ [f])"

definition RemoveFinalizer :: "string \<Rightarrow> string list \<Rightarrow> string list" where
  "RemoveFinalizer f fs = filter (\<lambda>g. g \<noteq> f) fs"

section \<open>Objects of the cloud\<close>

text \<open>The parts of the cloud objects beside their metadata, one constructor for each Go type.\<close>

datatype cloudBody =
    CloudMachineBody
  | NodeBody string "(string \<times> string) list"
  | PodBody string "(string \<times> string) list"
  | ClusterRoleBody "(string list \<times> string list \<times> string list) list"
  | ClusterRoleBindingBody "string \<times> string \<times> string" "(string \<times> string) list"
  | ConfigMapBody
  | OtherBody string

definition bodyGVK :: "cloudBody \<Rightarrow> GroupVersionKind" where
  "bodyGVK b = (case b of
     CloudMachineBody \<Rightarrow> \<lparr>gvkGroup = ''virtual.cluster.x-k8s.io'', gvkVersion = ''v1alpha1'', gvkKind = ''CloudMachine''\<rparr>
   | NodeBody _ _ \<Rightarrow> \<lparr>gvkGroup = '''', gvkVersion = ''v1'', gvkKind = ''Node''\<rparr>
   | PodBody _ _ \<Rightarrow> \<lparr>gvkGroup = '''', gvkVersion = ''v1'', gvkKind = ''Pod''\<rparr>
   | ClusterRoleBody _ \<Rightarrow> \<lparr>gvkGroup = ''rbac.authorization.k8s.io'', gvkVersion = ''v1'', gvkKind = ''ClusterRole''\<rparr>
   | ClusterRoleBindingBody _ _ \<Rightarrow> \<lparr>gvkGroup = ''rbac.authorization.k8s.io'', gvkVersion = ''v1'', gvkKind = ''ClusterRoleBinding''\<rparr>
   | ConfigMapBody \<Rightarrow> \<lparr>gvkGroup = '''', gvkVersion = ''v1'', gvkKind = ''ConfigMap''\<rparr>
   | OtherBody k \<Rightarrow> \<lparr>gvkGroup = '''', gvkVersion = ''v1'', gvkKind = k\<rparr>)"

text \<open>A typed object as a composite literal leaves it: no kind, and no metadata but the given ones.\<close>

definition newObject :: "string \<Rightarrow> string \<Rightarrow> (string, string) gomap option \<Rightarrow> cloudBody \<Rightarrow> cloudBody object" where
  "newObject ns name labels body = \<lparr>oType = Typed, oGVK = noGVK, oNamespace = ns,
     oName = name, oLabels = labels, oAnnotations = None, oResourceVersion = '''', oCreationTimestamp = 0,
     oDeletionTimestamp = None, oFinalizers = None, oOwnerReferences = None, oBody = body\<rparr>"

definition cloudMachineObject :: "GoofyMachine \<Rightarrow> cloudBody object" where
  "cloudMachineObject gm = newObject '''' (gmName gm) None CloudMachineBody"

definition nodeObject :: "GoofyMachine \<Rightarrow> Machine \<Rightarrow> cloudBody object" where
  "nodeObject gm machine = newObject '''' (gmName gm)
     (if maControlPlane machine then Some [(''node-role.kubernetes.io/control-plane'', '''')] else None)
     (NodeBody (''goofy://'' @ gmName gm) [(''Ready'', ''True'')])"

definition controlPlanePod :: "string \<Rightarrow> (string, string) gomap option \<Rightarrow> cloudBody object" where
  "controlPlanePod name labels = newObject ''kube-system'' name labels (PodBody ''Running'' [(''Ready'', ''True'')])"

definition etcdMemberName :: "GoofyMachine \<Rightarrow> string" where
  "etcdMemberName gm = ''etcd-'' @ gmName gm"

definition apiServerName :: "GoofyMachine \<Rightarrow> string" where
  "apiServerName gm = ''kube-apiserver-'' @ gmName gm"

definition componentLabels :: "string \<Rightarrow> (string, string) gomap option" where
  "componentLabels component = Some [(''component'', component), (''tier'', ''control-plane'')]"

text \<open>What is created after the etcd pod, with the messages of the errors.\<close>

definition controlPlaneObjects :: "GoofyMachine \<Rightarrow> (string \<times> cloudBody object) list" where
  "controlPlaneObjects gm =
     [(''failed to create apiServer Pod'', controlPlanePod (apiServerName gm) (componentLabels ''kube-apiserver'')),
      (''failed to create scheduler Pod'', controlPlanePod (''kube-scheduler-'' @ gmName gm) (componentLabels ''kube-scheduler'')),
      (''failed to create controller manager Pod'',
         controlPlanePod (''kube-controller-manager-'' @ gmName gm) (componentLabels ''kube-controller-manager'')),
      (''failed to create kubeadm:get-nodes ClusterRole'',
         newObject '''' ''kubeadm:get-nodes'' None (ClusterRoleBody [([''get''], [''''], [''nodes''])])),
      (''failed to create kubeadm:get-nodes ClusterRoleBinding'',
         newObject '''' ''kubeadm:get-nodes'' None
           (ClusterRoleBindingBody (''rbac.authorization.k8s.io'', ''ClusterRole'', ''kubeadm:get-nodes'')
              [(''Group'', ''system:bootstrappers:kubeadm:default-node-token'')])),
      (''failed to create ubeadm-config ConfigMap'', newObject ''kube-system'' ''kubeadm-config'' None ConfigMapBody)]"

section \<open>The world of a reconcile\<close>

text \<open>
  The arguments for code outside the repository: the management cluster, PEM decoding (a private key that is no RSA key is
  \<open>None\<close>), the platform of the mux. The clock gives the time of each call, by its number.
\<close>

record ('c, 'k) management =
  mgGetGoofyMachine :: "NamespacedName \<Rightarrow> apiError + GoofyMachine"
  mgAddOwners :: "GoofyMachine \<Rightarrow> apiError + unit"
  mgGetOwnerMachine :: "GoofyMachine \<Rightarrow> apiError + Machine option"
  mgGetClusterFromMetadata :: "Machine \<Rightarrow> apiError + Cluster option"
  mgIsPaused :: "Cluster \<Rightarrow> GoofyMachine \<Rightarrow> bool"
  mgGetGoofyCluster :: "NamespacedName \<Rightarrow> apiError + GoofyCluster"
  mgGetOwnerCluster :: "GoofyCluster \<Rightarrow> apiError + Cluster option"
  mgListGoofyClusters :: "apiError + GoofyCluster list"
  mgListMachines :: "string \<Rightarrow> string \<Rightarrow> apiError + Machine list"
  mgNewMachineHelper :: "GoofyMachine \<Rightarrow> apiError + unit"
  mgPatchMachine :: "GoofyMachine \<Rightarrow> apiError + unit"
  mgNewClusterHelper :: "GoofyCluster \<Rightarrow> apiError + unit"
  mgPatchCluster :: "GoofyCluster \<Rightarrow> apiError + unit"
  mgSecret :: "NamespacedName \<Rightarrow> string \<Rightarrow> string + (string, string) gomap"
  mgDecodeCertPEM :: "string \<Rightarrow> string + 'c"
  mgDecodePrivateKeyPEM :: "string \<Rightarrow> string + 'k option"

record ('c, 'k, 'l) world =
  wManager :: "cloudBody manager"
  wMux :: "('c, 'k, 'l) WorkloadClustersMux"
  wCalls :: "queueCall list"

definition cloudOf :: "('c, 'k, 'l) world \<Rightarrow> cloudBody cloudState" where
  "cloudOf w = (mgrCache (wManager w), wCalls w)"

definition withCloud :: "('c, 'k, 'l) world \<Rightarrow> cloudBody cloudState \<Rightarrow> ('c, 'k, 'l) world" where
  "withCloud w s = w\<lparr>wManager := (wManager w)\<lparr>mgrCache := fst s\<rparr>, wCalls := snd s\<rparr>"

text \<open>Creates one after the other from the call with number \<open>i\<close> on.\<close>

definition timed :: "(nat \<Rightarrow> gotime) \<Rightarrow> nat \<Rightarrow> (string \<times> cloudBody object) list \<Rightarrow> (string \<times> gotime \<times> cloudBody object) list" where
  "timed clock i xs = map (\<lambda>(j, msg, obj). (msg, clock (i + j), obj)) (enumerate 0 xs)"

definition createAll ::
  "(nat \<Rightarrow> gotime) \<Rightarrow> nat \<Rightarrow> string \<Rightarrow> ('c, 'k, 'l) world \<Rightarrow> (string \<times> cloudBody object) list \<Rightarrow>
   (apiError + unit) \<times> ('c, 'k, 'l) world" where
  "createAll clock i rg w xs =
     (case ensureAll (cloudCreate rg) IsAlreadyExists (cloudOf w) (timed clock i xs) of
        (Inl (msg, e), s) \<Rightarrow> (Inl (wrapError msg e), withCloud w s)
      | (Inr _, s) \<Rightarrow> (Inr (), withCloud w s))"

section \<open>Machine reconciler\<close>

text \<open>A certificate authority of the cluster, from its secret; \<open>what\<close> names it in the errors.\<close>

definition readCA :: "('c, 'k) management \<Rightarrow> Cluster \<Rightarrow> string \<Rightarrow> string \<Rightarrow> apiError + 'c \<times> 'k" where
  "readCA mg cluster purpose what =
     (case mgSecret mg \<lparr>nnNamespace = cluNamespace cluster, nnName = cluName cluster\<rparr> purpose of
        Inl e \<Rightarrow> Inl (Wrap (''failed to get '' @ what @ '' CA'') (GoError e))
      | Inr data \<Rightarrow>
        (case mget data ''tls.crt'' of
           None \<Rightarrow> Inl (GoError (''invalid '' @ what @ '' CA: missing data for tls.crt''))
         | Some certData \<Rightarrow>
           (case mgDecodeCertPEM mg certData of
              Inl e \<Rightarrow> Inl (Wrap (''invalid '' @ what @ '' CA: invalid tls.crt'') (GoError e))
            | Inr cert \<Rightarrow>
              (case mget data ''tls.key'' of
                 None \<Rightarrow> Inl (GoError (''invalid '' @ what @ '' CA: missing data for tls.key''))
               | Some keyData \<Rightarrow>
                 (case mgDecodePrivateKeyPEM mg keyData of
                    Inl e \<Rightarrow> Inl (Wrap (''invalid '' @ what @ '' CA: invalid tls.key'') (GoError e))
                  | Inr None \<Rightarrow> Inl (Panic ''interface conversion: not an RSA key'')
                  | Inr (Some key) \<Rightarrow> Inr (cert, key))))))"

definition ensureEtcdMember ::
  "('c, 'k) management \<Rightarrow> ('c, 'k, 'l) platform \<Rightarrow> Cluster \<Rightarrow> string \<Rightarrow> string \<Rightarrow> ('c, 'k, 'l) world \<Rightarrow>
   (apiError + unit) \<times> ('c, 'k, 'l) world" where
  "ensureEtcdMember mg pl cluster resourceGroup etcdMember w =
     (if HasEtcdMember (wMux w) resourceGroup etcdMember then (Inr (), w)
      else case readCA mg cluster ''etcd'' ''etcd'' of
             Inl e \<Rightarrow> (Inl e, w)
           | Inr (cert, key) \<Rightarrow>
             (case AddEtcdMember pl (wMux w) resourceGroup etcdMember cert key of
                (Inl e, mux) \<Rightarrow> (Inl (Wrap ''failed to start etcd member'' (GoError e)), w\<lparr>wMux := mux\<rparr>)
              | (Inr _, mux) \<Rightarrow> (Inr (), w\<lparr>wMux := mux\<rparr>)))"

definition ensureAPIServer ::
  "('c, 'k) management \<Rightarrow> ('c, 'k, 'l) platform \<Rightarrow> Cluster \<Rightarrow> string \<Rightarrow> string \<Rightarrow> ('c, 'k, 'l) world \<Rightarrow>
   (apiError + unit) \<times> ('c, 'k, 'l) world" where
  "ensureAPIServer mg pl cluster resourceGroup apiServer w =
     (if HasAPIServer (wMux w) resourceGroup apiServer then (Inr (), w)
      else case readCA mg cluster ''ca'' ''cluster'' of
             Inl e \<Rightarrow> (Inl e, w)
           | Inr (cert, key) \<Rightarrow>
             (case AddAPIServer pl (wMux w) resourceGroup apiServer cert key of
                (Inl e, mux) \<Rightarrow> (Inl (Wrap ''failed to start API server'' (GoError e)), w\<lparr>wMux := mux\<rparr>)
              | (Inr _, mux) \<Rightarrow> (Inr (), w\<lparr>wMux := mux\<rparr>)))"

text \<open>
  The etcd pod: read it, and create it with its labels and annotations when it is missing. The two random numbers are arguments. The
  code formats the time of the leader annotation in the local zone of the process, which is UTC here as in a container that sets no
  zone; etcd only reads the instant back from it.
\<close>

definition ensureEtcdPod ::
  "(nat \<Rightarrow> gotime) \<Rightarrow> 32 word \<times> 32 word \<Rightarrow> string \<Rightarrow> string \<Rightarrow> ('c, 'k, 'l) world \<Rightarrow> (apiError + unit) \<times> ('c, 'k, 'l) world" where
  "ensureEtcdPod clock rnd resourceGroup etcdMember w =
     (let pod = controlPlanePod etcdMember None
      in case clGet (GetClient (GetResourceGroup (wManager w) resourceGroup)) (mgrCache (wManager w)) (ObjectKeyFromObject pod) (Some pod) of
           (Inr _, _) \<Rightarrow> (Inr (), w)
         | (Inl e, None) \<Rightarrow> (Inl (Panic ''nil object''), w)
         | (Inl e, Some pod1) \<Rightarrow>
           if \<not> IsNotFound e then (Inl (wrapError ''failed to get etcdPod Pod'' e), w)
           else createAll clock 3 resourceGroup w
                  [(''failed to create etcdPod Pod'',
                    pod1\<lparr>oLabels := componentLabels ''etcd'',
                         oAnnotations := Some [(clusterIDAnnotation, Itoa (uint (fst rnd))), (memberIDAnnotation, Itoa (uint (snd rnd))),
                                               (leaderFromAnnotation, Format_RFC3339 (clock 2))]\<rparr>)])"

definition andThen ::
  "(apiError + unit) \<times> ('c, 'k, 'l) world \<Rightarrow> (('c, 'k, 'l) world \<Rightarrow> (apiError + unit) \<times> ('c, 'k, 'l) world) \<Rightarrow>
   (apiError + unit) \<times> ('c, 'k, 'l) world" where
  "andThen r f = (case r of (Inl e, w) \<Rightarrow> (Inl e, w) | (Inr _, w) \<Rightarrow> f w)"

text \<open>The part of reconcileNormal for control plane machines.\<close>

definition reconcileControlPlane ::
  "('c, 'k) management \<Rightarrow> ('c, 'k, 'l) platform \<Rightarrow> (nat \<Rightarrow> gotime) \<Rightarrow> 32 word \<times> 32 word \<Rightarrow> Cluster \<Rightarrow> GoofyMachine \<Rightarrow>
   ('c, 'k, 'l) world \<Rightarrow> (apiError + unit) \<times> ('c, 'k, 'l) world" where
  "reconcileControlPlane mg pl clock rnd cluster gm w =
     andThen (andThen (andThen (ensureEtcdMember mg pl cluster (KObj cluster) (etcdMemberName gm) w)
       (ensureAPIServer mg pl cluster (KObj cluster) (apiServerName gm)))
       (ensureEtcdPod clock rnd (KObj cluster) (etcdMemberName gm)))
       (\<lambda>w'. createAll clock 4 (KObj cluster) w' (controlPlaneObjects gm))"

definition machineObjects :: "GoofyMachine \<Rightarrow> Machine \<Rightarrow> (string \<times> cloudBody object) list" where
  "machineObjects gm machine = [(''failed to create CloudMachine'', cloudMachineObject gm), (''failed to create Node'', nodeObject gm machine)]"

text \<open>The two waits for the bootstrap data differ in their log message only.\<close>

definition machineReconcileNormal ::
  "('c, 'k) management \<Rightarrow> ('c, 'k, 'l) platform \<Rightarrow> (nat \<Rightarrow> gotime) \<Rightarrow> 32 word \<times> 32 word \<Rightarrow> Cluster \<Rightarrow> Machine \<Rightarrow> GoofyMachine \<Rightarrow>
   ('c, 'k, 'l) world \<Rightarrow> (apiError + unit) \<times> GoofyMachine \<times> ('c, 'k, 'l) world" where
  "machineReconcileNormal mg pl clock rnd cluster machine gm w =
     (if \<not> cluInfrastructureReady cluster then (Inr (), gm, w)
      else if maDataSecretName machine = None then (Inr (), gm, w)
      else case createAll clock 0 (KObj cluster) w (machineObjects gm machine) of
             (Inl e, w1) \<Rightarrow> (Inl e, gm, w1)
           | (Inr _, w1) \<Rightarrow>
             (let gm1 = gm\<lparr>gmProviderID := Some (''goofy://'' @ gmName gm), gmReady := True\<rparr>
              in if \<not> maControlPlane machine then (Inr (), gm1, w1)
                 else case reconcileControlPlane mg pl clock rnd cluster gm w1 of (res, w2) \<Rightarrow> (res, gm1, w2)))"

definition machineReconcileDelete :: "GoofyMachine \<Rightarrow> (apiError + unit) \<times> GoofyMachine" where
  "machineReconcileDelete gm = (Inr (), gm\<lparr>gmFinalizers := RemoveFinalizer MachineFinalizer (gmFinalizers gm)\<rparr>)"

text \<open>The deferred patch: its error is the answer unless there is one already. The patched machine is part of the answer.\<close>

definition deferPatch :: "('o \<Rightarrow> apiError + unit) \<Rightarrow> (apiError + unit) \<times> 'o \<times> 'w \<Rightarrow> (apiError + unit) \<times> 'o option \<times> 'w" where
  "deferPatch patch r = (case r of (res, obj, w) \<Rightarrow>
     ((case res of Inl e \<Rightarrow> Inl e | Inr _ \<Rightarrow> patch obj), Some obj, w))"

definition machineReconcile ::
  "('c, 'k) management \<Rightarrow> ('c, 'k, 'l) platform \<Rightarrow> (nat \<Rightarrow> gotime) \<Rightarrow> 32 word \<times> 32 word \<Rightarrow> NamespacedName \<Rightarrow> ('c, 'k, 'l) world \<Rightarrow>
   (apiError + unit) \<times> GoofyMachine option \<times> ('c, 'k, 'l) world" where
  "machineReconcile mg pl clock rnd req w =
     (case mgGetGoofyMachine mg req of
        Inl e \<Rightarrow> if IsNotFound e then (Inr (), None, w) else (Inl e, None, w)
      | Inr gm \<Rightarrow>
        (case mgAddOwners mg gm of
           Inl e \<Rightarrow> (Inl e, None, w)
         | Inr _ \<Rightarrow>
           (case mgGetOwnerMachine mg gm of
              Inl e \<Rightarrow> (Inl e, None, w)
            | Inr None \<Rightarrow> (Inr (), None, w)
            | Inr (Some machine) \<Rightarrow>
              (case mgGetClusterFromMetadata mg machine of
                 Inl e \<Rightarrow> (Inl e, None, w)
               | Inr None \<Rightarrow> (Inr (), None, w)
               | Inr (Some cluster) \<Rightarrow>
                 if mgIsPaused mg cluster gm then (Inr (), None, w)
                 else (case cluInfrastructureRef cluster of
                   None \<Rightarrow> (Inl (Panic ''nil pointer dereference''), None, w)
                 | Some ref \<Rightarrow>
                   (case mgGetGoofyCluster mg \<lparr>nnNamespace = gmNamespace gm, nnName = ref\<rparr> of
                      Inl e \<Rightarrow> (Inr (), None, w)
                    | Inr _ \<Rightarrow>
                      (case mgNewMachineHelper mg gm of
                         Inl e \<Rightarrow> (Inl e, None, w)
                       | Inr _ \<Rightarrow>
                         deferPatch (mgPatchMachine mg)
                           (if MachineFinalizer \<notin> set (gmFinalizers gm)
                            then (Inr (), gm\<lparr>gmFinalizers := AddFinalizer MachineFinalizer (gmFinalizers gm)\<rparr>, w)
                            else if \<not> IsZero (gmDeletionTimestamp gm)
                            then (case machineReconcileDelete gm of (res, gm') \<Rightarrow> (res, gm', w))
                            else machineReconcileNormal mg pl clock rnd cluster machine gm w)))))))) "

definition GoofyClusterToGoofyMachines :: "('c, 'k) management \<Rightarrow> GoofyCluster \<Rightarrow> NamespacedName list" where
  "GoofyClusterToGoofyMachines mg c =
     (case mgGetOwnerCluster mg c of
        Inl e \<Rightarrow> []
      | Inr None \<Rightarrow> []
      | Inr (Some cluster) \<Rightarrow>
        (case mgListMachines mg (gclNamespace c) (cluName cluster) of
           Inl e \<Rightarrow> []
         | Inr items \<Rightarrow> map (\<lambda>m. \<lparr>nnNamespace = maNamespace m, nnName = maName m\<rparr>) (filter (\<lambda>m. maInfrastructureRef m \<noteq> '''') items)))"

section \<open>Cluster reconciler\<close>

text \<open>What HotRestart reads of a GoofyCluster.\<close>

definition infoOf :: "GoofyCluster \<Rightarrow> clusterInfo" where
  "infoOf c = \<lparr>ciName = KRef (gclNamespace c) (gclName c), ciHost = gclHost c, ciPort = gclPort c,
     ciResourceGroup = mget (case gclAnnotations c of None \<Rightarrow> [] | Some m \<Rightarrow> m) ResourceGroupAnnotationName\<rparr>"

definition reconcileHotRestart ::
  "('c, 'k) management \<Rightarrow> bool \<Rightarrow> ('c, 'k, 'l) world \<Rightarrow> (apiError + unit) \<times> bool \<times> ('c, 'k, 'l) world" where
  "reconcileHotRestart mg hotRestartDone w =
     (if hotRestartDone then (Inr (), hotRestartDone, w)
      else case mgListGoofyClusters mg of
             Inl e \<Rightarrow> (Inl e, hotRestartDone, w)
           | Inr clusters \<Rightarrow>
             (case HotRestart (wMux w) (map infoOf clusters) of
                (Inl e, mux) \<Rightarrow> (Inl (GoError e), hotRestartDone, w\<lparr>wMux := mux\<rparr>)
              | (Inr _, mux) \<Rightarrow> (Inr (), True, w\<lparr>wMux := mux\<rparr>)))"

definition clusterReconcileNormal ::
  "Cluster \<Rightarrow> GoofyCluster \<Rightarrow> ('c, 'k, 'l) world \<Rightarrow> (apiError + unit) \<times> GoofyCluster \<times> ('c, 'k, 'l) world" where
  "clusterReconcileNormal cluster gcl w =
     (case gclAnnotations gcl of
        None \<Rightarrow> (Inl (Panic ''assignment to entry in nil map''), gcl, w)
      | Some annotations \<Rightarrow>
        (let resourceGroup = KObj cluster;
             gcl1 = gcl\<lparr>gclAnnotations := Some (mput annotations ResourceGroupAnnotationName resourceGroup)\<rparr>;
             w1 = w\<lparr>wManager := managerAddResourceGroup (wManager w) resourceGroup\<rparr>
         in case InitWorkloadClusterListener (wMux w1) resourceGroup of
              (Inl e, mux) \<Rightarrow> (Inl (Wrap ''failed to init the listener for the workload cluster'' (GoError e)), gcl1, w1\<lparr>wMux := mux\<rparr>)
            | (Inr listener, mux) \<Rightarrow>
                (Inr (),
                 (if gclHost gcl1 = '''' then gcl1\<lparr>gclHost := wlHost listener, gclPort := wlPort listener\<rparr> else gcl1)\<lparr>gclReady := True\<rparr>,
                 w1\<lparr>wMux := mux\<rparr>)))"

definition clusterReconcileDelete :: "GoofyCluster \<Rightarrow> (apiError + unit) \<times> GoofyCluster" where
  "clusterReconcileDelete gcl = (Inr (), gcl\<lparr>gclFinalizers := RemoveFinalizer ClusterFinalizer (gclFinalizers gcl)\<rparr>)"

definition clusterReconcile ::
  "('c, 'k) management \<Rightarrow> NamespacedName \<Rightarrow> bool \<times> ('c, 'k, 'l) world \<Rightarrow>
   (apiError + unit) \<times> GoofyCluster option \<times> bool \<times> ('c, 'k, 'l) world" where
  "clusterReconcile mg req s =
     (case mgGetGoofyCluster mg req of
        Inl e \<Rightarrow> if IsNotFound e then (Inr (), None, s) else (Inl e, None, s)
      | Inr gcl \<Rightarrow>
        (case mgGetOwnerCluster mg gcl of
           Inl e \<Rightarrow> (Inl e, None, s)
         | Inr None \<Rightarrow> (Inr (), None, s)
         | Inr (Some cluster) \<Rightarrow>
           (case mgNewClusterHelper mg gcl of
              Inl e \<Rightarrow> (Inl e, None, s)
            | Inr _ \<Rightarrow>
              (case reconcileHotRestart mg (fst s) (snd s) of
                 (Inl e, s1) \<Rightarrow> (Inl e, None, s1)
               | (Inr _, s1) \<Rightarrow>
                 deferPatch (mgPatchCluster mg)
                   (if ClusterFinalizer \<notin> set (gclFinalizers gcl)
                    then (Inr (), gcl\<lparr>gclFinalizers := AddFinalizer ClusterFinalizer (gclFinalizers gcl)\<rparr>, s1)
                    else if \<not> IsZero (gclDeletionTimestamp gcl)
                    then (case clusterReconcileDelete gcl of (res, gcl') \<Rightarrow> (res, gcl', s1))
                    else (case clusterReconcileNormal cluster gcl (snd s1) of (res, gcl', w) \<Rightarrow> (res, gcl', fst s1, w)))))))"

end
