(* ===== verification/Goofy_Properties.thy ===== *)
theory Goofy_Properties
  imports Goofy_Controllers Mux_Properties API_Server Cache_Samples
begin

text \<open>
  What the reconcilers achieve, on top of the contract of the cloud (\<open>create_store\<close>) and the bookkeeping of the mux, and how the
  result is seen through the API server of the workload cluster.
\<close>

section \<open>Creating objects\<close>

text \<open>
  What is assumed of the scheme of the cloud: the Go types of the objects that the reconcilers create are registered with it, so that it knows
  their kinds; and a registered type converts to itself, which copies the object and clears its kind. Nothing is assumed of
  conversions between different types, nor of other types.
\<close>

definition registered :: "cloudBody object \<Rightarrow> bool" where
  "registered obj \<longleftrightarrow> oType obj = Typed \<and> (case oBody obj of OtherBody _ \<Rightarrow> False | _ \<Rightarrow> True)"

definition cloudScheme :: "cloudBody scheme \<Rightarrow> bool" where
  "cloudScheme sch \<longleftrightarrow> (\<forall>obj. registered obj \<longrightarrow> GVKForObject sch obj = Inr (bodyGVK (oBody obj)))
     \<and> (\<forall>a b. registered a \<and> registered b \<and> bodyGVK (oBody a) = bodyGVK (oBody b) \<longrightarrow> Convert sch a b = Inr (a\<lparr>oGVK := noGVK\<rparr>))"

definition groupReady :: "cloudBody scheme \<Rightarrow> string \<Rightarrow> ('c, 'k, 'l) world \<Rightarrow> bool" where
  "groupReady sch rg w \<longleftrightarrow> cScheme (mgrCache (wManager w)) = sch \<and> rg \<noteq> '''' \<and> resourceGroupTracker_of (mgrCache (wManager w)) rg \<noteq> None"

definition cloudObject :: "string \<Rightarrow> ('c, 'k, 'l) world \<Rightarrow> ownReference \<Rightarrow> cloudBody object option" where
  "cloudObject rg w = cloudLookup rg (cloudOf w)"

definition refOf :: "cloudBody object \<Rightarrow> ownReference" where
  "refOf obj = \<lparr>refGVK = bodyGVK (oBody obj), refKey = ObjectKeyFromObject obj\<rparr>"

definition plain :: "cloudBody object \<Rightarrow> bool" where
  "plain obj \<longleftrightarrow> registered obj \<and> oOwnerReferences obj = None"

lemma newObject_simps [simp]:
  "plain (newObject ns n ls b) \<longleftrightarrow> (case b of OtherBody _ \<Rightarrow> False | _ \<Rightarrow> True)" "refOf (newObject ns n ls b) = \<lparr>refGVK = bodyGVK b, refKey = \<lparr>nnNamespace = ns, nnName = n\<rparr>\<rparr>"
  by (simp_all add: newObject_def plain_def registered_def refOf_def ObjectKeyFromObject_def)

lemma groupReady_valid:
  "cloudScheme sch \<Longrightarrow> plain obj \<Longrightarrow> cloudValid sch rg (cloudOf w) (now, obj) \<longleftrightarrow> groupReady sch rg w"
  by (auto simp: cloudScheme_def plain_def cloudValid_def groupReady_def cloudOf_def)

lemma cloudKey_refOf: "cloudScheme sch \<Longrightarrow> plain obj \<Longrightarrow> cloudKey sch (now, obj) = refOf obj"
  by (simp add: cloudScheme_def plain_def cloudKey_def kindOf_def refOf_def)

lemma cloudOf_withCloud [simp]: "cloudOf (withCloud w s) = s" "wMux (withCloud w s) = wMux w"
  by (simp_all add: cloudOf_def withCloud_def)

lemma timed_objects: "snd ` snd ` set (timed clock i xs) = snd ` set xs" "x \<in> snd ` set (timed clock i xs) \<Longrightarrow> snd x \<in> snd ` set xs"
proof -
  have "map (snd \<circ> snd) (timed clock i xs) = map snd xs"
    by (simp add: timed_def comp_def case_prod_beta flip: map_map [of snd snd, unfolded comp_def])
  then show "snd ` snd ` set (timed clock i xs) = snd ` set xs" by (metis image_comp list.set_map)
  then show "x \<in> snd ` set (timed clock i xs) \<Longrightarrow> snd x \<in> snd ` set xs" by blast
qed

lemma createAll_ok:
  assumes "cloudScheme sch" "groupReady sch rg w" "\<forall>obj \<in> snd ` set xs. plain obj"
  shows "\<exists>w'. createAll clock i rg w xs = (Inr (), w') \<and> wMux w' = wMux w \<and> groupReady sch rg w'
     \<and> cloudObject rg w \<subseteq>\<^sub>m cloudObject rg w' \<and> dom (cloudObject rg w') = dom (cloudObject rg w) \<union> refOf ` snd ` set xs
     \<and> (\<forall>r v. cloudObject rg w' r = Some v \<longrightarrow> cloudObject rg w r = Some v
            \<or> (\<exists>obj \<in> snd ` set xs. \<exists>now. r = refOf obj \<and> v = cloudStored sch (now, obj)))"
proof -
  let ?xs = "timed clock i xs"
  have plains: "\<forall>x \<in> snd ` set ?xs. plain (snd x)" using assms(3) timed_objects(2) by blast
  have valid: "\<forall>x \<in> snd ` set ?xs. cloudValid sch rg (cloudOf w) x"
    using plains assms(2) groupReady_valid [OF assms(1)] by (metis prod.collapse)
  obtain s' where s': "ensureAll (cloudCreate rg) IsAlreadyExists (cloudOf w) ?xs = (Inr (), s')"
      "cloudLookup rg (cloudOf w) \<subseteq>\<^sub>m cloudLookup rg s'"
      "dom (cloudLookup rg s') = dom (cloudLookup rg (cloudOf w)) \<union> cloudKey sch ` snd ` set ?xs"
      "\<forall>k v. cloudLookup rg s' k = Some v \<longrightarrow> cloudLookup rg (cloudOf w) k = Some v
         \<or> (\<exists>x \<in> snd ` set ?xs. cloudKey sch x = k \<and> v = cloudStored sch x)"
      "\<forall>y. cloudValid sch rg (cloudOf w) y \<longrightarrow> cloudValid sch rg s' y"
    using cloud.ensureAll_ok [OF valid] by blast
  have keys: "cloudKey sch x = refOf (snd x)" if "x \<in> snd ` set ?xs" for x
    using cloudKey_refOf [OF assms(1), of "snd x" "fst x"] plains that by simp
  then have "cloudKey sch ` snd ` set ?xs = refOf ` snd ` snd ` set ?xs" by (simp add: image_image)
  then have dom: "dom (cloudLookup rg s') = dom (cloudLookup rg (cloudOf w)) \<union> refOf ` snd ` set xs"
    using s'(3) timed_objects(1) by metis
  have ready: "groupReady sch rg (withCloud w s')"
    using s'(5) groupReady_valid [OF assms(1), of "newObject '''' '''' None ConfigMapBody"] assms(2) by fastforce
  have new: "cloudLookup rg (cloudOf w) k = Some v \<or> (\<exists>obj \<in> snd ` set xs. \<exists>now. k = refOf obj \<and> v = cloudStored sch (now, obj))"
    if "cloudLookup rg s' k = Some v" for k v
    using s'(4) that keys timed_objects(2) by (metis prod.collapse)
  show ?thesis
    by (rule exI [of _ "withCloud w s'"]) (use s'(1,2) dom ready new in \<open>simp add: createAll_def cloudObject_def\<close>)
qed

lemma createAll_taken:
  assumes "cloudScheme sch" "groupReady sch rg w" "\<forall>obj \<in> snd ` set xs. plain obj \<and> cloudObject rg w (refOf obj) \<noteq> None"
  shows "\<exists>w'. createAll clock i rg w xs = (Inr (), w') \<and> wMux w' = wMux w \<and> groupReady sch rg w' \<and> cloudObject rg w' = cloudObject rg w"
proof -
  obtain w' where w': "createAll clock i rg w xs = (Inr (), w')" "wMux w' = wMux w" "groupReady sch rg w'"
      "cloudObject rg w \<subseteq>\<^sub>m cloudObject rg w'" "dom (cloudObject rg w') = dom (cloudObject rg w) \<union> refOf ` snd ` set xs"
    using createAll_ok [OF assms(1,2)] assms(3) by metis
  have "dom (cloudObject rg w') = dom (cloudObject rg w)" using w'(5) assms(3) by auto
  then have "cloudObject rg w' = cloudObject rg w" using w'(4) by (metis map_le_antisym map_le_def)
  with w' show ?thesis by blast
qed

section \<open>The mux\<close>

lemma AddEtcdMember_has: "AddEtcdMember pl m rg pod cert key = (Inr (), m') \<Longrightarrow> HasEtcdMember m' rg pod"
  by (erule AddEtcdMember_cases) (auto simp: HasEtcdMember_def putListener_def)

lemma AddAPIServer_has:
  assumes "AddAPIServer pl m rg pod cert key = (Inr (), m')"
  shows "HasAPIServer m' rg pod \<and> (HasEtcdMember m rg p \<longrightarrow> HasEtcdMember m' rg p)"
  using assms by (cases rule: AddAPIServer_cases) (auto simp: HasAPIServer_def HasEtcdMember_def putListener_def)

lemma ensureEtcdMember_ok:
  assumes "ensureEtcdMember mg pl cluster rg pod w = (Inr (), w')"
  shows "HasEtcdMember (wMux w') rg pod \<and> wManager w' = wManager w \<and> wCalls w' = wCalls w"
  using assms by (auto simp: ensureEtcdMember_def AddEtcdMember_has split: if_splits sum.splits prod.splits)

lemma ensureAPIServer_ok:
  assumes "ensureAPIServer mg pl cluster rg pod w = (Inr (), w')"
  shows "HasAPIServer (wMux w') rg pod \<and> (HasEtcdMember (wMux w) rg p \<longrightarrow> HasEtcdMember (wMux w') rg p)
     \<and> wManager w' = wManager w \<and> wCalls w' = wCalls w"
  using assms by (auto simp: ensureAPIServer_def dest: AddAPIServer_has split: if_splits sum.splits prod.splits)

lemma andThen_ok: "andThen r f = (Inr (), w') \<longleftrightarrow> (\<exists>w. r = (Inr (), w) \<and> f w = (Inr (), w'))"
  by (auto simp: andThen_def split: prod.splits sum.splits)

section \<open>The etcd pod\<close>

text \<open>What is stored where an object goes, if anything is, can be read into an object of its type.\<close>

definition readable :: "cloudBody scheme \<Rightarrow> string \<Rightarrow> ('c, 'k, 'l) world \<Rightarrow> cloudBody object \<Rightarrow> bool" where
  "readable sch rg w obj \<longleftrightarrow>
     (\<forall>v. cloudObject rg w (refOf obj) = Some v \<longrightarrow> (\<exists>o'. Convert sch v (obj\<lparr>oGVK := bodyGVK (oBody obj)\<rparr>) = Inr o'))"

text \<open>Objects that were stored by a reconcile can be read.\<close>

lemma readable_stored:
  assumes "cloudScheme sch" "plain obj" "readable sch rg w obj" "\<forall>x\<in>X. plain x"
    and "\<And>r v. cloudObject rg w' r = Some v \<Longrightarrow> cloudObject rg w r = Some v
      \<or> (\<exists>x\<in>X. \<exists>now. r = refOf x \<and> v = cloudStored sch (now, x))"
  shows "readable sch rg w' obj"
  unfolding readable_def
proof (intro allI impI)
  fix v assume v: "cloudObject rg w' (refOf obj) = Some v"
  have "\<exists>o'. Convert sch (cloudStored sch (now, x)) (obj\<lparr>oGVK := bodyGVK (oBody obj)\<rparr>) = Inr o'"
    if "plain x" "refOf obj = refOf x" for x now
    using assms(1,2) that by (simp add: cloudScheme_def plain_def refOf_def cloudStored_def registered_def)
  with assms(3,4) assms(5) [OF v] show "\<exists>o'. Convert sch v (obj\<lparr>oGVK := bodyGVK (oBody obj)\<rparr>) = Inr o'"
    unfolding readable_def by blast
qed

lemma Get_cloudObject:
  assumes "cloudScheme sch" "groupReady sch rg w" "plain obj" "oName obj \<noteq> ''''"
    and readable: "readable sch rg w obj"
  shows "case cloudObject rg w (refOf obj) of
      Some _ \<Rightarrow> (\<exists>o'. Get (mgrCache (wManager w)) rg (ObjectKeyFromObject obj) (Some obj) = (Inr (), o'))
    | None \<Rightarrow> (\<exists>e. Get (mgrCache (wManager w)) rg (ObjectKeyFromObject obj) (Some obj) =
          (Inl e, Some (obj\<lparr>oGVK := bodyGVK (oBody obj)\<rparr>)) \<and> IsNotFound e)"
proof -
  obtain t where t: "resourceGroupTracker_of (mgrCache (wManager w)) rg = Some t" "cScheme (mgrCache (wManager w)) = sch" "rg \<noteq> ''''"
    using assms(2) by (auto simp: groupReady_def)
  have g: "GVKForObject sch obj = Inr (bodyGVK (oBody obj))" using assms(1,3) by (simp add: cloudScheme_def plain_def)

  have look: "cloudObject rg w (refOf obj) = getObject t (bodyGVK (oBody obj)) (ObjectKeyFromObject obj)"
    using t by (simp add: cloudObject_def cloudLookup_def cloudOf_def refOf_def)
  show ?thesis
  proof (cases "getObject t (bodyGVK (oBody obj)) (ObjectKeyFromObject obj)")
    case None
    then show ?thesis
      using t g assms(4) look
      by (auto simp: Get_def gvkGetAndSet_def getObject_def  split: option.splits)
  next
    case (Some a)
    obtain c where "Convert sch a (obj\<lparr>oGVK := bodyGVK (oBody obj)\<rparr>) = Inr c"
      using readable look Some by (auto simp: readable_def)
    with Some show ?thesis
      using t g assms(4) look by (auto simp: Get_def gvkGetAndSet_def getObject_def split: option.splits)
  qed
qed

definition etcdPodRef :: "GoofyMachine \<Rightarrow> ownReference" where
  "etcdPodRef gm = refOf (controlPlanePod (etcdMemberName gm) None)"

text \<open>The pod that is created for a new member.\<close>

definition etcdPodObject :: "GoofyMachine \<Rightarrow> 32 word \<times> 32 word \<Rightarrow> gotime \<Rightarrow> cloudBody object" where
  "etcdPodObject gm rnd from = (let pod = controlPlanePod (etcdMemberName gm) None in
     pod\<lparr>oGVK := bodyGVK (oBody pod), oLabels := componentLabels ''etcd'',
         oAnnotations := Some [(clusterIDAnnotation, Itoa (uint (fst rnd))), (memberIDAnnotation, Itoa (uint (snd rnd))),
                               (leaderFromAnnotation, Format_RFC3339 from)]\<rparr>)"

text \<open>The etcd pod of a machine can be read, if it exists.\<close>

abbreviation podReadable :: "cloudBody scheme \<Rightarrow> string \<Rightarrow> GoofyMachine \<Rightarrow> ('c, 'k, 'l) world \<Rightarrow> bool" where
  "podReadable sch rg gm w \<equiv> readable sch rg w (controlPlanePod (etcdMemberName gm) None)"

lemma etcdPod_plain: "plain (controlPlanePod (etcdMemberName gm) None)" "oName (controlPlanePod (etcdMemberName gm) None) \<noteq> ''''"
  by (simp_all add: controlPlanePod_def etcdMemberName_def newObject_def plain_def registered_def)

lemma etcdPodObject_plain: "plain (etcdPodObject gm rnd from)" "refOf (etcdPodObject gm rnd from) = etcdPodRef gm"
  using etcdPod_plain by (simp_all add: plain_def registered_def etcdPodRef_def refOf_def ObjectKeyFromObject_def etcdPodObject_def Let_def)

text \<open>A reconcile that gets past the etcd pod has read it or found none.\<close>

lemma ensureEtcdPod_readable:
  assumes "cloudScheme sch" "groupReady sch rg w" "ensureEtcdPod clock rnd rg (etcdMemberName gm) w = (Inr (), w')"
  shows "podReadable sch rg gm w"
proof (rule ccontr)
  let ?pod = "controlPlanePod (etcdMemberName gm) None"
  assume "\<not> podReadable sch rg gm w"
  then obtain v where v: "cloudObject rg w (refOf ?pod) = Some v" "\<forall>o'. Convert sch v (?pod\<lparr>oGVK := bodyGVK (oBody ?pod)\<rparr>) \<noteq> Inr o'"
    by (auto simp: readable_def)
  then obtain e where e: "Convert sch v (?pod\<lparr>oGVK := bodyGVK (oBody ?pod)\<rparr>) = Inl e"
    by (metis sum.exhaust)
  have "GVKForObject sch ?pod = Inr (bodyGVK (oBody ?pod))" using assms(1) etcdPod_plain(1) by (simp add: cloudScheme_def plain_def)
  then have "Get (mgrCache (wManager w)) rg (ObjectKeyFromObject ?pod) (Some ?pod) = (Inl (InternalError e), Some (?pod\<lparr>oGVK := bodyGVK (oBody ?pod)\<rparr>))"
    using assms(2) v(1) e etcdPod_plain(2)
    by (auto simp: Get_def gvkGetAndSet_def groupReady_def cloudObject_def cloudLookup_def cloudOf_def getObject_def refOf_def
        split: option.splits)
  with assms(3) show False
    by (simp add: ensureEtcdPod_def GetClient_def GetResourceGroup_def NewResourceGroup_def Let_def)
qed

lemma ensureEtcdPod_ok:
  assumes "cloudScheme sch" "groupReady sch rg w" "podReadable sch rg gm w"
  shows "\<exists>w'. ensureEtcdPod clock rnd rg (etcdMemberName gm) w = (Inr (), w') \<and> wMux w' = wMux w \<and> groupReady sch rg w'
     \<and> cloudObject rg w \<subseteq>\<^sub>m cloudObject rg w' \<and> dom (cloudObject rg w') = insert (etcdPodRef gm) (dom (cloudObject rg w))
     \<and> (cloudObject rg w (etcdPodRef gm) \<noteq> None \<longrightarrow> w' = w)
     \<and> (\<forall>r v. cloudObject rg w' r = Some v \<longrightarrow> cloudObject rg w r = Some v
          \<or> r = etcdPodRef gm \<and> (\<exists>now. v = cloudStored sch (now, etcdPodObject gm rnd (clock 2))))"
proof -
  have get: "clGet (GetClient (GetResourceGroup (wManager w) rg)) = (\<lambda>c. Get c rg)"
    by (simp add: GetClient_def GetResourceGroup_def NewResourceGroup_def)
  note look = Get_cloudObject [OF assms(1,2) etcdPod_plain assms(3), folded etcdPodRef_def]
  show ?thesis
  proof (cases "cloudObject rg w (etcdPodRef gm)")
    case (Some a)
    with look assms(2) show ?thesis
      by (intro exI [of _ w]) (auto simp: ensureEtcdPod_def get)
  next
    case None
    let ?new = "etcdPodObject gm rnd (clock 2)"
    have "ensureEtcdPod clock rnd rg (etcdMemberName gm) w = createAll clock 3 rg w [(''failed to create etcdPod Pod'', ?new)]"
      using look None by (auto simp: ensureEtcdPod_def get Let_def etcdPodObject_def)
    then show ?thesis
      using createAll_ok [OF assms(1,2), of "[(''failed to create etcdPod Pod'', ?new)]" clock 3] etcdPodObject_plain None by auto
  qed
qed

section \<open>Machines\<close>

text \<open>The objects a machine stands for in the cloud.\<close>

definition machineRefs :: "GoofyMachine \<Rightarrow> Machine \<Rightarrow> ownReference set" where
  "machineRefs gm machine = refOf ` snd ` set (machineObjects gm machine)
     \<union> (if maControlPlane machine then insert (etcdPodRef gm) (refOf ` snd ` set (controlPlaneObjects gm)) else {})"

lemma machineObjects_plain: "\<forall>obj \<in> snd ` set (machineObjects gm machine). plain obj"
  by (simp add: machineObjects_def cloudMachineObject_def nodeObject_def)

lemma controlPlaneObjects_plain: "\<forall>obj \<in> snd ` set (controlPlaneObjects gm). plain obj"
  by (simp add: controlPlaneObjects_def controlPlanePod_def)

lemma groupReady_cong: "wManager w' = wManager w \<Longrightarrow> groupReady sch rg w' = groupReady sch rg w"
  by (simp add: groupReady_def)

lemma cloudObject_cong: "wManager w' = wManager w \<Longrightarrow> cloudObject rg w' = cloudObject rg w"
  by (simp add: cloudObject_def cloudLookup_def cloudOf_def fun_eq_iff)

lemma machineObjects_taken:
  assumes "cloudScheme sch" "groupReady sch rg u" "refOf ` snd ` set (machineObjects gm machine) \<subseteq> dom (cloudObject rg u)"
  shows "\<exists>v. createAll clock 0 rg u (machineObjects gm machine) = (Inr (), v) \<and> wMux v = wMux u \<and> groupReady sch rg v
     \<and> cloudObject rg v = cloudObject rg u"
  using createAll_taken [OF assms(1,2)] machineObjects_plain assms(3) by blast

lemma reconcileControlPlane_ok:
  assumes "cloudScheme sch" "groupReady sch (KObj cluster) w" "reconcileControlPlane mg pl clock rnd cluster gm w = (Inr (), w')"
  shows "groupReady sch (KObj cluster) w' \<and> HasEtcdMember (wMux w') (KObj cluster) (etcdMemberName gm)
     \<and> HasAPIServer (wMux w') (KObj cluster) (apiServerName gm)
     \<and> cloudObject (KObj cluster) w \<subseteq>\<^sub>m cloudObject (KObj cluster) w'
     \<and> dom (cloudObject (KObj cluster) w') =
         dom (cloudObject (KObj cluster) w) \<union> insert (etcdPodRef gm) (refOf ` snd ` set (controlPlaneObjects gm))
     \<and> podReadable sch (KObj cluster) gm w'"
proof -
  let ?rg = "KObj cluster"
  obtain w1 w2 w3 where r: "ensureEtcdMember mg pl cluster ?rg (etcdMemberName gm) w = (Inr (), w1)"
      "ensureAPIServer mg pl cluster ?rg (apiServerName gm) w1 = (Inr (), w2)"
      "ensureEtcdPod clock rnd ?rg (etcdMemberName gm) w2 = (Inr (), w3)"
      "createAll clock 4 ?rg w3 (controlPlaneObjects gm) = (Inr (), w')"
    using assms(3) by (auto simp: reconcileControlPlane_def andThen_ok)
  note e = ensureEtcdMember_ok [OF r(1)] and a = ensureAPIServer_ok [OF r(2), of "etcdMemberName gm"]
  have same: "wManager w2 = wManager w" using e a by simp
  then have r2: "groupReady sch ?rg w2" "cloudObject ?rg w2 = cloudObject ?rg w"
    using assms(2) groupReady_cong cloudObject_cong by metis+
  note readable = ensureEtcdPod_readable [OF assms(1) r2(1) r(3)]
  have p: "wMux w3 = wMux w2" "groupReady sch ?rg w3" "cloudObject ?rg w2 \<subseteq>\<^sub>m cloudObject ?rg w3"
      "dom (cloudObject ?rg w3) = insert (etcdPodRef gm) (dom (cloudObject ?rg w2))"
      "\<And>x v. cloudObject ?rg w3 x = Some v \<Longrightarrow> cloudObject ?rg w2 x = Some v
          \<or> x = etcdPodRef gm \<and> (\<exists>now. v = cloudStored sch (now, etcdPodObject gm rnd (clock 2)))"
    using ensureEtcdPod_ok [OF assms(1) r2(1) readable, of clock rnd] r(3) by auto
  have c: "wMux w' = wMux w3" "groupReady sch ?rg w'" "cloudObject ?rg w3 \<subseteq>\<^sub>m cloudObject ?rg w'"
      "dom (cloudObject ?rg w') = dom (cloudObject ?rg w3) \<union> refOf ` snd ` set (controlPlaneObjects gm)"
      "\<And>x v. cloudObject ?rg w' x = Some v \<Longrightarrow> cloudObject ?rg w3 x = Some v
          \<or> (\<exists>obj \<in> snd ` set (controlPlaneObjects gm). \<exists>now. x = refOf obj \<and> v = cloudStored sch (now, obj))"
    using createAll_ok [OF assms(1) p(2) controlPlaneObjects_plain, of clock 4 gm] r(4) by auto
  have "podReadable sch ?rg gm w3"
    by (rule readable_stored [OF assms(1) etcdPod_plain(1) readable, of "{etcdPodObject gm rnd (clock 2)}"])
      (use p(5) etcdPodObject_plain in auto)
  from readable_stored [OF assms(1) etcdPod_plain(1) this controlPlaneObjects_plain c(5)] show ?thesis
    using e a p c r2(2) map_le_trans [OF p(3) c(3)] by auto
qed

lemma reconcileControlPlane_again:
  assumes "cloudScheme sch" "groupReady sch (KObj cluster) w" "HasEtcdMember (wMux w) (KObj cluster) (etcdMemberName gm)"
    and "HasAPIServer (wMux w) (KObj cluster) (apiServerName gm)" "podReadable sch (KObj cluster) gm w"
    and "insert (etcdPodRef gm) (refOf ` snd ` set (controlPlaneObjects gm)) \<subseteq> dom (cloudObject (KObj cluster) w)"
  shows "\<exists>w'. reconcileControlPlane mg pl clock rnd cluster gm w = (Inr (), w') \<and> wMux w' = wMux w
     \<and> cloudObject (KObj cluster) w' = cloudObject (KObj cluster) w"
proof -
  have pod: "ensureEtcdPod clock rnd (KObj cluster) (etcdMemberName gm) w = (Inr (), w)"
    using ensureEtcdPod_ok [OF assms(1,2,5), of clock rnd] assms(6) by auto
  have "\<forall>obj \<in> snd ` set (controlPlaneObjects gm). plain obj \<and> cloudObject (KObj cluster) w (refOf obj) \<noteq> None"
    using controlPlaneObjects_plain assms(6) by blast
  from createAll_taken [OF assms(1,2) this, of clock 4]
  show ?thesis
    using assms(3,4) pod by (auto simp: reconcileControlPlane_def ensureEtcdMember_def ensureAPIServer_def andThen_def)
qed

text \<open>The objects and members of a machine go by its name: the fields that a reconciliation sets do not matter to them.\<close>

lemma machine_names_ready:
  "machineObjects (gm\<lparr>gmProviderID := p, gmReady := b\<rparr>) machine = machineObjects gm machine"
  "controlPlaneObjects (gm\<lparr>gmProviderID := p, gmReady := b\<rparr>) = controlPlaneObjects gm"
  "etcdPodRef (gm\<lparr>gmProviderID := p, gmReady := b\<rparr>) = etcdPodRef gm"
  "etcdMemberName (gm\<lparr>gmProviderID := p, gmReady := b\<rparr>) = etcdMemberName gm"
  "apiServerName (gm\<lparr>gmProviderID := p, gmReady := b\<rparr>) = apiServerName gm"
  by (simp_all add: machineObjects_def cloudMachineObject_def nodeObject_def controlPlaneObjects_def etcdPodRef_def
      etcdMemberName_def apiServerName_def)


text \<open>A scheme that knows the kinds of the cloud, and a world with one cluster.\<close>

definition sampleConvert :: "cloudBody object \<Rightarrow> cloudBody object \<Rightarrow> string + cloudBody object" where
  "sampleConvert a b =
     (case (oType a, oType b) of
        (Unstructured, Unstructured) \<Rightarrow> Inr a
      | (Typed, Unstructured) \<Rightarrow> Inr (a\<lparr>oType := Unstructured, oGVK := bodyGVK (oBody a)\<rparr>)
      | (_, Typed) \<Rightarrow> if bodyGVK (oBody a) = bodyGVK (oBody b) then Inr (a\<lparr>oType := Typed, oGVK := noGVK\<rparr>) else Inl ''unknown conversion'')"

definition sampleCloudScheme :: "cloudBody scheme" where
  "sampleCloudScheme = \<lparr>GVKForObject = (\<lambda>obj. Inr (case oType obj of Typed \<Rightarrow> bodyGVK (oBody obj) | Unstructured \<Rightarrow> oGVK obj)),
     GVKForList = (\<lambda>l. Inr (lGVK l)), Convert = sampleConvert,
     SetList = (\<lambda>l items. if lType l = Typed \<and> (\<exists>x\<in>set items. lGVK l \<noteq> (bodyGVK (oBody x))\<lparr>gvkKind := gvkKind (bodyGVK (oBody x)) @ ''List''\<rparr>)
        then Inl ''item of another type'' else Inr (l\<lparr>lItems := items\<rparr>)),
     ParseGroupVersion = sampleParse, JSONSerializerInfo = True,
     Encode = (\<lambda>gv obj. Inr ''''), MergePatch = (\<lambda>js patch. Inr patch), DecodeInto = (\<lambda>js obj. Inr obj)\<rparr>"

definition sampleCluster :: Cluster where
  "sampleCluster = \<lparr>cluNamespace = ''default'', cluName = ''c1'', cluInfrastructureRef = Some ''c1'', cluInfrastructureReady = True,
     cluControlPlaneInitialized = True\<rparr>"

definition sampleGoofyCluster :: GoofyCluster where
  "sampleGoofyCluster = \<lparr>gclNamespace = ''default'', gclName = ''c1'', gclAnnotations = Some [], gclFinalizers = [ClusterFinalizer],
     gclDeletionTimestamp = None, gclHost = '''', gclPort = 0, gclReady = False\<rparr>"

definition sampleMachine :: Machine where
  "sampleMachine = \<lparr>maNamespace = ''default'', maName = ''m1'', maControlPlane = True, maDataSecretName = Some ''data'',
     maInfrastructureRef = ''gm1''\<rparr>"

definition sampleGoofyMachine :: GoofyMachine where
  "sampleGoofyMachine = \<lparr>gmNamespace = ''default'', gmName = ''gm1'', gmFinalizers = [MachineFinalizer], gmDeletionTimestamp = None,
     gmProviderID = None, gmReady = False\<rparr>"

definition newWorld :: "(string, string, string) world" where
  "newWorld = \<lparr>wManager = managerNew sampleCloudScheme, wMux = NewWorkloadClustersMux ''10.0.0.1'', wCalls = []\<rparr>"

definition clusterWorld :: "(string, string, string) world" where
  "clusterWorld = snd (snd (clusterReconcileNormal sampleCluster sampleGoofyCluster newWorld))"

lemma sampleCloudScheme_ok: "cloudScheme sampleCloudScheme"
  by (simp add: cloudScheme_def sampleCloudScheme_def sampleConvert_def registered_def)

lemma clusterWorld_ready: "groupReady sampleCloudScheme (KObj sampleCluster) clusterWorld"
  by (simp add: groupReady_def clusterWorld_def clusterReconcileNormal_def sampleGoofyCluster_def Let_def newWorld_def KObj_def KRef_def
      sampleCluster_def InitWorkloadClusterListener_def NewWorkloadClustersMux_def getFreePortLocked_def minPort_def maxPort_def
      initWorkloadClusterListenerWithPortLocked_def managerAddResourceGroup_def managerNew_def NewCache_def AddResourceGroup_def
      resourceGroupTracker_of_def)

text \<open>
  A certificate authority with which the platform issues certificates: a private key can be made, a certificate is signed for every
  configuration with a common name and a usage, and it makes a key pair with that key. A host on which a listener starts.
\<close>

definition issues :: "('c, 'k, 'l) platform \<Rightarrow> 'c \<times> 'k \<Rightarrow> bool" where
  "issues pl ca \<longleftrightarrow> (\<exists>key. plNewPrivateKey pl = Inr key \<and>
     (\<forall>config. ccCommonName config \<noteq> '''' \<and> ccUsages config \<noteq> [] \<longrightarrow>
        (\<exists>cert l. plNewSignedCert pl config key (fst ca) (snd ca) = Inr cert \<and> plX509KeyPair pl cert key = Inr l)))"

definition listens :: "('c, 'k, 'l) platform \<Rightarrow> string \<Rightarrow> bool" where
  "listens pl host \<longleftrightarrow> plListen pl host = None \<and> plServe pl host = None"

lemma issues_newCertAndKey:
  assumes "issues pl (cert, key)" "ccCommonName config \<noteq> ''''" "ccUsages config \<noteq> []"
  shows "\<exists>c k l. newCertAndKey pl cert key config = Inr (c, k) \<and> plX509KeyPair pl c k = Inr l"
  using assms by (fastforce simp: issues_def newCertAndKey_def)

lemma AddEtcdMember_succeeds:
  assumes "issues pl (cert, key)" "pod \<noteq> ''''" "mget (workloadClusterListeners m) rg = Some wcl"
  shows "\<exists>m' wcl'. AddEtcdMember pl m rg pod cert key = (Inr (), m') \<and> mget (workloadClusterListeners m') rg = Some wcl'
    \<and> HostPort wcl' = HostPort wcl"
proof -
  have "\<exists>w'. ensureEtcdCertificate pl pod cert key u = (None, w') \<and> HostPort w' = HostPort u" for u
    using issues_newCertAndKey [OF assms(1), of "etcdServerCertificateConfig pod (wlHost u)"] assms(2)
    by (fastforce simp: ensureEtcdCertificate_def etcdServerCertificateConfig_def HostPort_def split: option.splits)
  then obtain g where "\<And>u. ensureEtcdCertificate pl pod cert key u = (None, g u)" "\<And>u. HostPort (g u) = HostPort u" by metis
  then show ?thesis using assms(3) by (simp add: AddEtcdMember_def Let_def putListener_def) (simp add: HostPort_def)
qed

lemma AddAPIServer_succeeds:
  assumes "issues pl (cert, key)" "mget (workloadClusterListeners m) rg = Some wcl" "listens pl (HostPort wcl)"
  shows "\<exists>m'. AddAPIServer pl m rg pod cert key = (Inr (), m')"
proof -
  have 1: "\<exists>w'. ensureServingCertificate pl pod cert key u = (None, w') \<and> HostPort w' = HostPort u" for u
    using issues_newCertAndKey [OF assms(1), of "apiServerCertificateConfig (wlHost u)"]
    by (fastforce simp: ensureServingCertificate_def apiServerCertificateConfig_def HostPort_def split: option.splits)
  have 2: "\<exists>w'. ensureAdminCertificate pl pod cert key u = (None, w') \<and> HostPort w' = HostPort u" for u
    using issues_newCertAndKey [OF assms(1), of adminClientCertificateConfig]
    by (fastforce simp: ensureAdminCertificate_def adminClientCertificateConfig_def HostPort_def split: option.splits)
  have 3: "\<exists>w'. ensureListener pl rg u = (None, w')" if "HostPort u = HostPort wcl" for u
    using assms(3) that by (auto simp: ensureListener_def listens_def)
  let ?w1 = "wcl\<lparr>apiServers := set_insert pod (apiServers wcl), apiServerCaCertificate := Some cert, apiServerCaKey := Some key\<rparr>"
  obtain w2 where w2: "ensureServingCertificate pl pod cert key ?w1 = (None, w2)" "HostPort w2 = HostPort ?w1" using 1 by blast
  obtain w3 where w3: "ensureAdminCertificate pl pod cert key w2 = (None, w3)" "HostPort w3 = HostPort w2" using 2 by blast
  obtain w4 where "ensureListener pl rg w3 = (None, w4)" using 3 [of w3] w2(2) w3(2) by (auto simp: HostPort_def)
  with assms(2) w2(1) w3(1) show ?thesis by (simp add: AddAPIServer_def Let_def)
qed

lemma ensureEtcdMember_succeeds:
  assumes "issues pl ca" "readCA mg cluster ''etcd'' ''etcd'' = Inr ca" "pod \<noteq> ''''"
    and "mget (workloadClusterListeners (wMux v)) rg = Some wcl"
  shows "\<exists>w1 wcl'. ensureEtcdMember mg pl cluster rg pod v = (Inr (), w1) \<and> wManager w1 = wManager v
     \<and> mget (workloadClusterListeners (wMux w1)) rg = Some wcl' \<and> HostPort wcl' = HostPort wcl"
proof -
  obtain cert key where ca: "ca = (cert, key)" by (cases ca)
  obtain m' wcl' where "AddEtcdMember pl (wMux v) rg pod cert key = (Inr (), m')" "mget (workloadClusterListeners m') rg = Some wcl'"
      "HostPort wcl' = HostPort wcl"
    using AddEtcdMember_succeeds [OF assms(1) [unfolded ca] assms(3,4)] by blast
  then show ?thesis using assms(2,4) ca by (simp add: ensureEtcdMember_def)
qed

lemma ensureAPIServer_succeeds:
  assumes "issues pl ca" "readCA mg cluster ''ca'' ''cluster'' = Inr ca"
    and "mget (workloadClusterListeners (wMux v)) rg = Some wcl" "listens pl (HostPort wcl)"
  shows "\<exists>w1. ensureAPIServer mg pl cluster rg pod v = (Inr (), w1) \<and> wManager w1 = wManager v"
proof -
  obtain cert key where ca: "ca = (cert, key)" by (cases ca)
  obtain m' where "AddAPIServer pl (wMux v) rg pod cert key = (Inr (), m')"
    using AddAPIServer_succeeds [OF assms(1) [unfolded ca] assms(3,4)] by blast
  then show ?thesis using assms(2) ca by (simp add: ensureAPIServer_def)
qed

lemma reconcile_succeeds:
  assumes "cloudScheme sch" "groupReady sch (KObj cluster) w" "podReadable sch (KObj cluster) gm w"
    and "mget (workloadClusterListeners (wMux w)) (KObj cluster) = Some wcl" "listens pl (HostPort wcl)"
    and "readCA mg cluster ''etcd'' ''etcd'' = Inr ca1" "readCA mg cluster ''ca'' ''cluster'' = Inr ca2" "issues pl ca1" "issues pl ca2"
  shows "\<exists>gm1 w1. machineReconcileNormal mg pl clock rnd cluster machine gm w = (Inr (), gm1, w1)"
proof -
  let ?rg = "KObj cluster"
  obtain v where v: "createAll clock 0 ?rg w (machineObjects gm machine) = (Inr (), v)" "wMux v = wMux w" "groupReady sch ?rg v"
      "\<And>r x. cloudObject ?rg v r = Some x \<Longrightarrow> cloudObject ?rg w r = Some x
          \<or> (\<exists>obj \<in> snd ` set (machineObjects gm machine). \<exists>now. r = refOf obj \<and> x = cloudStored sch (now, obj))"
    using createAll_ok [OF assms(1,2) machineObjects_plain] by metis
  have readable: "podReadable sch ?rg gm v"
    by (rule readable_stored [OF assms(1) etcdPod_plain(1) assms(3) machineObjects_plain v(4)])
  have listener: "mget (workloadClusterListeners (wMux v)) ?rg = Some wcl" using assms(4) v(2) by simp
  have "etcdMemberName gm \<noteq> ''''" by (simp add: etcdMemberName_def)
  from ensureEtcdMember_succeeds [OF assms(8,6) this listener]
  obtain w1 wcl' where w1: "ensureEtcdMember mg pl cluster ?rg (etcdMemberName gm) v = (Inr (), w1)" "wManager w1 = wManager v"
      "mget (workloadClusterListeners (wMux w1)) ?rg = Some wcl'" "HostPort wcl' = HostPort wcl"
    by blast
  obtain w2 where w2: "ensureAPIServer mg pl cluster ?rg (apiServerName gm) w1 = (Inr (), w2)" "wManager w2 = wManager w1"
    using ensureAPIServer_succeeds [OF assms(9,7) w1(3)] assms(5) w1(4) by metis
  have "groupReady sch ?rg w2" using v(3) w1(2) w2(2) groupReady_cong by metis
  moreover have "podReadable sch ?rg gm w2" using readable w1(2) w2(2) cloudObject_cong [of w2 v ?rg] by (simp add: readable_def)
  ultimately obtain w3 where w3: "ensureEtcdPod clock rnd ?rg (etcdMemberName gm) w2 = (Inr (), w3)" "groupReady sch ?rg w3"
    using ensureEtcdPod_ok [OF assms(1)] by metis
  obtain w4 where w4: "createAll clock 4 ?rg w3 (controlPlaneObjects gm) = (Inr (), w4)"
    using createAll_ok [OF assms(1) w3(2) controlPlaneObjects_plain] by metis
  have "reconcileControlPlane mg pl clock rnd cluster gm v = (Inr (), w4)"
    using w1(1) w2(1) w3(1) w4 by (simp add: reconcileControlPlane_def andThen_def)
  then show ?thesis using v(1) by (simp add: machineReconcileNormal_def Let_def)
qed

definition sampleManagement :: "(string, string) management" where
  "sampleManagement = \<lparr>mgGetGoofyMachine = (\<lambda>_. Inr sampleGoofyMachine), mgAddOwners = (\<lambda>_. Inr ()),
     mgGetOwnerMachine = (\<lambda>_. Inr (Some sampleMachine)), mgGetClusterFromMetadata = (\<lambda>_. Inr (Some sampleCluster)),
     mgIsPaused = (\<lambda>_ _. False), mgGetGoofyCluster = (\<lambda>_. Inr sampleGoofyCluster), mgGetOwnerCluster = (\<lambda>_. Inr (Some sampleCluster)),
     mgListGoofyClusters = Inr [], mgListMachines = (\<lambda>_ _. Inr [sampleMachine]), mgNewMachineHelper = (\<lambda>_. Inr ()),
     mgPatchMachine = (\<lambda>_. Inr ()), mgNewClusterHelper = (\<lambda>_. Inr ()), mgPatchCluster = (\<lambda>_. Inr ()),
     mgSecret = (\<lambda>_ _. Inr [(''tls.crt'', ''crt''), (''tls.key'', ''key'')]),
     mgDecodeCertPEM = Inr, mgDecodePrivateKeyPEM = (\<lambda>k. Inr (Some k))\<rparr>"

abbreviation sampleReconcile :: "gotime \<Rightarrow> GoofyMachine \<Rightarrow> (string, string, string) world \<Rightarrow>
    (apiError + unit) \<times> GoofyMachine \<times> (string, string, string) world" where
  "sampleReconcile now \<equiv> machineReconcileNormal sampleManagement samplePlatform (\<lambda>_. now) (1, 2) sampleCluster sampleMachine"

lemma sampleMachine_facts:
  "cluInfrastructureReady sampleCluster" "maDataSecretName sampleMachine = Some ''data''" "maControlPlane sampleMachine"
  "readCA sampleManagement sampleCluster p what = Inr (''crt'', ''key'')" "issues samplePlatform (''crt'', ''key'')"
  "listens samplePlatform host"
  by (simp_all add: sampleCluster_def sampleMachine_def issues_def listens_def samplePlatform_def readCA_def sampleManagement_def)

lemma clusterWorld_listener: "\<exists>wcl. mget (workloadClusterListeners (wMux clusterWorld)) (KObj sampleCluster) = Some wcl"
  by (simp add: clusterWorld_def clusterReconcileNormal_def sampleGoofyCluster_def Let_def newWorld_def
      InitWorkloadClusterListener_def NewWorkloadClustersMux_def getFreePortLocked_def minPort_def maxPort_def
      initWorkloadClusterListenerWithPortLocked_def)

lemma clusterWorld_empty: "cloudObject (KObj sampleCluster) clusterWorld r = None"
  by (simp add: cloudObject_def cloudLookup_def cloudOf_def clusterWorld_def clusterReconcileNormal_def sampleGoofyCluster_def Let_def
      newWorld_def InitWorkloadClusterListener_def NewWorkloadClustersMux_def getFreePortLocked_def minPort_def maxPort_def
      initWorkloadClusterListenerWithPortLocked_def managerAddResourceGroup_def managerNew_def NewCache_def AddResourceGroup_def
      resourceGroupTracker_of_def emptyTracker_def getObject_def)

lemma clusterWorld_readable: "podReadable sampleCloudScheme (KObj sampleCluster) gm clusterWorld"
  by (simp add: readable_def clusterWorld_empty)

lemma sampleReconcile_ok: "\<exists>gm1 w1. sampleReconcile 1 sampleGoofyMachine clusterWorld = (Inr (), gm1, w1)"
  using clusterWorld_listener
    reconcile_succeeds [OF sampleCloudScheme_ok clusterWorld_ready clusterWorld_readable _ sampleMachine_facts(6,4,4,5,5)] by blast

text \<open>
  C18. Progress: when the resource group of the cluster exists, the mux has its listener and can listen on the address of it, and the two certificate
  authorities of the cluster can be read and issue certificates, then reconciling a machine succeeds, provided that an object that is already
  stored as its etcd pod can be read as a pod. This holds of a machine of any kind, at any time, whatever other objects are there.
\<close>

theorem machine_reconcile_succeeds:
  assumes "cloudScheme sch" "groupReady sch (KObj cluster) w" "readable sch (KObj cluster) w (controlPlanePod (etcdMemberName gm) None)"
    and "mget (workloadClusterListeners (wMux w)) (KObj cluster) = Some wcl" "listens pl (HostPort wcl)"
    and "readCA mg cluster ''etcd'' ''etcd'' = Inr ca1" "readCA mg cluster ''ca'' ''cluster'' = Inr ca2" "issues pl ca1" "issues pl ca2"
  shows "\<exists>gm1 w1. machineReconcileNormal mg pl clock rnd cluster machine gm w = (Inr (), gm1, w1)"
  using assms by (rule reconcile_succeeds)

theorem machine_reconcile_succeeds_witness:
  "\<exists>gm1 w1. sampleReconcile 1 sampleGoofyMachine clusterWorld = (Inr (), gm1, w1)"
  using clusterWorld_listener
    machine_reconcile_succeeds [OF sampleCloudScheme_ok clusterWorld_ready clusterWorld_readable _ sampleMachine_facts(6,4,4,5,5)] by blast


section \<open>What a machine leaves alone\<close>

text \<open>The resolver of the mux and the scheme of the manager stay; the node is stored as it was built.\<close>

definition keeps :: "('c, 'k, 'l) world \<Rightarrow> ('c, 'k, 'l) world \<Rightarrow> bool" where
  "keeps w w' \<longleftrightarrow> mgrScheme (wManager w') = mgrScheme (wManager w)
     \<and> workloadClusterNameByHost (wMux w') = workloadClusterNameByHost (wMux w)"

lemma keeps_refl [simp]: "keeps w w"
  by (simp add: keeps_def)

lemma keeps_trans: "keeps w w' \<Longrightarrow> keeps w' w'' \<Longrightarrow> keeps w w''"
  by (simp add: keeps_def)

lemma createAll_keeps: "createAll clock i rg w xs = (res, w') \<Longrightarrow> keeps w w'"
  by (auto simp: createAll_def keeps_def withCloud_def split: prod.splits sum.splits)

lemma ensureEtcdPod_keeps: "ensureEtcdPod clock rnd rg pod w = (res, w') \<Longrightarrow> keeps w w'"
  by (auto simp: ensureEtcdPod_def Let_def dest: createAll_keeps
      split: prod.splits sum.splits option.splits if_splits)

lemma Add_hosts:
  "AddEtcdMember pl m rg pod cert key = (res, m') \<Longrightarrow> workloadClusterNameByHost m' = workloadClusterNameByHost m"
  "AddAPIServer pl m rg pod cert key = (res, m') \<Longrightarrow> workloadClusterNameByHost m' = workloadClusterNameByHost m"
  by (auto elim!: AddEtcdMember_cases AddAPIServer_cases simp: putListener_def)

lemma ensure_keeps:
  "ensureEtcdMember mg pl cluster rg pod w = (res, w') \<Longrightarrow> keeps w w'"
  "ensureAPIServer mg pl cluster rg pod w = (res, w') \<Longrightarrow> keeps w w'"
  by (auto simp: ensureEtcdMember_def ensureAPIServer_def keeps_def dest: Add_hosts split: if_splits sum.splits prod.splits)

lemma reconcileControlPlane_keeps:
  assumes "reconcileControlPlane mg pl clock rnd cluster gm w = (Inr (), w')"
  shows "keeps w w'"
proof -
  obtain w1 w2 w3 where "ensureEtcdMember mg pl cluster (KObj cluster) (etcdMemberName gm) w = (Inr (), w1)"
      "ensureAPIServer mg pl cluster (KObj cluster) (apiServerName gm) w1 = (Inr (), w2)"
      "ensureEtcdPod clock rnd (KObj cluster) (etcdMemberName gm) w2 = (Inr (), w3)"
      "createAll clock 4 (KObj cluster) w3 (controlPlaneObjects gm) = (Inr (), w')"
    using assms by (auto simp: reconcileControlPlane_def andThen_ok)
  then show ?thesis using ensure_keeps ensureEtcdPod_keeps createAll_keeps keeps_trans by metis
qed

lemma reconcile_providerID:
  assumes "cluInfrastructureReady cluster" "maDataSecretName machine = Some secret"
    and "machineReconcileNormal mg pl clock rnd cluster machine gm w = (Inr (), gm1, w1)"
  shows "gmProviderID gm1 = Some (''goofy://'' @ gmName gm)"
  using assms by (auto simp: machineReconcileNormal_def Let_def split: prod.splits sum.splits if_splits)

lemma machine_node_stored:
  assumes "cloudScheme sch" "groupReady sch (KObj cluster) w" "cluInfrastructureReady cluster" "maDataSecretName machine = Some secret"
    and "machineReconcileNormal mg pl clock rnd cluster machine gm w = (Inr (), gm1, w1)"
    and "cloudObject (KObj cluster) w (refOf (nodeObject gm machine)) = None"
  shows "keeps w w1 \<and> groupReady sch (KObj cluster) w1
     \<and> (\<exists>now. cloudObject (KObj cluster) w1 (refOf (nodeObject gm machine)) = Some (cloudStored sch (now, nodeObject gm machine)))"
proof -
  let ?rg = "KObj cluster" and ?m = "machineObjects gm machine" and ?n = "nodeObject gm machine"
  obtain v where v: "createAll clock 0 ?rg w ?m = (Inr (), v)" "groupReady sch ?rg v"
      "dom (cloudObject ?rg v) = dom (cloudObject ?rg w) \<union> refOf ` snd ` set ?m"
      "\<forall>r x. cloudObject ?rg v r = Some x \<longrightarrow> cloudObject ?rg w r = Some x
          \<or> (\<exists>obj \<in> snd ` set ?m. \<exists>now. r = refOf obj \<and> x = cloudStored sch (now, obj))"
    using createAll_ok [OF assms(1,2) machineObjects_plain] by metis
  have "refOf ?n \<in> dom (cloudObject ?rg v)" using v(3) by (simp add: machineObjects_def)
  then obtain x where x: "cloudObject ?rg v (refOf ?n) = Some x" by blast
  have "refOf (cloudMachineObject gm) \<noteq> refOf ?n" by (simp add: cloudMachineObject_def nodeObject_def bodyGVK_def)
  then have node: "\<exists>now. x = cloudStored sch (now, ?n)"
    using v(4) x assms(6) by (fastforce simp: machineObjects_def)
  show ?thesis
  proof (cases "maControlPlane machine")
    case False
    then have "w1 = v" using assms(3-5) v(1) by (simp add: machineReconcileNormal_def Let_def)
    then show ?thesis using v(1,2) x node createAll_keeps by blast
  next
    case True
    then have cp: "reconcileControlPlane mg pl clock rnd cluster gm v = (Inr (), w1)"
      using assms(3-5) v(1) by (simp add: machineReconcileNormal_def Let_def split: prod.splits)
    note ok = reconcileControlPlane_ok [OF assms(1) v(2) cp]
    then have "cloudObject ?rg w1 (refOf ?n) = Some x" using x by (auto simp: map_le_def dom_def)
    then show ?thesis
      using ok node keeps_trans [OF createAll_keeps [OF v(1)] reconcileControlPlane_keeps [OF cp]] by blast
  qed
qed

section \<open>Clusters\<close>

lemma mput_mput_same: "mput (mput m k v) k v = mput m k v"
  by (induction m) auto

lemma clusterReconcile_endpoint:
  assumes "reachableMux host (wMux w)" "gclAnnotations gcl = Some ann" "gclHost gcl = ''''"
    and "clusterReconcileNormal cluster gcl w = (Inr (), gcl1, w1)"
  shows "gclReady gcl1 \<and> mget (the (gclAnnotations gcl1)) ResourceGroupAnnotationName = Some (KObj cluster)
     \<and> resourceGroupTracker_of (mgrCache (wManager w1)) (KObj cluster) \<noteq> None
     \<and> resourceGroupResolver (wMux w1) (JoinHostPort (gclHost gcl1) (Itoa (gclPort gcl1))) = Inr (KObj cluster)
     \<and> clusterReconcileNormal cluster gcl1 w1 = (Inr (), gcl1, w1)
     \<and> mgrScheme (wManager w1) = mgrScheme (wManager w) \<and> cScheme (mgrCache (wManager w1)) = cScheme (mgrCache (wManager w))"
proof -
  let ?rg = "KObj cluster"
  obtain res mux where i: "InitWorkloadClusterListener (wMux w) ?rg = (res, mux)" by (metis prod.collapse)
  obtain listener where l: "res = Inr listener"
    and gcl1: "gcl1 = gcl\<lparr>gclAnnotations := Some (mput ann ResourceGroupAnnotationName ?rg), gclHost := wlHost listener,
                          gclPort := wlPort listener, gclReady := True\<rparr>"
    and w1: "w1 = w\<lparr>wManager := managerAddResourceGroup (wManager w) ?rg, wMux := mux\<rparr>"
    using assms(2-4) i by (auto simp: clusterReconcileNormal_def Let_def split: sum.splits)
  have at: "mget (workloadClusterListeners mux) ?rg = Some listener"
    using i l by (auto simp: InitWorkloadClusterListener_def getFreePortLocked_def initWorkloadClusterListenerWithPortLocked_def Let_def
        split: option.splits if_splits)
  have "reachableMux host mux" using reachableMux.step [OF assms(1) muxStep.init [OF i]] .
  then have "muxOk mux" by (rule reachableMux_ok)
  from muxOk_listenerD(3) [OF this at] have res: "resourceGroupResolver mux (HostPort listener) = Inr ?rg"
    by (simp add: resourceGroupResolver_def)
  have grp: "resourceGroupTracker_of (AddResourceGroup c ?rg) ?rg \<noteq> None" "AddResourceGroup (AddResourceGroup c ?rg) ?rg = AddResourceGroup c ?rg"
      "cScheme (AddResourceGroup c ?rg) = cScheme c"
    for c :: "cloudBody cache"
    by (auto simp: AddResourceGroup_def resourceGroupTracker_of_def split: option.splits)
  have again: "InitWorkloadClusterListener mux ?rg = (Inr listener, mux)" using at by (simp add: InitWorkloadClusterListener_def)
  show ?thesis
    using res grp again
    by (cases gcl) (simp add: gcl1 w1 HostPort_def managerAddResourceGroup_def clusterReconcileNormal_def Let_def mput_mput_same)
qed

lemma clusterWorld_reconciled: "\<exists>gcl1. clusterReconcileNormal sampleCluster sampleGoofyCluster newWorld = (Inr (), gcl1, clusterWorld)"
proof -
  have "fst (clusterReconcileNormal sampleCluster sampleGoofyCluster newWorld) = Inr ()"
    by (simp add: clusterReconcileNormal_def sampleGoofyCluster_def Let_def newWorld_def InitWorkloadClusterListener_def
        NewWorkloadClustersMux_def getFreePortLocked_def minPort_def maxPort_def initWorkloadClusterListenerWithPortLocked_def)
  then show ?thesis unfolding clusterWorld_def by (metis prod.collapse)
qed

text \<open>
  C16. Reconciling a cluster gives it its resource group and its endpoint. After a reconcile of a GoofyCluster with annotations and
  without an endpoint, on a mux reached from the start, the cluster is ready and names its resource group in an annotation, the resource
  group exists, the resolver that the API and etcd servers use maps the endpoint to this resource group, and reconciling again changes
  nothing: the endpoint is stable.
\<close>

theorem cluster_reconcile_endpoint:
  assumes "reachableMux host (wMux w)" "gclAnnotations gcl = Some ann" "gclHost gcl = ''''"
    and "clusterReconcileNormal cluster gcl w = (Inr (), gcl1, w1)"
  shows "gclReady gcl1 \<and> mget (the (gclAnnotations gcl1)) ResourceGroupAnnotationName = Some (KObj cluster)
     \<and> resourceGroupTracker_of (mgrCache (wManager w1)) (KObj cluster) \<noteq> None
     \<and> resourceGroupResolver (wMux w1) (JoinHostPort (gclHost gcl1) (Itoa (gclPort gcl1))) = Inr (KObj cluster)
     \<and> clusterReconcileNormal cluster gcl1 w1 = (Inr (), gcl1, w1)"
  using clusterReconcile_endpoint [OF assms] by simp

theorem cluster_reconcile_endpoint_witness:
  "\<exists>gcl1. clusterReconcileNormal sampleCluster sampleGoofyCluster newWorld = (Inr (), gcl1, clusterWorld)
     \<and> resourceGroupResolver (wMux clusterWorld) (JoinHostPort (gclHost gcl1) (Itoa (gclPort gcl1))) = Inr ''default/c1''"
proof -
  have g: "gclAnnotations sampleGoofyCluster = Some []" "gclHost sampleGoofyCluster = ''''" by (simp_all add: sampleGoofyCluster_def)
  have mux: "reachableMux ''10.0.0.1'' (wMux newWorld)" by (simp add: newWorld_def reachableMux.new)
  obtain gcl1 where r: "clusterReconcileNormal sampleCluster sampleGoofyCluster newWorld = (Inr (), gcl1, clusterWorld)"
    using clusterWorld_reconciled by blast
  have "KObj sampleCluster = ''default/c1''" by (simp add: KObj_def KRef_def sampleCluster_def)
  with cluster_reconcile_endpoint [OF mux g r] r show ?thesis by auto
qed

end
