(* ===== verification/Mux_Restart.thy ===== *)
theory Mux_Restart
  imports Mux_Properties "HOL-Library.Multiset"
begin

text \<open>
  \<^verbatim>\<open>HotRestart\<close> of the mux (\<^verbatim>\<open>mux.go\<close>) on the endpoints that clusters have saved: which mux it builds, and that this is the one
  the endpoints came from as far as the resolution of hosts goes.
\<close>

text \<open>The endpoints of a mux, and those that clusters have saved.\<close>

definition endpointsOf :: "('c, 'k, 'l) WorkloadClustersMux \<Rightarrow> (string \<times> string \<times> int) set" where
  "endpointsOf m = {(n, wlHost w, wlPort w) | n w. mget (workloadClusterListeners m) n = Some w}"

definition savedEndpoint :: "clusterInfo \<Rightarrow> string option \<times> string \<times> int" where
  "savedEndpoint c = (ciResourceGroup c, ciHost c, ciPort c)"

definition savedEndpoints :: "clusterInfo list \<Rightarrow> (string option \<times> string \<times> int) set" where
  "savedEndpoints cs = savedEndpoint ` set (filter (\<lambda>c. ciHost c \<noteq> '''') cs)"

lemma savedEndpoints_simps [simp]:
  "savedEndpoints [] = {}"
  "savedEndpoints (c # cs) = (if ciHost c = '''' then savedEndpoints cs else insert (savedEndpoint c) (savedEndpoints cs))"
  by (simp_all add: savedEndpoints_def)

text \<open>Nothing changes the host of a mux.\<close>

lemma hotRestartLoop_host: "hotRestartLoop m ports maxP cs = (res, m') \<Longrightarrow> mxHost m' = mxHost m"
  by (induction m ports maxP cs rule: hotRestartLoop.induct)
    (auto simp: initWorkloadClusterListenerWithPortLocked_def Let_def split: if_splits option.splits)

lemma muxStep_host: "muxStep m m' \<Longrightarrow> mxHost m' = mxHost m"
proof (induction rule: muxStep.induct)
  case (init m name res m')
  then show ?case
    by (auto simp: InitWorkloadClusterListener_def getFreePortLocked_def Let_def initWorkloadClusterListenerWithPortLocked_def
        split: option.splits if_splits)
next
  case (hotRestart m clusters m')
  then show ?case
    by (auto simp: HotRestart_def dest!: hotRestartLoop_host split: if_splits prod.splits sum.splits)
qed (auto elim!: AddAPIServer_cases AddEtcdMember_cases simp: putListener_def)

lemma reachableMux_host: "reachableMux host m \<Longrightarrow> mxHost m = host"
  by (induction rule: reachableMux.induct) (auto simp: NewWorkloadClustersMux_def dest: muxStep_host)

text \<open>The loop succeeds on clusters of this host that are annotated; it resolves what was saved, and nothing else.\<close>

lemma hotRestartLoop_restores:
  assumes "\<forall>x\<in>savedEndpoints cs. fst x \<noteq> None \<and> fst (snd x) = mxHost m"
  shows "\<exists>maxP' m'. hotRestartLoop m [] maxP cs = (Inr maxP', m') \<and> maxP \<le> maxP'
    \<and> (\<forall>x\<in>savedEndpoints cs. snd (snd x) \<le> maxP' \<and> mget (workloadClusterNameByHost m') (JoinHostPort (mxHost m) (Itoa (snd (snd x)))) \<noteq> None)
    \<and> (\<forall>h. mget (workloadClusterNameByHost m) h \<noteq> None \<longrightarrow> mget (workloadClusterNameByHost m') h \<noteq> None)
    \<and> (\<forall>h n. mget (workloadClusterNameByHost m') h = Some n \<longrightarrow> mget (workloadClusterNameByHost m) h = Some n
         \<or> (\<exists>p. (Some n, mxHost m, p) \<in> savedEndpoints cs \<and> h = JoinHostPort (mxHost m) (Itoa p)))"
  using assms
proof (induction cs arbitrary: m maxP)
  case (Cons c cs)
  show ?case
  proof (cases "ciHost c = ''''")
    case True
    with Cons.IH [of m maxP] Cons.prems show ?thesis by simp
  next
    case False
    obtain n where n: "ciResourceGroup c = Some n" "ciHost c = mxHost m"
      using Cons.prems False by (auto simp: savedEndpoint_def)
    let ?m = "snd (initWorkloadClusterListenerWithPortLocked m n (ciPort c))" and ?p = "if maxP < ciPort c then ciPort c else maxP"
    have host: "mxHost ?m = mxHost m"
      and by_host: "mget (workloadClusterNameByHost ?m) = (mget (workloadClusterNameByHost m))(JoinHostPort (mxHost m) (Itoa (ciPort c)) \<mapsto> n)"
      by (auto simp: initWorkloadClusterListenerWithPortLocked_def Let_def HostPort_def)
    have "\<forall>x\<in>savedEndpoints cs. fst x \<noteq> None \<and> fst (snd x) = mxHost ?m"
      using Cons.prems False host by simp
    from Cons.IH [of ?m ?p, OF this] obtain maxP' m' where
      loop: "hotRestartLoop ?m [] ?p cs = (Inr maxP', m')" "?p \<le> maxP'"
      and saved: "\<And>x. x \<in> savedEndpoints cs \<Longrightarrow> snd (snd x) \<le> maxP'
        \<and> mget (workloadClusterNameByHost m') (JoinHostPort (mxHost m) (Itoa (snd (snd x)))) \<noteq> None"
      and kept: "\<And>h. mget (workloadClusterNameByHost ?m) h \<noteq> None \<Longrightarrow> mget (workloadClusterNameByHost m') h \<noteq> None"
      and only: "\<And>h n'. mget (workloadClusterNameByHost m') h = Some n' \<Longrightarrow> mget (workloadClusterNameByHost ?m) h = Some n'
         \<or> (\<exists>p. (Some n', mxHost m, p) \<in> savedEndpoints cs \<and> h = JoinHostPort (mxHost m) (Itoa p))"
      unfolding host by blast
    have "hotRestartLoop m [] maxP (c # cs) = (Inr maxP', m')"
      using loop(1) False n by simp
    moreover have "maxP \<le> maxP'" "ciPort c \<le> maxP'"
      using loop(2) by (auto split: if_splits)
    moreover have "mget (workloadClusterNameByHost m') (JoinHostPort (mxHost m) (Itoa (ciPort c))) \<noteq> None"
      by (rule kept) (simp add: by_host)
    moreover have "mget (workloadClusterNameByHost m') h \<noteq> None" if "mget (workloadClusterNameByHost m) h \<noteq> None" for h
      by (rule kept) (use that in \<open>simp add: by_host\<close>)
    moreover have "mget (workloadClusterNameByHost m) h = Some n'
        \<or> (\<exists>p. (Some n', mxHost m, p) \<in> savedEndpoints (c # cs) \<and> h = JoinHostPort (mxHost m) (Itoa p))"
      if "mget (workloadClusterNameByHost m') h = Some n'" for h n'
      using only [OF that] False n by (auto simp: by_host savedEndpoint_def split: if_splits)
    ultimately show ?thesis
      using saved False by (intro exI [of _ maxP'] exI [of _ m']) (auto simp: savedEndpoint_def)
  qed
qed simp

text \<open>The largest port that the loop finds is one of the saved ports, or the one it began with.\<close>

lemma hotRestartLoop_max:
  "hotRestartLoop m ports maxP cs = (Inr maxP', m') \<Longrightarrow> maxP \<le> maxP' \<and> (maxP' = maxP \<or> (\<exists>x\<in>savedEndpoints cs. maxP' = snd (snd x)))"
  by (induction m ports maxP cs rule: hotRestartLoop.induct) (force simp: savedEndpoint_def split: if_splits option.splits)+

lemma hotRestartLoop_next:
  assumes "hotRestartLoop (NewWorkloadClustersMux host) [] (mxMinPort (NewWorkloadClustersMux host :: ('c, 'k, 'l) WorkloadClustersMux) - 1) cs
      = (Inr maxP, m' :: ('c, 'k, 'l) WorkloadClustersMux)"
    and "\<forall>x\<in>savedEndpoints cs. snd (snd x) < max_int64"
  shows "int64 (maxP + 1) = maxP + 1"
  using hotRestartLoop_max [OF assms(1)] assms(2)
  by (intro int64_id) (auto simp: NewWorkloadClustersMux_def minPort_def max_int64_def)

lemma HotRestart_restores:
  fixes m :: "('c, 'k, 'l) WorkloadClustersMux"
  assumes ok: "muxOk m" and ports: "portsOk m" and saved: "savedEndpoints cs = (\<lambda>(n, h, p). (Some n, h, p)) ` endpointsOf m"
  shows "\<exists>m' :: ('c, 'k, 'l) WorkloadClustersMux. HotRestart (NewWorkloadClustersMux (mxHost m)) cs = (Inr (), m')
    \<and> (\<forall>h. resourceGroupResolver m' h = resourceGroupResolver m h) \<and> (\<forall>(n, h, p) \<in> endpointsOf m. p < mxPortIndex m')"
proof -
  let ?new = "NewWorkloadClustersMux (mxHost m) :: ('c, 'k, 'l) WorkloadClustersMux"
  have new: "mxHost ?new = mxHost m" "\<And>h. mget (workloadClusterNameByHost ?new) h = None" "workloadClusterListeners ?new = []"
    by (simp_all add: NewWorkloadClustersMux_def)
  have m: "mget (workloadClusterNameByHost m) h = Some n \<longleftrightarrow> (\<exists>p. (n, mxHost m, p) \<in> endpointsOf m \<and> h = JoinHostPort (mxHost m) (Itoa p))" for h n
  proof
    assume "mget (workloadClusterNameByHost m) h = Some n"
    then obtain w where w: "mget (workloadClusterListeners m) n = Some w" "HostPort w = h"
      using muxOk_hostD [OF ok] by blast
    with muxOk_listenerD(1) [OF ok w(1)] show "\<exists>p. (n, mxHost m, p) \<in> endpointsOf m \<and> h = JoinHostPort (mxHost m) (Itoa p)"
      by (intro exI [of _ "wlPort w"]) (auto simp: endpointsOf_def HostPort_def)
  next
    assume "\<exists>p. (n, mxHost m, p) \<in> endpointsOf m \<and> h = JoinHostPort (mxHost m) (Itoa p)"
    then obtain w where w: "mget (workloadClusterListeners m) n = Some w" "h = HostPort w"
      by (auto simp: endpointsOf_def HostPort_def)
    with muxOk_listenerD(3) [OF ok w(1)] show "mget (workloadClusterNameByHost m) h = Some n"
      by simp
  qed
  have host: "h = mxHost m" if "(n, h, p) \<in> endpointsOf m" for n h p
    using that muxOk_listenerD(1) [OF ok] by (auto simp: endpointsOf_def)
  have "\<forall>x\<in>savedEndpoints cs. fst x \<noteq> None \<and> fst (snd x) = mxHost ?new"
    using host by (auto simp: saved new)
  from hotRestartLoop_restores [OF this] obtain maxP' m' where
    loop: "hotRestartLoop ?new [] (mxMinPort ?new - 1) cs = (Inr maxP', m')"
    and below: "\<And>x. x \<in> savedEndpoints cs \<Longrightarrow> snd (snd x) \<le> maxP'
      \<and> mget (workloadClusterNameByHost m') (JoinHostPort (mxHost m) (Itoa (snd (snd x)))) \<noteq> None"
    and only: "\<And>h n. mget (workloadClusterNameByHost m') h = Some n \<Longrightarrow>
      \<exists>p. (Some n, mxHost m, p) \<in> savedEndpoints cs \<and> h = JoinHostPort (mxHost m) (Itoa p)"
    unfolding new by (metis option.distinct(1))
  let ?m' = "if cs = [] then ?new else m'\<lparr>mxPortIndex := maxP' + 1\<rparr>"
  have "\<forall>x\<in>savedEndpoints cs. snd (snd x) < max_int64"
    using ports by (auto simp: saved endpointsOf_def portsOk_def)
  then have run: "HotRestart ?new cs = (Inr (), ?m')"
    using loop hotRestartLoop_next [OF loop] by (simp add: HotRestart_def new)
  have by_host: "workloadClusterNameByHost ?m' = workloadClusterNameByHost m'"
    using loop by auto
  have resolved: "mget (workloadClusterNameByHost m) h = Some n" if "mget (workloadClusterNameByHost m') h = Some n" for h n
    using only [OF that] m by (force simp: saved)
  have "mget (workloadClusterNameByHost ?m') h = mget (workloadClusterNameByHost m) h" for h
  proof (cases "mget (workloadClusterNameByHost m) h")
    case None
    then show ?thesis
      using resolved [of h] by_host by (cases "mget (workloadClusterNameByHost m') h") auto
  next
    case (Some n)
    then obtain p where p: "(n, mxHost m, p) \<in> endpointsOf m" "h = JoinHostPort (mxHost m) (Itoa p)"
      using m by blast
    have "(Some n, mxHost m, p) \<in> savedEndpoints cs"
      using p(1) unfolding saved by force
    then have "mget (workloadClusterNameByHost m') h \<noteq> None"
      using below p(2) by fastforce
    then show ?thesis
      using resolved [of h] Some by_host by auto
  qed
  moreover have "p < mxPortIndex ?m'" if "(n, h, p) \<in> endpointsOf m" for n h p
  proof -
    have "(Some n, h, p) \<in> savedEndpoints cs"
      using that unfolding saved by force
    then show ?thesis
      using below [of "(Some n, h, p)"] by auto
  qed
  ultimately show ?thesis
    using run by (auto simp: resourceGroupResolver_def)
qed

section \<open>Restart on saved endpoints\<close>

text \<open>
  What the clusters of a process have saved when it stops: endpoints on its host, annotated, with distinct ports, of which none is the
  largest integer, and distinct resource groups.
\<close>

definition wellSaved :: "string \<Rightarrow> clusterInfo list \<Rightarrow> bool" where
  "wellSaved host saved \<longleftrightarrow> (\<forall>c\<in>set saved. ciHost c = host \<and> ciResourceGroup c \<noteq> None)
     \<and> distinct (map ciPort saved) \<and> distinct (map ciResourceGroup saved) \<and> (\<forall>c\<in>set saved. ciPort c < max_int64)"

lemma wellSaved_mset:
  assumes "mset cs = mset saved" "wellSaved host saved"
  shows "wellSaved host cs"
proof -
  have "set cs = set saved"
    using assms(1) by (rule mset_eq_setD)
  moreover have "distinct (map ciPort cs)" "distinct (map ciResourceGroup cs)"
    using assms mset_eq_imp_distinct_iff [of "map ciPort cs" "map ciPort saved"]
      mset_eq_imp_distinct_iff [of "map ciResourceGroup cs" "map ciResourceGroup saved"]
    by (simp_all add: wellSaved_def)
  ultimately show ?thesis
    using assms(2) by (simp add: wellSaved_def)
qed

text \<open>The restart succeeds, every saved endpoint resolves to its resource group, and no other cluster has a listener.\<close>

lemma HotRestart_saved:
  fixes cs :: "clusterInfo list"
  assumes "wellSaved host (filter (\<lambda>c. ciHost c \<noteq> '''') cs)"
  shows "\<exists>m :: ('c, 'k, 'l) WorkloadClustersMux. HotRestart (NewWorkloadClustersMux host) cs = (Inr (), m) \<and> reachableMux host m
    \<and> (\<forall>c\<in>set cs. ciHost c \<noteq> '''' \<longrightarrow> mget (workloadClusterNameByHost m) (JoinHostPort host (Itoa (ciPort c))) = ciResourceGroup c)
    \<and> (\<forall>n. mget (workloadClusterListeners m) n \<noteq> None \<longrightarrow> (\<exists>c\<in>set cs. ciHost c \<noteq> '''' \<and> ciResourceGroup c = Some n))"
proof -
  let ?new = "NewWorkloadClustersMux host :: ('c, 'k, 'l) WorkloadClustersMux"
  have new: "mxHost ?new = host" "\<And>h. mget (workloadClusterNameByHost ?new) h = None" "workloadClusterListeners ?new = []"
    by (simp_all add: NewWorkloadClustersMux_def)
  have inSaved: "x \<in> savedEndpoints cs \<longleftrightarrow> (\<exists>c\<in>set cs. ciHost c \<noteq> '''' \<and> x = savedEndpoint c)" for x
    by (auto simp: savedEndpoints_def)
  have "\<forall>x\<in>savedEndpoints cs. fst x \<noteq> None \<and> fst (snd x) = mxHost ?new"
    using assms by (auto simp: inSaved savedEndpoint_def wellSaved_def new)
  from hotRestartLoop_restores [OF this] obtain maxP m' where
    loop: "hotRestartLoop ?new [] (mxMinPort ?new - 1) cs = (Inr maxP, m')"
    and some: "\<And>x. x \<in> savedEndpoints cs \<Longrightarrow> mget (workloadClusterNameByHost m') (JoinHostPort host (Itoa (snd (snd x)))) \<noteq> None"
    and only: "\<And>h n. mget (workloadClusterNameByHost m') h = Some n \<Longrightarrow>
      \<exists>p. (Some n, host, p) \<in> savedEndpoints cs \<and> h = JoinHostPort host (Itoa p)"
    unfolding new by (metis option.distinct(1))
  let ?m = "if cs = [] then ?new else m'\<lparr>mxPortIndex := maxP + 1\<rparr>"
  have "\<forall>x\<in>savedEndpoints cs. snd (snd x) < max_int64"
    using assms by (auto simp: inSaved savedEndpoint_def wellSaved_def)
  then have run: "HotRestart ?new cs = (Inr (), ?m)"
    using loop hotRestartLoop_next [OF loop] by (simp add: HotRestart_def new)
  have by_host: "workloadClusterNameByHost ?m = workloadClusterNameByHost m'"
    using loop by auto
  have reach: "reachableMux host ?m"
    using assms by (intro reachableMux.step [OF reachableMux.new muxStep.hotRestart [OF run]]) (simp_all add: wellSaved_def)
  have resolves: "mget (workloadClusterNameByHost ?m) (JoinHostPort host (Itoa (ciPort c))) = ciResourceGroup c"
    if c: "c \<in> set cs" "ciHost c \<noteq> ''''" for c
  proof -
    obtain n where n: "mget (workloadClusterNameByHost m') (JoinHostPort host (Itoa (ciPort c))) = Some n"
      using some [of "savedEndpoint c"] c by (auto simp: inSaved savedEndpoint_def)
    from only [OF n] obtain d where d: "d \<in> set cs" "ciHost d \<noteq> ''''" "ciResourceGroup d = Some n" "ciPort d = ciPort c"
      by (auto simp: inSaved savedEndpoint_def)
    have "inj_on ciPort (set (filter (\<lambda>c. ciHost c \<noteq> '''') cs))"
      using assms by (simp add: wellSaved_def distinct_map)
    then have "d = c"
      using c d by (auto dest: inj_onD)
    then show ?thesis
      using n d(3) by_host by simp
  qed
  have listed: "\<exists>c\<in>set cs. ciHost c \<noteq> '''' \<and> ciResourceGroup c = Some n" if "mget (workloadClusterListeners ?m) n = Some w" for n w
    using only [of "HostPort w" n] muxOk_listenerD(3) [OF reachableMux_ok [OF reach] that] by_host
    by (auto simp: inSaved savedEndpoint_def)
  show ?thesis
    using run reach resolves listed by (intro exI [of _ ?m]) blast
qed

section \<open>Listeners after the restart\<close>

text \<open>A new listener takes no host from another cluster.\<close>

lemma Init_keeps_hosts:
  assumes "muxOk m" "InitWorkloadClusterListener m name = (res, m')" "mget (workloadClusterNameByHost m) h = Some n"
  shows "mget (workloadClusterNameByHost m') h = Some n"
proof -
  obtain w where w: "mget (workloadClusterListeners m) n = Some w" "HostPort w = h"
    using muxOk_hostD [OF assms(1,3)] by blast
  have "h \<noteq> JoinHostPort (mxHost m) (Itoa (mxPortIndex m))"
    using muxOk_listenerD(1,2) [OF assms(1) w(1)] w(2) by (auto simp: HostPort_def)
  then show ?thesis
    using assms(2,3) by (auto simp: InitWorkloadClusterListener_def getFreePortLocked_def Let_def initWorkloadClusterListenerWithPortLocked_def
        HostPort_def split: option.splits if_splits)
qed

end
