(* ===== verification/Goofy_World.thy ===== *)
theory Goofy_World
  imports Goofy_Properties API_Properties Mux_Restart
begin

text \<open>
  The whole process: the state that \<^verbatim>\<open>setupReconcilers\<close> of \<^verbatim>\<open>main.go\<close> builds, and the steps that follow: reconciles of
  clusters and machines, requests to the API server, work items of the garbage collector and of the syncer, in any order.
\<close>

section \<open>Start\<close>

text \<open>The manager is started, then the mux is made; an error of the start ends the process. \<open>False\<close>: no hot restart was done yet.\<close>

definition startCloud ::
  "cloudBody scheme \<Rightarrow> string option \<times> string option \<times> string option \<Rightarrow> (string \<Rightarrow> string option) \<Rightarrow> string \<Rightarrow> apiError + bool \<times> ('c, 'k, 'l) world" where
  "startCloud sch cachePolls polls podIP =
     (case managerStart False cachePolls polls (managerNew sch) of
        (Inl e, _) \<Rightarrow> Inl e
      | (Inr _, cloudMgr) \<Rightarrow> Inr (False, \<lparr>wManager = cloudMgr, wMux = NewWorkloadClustersMux podIP, wCalls = []\<rparr>))"

lemma startCloud_state: "startCloud sch cachePolls polls podIP = Inr s \<Longrightarrow> wMux (snd s) = NewWorkloadClustersMux podIP \<and> \<not> fst s"
  by (auto simp: startCloud_def split: prod.splits sum.splits)

section \<open>Steps\<close>

abbreviation cacheOf :: "('c, 'k, 'l) world \<Rightarrow> cloudBody cache" where
  "cacheOf w \<equiv> mgrCache (wManager w)"

definition handlerOf :: "('c, 'k, 'l) world \<Rightarrow> cloudBody apiServerHandler" where
  "handlerOf w = NewAPIServerHandler (wManager w) (resourceGroupResolver (wMux w))"

text \<open>
  Until the hot restart has happened nothing writes the endpoints of the GoofyClusters, so that the ones the first cluster reconcile
  lists are those that the process found when it started: \<open>saved\<close>, empty when the process does not replace another one.
\<close>

definition restartsFrom :: "clusterInfo list \<Rightarrow> ('c, 'k) management \<Rightarrow> bool \<Rightarrow> bool" where
  "restartsFrom saved mg hotRestartDone \<longleftrightarrow> hotRestartDone
     \<or> (\<forall>cs. mgListGoofyClusters mg = Inr cs \<longrightarrow> mset (filter (\<lambda>c. ciHost c \<noteq> '''') (map infoOf cs)) = mset saved)"

inductive worldStep ::
  "(gotime \<Rightarrow> bool) \<Rightarrow> clusterInfo list \<Rightarrow> bool \<times> ('c, 'k, 'l) world \<Rightarrow> bool \<times> ('c, 'k, 'l) world \<Rightarrow> bool" for clock saved where
  cluster: "restartsFrom saved mg (fst s) \<Longrightarrow> clusterReconcile mg req s = (res, gcl, s') \<Longrightarrow> worldStep clock saved s s'"
| machine: "(\<And>i. clock (clk i)) \<Longrightarrow> machineReconcile mg pl clk rnd req w = (res, gm, w') \<Longrightarrow> worldStep clock saved (hr, w) (hr, w')"
| apiCreate: "clock now \<Longrightarrow> apiV1Create lib now (handlerOf w) req = (resp, m, calls) \<Longrightarrow> worldStep clock saved (hr, w) (hr, w\<lparr>wManager := m\<rparr>)"
| apiUpdate: "clock now \<Longrightarrow> apiV1Update lib now (handlerOf w) req = (resp, m, calls) \<Longrightarrow> worldStep clock saved (hr, w) (hr, w\<lparr>wManager := m\<rparr>)"
| apiPatch: "clock now \<Longrightarrow> apiV1Patch lib now (handlerOf w) req = (resp, m, calls) \<Longrightarrow> worldStep clock saved (hr, w) (hr, w\<lparr>wManager := m\<rparr>)"
| apiDelete: "clock now \<Longrightarrow> apiV1Delete fuel lib now (handlerOf w) req = Some (resp, m, calls) \<Longrightarrow>
    worldStep clock saved (hr, w) (hr, w\<lparr>wManager := m\<rparr>)"
| collect: "clock now \<Longrightarrow> processGarbageCollectorWorkItem fuel jitter now (cacheOf w) item = Some (res, c, calls) \<Longrightarrow>
    worldStep clock saved (hr, w) (hr, w\<lparr>wManager := (wManager w)\<lparr>mgrCache := c\<rparr>\<rparr>)"
| sync: "clock now \<Longrightarrow> processSyncWorkItem now (cacheOf w) item = (res', c, calls) \<Longrightarrow>
    worldStep clock saved (hr, w) (hr, w\<lparr>wManager := (wManager w)\<lparr>mgrCache := c\<rparr>\<rparr>)"

inductive reachableWorld ::
  "cloudBody scheme \<Rightarrow> string \<Rightarrow> (gotime \<Rightarrow> bool) \<Rightarrow> clusterInfo list \<Rightarrow> bool \<times> ('c, 'k, 'l) world \<Rightarrow> bool" for sch host clock saved where
  start: "startCloud sch cachePolls polls host = Inr s \<Longrightarrow> reachableWorld sch host clock saved s"
| step: "reachableWorld sch host clock saved s \<Longrightarrow> worldStep clock saved s s' \<Longrightarrow> reachableWorld sch host clock saved s'"

section \<open>What a step does to the cache\<close>

text \<open>The cache goes from one reachable state to another and keeps its resource groups.\<close>

definition advances :: "(gotime \<Rightarrow> bool) \<Rightarrow> 'b cache \<Rightarrow> 'b cache \<Rightarrow> bool" where
  "advances clock c c' \<longleftrightarrow> (\<forall>sch. reachableCache sch clock c \<longrightarrow> reachableCache sch clock c')
     \<and> (\<forall>rg. resourceGroupTracker_of c rg \<noteq> None \<longrightarrow> resourceGroupTracker_of c' rg \<noteq> None)"

lemma advances_refl [simp]: "advances clock c c"
  by (simp add: advances_def)

lemma advances_trans: "advances clock c c' \<Longrightarrow> advances clock c' c'' \<Longrightarrow> advances clock c c''"
  by (simp add: advances_def)

lemma advances_put:
  "cacheStep clock c (c\<lparr>resourceGroups := mput (resourceGroups c) rg t\<rparr>) \<Longrightarrow> advances clock c (c\<lparr>resourceGroups := mput (resourceGroups c) rg t\<rparr>)"
  by (auto simp: advances_def resourceGroupTracker_of_def intro: reachableCache.step)

lemma store_advances: "clock now \<Longrightarrow> store now c rg obj re = (res, c', obj', calls) \<Longrightarrow> advances clock c c'"
proof -
  assume now: "clock now" and st: "store now c rg obj re = (res, c', obj', calls)"
  have "cacheStep clock c c'"
    using cacheStep.create [of clock now c rg obj] cacheStep.update [of clock now c rg obj] now st
    by (cases re) (auto simp: Create_def Update_def)
  with st show ?thesis by (cases rule: store_cases) (auto intro: advances_put)
qed

lemma tryDelete_keeps_groups:
  "tryDelete fuel now c rg r = Some (res, c', calls) \<Longrightarrow> resourceGroupTracker_of c g \<noteq> None \<Longrightarrow> resourceGroupTracker_of c' g \<noteq> None"
  by (elim tryDelete_cases) (auto simp: resourceGroupTracker_of_def)

lemma step_advances:
  assumes "cacheStep clock c c'" "\<And>g. resourceGroupTracker_of c g \<noteq> None \<Longrightarrow> resourceGroupTracker_of c' g \<noteq> None"
  shows "advances clock c c'"
  using assms by (auto simp: advances_def intro: reachableCache.step)

lemma client_advances:
  assumes "clock now"
  shows "Patch now c rg o0 p = (res, c', calls) \<Longrightarrow> advances clock c c'"
    and "Delete fuel now c rg obj = Some (res1, c', obj', calls) \<Longrightarrow> advances clock c c'"
    and "processGarbageCollectorWorkItem fuel jitter now c item = Some (res2, c', calls) \<Longrightarrow> advances clock c c'"
    and "processSyncWorkItem now c item = (res3, c', calls) \<Longrightarrow> advances clock c c'"
proof -
  show "advances clock c c'" if "Patch now c rg o0 p = (res, c', calls)"
    using that by (elim Patch_cases) (auto intro: store_advances [of clock now, OF assms])
  show "advances clock c c'" if d: "Delete fuel now c rg obj = Some (res1, c', obj', calls)"
    by (rule step_advances [OF cacheStep.delete [of clock now, OF assms d]], use d in \<open>elim Delete_cases\<close>) (auto dest: tryDelete_keeps_groups)
  show "advances clock c c'" if d: "processGarbageCollectorWorkItem fuel jitter now c item = Some (res2, c', calls)"
  proof (rule step_advances [OF cacheStep.collect [of clock now, OF assms d]])
    fix g assume "resourceGroupTracker_of c g \<noteq> None"
    with d show "resourceGroupTracker_of c' g \<noteq> None"
      by (auto simp: processGarbageCollectorWorkItem_def dest: tryDelete_keeps_groups split: option.splits queueItem.splits)
  qed
  show "advances clock c c'" if d: "processSyncWorkItem now c item = (res3, c', calls)"
    by (rule step_advances [OF cacheStep.sync [of clock now, OF assms d]], use d in \<open>elim sync_cases\<close>) (auto simp: resourceGroupTracker_of_def)
qed

section \<open>The invariant\<close>

text \<open>
  The parts are in states that they reach on their own; every cluster of the mux has its resource group or was found when the process
  started; until the hot restart has happened the mux is new, from then on the saved endpoints resolve.
\<close>

definition worldOk ::
  "cloudBody scheme \<Rightarrow> string \<Rightarrow> (gotime \<Rightarrow> bool) \<Rightarrow> clusterInfo list \<Rightarrow> bool \<times> ('c, 'k, 'l) world \<Rightarrow> bool" where
  "worldOk sch host clock saved s \<longleftrightarrow> reachableCache sch clock (cacheOf (snd s)) \<and> mgrScheme (wManager (snd s)) = sch \<and> reachableMux host (wMux (snd s))
     \<and> (\<forall>n. mget (workloadClusterListeners (wMux (snd s))) n \<noteq> None \<longrightarrow>
          resourceGroupTracker_of (cacheOf (snd s)) n \<noteq> None \<or> Some n \<in> ciResourceGroup ` set saved)
     \<and> (if fst s
        then \<forall>c\<in>set saved. mget (workloadClusterNameByHost (wMux (snd s))) (JoinHostPort host (Itoa (ciPort c))) = ciResourceGroup c
        else wMux (snd s) = NewWorkloadClustersMux host)"

section \<open>What a machine does to the world\<close>

text \<open>The cache advances, the mux goes from one reachable state to another without new clusters or hosts, and a mux without clusters stays as it is.\<close>

definition worldAdvances :: "(gotime \<Rightarrow> bool) \<Rightarrow> ('c, 'k, 'l) world \<Rightarrow> ('c, 'k, 'l) world \<Rightarrow> bool" where
  "worldAdvances clock w w' \<longleftrightarrow> advances clock (cacheOf w) (cacheOf w') \<and> mgrScheme (wManager w') = mgrScheme (wManager w)
     \<and> (\<forall>host. reachableMux host (wMux w) \<longrightarrow> reachableMux host (wMux w'))
     \<and> (\<forall>n. mget (workloadClusterListeners (wMux w')) n \<noteq> None \<longrightarrow> mget (workloadClusterListeners (wMux w)) n \<noteq> None)
     \<and> workloadClusterNameByHost (wMux w') = workloadClusterNameByHost (wMux w)
     \<and> (workloadClusterListeners (wMux w) = [] \<longrightarrow> wMux w' = wMux w)"

lemma worldAdvances_refl [simp]: "worldAdvances clock w w"
  by (simp add: worldAdvances_def)

lemma worldAdvances_trans: "worldAdvances clock w w' \<Longrightarrow> worldAdvances clock w' w'' \<Longrightarrow> worldAdvances clock w w''"
  unfolding worldAdvances_def using advances_trans by metis

lemma worldAdvances_cache:
  "advances clock (cacheOf w) c \<Longrightarrow> worldAdvances clock w (w\<lparr>wManager := (wManager w)\<lparr>mgrCache := c\<rparr>\<rparr>)"
  "advances clock (cacheOf w) (fst s) \<Longrightarrow> worldAdvances clock w (withCloud w s)"
  by (simp_all add: worldAdvances_def withCloud_def)

lemma ensureAll_advances:
  assumes "\<And>x. x \<in> set xs \<Longrightarrow> clock (fst (snd x))" "ensureAll (cloudCreate rg) ex s xs = (res, s')"
  shows "advances clock (fst s) (fst s')"
  using assms
proof (induction xs arbitrary: s)
  case (Cons m xs)
  obtain msg now obj where m: "m = (msg, now, obj)" by (cases m)
  obtain r c o1 calls where st: "store now (fst s) rg (Some obj) False = (r, c, o1, calls)" by (metis prod_cases4)
  have "clock now" using Cons.prems(1) [of m] m by simp
  then have "advances clock (fst s) c" using st by (rule store_advances)
  moreover have "cloudCreate rg s (now, obj) = (r, c, snd s @ calls)"
    using st by (simp add: cloudCreate_def GetClient_def NewResourceGroup_def Create_def)
  ultimately show ?case
    using Cons.IH [of "(c, snd s @ calls)"] Cons.prems m by (auto split: sum.splits if_splits intro: advances_trans)
qed simp

lemma createAll_advances:
  assumes "\<And>i. clock (clk i)" "createAll clk i rg w xs = (res, w')"
  shows "worldAdvances clock w w'"
proof -
  obtain r s where e: "ensureAll (cloudCreate rg) IsAlreadyExists (cloudOf w) (timed clk i xs) = (r, s)" by (metis prod.exhaust)
  have "clock (fst (snd x))" if "x \<in> set (timed clk i xs)" for x using that assms(1) by (auto simp: timed_def)
  from ensureAll_advances [of "timed clk i xs" clock, OF this e] have "advances clock (cacheOf w) (fst s)" by (simp add: cloudOf_def)
  moreover have "w' = withCloud w s" using assms(2) e by (auto simp: createAll_def split: sum.splits prod.splits)
  ultimately show ?thesis using worldAdvances_cache(2) by blast
qed

lemma ensureEtcdPod_advances:
  assumes "\<And>i. clock (clk i)" "ensureEtcdPod clk rnd rg pod w = (res, w')"
  shows "worldAdvances clock w w'"
  using assms(2) createAll_advances [of clock clk, OF assms(1)]
  by (auto simp: ensureEtcdPod_def Let_def split: prod.splits sum.splits option.splits if_splits)

lemma worldAdvances_mux:
  assumes "muxStep (wMux w) m" "\<And>n. mget (workloadClusterListeners m) n \<noteq> None \<Longrightarrow> mget (workloadClusterListeners (wMux w)) n \<noteq> None"
    and "workloadClusterNameByHost m = workloadClusterNameByHost (wMux w)" "workloadClusterListeners (wMux w) = [] \<Longrightarrow> m = wMux w"
  shows "worldAdvances clock w (w\<lparr>wMux := m\<rparr>)"
  using assms by (auto simp: worldAdvances_def intro: reachableMux.step)

lemma Add_listeners:
  "AddEtcdMember pl m rg pod cert key = (res, m') \<Longrightarrow> mget (workloadClusterListeners m') n \<noteq> None \<Longrightarrow> mget (workloadClusterListeners m) n \<noteq> None"
  "AddAPIServer pl m rg pod cert key = (res, m') \<Longrightarrow> mget (workloadClusterListeners m') n \<noteq> None \<Longrightarrow> mget (workloadClusterListeners m) n \<noteq> None"
  by (auto elim!: AddEtcdMember_cases AddAPIServer_cases simp: putListener_def split: if_splits)

lemma Add_empty:
  "AddEtcdMember pl m rg pod cert key = (res, m') \<Longrightarrow> workloadClusterListeners m = [] \<Longrightarrow> m' = m"
  "AddAPIServer pl m rg pod cert key = (res, m') \<Longrightarrow> workloadClusterListeners m = [] \<Longrightarrow> m' = m"
  by (auto elim!: AddEtcdMember_cases AddAPIServer_cases)

lemma ensure_advances:
  "ensureEtcdMember mg pl cluster rg pod w = (res, w') \<Longrightarrow> worldAdvances clock w w'"
  "ensureAPIServer mg pl cluster rg pod w = (res, w') \<Longrightarrow> worldAdvances clock w w'"
  by (auto simp: ensureEtcdMember_def ensureAPIServer_def intro!: worldAdvances_mux intro: muxStep.addEtcd muxStep.addAPI dest: Add_listeners Add_hosts Add_empty
      split: if_splits sum.splits prod.splits)

lemma andThen_advances:
  assumes "andThen r f = (res, w')" "\<And>w1 res1. r = (res1, w1) \<Longrightarrow> worldAdvances clock w w1" "\<And>w1 res2 w2. f w1 = (res2, w2) \<Longrightarrow> worldAdvances clock w1 w2"
  shows "worldAdvances clock w w'"
  using assms by (auto simp: andThen_def split: prod.splits sum.splits intro: worldAdvances_trans)

lemma machineReconcileNormal_advances:
  assumes "\<And>i. clock (clk i)" "machineReconcileNormal mg pl clk rnd cluster machine gm w = (res, gm', w')"
  shows "worldAdvances clock w w'"
proof -
  have cp: "worldAdvances clock w1 w2" if "reconcileControlPlane mg pl clk rnd cluster gm w1 = (res', w2)" for w1 w2 res'
    using that unfolding reconcileControlPlane_def
    by (elim andThen_advances) (blast intro: andThen_advances ensure_advances ensureEtcdPod_advances assms(1) createAll_advances)+
  obtain r1 w1 where c: "createAll clk 0 (KObj cluster) w (machineObjects gm machine) = (r1, w1)" by fastforce
  have "w' = w \<or> w' = w1 \<or> (\<exists>r. reconcileControlPlane mg pl clk rnd cluster gm w1 = (r, w'))"
    using assms(2) c by (auto simp: machineReconcileNormal_def Let_def split: if_splits prod.splits sum.splits)
  with createAll_advances [of clock clk, OF assms(1) c] cp worldAdvances_trans worldAdvances_refl show ?thesis by blast
qed

lemma machineReconcile_advances:
  assumes "\<And>i. clock (clk i)" "machineReconcile mg pl clk rnd req w = (res, gm, w')"
  shows "worldAdvances clock w w'"
  using assms(2)
  by (auto simp: machineReconcile_def deferPatch_def machineReconcileDelete_def intro: machineReconcileNormal_advances [of clock clk, OF assms(1)]
      split: if_splits prod.splits sum.splits option.splits)

lemma machineStep_advances:
  assumes "worldAdvances clock w w'" "worldOk sch host clock saved (hr, w)"
  shows "worldOk sch host clock saved (hr, w')"
proof -
  have "resourceGroupTracker_of (cacheOf w') n \<noteq> None \<or> Some n \<in> ciResourceGroup ` set saved"
    if "mget (workloadClusterListeners (wMux w')) n \<noteq> None" for n
    using assms that unfolding worldAdvances_def worldOk_def advances_def snd_conv by meson
  moreover have "wMux w' = wMux w" if "\<not> hr"
    using assms that by (simp add: worldAdvances_def worldOk_def NewWorkloadClustersMux_def)
  ultimately show ?thesis
    using assms unfolding worldAdvances_def worldOk_def advances_def by (simp split: if_splits)
qed

section \<open>Cluster reconciles and the start\<close>

text \<open>A hot restart leaves a world that is consistent, and is done unless it fails to list the clusters.\<close>

lemma hotRestart_ok:
  fixes w :: "('c, 'k, 'l) world"
  assumes ok: "worldOk sch host clock saved (hr, w)" and well: "wellSaved host saved" and saves: "restartsFrom saved mg hr"
    and r: "reconcileHotRestart mg hr w = (res, hr', w')"
  shows "worldOk sch host clock saved (hr', w') \<and> (res = Inr () \<longrightarrow> hr')"
proof (cases "\<not> hr \<and> (\<exists>cs. mgListGoofyClusters mg = Inr cs)")
  case True
  then obtain cs where cs: "\<not> hr" "mgListGoofyClusters mg = Inr cs" by blast
  let ?cs = "map infoOf cs"
  have same: "mset (filter (\<lambda>c. ciHost c \<noteq> '''') ?cs) = mset saved" using saves cs by (simp add: restartsFrom_def)
  then have members: "set (filter (\<lambda>c. ciHost c \<noteq> '''') ?cs) = set saved" by (rule mset_eq_setD)
  obtain m :: "('c, 'k, 'l) WorkloadClustersMux" where m: "HotRestart (NewWorkloadClustersMux host) ?cs = (Inr (), m)" "reachableMux host m"
    and hosts: "\<And>c. c \<in> set ?cs \<Longrightarrow> ciHost c \<noteq> '''' \<Longrightarrow> mget (workloadClusterNameByHost m) (JoinHostPort host (Itoa (ciPort c))) = ciResourceGroup c"
    and listeners: "\<And>n. mget (workloadClusterListeners m) n \<noteq> None \<Longrightarrow> \<exists>c\<in>set ?cs. ciHost c \<noteq> '''' \<and> ciResourceGroup c = Some n"
    using HotRestart_saved [OF wellSaved_mset [OF same well]] by blast
  have "Some n \<in> ciResourceGroup ` set saved" if "mget (workloadClusterListeners m) n \<noteq> None" for n
    using listeners [OF that] unfolding members [symmetric] by force
  moreover have "mget (workloadClusterNameByHost m) (JoinHostPort host (Itoa (ciPort c))) = ciResourceGroup c" if "c \<in> set saved" for c
    using hosts [of c] that unfolding members [symmetric] by simp
  moreover have "res = Inr ()" "hr'" "w' = w\<lparr>wMux := m\<rparr>" using r cs m(1) ok by (simp_all add: reconcileHotRestart_def worldOk_def)
  ultimately show ?thesis using ok m(2) by (simp add: worldOk_def)
next
  case False
  then have "hr' = hr" "w' = w" "res = Inr () \<longrightarrow> hr" using r by (auto simp: reconcileHotRestart_def split: if_splits sum.splits)
  with ok show ?thesis by simp
qed

lemma AddResourceGroup_groups:
  "resourceGroupTracker_of (AddResourceGroup c rg) g = (if g = rg \<and> resourceGroupTracker_of c rg = None then Some emptyTracker
     else resourceGroupTracker_of c g)"
  by (auto simp: AddResourceGroup_def resourceGroupTracker_of_def split: option.splits)

lemma AddResourceGroup_advances: "advances clock c (AddResourceGroup c rg)"
  by (rule step_advances [OF cacheStep.addGroup]) (simp add: AddResourceGroup_groups)

lemma clusterReconcileNormal_ok:
  assumes ok: "worldOk sch host clock saved (True, w)" and well: "wellSaved host saved" and r: "clusterReconcileNormal cluster gcl w = (res, gcl', w')"
  shows "worldOk sch host clock saved (True, w')"
proof (cases "gclAnnotations gcl")
  case None
  with ok r show ?thesis by (simp add: clusterReconcileNormal_def worldOk_def)
next
  case (Some ann)
  let ?rg = "KObj cluster"
  obtain res1 m1 where i: "InitWorkloadClusterListener (wMux w) ?rg = (res1, m1)" by fastforce
  have w': "wManager w' = managerAddResourceGroup (wManager w) ?rg" "wMux w' = m1"
    using r Some i by (auto simp: clusterReconcileNormal_def Let_def split: sum.splits)
  have only: "mget (workloadClusterListeners (wMux w)) n \<noteq> None \<or> n = ?rg" if "mget (workloadClusterListeners m1) n \<noteq> None" for n
    using that i by (auto simp: InitWorkloadClusterListener_def getFreePortLocked_def initWorkloadClusterListenerWithPortLocked_def Let_def
        split: option.splits if_splits)
  have "reachableMux host m1" using ok reachableMux.step [OF _ muxStep.init [OF i]] by (simp add: worldOk_def)
  moreover have "mget (workloadClusterNameByHost m1) (JoinHostPort host (Itoa (ciPort c))) = ciResourceGroup c" if c: "c \<in> set saved" for c
  proof -
    obtain n where n: "ciResourceGroup c = Some n" using well c by (auto simp: wellSaved_def)
    have "muxOk (wMux w)" using ok reachableMux_ok by (auto simp: worldOk_def)
    from Init_keeps_hosts [OF this i] ok c n show ?thesis by (simp add: worldOk_def)
  qed
  moreover have "resourceGroupTracker_of (cacheOf w') n \<noteq> None \<or> Some n \<in> ciResourceGroup ` set saved" if "mget (workloadClusterListeners m1) n \<noteq> None" for n
    using only [OF that] ok w'(1) by (auto simp: worldOk_def managerAddResourceGroup_def AddResourceGroup_groups)
  moreover have "reachableCache sch clock (cacheOf w')" "mgrScheme (wManager w') = sch"
    using ok AddResourceGroup_advances [of clock "cacheOf w" ?rg] w'(1) by (simp_all add: worldOk_def managerAddResourceGroup_def advances_def)
  ultimately show ?thesis using w'(2) by (simp add: worldOk_def)
qed

lemma clusterReconcile_ok:
  assumes ok: "worldOk sch host clock saved s" and well: "wellSaved host saved" and saves: "restartsFrom saved mg (fst s)"
    and r: "clusterReconcile mg req s = (res, gcl, s')"
  shows "worldOk sch host clock saved s'"
proof -
  obtain hr w where s: "s = (hr, w)" by (cases s)
  obtain res1 hr1 w1 where h: "reconcileHotRestart mg hr w = (res1, hr1, w1)" by (metis prod_cases3)
  have h1: "worldOk sch host clock saved (hr1, w1)" "res1 = Inr () \<longrightarrow> hr1" using hotRestart_ok [OF ok [unfolded s] well _ h] saves s by simp_all
  have "s' = s \<or> s' = (hr1, w1) \<or> hr1 \<and> (\<exists>c g r g' w'. clusterReconcileNormal c g w1 = (r, g', w') \<and> s' = (hr1, w'))"
    using r s h h1(2)
    by (auto simp: clusterReconcile_def deferPatch_def clusterReconcileDelete_def split: if_splits prod.splits sum.splits option.splits)
  with ok h1(1) clusterReconcileNormal_ok [OF _ well] show ?thesis by auto
qed

section \<open>Requests to the API server\<close>

lemma answerWrite_cache: "answerWrite lib m (res, c, obj, calls) = (resp, m', calls') \<Longrightarrow> m' = m\<lparr>mgrCache := c\<rparr>"
  by (auto simp: answerWrite_def split: sum.splits option.splits)

lemma api_advances:
  assumes "clock now"
  shows "apiV1Create lib now (handlerOf w) req = (resp, m, calls) \<Longrightarrow> worldAdvances clock w (w\<lparr>wManager := m\<rparr>)"
    and "apiV1Update lib now (handlerOf w) req = (resp, m, calls) \<Longrightarrow> worldAdvances clock w (w\<lparr>wManager := m\<rparr>)"
    and "apiV1Patch lib now (handlerOf w) req = (resp, m, calls) \<Longrightarrow> worldAdvances clock w (w\<lparr>wManager := m\<rparr>)"
    and "apiV1Delete fuel lib now (handlerOf w) req = Some (resp, m, calls) \<Longrightarrow> worldAdvances clock w (w\<lparr>wManager := m\<rparr>)"
proof -
  have same: "worldAdvances clock w (w\<lparr>wManager := m\<rparr>)" if "m = wManager w" using that by simp
  have put: "worldAdvances clock w (w\<lparr>wManager := m\<rparr>)" if "m = (wManager w)\<lparr>mgrCache := c\<rparr>" "advances clock (cacheOf w) c" for c
    using that worldAdvances_cache(1) by blast
  have st: "advances clock (cacheOf w) c" if "store now (cacheOf w) rg obj re = (r, c, o1, calls')" for rg obj re r c o1 calls'
    using store_advances assms that by blast
  have written: "worldAdvances clock w (w\<lparr>wManager := m\<rparr>)"
    if "answerWrite lib (wManager w) (store now (cacheOf w) rg obj re) = (resp, m, calls)" for rg obj re
    using that st put answerWrite_cache by (metis prod_cases4)
  show "worldAdvances clock w (w\<lparr>wManager := m\<rparr>)" if "apiV1Create lib now (handlerOf w) req = (resp, m, calls)"
    using that same written
    by (auto simp: apiV1Create_def withTarget_def handlerOf_def NewAPIServerHandler_def GetClient_def Create_def split: sum.splits)
  show "worldAdvances clock w (w\<lparr>wManager := m\<rparr>)" if "apiV1Update lib now (handlerOf w) req = (resp, m, calls)"
    using that same written
    by (auto simp: apiV1Update_def withTarget_def handlerOf_def NewAPIServerHandler_def GetClient_def Update_def split: sum.splits)
  show "worldAdvances clock w (w\<lparr>wManager := m\<rparr>)" if p: "apiV1Patch lib now (handlerOf w) req = (resp, m, calls)"
  proof -
    have "m = wManager w \<or> (\<exists>rg o0 p res c calls. Patch now (cacheOf w) rg o0 p = (res, c, calls) \<and> m = (wManager w)\<lparr>mgrCache := c\<rparr>)"
      using p by (auto simp: apiV1Patch_def withTarget_def handlerOf_def NewAPIServerHandler_def GetClient_def Let_def
          split: sum.splits prod.splits) blast+
    with same put client_advances(1) assms show ?thesis by blast
  qed
  show "worldAdvances clock w (w\<lparr>wManager := m\<rparr>)" if d: "apiV1Delete fuel lib now (handlerOf w) req = Some (resp, m, calls)"
  proof -
    have "m = wManager w \<or> (\<exists>rg obj res c obj' calls. Delete fuel now (cacheOf w) rg obj = Some (res, c, obj', calls)
        \<and> m = (wManager w)\<lparr>mgrCache := c\<rparr>)"
      using d by (auto simp: apiV1Delete_def withTarget_def handlerOf_def NewAPIServerHandler_def GetClient_def Let_def
          split: sum.splits prod.splits option.splits) blast+
    with same put client_advances(2) assms show ?thesis by blast
  qed
qed

lemma worldStep_ok: "worldStep clock saved s s' \<Longrightarrow> wellSaved host saved \<Longrightarrow> worldOk sch host clock saved s \<Longrightarrow> worldOk sch host clock saved s'"
proof (induction rule: worldStep.induct)
  case (cluster mg s req res gcl s')
  then show ?case using clusterReconcile_ok by blast
next
  case (machine clk mg pl rnd req w res gm w' hr)
  then show ?case using machineStep_advances machineReconcile_advances [of clock clk] by blast
next
  case (collect now fuel jitter w item res c calls hr)
  then show ?case using machineStep_advances worldAdvances_cache(1) client_advances(3) by blast
next
  case (sync now w item res' c calls hr)
  then show ?case using machineStep_advances worldAdvances_cache(1) client_advances(4) by blast
qed (blast intro: machineStep_advances api_advances)+

lemma setup_ok:
  assumes "startCloud sch cachePolls polls host = Inr s"
  shows "worldOk sch host clock saved s"
proof -
  obtain res c where c: "Start False cachePolls (NewCache sch) = (res, c)" by fastforce
  have "res = Inr ()" using assms c by (cases res) (simp_all add: startCloud_def managerStart_def managerNew_def)
  then have s: "s = (False, \<lparr>wManager = (managerNew sch)\<lparr>mgrCache := c, mgrStarted := True\<rparr>, wMux = NewWorkloadClustersMux host, wCalls = []\<rparr>)"
    using assms c by (simp add: startCloud_def managerStart_def managerNew_def)
  have "reachableCache sch clock c" using reachableCache.step [OF reachableCache.new cacheStep.start [OF c]] .
  then show ?thesis by (simp add: s worldOk_def managerNew_def reachableMux.new) (simp add: NewWorkloadClustersMux_def)
qed

lemma reachableWorld_ok: "reachableWorld sch host clock saved s \<Longrightarrow> wellSaved host saved \<Longrightarrow> worldOk sch host clock saved s"
  by (induction rule: reachableWorld.induct) (blast intro: setup_ok worldStep_ok)+

text \<open>
  C3. The process as a whole: after the start, whatever the order of reconciles, requests to the API server and background work, every host that
  the mux resolves belongs to exactly one listener, and the cluster it resolves to has its resource group, so that no request to a workload cluster
  meets a missing resource group, unless the process replaced another one and the cluster was served by that one; and every object of every
  resource group is well formed. From the hot restart on, the endpoints of the process before resolve to their resource groups for good,
  whatever clusters are added. The hypothesis on the endpoints found at the start is what every process leaves behind: distinct ports and
  resource groups, on the address of the pod.
\<close>

theorem world_invariant:
  assumes "reachableWorld sch host clock saved (hr, w)" and "wellSaved host saved"
  shows "(\<forall>h rg. resourceGroupResolver (wMux w) h = Inr rg \<longrightarrow>
        (\<exists>wcl. mget (workloadClusterListeners (wMux w)) rg = Some wcl \<and> HostPort wcl = h)
      \<and> ((\<exists>t. resourceGroupTracker_of (cacheOf w) rg = Some t) \<or> Some rg \<in> ciResourceGroup ` set saved))
     \<and> (\<forall>rg t r obj. resourceGroupTracker_of (cacheOf w) rg = Some t \<longrightarrow> objectAt t r = Some obj \<longrightarrow> objectOk sch clock r obj)
     \<and> (\<forall>c\<in>set saved. hr \<longrightarrow> (\<exists>rg. ciResourceGroup c = Some rg
          \<and> resourceGroupResolver (wMux w) (JoinHostPort host (Itoa (ciPort c))) = Inr rg))"
proof (intro conjI allI ballI impI)
  have ok: "worldOk sch host clock saved (hr, w)" using assms by (rule reachableWorld_ok)
  then have mux: "muxOk (wMux w)" using reachableMux_ok by (auto simp: worldOk_def)
  {
    fix h rg assume "resourceGroupResolver (wMux w) h = Inr rg"
    then have "mget (workloadClusterNameByHost (wMux w)) h = Some rg" by (simp add: resourceGroupResolver_def split: option.splits)
    from muxOk_hostD [OF mux this]
    show l: "\<exists>wcl. mget (workloadClusterListeners (wMux w)) rg = Some wcl \<and> HostPort wcl = h" .
    with ok show "(\<exists>t. resourceGroupTracker_of (cacheOf w) rg = Some t) \<or> Some rg \<in> ciResourceGroup ` set saved"
      by (fastforce simp: worldOk_def)
  next
    fix rg t r obj assume "resourceGroupTracker_of (cacheOf w) rg = Some t" "objectAt t r = Some obj"
    moreover have "reachableCache sch clock (cacheOf w)" using ok by (simp add: worldOk_def)
    ultimately show "objectOk sch clock r obj" using okObject.obj.reachable by (metis okObject.holds_def)
  next
    fix c assume c: "c \<in> set saved" and hr
    from c obtain rg where "ciResourceGroup c = Some rg" using assms(2) by (auto simp: wellSaved_def)
    with ok c \<open>hr\<close> show "\<exists>rg. ciResourceGroup c = Some rg \<and> resourceGroupResolver (wMux w) (JoinHostPort host (Itoa (ciPort c))) = Inr rg"
      by (simp add: worldOk_def resourceGroupResolver_def)
  }
qed

definition startedWorld :: "bool \<times> (string, string, string) world" where
  "startedWorld = projr (startCloud sampleCloudScheme (None, None, None) (\<lambda>_. None) ''10.0.0.1'')"

lemma startedWorld_set_up: "startCloud sampleCloudScheme (None, None, None) (\<lambda>_. None) ''10.0.0.1'' = Inr startedWorld"
  by (simp add: startedWorld_def startCloud_def managerStart_def managerNew_def Start_def NewCache_def startGarbageCollector_def
      startSyncer_def)

lemma sampleWorld_resolves:
  "\<exists>res gcl w h. clusterReconcile sampleManagement \<lparr>nnNamespace = ''default'', nnName = ''c1''\<rparr> startedWorld = (res, gcl, True, w)
     \<and> resourceGroupResolver (wMux w) h = Inr (KObj sampleCluster)"
proof -
  obtain hr w0 where s: "startedWorld = (hr, w0)" by fastforce
  have mux: "wMux w0 = NewWorkloadClustersMux ''10.0.0.1''" "\<not> hr"
    using arg_cong [OF s, of fst] arg_cong [OF s, of "\<lambda>x. wMux (snd x)"]
    by (simp_all add: startedWorld_def startCloud_def managerStart_def managerNew_def Start_def NewCache_def startGarbageCollector_def
        startSyncer_def)
  obtain listener m where i: "InitWorkloadClusterListener (wMux w0) (KObj sampleCluster) = (Inr listener, m)"
    and m: "mget (workloadClusterNameByHost m) (HostPort listener) = Some (KObj sampleCluster)"
    by (simp add: mux InitWorkloadClusterListener_def NewWorkloadClustersMux_def getFreePortLocked_def Let_def minPort_def maxPort_def
        initWorkloadClusterListenerWithPortLocked_def)
  have "resourceGroupResolver m (HostPort listener) = Inr (KObj sampleCluster)" using m by (simp add: resourceGroupResolver_def)
  then show ?thesis
    using i mux(2)
    by (auto simp: s clusterReconcile_def sampleManagement_def sampleGoofyCluster_def reconcileHotRestart_def HotRestart_def deferPatch_def
        clusterReconcileNormal_def Let_def)
qed

text \<open>A process that replaces another one: the endpoint of its one cluster, and the management cluster that holds it.\<close>

definition savedSample :: "clusterInfo list" where
  "savedSample = [infoOf (sampleGoofyCluster\<lparr>gclAnnotations := Some [(ResourceGroupAnnotationName, ''wkl-1'')], gclHost := ''10.0.0.1'', gclPort := 20000\<rparr>)]"

definition restartedManagement :: "(string, string) management" where
  "restartedManagement = sampleManagement\<lparr>mgListGoofyClusters := Inr [sampleGoofyCluster,
     sampleGoofyCluster\<lparr>gclAnnotations := Some [(ResourceGroupAnnotationName, ''wkl-1'')], gclHost := ''10.0.0.1'', gclPort := 20000\<rparr>]\<rparr>"

lemma restarted_from_saved: "restartsFrom savedSample restartedManagement hr"
  by (simp add: restartsFrom_def savedSample_def restartedManagement_def infoOf_def sampleGoofyCluster_def)

lemma savedSample_facts: "wellSaved ''10.0.0.1'' savedSample"
  "savedSample = [\<lparr>ciName = ciName (hd savedSample), ciHost = ''10.0.0.1'', ciPort = 20000, ciResourceGroup = Some ''wkl-1''\<rparr>]"
  by (simp_all add: wellSaved_def savedSample_def infoOf_def max_int64_def)

lemma restarted_done:
  "\<exists>res gcl w. clusterReconcile restartedManagement \<lparr>nnNamespace = ''default'', nnName = ''c1''\<rparr> startedWorld = (res, gcl, True, w)"
proof -
  obtain hr w0 where s: "startedWorld = (hr, w0)" by fastforce
  have mux: "wMux w0 = NewWorkloadClustersMux ''10.0.0.1''" "\<not> hr"
    using startCloud_state [OF startedWorld_set_up] by (simp_all add: s)
  show ?thesis
    using mux(2)
    by (auto simp: s mux clusterReconcile_def restartedManagement_def sampleManagement_def sampleGoofyCluster_def reconcileHotRestart_def HotRestart_def
        NewWorkloadClustersMux_def infoOf_def initWorkloadClusterListenerWithPortLocked_def deferPatch_def clusterReconcileNormal_def Let_def
        split: prod.splits)
qed

theorem world_invariant_witness:
  "(\<exists>res gcl w h t. clusterReconcile sampleManagement \<lparr>nnNamespace = ''default'', nnName = ''c1''\<rparr> startedWorld = (res, gcl, True, w)
     \<and> resourceGroupResolver (wMux w) h = Inr (KObj sampleCluster) \<and> resourceGroupTracker_of (cacheOf w) (KObj sampleCluster) = Some t)
   \<and> (\<exists>res gcl w. clusterReconcile restartedManagement \<lparr>nnNamespace = ''default'', nnName = ''c1''\<rparr> startedWorld = (res, gcl, True, w)
     \<and> resourceGroupResolver (wMux w) (JoinHostPort ''10.0.0.1'' (Itoa 20000)) = Inr ''wkl-1'')"
proof
  obtain res gcl w h where c: "clusterReconcile sampleManagement \<lparr>nnNamespace = ''default'', nnName = ''c1''\<rparr> startedWorld = (res, gcl, True, w)"
    and h: "resourceGroupResolver (wMux w) h = Inr (KObj sampleCluster)" using sampleWorld_resolves by blast
  have "restartsFrom [] sampleManagement (fst startedWorld)" by (simp add: restartsFrom_def sampleManagement_def)
  with c have "reachableWorld sampleCloudScheme ''10.0.0.1'' (\<lambda>_. True) [] (True, w)"
    using reachableWorld.step [OF reachableWorld.start [OF startedWorld_set_up]] worldStep.cluster by blast
  from world_invariant [OF this] c h
  show "\<exists>res gcl w h t. clusterReconcile sampleManagement \<lparr>nnNamespace = ''default'', nnName = ''c1''\<rparr> startedWorld = (res, gcl, True, w)
     \<and> resourceGroupResolver (wMux w) h = Inr (KObj sampleCluster) \<and> resourceGroupTracker_of (cacheOf w) (KObj sampleCluster) = Some t"
    by (simp add: wellSaved_def) blast
next
  obtain res gcl w where c: "clusterReconcile restartedManagement \<lparr>nnNamespace = ''default'', nnName = ''c1''\<rparr> startedWorld = (res, gcl, True, w)"
    using restarted_done by blast
  with restarted_from_saved have "reachableWorld sampleCloudScheme ''10.0.0.1'' (\<lambda>_. True) savedSample (True, w)"
    using reachableWorld.step [OF reachableWorld.start [OF startedWorld_set_up]] worldStep.cluster by blast
  from world_invariant [OF this savedSample_facts(1)]
  have "\<forall>c\<in>set savedSample. \<exists>rg. ciResourceGroup c = Some rg \<and> resourceGroupResolver (wMux w) (JoinHostPort ''10.0.0.1'' (Itoa (ciPort c))) = Inr rg"
    by blast
  with c show "\<exists>res gcl w. clusterReconcile restartedManagement \<lparr>nnNamespace = ''default'', nnName = ''c1''\<rparr> startedWorld = (res, gcl, True, w)
     \<and> resourceGroupResolver (wMux w) (JoinHostPort ''10.0.0.1'' (Itoa 20000)) = Inr ''wkl-1''"
    by (subst (asm) savedSample_facts(2)) simp
qed

end
