(* ===== verification/Copy_Heap.thy ===== *)
theory Copy_Heap
  imports Go_Prelude "HOL-Library.Sublist" "HOL-Library.Monad_Syntax"
begin

text \<open>
  Memory with pointers and slices, for the generated copies of the API types. A heap is the list of the cells allocated so far; an
  address is a position of it, allocation appends. What a cell holds is a parameter: a kind of cell is an injection \<open>mk\<close>
  and a partial projection \<open>dest\<close>. \<open>DeepCopyPtr\<close> and \<open>copySlice\<close> are the two shapes of code the
  generator emits around the copy of a struct: for a pointer and for a slice. The locale \<open>deep_copier\<close> is the contract of
  every copy: the copy reads as the original, in cells that were not allocated before.
\<close>

section \<open>Heaps\<close>

definition loadCell :: "'x list \<Rightarrow> nat \<Rightarrow> 'x option" where
  "loadCell h a = (if a < length h then Some (h ! a) else None)"

definition allocCell :: "'x \<Rightarrow> 'x list \<Rightarrow> nat \<times> 'x list" where
  "allocCell c h = (length h, h @ [c])"

definition storeCell :: "nat \<Rightarrow> 'x \<Rightarrow> 'x list \<Rightarrow> 'x list option" where
  "storeCell a c h = (if a < length h then Some (h[a := c]) else None)"

text \<open>Reading a cell at a kind: no value when the cell is of another kind.\<close>

definition loadAs :: "('x \<Rightarrow> 'v option) \<Rightarrow> 'x list \<Rightarrow> nat \<Rightarrow> 'v option" where
  "loadAs dest h a = loadCell h a \<bind> dest"

definition agreeOn :: "nat set \<Rightarrow> 'x list \<Rightarrow> 'x list \<Rightarrow> bool" where
  "agreeOn A h h' \<longleftrightarrow> (\<forall>a\<in>A. loadCell h' a = loadCell h a)"

lemma load_Some_iff: "loadCell h a = Some c \<longleftrightarrow> a < length h \<and> h ! a = c"
  by (auto simp: loadCell_def)

lemma loadAs_allocated: "loadAs dest h a = Some v \<Longrightarrow> a < length h"
  by (auto simp: loadAs_def loadCell_def split: if_splits)

lemma loadAs_agree: "loadCell h' a = loadCell h a \<Longrightarrow> loadAs dest h' a = loadAs dest h a"
  by (simp add: loadAs_def)

lemma prefix_load: "prefix h h' \<Longrightarrow> a < length h \<Longrightarrow> loadCell h' a = loadCell h a"
  by (auto simp: prefix_def loadCell_def nth_append)

lemma prefix_agree: "prefix h h' \<Longrightarrow> A \<subseteq> {..<length h} \<Longrightarrow> agreeOn A h h'"
  by (auto simp: agreeOn_def prefix_load)

lemma prefix_update: "prefix h h' \<Longrightarrow> length h \<le> a \<Longrightarrow> prefix h (h'[a := c])"
  by (auto simp: prefix_def list_update_append)

lemma update_agree: "a \<notin> A \<Longrightarrow> agreeOn A h (h[a := c])"
  by (auto simp: agreeOn_def loadCell_def) (metis nth_list_update_neq)

lemma load_update: "a < length h \<Longrightarrow> loadCell (h[a := c]) a = Some c"
  by (simp add: loadCell_def)

section \<open>The contract of a copy\<close>

text \<open>
  \<open>copyInto v h\<close> is the value written to the target and the heap afterwards, when the value \<open>v\<close> of the receiver
  is copied; \<open>view h v\<close> is the value with every pointer followed, \<open>None\<close> when a pointer of it does not lead to a
  cell of its kind; \<open>cells h v\<close> are the addresses read on the way.
\<close>

locale deep_copier =
  fixes copyInto :: "'v \<Rightarrow> 'x list \<Rightarrow> ('v \<times> 'x list) option"
    and view :: "'x list \<Rightarrow> 'v \<Rightarrow> 'd option"
    and cells :: "'x list \<Rightarrow> 'v \<Rightarrow> nat set"
  assumes allocated: "view h v = Some d \<Longrightarrow> cells h v \<subseteq> {..<length h}"
    and frame: "view h v = Some d \<Longrightarrow> agreeOn (cells h v) h h' \<Longrightarrow> view h' v = Some d \<and> cells h' v = cells h v"
    and copied: "view h v = Some d \<Longrightarrow> \<exists>v' h'. copyInto v h = Some (v', h') \<and> prefix h h' \<and> view h' v' = Some d
      \<and> (\<forall>a\<in>cells h' v'. length h \<le> a)"
begin

lemma view_prefix: "view h v = Some d \<Longrightarrow> prefix h h' \<Longrightarrow> view h' v = Some d \<and> cells h' v = cells h v"
  using allocated frame prefix_agree by metis

lemma copy_succeeds: "view h v = Some d \<Longrightarrow> \<exists>v' h'. copyInto v h = Some (v', h')"
  using copied by blast

lemma copied_unique:
  assumes "view h v = Some d" "copyInto v h = Some (v', h')"
  shows "prefix h h'" "view h' v' = Some d" "\<And>a. a \<in> cells h' v' \<Longrightarrow> length h \<le> a"
  using copied [OF assms(1)] assms(2) by auto

lemma copy_disjoint:
  assumes "view h v = Some d" "copyInto v h = Some (v', h')"
  shows "cells h' v \<inter> cells h' v' = {}"
proof -
  have "cells h' v \<subseteq> {..<length h}"
    using view_prefix [OF assms(1) copied_unique(1) [OF assms]] allocated [OF assms(1)] by simp
  then show ?thesis
    using copied_unique(3) [OF assms] by (fastforce simp: disjoint_iff)
qed

text \<open>Any change of the heap outside the cells of one of the two leaves that one as it was.\<close>

lemma copy_isolated:
  assumes v: "view h v = Some d" and c: "copyInto v h = Some (v', h')"
  shows "agreeOn (- cells h' v') h' h'' \<Longrightarrow> view h'' v = Some d"
    and "agreeOn (- cells h' v) h' h'' \<Longrightarrow> view h'' v' = Some d"
proof -
  have dis: "cells h' v \<subseteq> - cells h' v'" "cells h' v' \<subseteq> - cells h' v"
    using copy_disjoint [OF v c] by auto
  have d: "view h' v = Some d" "view h' v' = Some d"
    using view_prefix [OF v copied_unique(1) [OF v c]] copied_unique(2) [OF v c] by auto
  show "agreeOn (- cells h' v') h' h'' \<Longrightarrow> view h'' v = Some d"
    using frame [OF d(1), of h''] dis(1) by (auto simp: agreeOn_def)
  show "agreeOn (- cells h' v) h' h'' \<Longrightarrow> view h'' v' = Some d"
    using frame [OF d(2), of h''] dis(2) by (auto simp: agreeOn_def)
qed

end

section \<open>Values without pointers\<close>

definition plainCopy :: "'v \<Rightarrow> 'x list \<Rightarrow> ('v \<times> 'x list) option" where
  "plainCopy v h = Some (v, h)"

definition plainView :: "'x list \<Rightarrow> 'v \<Rightarrow> 'v option" where
  "plainView h v = Some v"

definition plainCells :: "'x list \<Rightarrow> 'v \<Rightarrow> nat set" where
  "plainCells h v = {}"

interpretation plainCopier: deep_copier plainCopy plainView plainCells
  by unfold_locales (auto simp: plainCopy_def plainView_def plainCells_def)

section \<open>Pointers\<close>

definition DeepCopyPtr :: "('v \<Rightarrow> 'x) \<Rightarrow> ('x \<Rightarrow> 'v option) \<Rightarrow> 'v \<Rightarrow> ('v \<Rightarrow> 'x list \<Rightarrow> ('v \<times> 'x list) option)
    \<Rightarrow> nat option \<Rightarrow> 'x list \<Rightarrow> (nat option \<times> 'x list) option" where
  "DeepCopyPtr mk dest zero copyInto p h = (case p of
     None \<Rightarrow> Some (None, h)
   | Some a \<Rightarrow> do {
       let (out, h0) = allocCell (mk zero) h;
       v \<leftarrow> loadAs dest h0 a;
       (v', h1) \<leftarrow> copyInto v h0;
       h2 \<leftarrow> storeCell out (mk v') h1;
       Some (Some out, h2)
     })"

definition viewPtr :: "('x \<Rightarrow> 'v option) \<Rightarrow> ('x list \<Rightarrow> 'v \<Rightarrow> 'd option) \<Rightarrow> 'x list \<Rightarrow> nat option \<Rightarrow> 'd option option" where
  "viewPtr dest view h p = (case p of
     None \<Rightarrow> Some None
   | Some a \<Rightarrow> map_option Some (loadAs dest h a \<bind> view h))"

definition cellsPtr :: "('x \<Rightarrow> 'v option) \<Rightarrow> ('x list \<Rightarrow> 'v \<Rightarrow> nat set) \<Rightarrow> 'x list \<Rightarrow> nat option \<Rightarrow> nat set" where
  "cellsPtr dest cells h p = (case p of
     None \<Rightarrow> {}
   | Some a \<Rightarrow> insert a (case loadAs dest h a of None \<Rightarrow> {} | Some v \<Rightarrow> cells h v))"

context deep_copier
begin

lemma ptr_copied:
  assumes "loadAs dest h a = Some v" "view h v = Some d" and dest_mk: "\<And>v. dest (mk v) = Some v"
  shows "\<exists>h'. DeepCopyPtr mk dest zero copyInto (Some a) h = Some (Some (length h), h') \<and> prefix h h'
    \<and> viewPtr dest view h' (Some (length h)) = Some (Some d) \<and> (\<forall>b\<in>cellsPtr dest cells h' (Some (length h)). length h \<le> b)"
proof -
  let ?h0 = "h @ [mk zero]"
  have a: "a < length h"
    using assms(1) by (rule loadAs_allocated)
  have v0: "loadAs dest ?h0 a = Some v"
    using assms(1) a by (simp add: loadAs_def loadCell_def nth_append)
  have d0: "view ?h0 v = Some d"
    using view_prefix [OF assms(2)] by simp
  then obtain v' h1 where c: "copyInto v ?h0 = Some (v', h1)"
    using copy_succeeds by blast
  note u = copied_unique [OF d0 c]
  have len: "length h < length h1"
    using u(1) prefix_length_le by fastforce
  let ?h2 = "h1[length h := mk v']"
  have out: "length h \<notin> cells h1 v'"
    using u(3) by fastforce
  have f: "view ?h2 v' = Some d" "cells ?h2 v' = cells h1 v'"
    using frame [OF u(2) update_agree [OF out]] by auto
  have l: "loadAs dest ?h2 (length h) = Some v'"
    using load_update [OF len] by (simp add: loadAs_def dest_mk)
  have "prefix h ?h2"
    using u(1) by (intro prefix_update) (auto dest: append_prefixD)
  moreover have "DeepCopyPtr mk dest zero copyInto (Some a) h = Some (Some (length h), ?h2)"
    using v0 c len by (simp add: DeepCopyPtr_def allocCell_def storeCell_def)
  ultimately show ?thesis
    using l f u(3) by (fastforce simp: viewPtr_def cellsPtr_def)
qed

lemma ptr_frame:
  assumes "viewPtr dest view h p = Some d" "agreeOn (cellsPtr dest cells h p) h h'"
  shows "viewPtr dest view h' p = Some d \<and> cellsPtr dest cells h' p = cellsPtr dest cells h p"
proof (cases p)
  case (Some a)
  then obtain v e where v: "loadAs dest h a = Some v" and e: "view h v = Some e" "d = Some e"
    using assms(1) by (auto simp: viewPtr_def split: bind_splits)
  have ag: "loadCell h' a = loadCell h a" "agreeOn (cells h v) h h'"
    using assms(2) v Some by (auto simp: cellsPtr_def agreeOn_def)
  have "loadAs dest h' a = Some v"
    using v loadAs_agree [OF ag(1), of dest] by simp
  with frame [OF e(1) ag(2)] v e(2) Some show ?thesis
    by (simp add: viewPtr_def cellsPtr_def)
qed (use assms in \<open>auto simp: viewPtr_def cellsPtr_def\<close>)

lemma ptr_deep_copier:
  assumes dest_mk: "\<And>v. dest (mk v) = Some v"
  shows "deep_copier (DeepCopyPtr mk dest zero copyInto) (viewPtr dest view) (cellsPtr dest cells)"
proof
  fix h :: "'x list" and p d
  assume w: "viewPtr dest view h p = Some d"
  show "cellsPtr dest cells h p \<subseteq> {..<length h}"
  proof (cases p)
    case (Some a)
    then obtain v e where v: "loadAs dest h a = Some v" and e: "view h v = Some e"
      using w by (auto simp: viewPtr_def split: bind_splits)
    show ?thesis
      using loadAs_allocated [OF v] allocated [OF e] v Some by (auto simp: cellsPtr_def)
  qed (simp add: cellsPtr_def)
  show "\<exists>p' h'. DeepCopyPtr mk dest zero copyInto p h = Some (p', h') \<and> prefix h h'
      \<and> viewPtr dest view h' p' = Some d \<and> (\<forall>a\<in>cellsPtr dest cells h' p'. length h \<le> a)"
  proof (cases p)
    case None
    with w show ?thesis
      by (auto simp: viewPtr_def cellsPtr_def DeepCopyPtr_def)
  next
    case (Some a)
    then obtain v e where v: "loadAs dest h a = Some v" and e: "view h v = Some e" "d = Some e"
      using w by (auto simp: viewPtr_def split: bind_splits)
    show ?thesis
      using ptr_copied [OF v e(1) dest_mk, of zero] Some e(2) by blast
  qed
next
  fix h h' :: "'x list" and p d
  assume "viewPtr dest view h p = Some d" "agreeOn (cellsPtr dest cells h p) h h'"
  then show "viewPtr dest view h' p = Some d \<and> cellsPtr dest cells h' p = cellsPtr dest cells h p"
    by (rule ptr_frame)
qed

end

section \<open>Slices\<close>

record slice =
  sliceArray :: nat
  sliceOffset :: nat
  sliceLen :: nat

definition elems :: "('x \<Rightarrow> 'v list option) \<Rightarrow> 'x list \<Rightarrow> slice \<Rightarrow> 'v list option" where
  "elems dest h s = do {
     vs \<leftarrow> loadAs dest h (sliceArray s);
     if sliceOffset s + sliceLen s \<le> length vs then Some (take (sliceLen s) (drop (sliceOffset s) vs)) else None
   }"

text \<open>Indexing a slice and assigning to an element of it; an index out of range is no result (the code would panic).\<close>

definition indexSlice :: "('x \<Rightarrow> 'v list option) \<Rightarrow> slice \<Rightarrow> nat \<Rightarrow> 'x list \<Rightarrow> 'v option" where
  "indexSlice dest s i h = do {
     vs \<leftarrow> elems dest h s;
     if i < length vs then Some (vs ! i) else None
   }"

definition assignSlice :: "('v list \<Rightarrow> 'x) \<Rightarrow> ('x \<Rightarrow> 'v list option) \<Rightarrow> slice \<Rightarrow> nat \<Rightarrow> 'v \<Rightarrow> 'x list \<Rightarrow> 'x list option" where
  "assignSlice mk dest s i v h = do {
     vs \<leftarrow> loadAs dest h (sliceArray s);
     if i < sliceLen s \<and> sliceOffset s + i < length vs
     then storeCell (sliceArray s) (mk (vs[sliceOffset s + i := v])) h else None
   }"

fun copyElems :: "('v list \<Rightarrow> 'x) \<Rightarrow> ('x \<Rightarrow> 'v list option) \<Rightarrow> ('v \<Rightarrow> 'x list \<Rightarrow> ('v \<times> 'x list) option)
    \<Rightarrow> slice \<Rightarrow> slice \<Rightarrow> nat \<Rightarrow> nat \<Rightarrow> 'x list \<Rightarrow> 'x list option" where
  "copyElems mk dest copyInto src dst 0 i h = Some h"
| "copyElems mk dest copyInto src dst (Suc k) i h = do {
     v \<leftarrow> indexSlice dest src i h;
     (v', h1) \<leftarrow> copyInto v h;
     h2 \<leftarrow> assignSlice mk dest dst i v' h1;
     copyElems mk dest copyInto src dst k (Suc i) h2
   }"

definition copySlice :: "('v list \<Rightarrow> 'x) \<Rightarrow> ('x \<Rightarrow> 'v list option) \<Rightarrow> 'v \<Rightarrow> ('v \<Rightarrow> 'x list \<Rightarrow> ('v \<times> 'x list) option)
    \<Rightarrow> slice option \<Rightarrow> 'x list \<Rightarrow> (slice option \<times> 'x list) option" where
  "copySlice mk dest zero copyInto s h = (case s of
     None \<Rightarrow> Some (None, h)
   | Some src \<Rightarrow> do {
       let (a, h0) = allocCell (mk (replicate (sliceLen src) zero)) h;
       let dst = \<lparr>sliceArray = a, sliceOffset = 0, sliceLen = sliceLen src\<rparr>;
       h1 \<leftarrow> copyElems mk dest copyInto src dst (sliceLen src) 0 h0;
       Some (Some dst, h1)
     })"

definition viewSlice :: "('x \<Rightarrow> 'v list option) \<Rightarrow> ('x list \<Rightarrow> 'v \<Rightarrow> 'd option) \<Rightarrow> 'x list \<Rightarrow> slice option \<Rightarrow> 'd list option option" where
  "viewSlice dest view h s = (case s of
     None \<Rightarrow> Some None
   | Some src \<Rightarrow> map_option Some (elems dest h src \<bind> (\<lambda>vs. those (map (view h) vs))))"

definition cellsSlice :: "('x \<Rightarrow> 'v list option) \<Rightarrow> ('x list \<Rightarrow> 'v \<Rightarrow> nat set) \<Rightarrow> 'x list \<Rightarrow> slice option \<Rightarrow> nat set" where
  "cellsSlice dest cells h s = (case s of
     None \<Rightarrow> {}
   | Some src \<Rightarrow> insert (sliceArray src) (case elems dest h src of None \<Rightarrow> {} | Some vs \<Rightarrow> \<Union> (cells h ` set vs)))"

lemma those_map_iff: "those (map f xs) = Some ys \<longleftrightarrow> list_all2 (\<lambda>x y. f x = Some y) xs ys"
  by (induction xs arbitrary: ys) (auto split: option.splits simp: list_all2_Cons1)

lemma list_all2_left: "list_all2 P xs ys \<Longrightarrow> x \<in> set xs \<Longrightarrow> \<exists>y. P x y"
  by (auto simp: list_all2_conv_all_nth in_set_conv_nth)

lemma elems_load: "loadCell h' (sliceArray s) = loadCell h (sliceArray s) \<Longrightarrow> elems dest h' s = elems dest h s"
  by (simp add: elems_def loadAs_def)

lemma elems_allocated: "elems dest h s = Some vs \<Longrightarrow> sliceArray s < length h \<and> length vs = sliceLen s"
  by (auto simp: elems_def split: bind_splits if_splits dest: loadAs_allocated)

lemma viewSlice_Some_iff: "viewSlice dest view h (Some s) = Some d \<longleftrightarrow>
    (\<exists>vs ds. elems dest h s = Some vs \<and> list_all2 (\<lambda>v e. view h v = Some e) vs ds \<and> d = Some ds)"
  by (auto simp: viewSlice_def those_map_iff split: bind_splits)

lemma whole_array_elems: "elems dest h \<lparr>sliceArray = a, sliceOffset = 0, sliceLen = n\<rparr> = Some vs
    \<longleftrightarrow> (\<exists>xs. loadAs dest h a = Some xs \<and> n \<le> length xs \<and> vs = take n xs)"
  by (auto simp: elems_def split: bind_splits)

context deep_copier
begin

text \<open>The state of the loop: the first \<open>i\<close> elements of the new array, at address \<open>a\<close>, read as they should.\<close>

definition copiedTo :: "('x \<Rightarrow> 'v list option) \<Rightarrow> 'x list \<Rightarrow> 'd list \<Rightarrow> nat \<Rightarrow> 'x list \<Rightarrow> bool" where
  "copiedTo dest h ds i g \<longleftrightarrow> prefix h g \<and> (\<exists>ys. loadAs dest g (length h) = Some ys \<and> length ys = length ds
     \<and> (\<forall>j<i. view g (ys ! j) = Some (ds ! j) \<and> (\<forall>b\<in>cells g (ys ! j). length h < b)))"

lemma copiedTo_step:
  assumes inv: "copiedTo dest h ds i g" and v: "view g v = Some (ds ! i)" and i: "i < length ds"
    and dest_mk: "\<And>vs. dest (mk vs) = Some vs"
  shows "\<exists>v' g1 g2. copyInto v g = Some (v', g1)
    \<and> assignSlice mk dest \<lparr>sliceArray = length h, sliceOffset = 0, sliceLen = length ds\<rparr> i v' g1 = Some g2
    \<and> copiedTo dest h ds (Suc i) g2"
proof -
  obtain ys where g: "prefix h g" "loadAs dest g (length h) = Some ys" "length ys = length ds"
    and ys: "\<And>j. j < i \<Longrightarrow> view g (ys ! j) = Some (ds ! j) \<and> (\<forall>b\<in>cells g (ys ! j). length h < b)"
    using inv by (auto simp: copiedTo_def)
  obtain v' g1 where c: "copyInto v g = Some (v', g1)"
    using copy_succeeds [OF v] by blast
  note u = copied_unique [OF v c]
  have a: "length h < length g"
    using g(2) by (rule loadAs_allocated)
  then have a1: "length h < length g1"
    using prefix_length_le [OF u(1)] by simp
  have l1: "loadAs dest g1 (length h) = Some ys"
    using g(2) loadAs_agree [OF prefix_load [OF u(1) a], of dest] by simp
  let ?g2 = "g1[length h := mk (ys[i := v'])]"
  have "assignSlice mk dest \<lparr>sliceArray = length h, sliceOffset = 0, sliceLen = length ds\<rparr> i v' g1 = Some ?g2"
    using l1 i g(3) a1 by (simp add: assignSlice_def storeCell_def)
  moreover have "loadAs dest ?g2 (length h) = Some (ys[i := v'])"
    using load_update [OF a1] by (simp add: loadAs_def dest_mk)
  moreover have "view ?g2 (ys[i := v'] ! j) = Some (ds ! j) \<and> (\<forall>b\<in>cells ?g2 (ys[i := v'] ! j). length h < b)" if "j < Suc i" for j
  proof -
    let ?w = "ys[i := v'] ! j"
    have w: "view g1 ?w = Some (ds ! j) \<and> (\<forall>b\<in>cells g1 ?w. length h < b)"
    proof (cases "j = i")
      case True
      then show ?thesis
        using u(2) u(3) a i g(3) by fastforce
    next
      case False
      then show ?thesis
        using that ys [of j] view_prefix [OF _ u(1)] by (metis less_antisym nth_list_update_neq)
    qed
    then show ?thesis
      using frame [of g1 ?w "ds ! j" ?g2] update_agree [of "length h" "cells g1 ?w" g1] by fastforce
  qed
  moreover have "prefix h ?g2"
    using g(1) u(1) by (intro prefix_update) (auto intro: prefix_order.trans)
  ultimately show ?thesis
    using c g(3) unfolding copiedTo_def by (intro exI [of _ v'] exI [of _ g1] exI [of _ ?g2]) auto
qed

lemma copyElems_copied:
  assumes src: "elems dest h src = Some vs" "list_all2 (\<lambda>v e. view h v = Some e) vs ds"
    and dest_mk: "\<And>vs. dest (mk vs) = Some vs"
  shows "copiedTo dest h ds i g \<Longrightarrow> i + k = length ds \<Longrightarrow>
    \<exists>g'. copyElems mk dest copyInto src \<lparr>sliceArray = length h, sliceOffset = 0, sliceLen = length ds\<rparr> k i g = Some g'
      \<and> copiedTo dest h ds (length ds) g'"
proof (induction k arbitrary: i g)
  case (Suc k)
  have p: "prefix h g"
    using Suc.prems(1) by (simp add: copiedTo_def)
  have len: "length vs = length ds"
    using src(2) by (rule list_all2_lengthD)
  have v: "view g (vs ! i) = Some (ds ! i)"
    using src(2) Suc.prems(2) view_prefix [OF _ p] by (auto simp: list_all2_conv_all_nth)
  have x: "indexSlice dest src i g = Some (vs ! i)"
    using elems_load [of g src h dest] prefix_load [OF p] elems_allocated [OF src(1)] src(1) Suc.prems(2) len
    by (simp add: indexSlice_def)
  show ?case
    using copiedTo_step [OF Suc.prems(1) v _ dest_mk] Suc.prems(2) Suc.IH x by fastforce
qed simp

lemma slice_copied:
  assumes "elems dest h src = Some vs" "list_all2 (\<lambda>v e. view h v = Some e) vs ds"
    and dest_mk: "\<And>vs. dest (mk vs) = Some vs"
  shows "\<exists>s' h'. copySlice mk dest zero copyInto (Some src) h = Some (s', h') \<and> prefix h h'
    \<and> viewSlice dest view h' s' = Some (Some ds) \<and> (\<forall>b\<in>cellsSlice dest cells h' s'. length h \<le> b)"
proof -
  let ?n = "length ds" and ?h0 = "h @ [mk (replicate (length ds) zero)]"
  let ?dst = "\<lparr>sliceArray = length h, sliceOffset = 0, sliceLen = length ds\<rparr>"
  have n: "sliceLen src = length ds"
    using elems_allocated [OF assms(1)] list_all2_lengthD [OF assms(2)] by simp
  have "copiedTo dest h ds 0 ?h0"
    by (simp add: copiedTo_def loadAs_def loadCell_def dest_mk)
  then obtain g where g: "copyElems mk dest copyInto src ?dst ?n 0 ?h0 = Some g" "copiedTo dest h ds ?n g"
    using copyElems_copied [OF assms, of 0 ?h0 ?n] by auto
  obtain ys where ys: "prefix h g" "loadAs dest g (length h) = Some ys" "length ys = ?n"
    and e: "\<And>j. j < ?n \<Longrightarrow> view g (ys ! j) = Some (ds ! j) \<and> (\<forall>b\<in>cells g (ys ! j). length h < b)"
    using g(2) by (auto simp: copiedTo_def)
  have el: "elems dest g ?dst = Some ys"
    using ys by (simp add: whole_array_elems)
  have "viewSlice dest view g (Some ?dst) = Some (Some ds)"
    using el ys(3) e by (auto simp: viewSlice_Some_iff list_all2_conv_all_nth)
  moreover have "length h \<le> b" if "b \<in> cellsSlice dest cells g (Some ?dst)" for b
    using that el e ys(3) by (fastforce simp: cellsSlice_def in_set_conv_nth)
  moreover have "copySlice mk dest zero copyInto (Some src) h = Some (Some ?dst, g)"
    using g(1) n by (simp add: copySlice_def allocCell_def)
  ultimately show ?thesis
    using ys(1) by blast
qed

lemma slice_frame:
  assumes "viewSlice dest view h s = Some d" "agreeOn (cellsSlice dest cells h s) h h'"
  shows "viewSlice dest view h' s = Some d \<and> cellsSlice dest cells h' s = cellsSlice dest cells h s"
proof (cases s)
  case (Some src)
  obtain vs ds where vs: "elems dest h src = Some vs" "list_all2 (\<lambda>v e. view h v = Some e) vs ds" "d = Some ds"
    using assms(1) Some by (auto simp: viewSlice_Some_iff)
  have ag: "loadCell h' (sliceArray src) = loadCell h (sliceArray src)" "\<And>v. v \<in> set vs \<Longrightarrow> agreeOn (cells h v) h h'"
    using assms(2) vs(1) Some by (auto simp: cellsSlice_def agreeOn_def)
  have e: "elems dest h' src = Some vs"
    using elems_load [OF ag(1), of dest] vs(1) by simp
  have f: "view h' v = Some x \<and> cells h' v = cells h v" if "v \<in> set vs" "view h v = Some x" for v x
    using frame [OF that(2) ag(2) [OF that(1)]] .
  have "list_all2 (\<lambda>v e. view h' v = Some e) vs ds"
    using vs(2) f by (auto elim!: list_all2_mono simp: list_all2_conv_all_nth)
  moreover have "cells h' v = cells h v" if "v \<in> set vs" for v
    using f [OF that] list_all2_left [OF vs(2) that] by blast
  ultimately show ?thesis
    using e vs Some by (auto simp: viewSlice_Some_iff cellsSlice_def)
qed (use assms in \<open>auto simp: viewSlice_def cellsSlice_def\<close>)

lemma slice_deep_copier:
  assumes dest_mk: "\<And>vs. dest (mk vs) = Some vs"
  shows "deep_copier (copySlice mk dest zero copyInto) (viewSlice dest view) (cellsSlice dest cells)"
proof
  fix h :: "'x list" and s d
  assume w: "viewSlice dest view h s = Some d"
  show "cellsSlice dest cells h s \<subseteq> {..<length h}"
  proof (cases s)
    case (Some src)
    then obtain vs ds where vs: "elems dest h src = Some vs" "list_all2 (\<lambda>v e. view h v = Some e) vs ds"
      using w by (auto simp: viewSlice_Some_iff)
    have "cells h v \<subseteq> {..<length h}" if "v \<in> set vs" for v
      using list_all2_left [OF vs(2) that] allocated by blast
    then show ?thesis
      using vs(1) elems_allocated [OF vs(1)] Some by (auto simp: cellsSlice_def)
  qed (simp add: cellsSlice_def)
  show "\<exists>s' h'. copySlice mk dest zero copyInto s h = Some (s', h') \<and> prefix h h'
      \<and> viewSlice dest view h' s' = Some d \<and> (\<forall>a\<in>cellsSlice dest cells h' s'. length h \<le> a)"
  proof (cases s)
    case None
    with w show ?thesis
      by (auto simp: viewSlice_def cellsSlice_def copySlice_def)
  next
    case (Some src)
    then show ?thesis
      using w slice_copied [OF _ _ dest_mk, of h src _ _ zero] by (auto simp: viewSlice_Some_iff)
  qed
next
  fix h h' :: "'x list" and s d
  assume "viewSlice dest view h s = Some d" "agreeOn (cellsSlice dest cells h s) h h'"
  then show "viewSlice dest view h' s = Some d \<and> cellsSlice dest cells h' s = cellsSlice dest cells h s"
    by (rule slice_frame)
qed

end

section \<open>Structs\<close>

text \<open>
  A struct is copied field by field: \<open>get\<close> are the fields that are copied one after the other, \<open>rest\<close> the fields
  that the assignment of the whole struct copies.
\<close>

definition pairCopy :: "('v \<Rightarrow> 'x list \<Rightarrow> ('v \<times> 'x list) option) \<Rightarrow> ('w \<Rightarrow> 'x list \<Rightarrow> ('w \<times> 'x list) option)
    \<Rightarrow> 'v \<times> 'w \<Rightarrow> 'x list \<Rightarrow> (('v \<times> 'w) \<times> 'x list) option" where
  "pairCopy copy1 copy2 p h = do {
     (v, h1) \<leftarrow> copy1 (fst p) h;
     (w, h2) \<leftarrow> copy2 (snd p) h1;
     Some ((v, w), h2)
   }"

definition pairView :: "('x list \<Rightarrow> 'v \<Rightarrow> 'd option) \<Rightarrow> ('x list \<Rightarrow> 'w \<Rightarrow> 'e option) \<Rightarrow> 'x list \<Rightarrow> 'v \<times> 'w \<Rightarrow> ('d \<times> 'e) option" where
  "pairView view1 view2 h p = do {
     d \<leftarrow> view1 h (fst p);
     e \<leftarrow> view2 h (snd p);
     Some (d, e)
   }"

definition pairCells :: "('x list \<Rightarrow> 'v \<Rightarrow> nat set) \<Rightarrow> ('x list \<Rightarrow> 'w \<Rightarrow> nat set) \<Rightarrow> 'x list \<Rightarrow> 'v \<times> 'w \<Rightarrow> nat set" where
  "pairCells cells1 cells2 h p = cells1 h (fst p) \<union> cells2 h (snd p)"

definition structCopy :: "('s \<Rightarrow> 'v) \<Rightarrow> ('s \<Rightarrow> 'v \<Rightarrow> 's) \<Rightarrow> ('v \<Rightarrow> 'x list \<Rightarrow> ('v \<times> 'x list) option)
    \<Rightarrow> 's \<Rightarrow> 'x list \<Rightarrow> ('s \<times> 'x list) option" where
  "structCopy get put copy s h = map_option (\<lambda>(v, h'). (put s v, h')) (copy (get s) h)"

definition structView :: "('s \<Rightarrow> 'r) \<Rightarrow> ('s \<Rightarrow> 'v) \<Rightarrow> ('x list \<Rightarrow> 'v \<Rightarrow> 'd option) \<Rightarrow> 'x list \<Rightarrow> 's \<Rightarrow> ('r \<times> 'd) option" where
  "structView rest get view h s = map_option (Pair (rest s)) (view h (get s))"

definition structCells :: "('s \<Rightarrow> 'v) \<Rightarrow> ('x list \<Rightarrow> 'v \<Rightarrow> nat set) \<Rightarrow> 'x list \<Rightarrow> 's \<Rightarrow> nat set" where
  "structCells get cells h s = cells h (get s)"

lemma pair_copied:
  assumes "deep_copier copy1 view1 cells1" "deep_copier copy2 view2 cells2"
    and d: "view1 h v = Some d" and e: "view2 h w = Some e"
  shows "\<exists>p' h'. pairCopy copy1 copy2 (v, w) h = Some (p', h') \<and> prefix h h' \<and> pairView view1 view2 h' p' = Some (d, e)
    \<and> (\<forall>a\<in>pairCells cells1 cells2 h' p'. length h \<le> a)"
proof -
  note A = assms(1) and B = assms(2)
  obtain v' h1 where c1: "copy1 v h = Some (v', h1)"
    using deep_copier.copy_succeeds [OF A d] by blast
  note u = deep_copier.copied_unique [OF A d c1]
  have e1: "view2 h1 w = Some e"
    using deep_copier.view_prefix [OF B e u(1)] by simp
  obtain w' h2 where c2: "copy2 w h1 = Some (w', h2)"
    using deep_copier.copy_succeeds [OF B e1] by blast
  note x = deep_copier.copied_unique [OF B e1 c2]
  have v2: "view1 h2 v' = Some d" "cells1 h2 v' = cells1 h1 v'"
    using deep_copier.view_prefix [OF A u(2) x(1)] by auto
  have "pairCopy copy1 copy2 (v, w) h = Some ((v', w'), h2)"
    by (simp add: pairCopy_def c1 c2)
  moreover have "prefix h h2"
    using u(1) x(1) by (rule prefix_order.trans)
  moreover have "pairView view1 view2 h2 (v', w') = Some (d, e)"
    by (simp add: pairView_def v2 x(2))
  moreover have "\<forall>a\<in>pairCells cells1 cells2 h2 (v', w'). length h \<le> a"
    using v2(2) u(3) x(3) prefix_length_le [OF u(1)] by (fastforce simp: pairCells_def)
  ultimately show ?thesis
    by blast
qed

lemma pair_deep_copier:
  assumes "deep_copier copy1 view1 cells1" "deep_copier copy2 view2 cells2"
  shows "deep_copier (pairCopy copy1 copy2) (pairView view1 view2) (pairCells cells1 cells2)"
proof
  fix h p d
  assume "pairView view1 view2 h p = Some d"
  then obtain v w x y where p: "p = (v, w)" "d = (x, y)" and x: "view1 h v = Some x" "view2 h w = Some y"
    by (cases p) (auto simp: pairView_def split: bind_splits)
  show "pairCells cells1 cells2 h p \<subseteq> {..<length h}"
    using deep_copier.allocated [OF assms(1) x(1)] deep_copier.allocated [OF assms(2) x(2)] p by (simp add: pairCells_def)
  show "\<exists>p' h'. pairCopy copy1 copy2 p h = Some (p', h') \<and> prefix h h' \<and> pairView view1 view2 h' p' = Some d
      \<and> (\<forall>a\<in>pairCells cells1 cells2 h' p'. length h \<le> a)"
    using pair_copied [OF assms x] p by simp
next
  fix h h' p d
  assume v: "pairView view1 view2 h p = Some d" and a: "agreeOn (pairCells cells1 cells2 h p) h h'"
  obtain x y where x: "view1 h (fst p) = Some x" "view2 h (snd p) = Some y" "d = (x, y)"
    using v by (auto simp: pairView_def split: bind_splits)
  have "agreeOn (cells1 h (fst p)) h h'" "agreeOn (cells2 h (snd p)) h h'"
    using a by (auto simp: agreeOn_def pairCells_def)
  then show "pairView view1 view2 h' p = Some d \<and> pairCells cells1 cells2 h' p = pairCells cells1 cells2 h p"
    using deep_copier.frame [OF assms(1) x(1)] deep_copier.frame [OF assms(2) x(2)] x(3)
    by (simp add: pairView_def pairCells_def)
qed

lemma struct_deep_copier:
  assumes copier: "deep_copier copy view cells"
    and get_put: "\<And>s v. get (put s v) = v" and rest_put: "\<And>s v. rest (put s v) = rest s"
  shows "deep_copier (structCopy get put copy) (structView rest get view) (structCells get cells)"
proof
  fix h s d
  assume "structView rest get view h s = Some d"
  then obtain e where e: "view h (get s) = Some e" "d = (rest s, e)"
    by (auto simp: structView_def)
  show "structCells get cells h s \<subseteq> {..<length h}"
    using deep_copier.allocated [OF copier e(1)] by (simp add: structCells_def)
  show "\<exists>s' h'. structCopy get put copy s h = Some (s', h') \<and> prefix h h' \<and> structView rest get view h' s' = Some d
      \<and> (\<forall>a\<in>structCells get cells h' s'. length h \<le> a)"
    using deep_copier.copied [OF copier e(1)] e(2)
    by (fastforce simp: structCopy_def structView_def structCells_def get_put rest_put)
next
  fix h h' s d
  assume v: "structView rest get view h s = Some d" and a: "agreeOn (structCells get cells h s) h h'"
  obtain e where e: "view h (get s) = Some e" "d = (rest s, e)"
    using v by (auto simp: structView_def)
  show "structView rest get view h' s = Some d \<and> structCells get cells h' s = structCells get cells h s"
    using deep_copier.frame [OF copier e(1), of h'] a e(2) by (simp add: structView_def structCells_def)
qed

lemmas copier_intros = plainCopier.deep_copier_axioms pair_deep_copier struct_deep_copier

end
