(* ===== verification/Deep_Copy.thy ===== *)
theory Deep_Copy
  imports Copy_Heap
begin

text \<open>
  The API types of \<^verbatim>\<open>api/v1alpha1\<close> and \<^verbatim>\<open>internal/cloud/api/v1alpha1\<close> as they lie in memory, and the
  generated copies of both packages (\<^verbatim>\<open>zz_generated.deepcopy.go\<close>), method by method. The structs of other modules
  (\<^verbatim>\<open>metav1.ObjectMeta\<close> \<open>'m\<close>, \<^verbatim>\<open>metav1.ListMeta\<close> \<open>'l\<close>, \<^verbatim>\<open>clusterv1.ObjectMeta\<close>
  \<open>'n\<close>, \<^verbatim>\<open>clusterv1.Condition\<close> \<open>'c\<close>), the cells they point to (\<open>'x\<close>) and their copies are
  parameters, collected in the record \<open>copyLibrary\<close>. \<open>X_DeepCopyInto v h\<close> is the value that ends up in \<open>*out\<close>;
  what \<open>*out\<close> held before is overwritten by its first statement \<^verbatim>\<open>*out = *in\<close>.
\<close>

named_theorems cell_defs \<open>the cells read as one of a kind\<close>

section \<open>The API types\<close>

record TypeMeta =
  Kind :: string
  APIVersion :: string

record APIEndpoint =
  Host :: string
  Port :: int

record GoofyClusterSpec =
  ControlPlaneEndpoint :: APIEndpoint

record GoofyClusterStatus =
  clusterReady :: bool
  clusterConditions :: "slice option"

record 'm GoofyClusterObject =
  clusterTypeMeta :: TypeMeta
  clusterObjectMeta :: 'm
  clusterSpec :: GoofyClusterSpec
  clusterStatus :: GoofyClusterStatus

record 'l GoofyClusterList =
  clustersTypeMeta :: TypeMeta
  clustersListMeta :: 'l
  clustersItems :: "slice option"

record GoofyMachineSpec =
  ProviderID :: "nat option"

record GoofyMachineStatus =
  machineReady :: bool
  machineConditions :: "slice option"

record 'm GoofyMachineObject =
  machineTypeMeta :: TypeMeta
  machineObjectMeta :: 'm
  machineSpec :: GoofyMachineSpec
  machineStatus :: GoofyMachineStatus

record 'l GoofyMachineList =
  machinesTypeMeta :: TypeMeta
  machinesListMeta :: 'l
  machinesItems :: "slice option"

record 'n GoofyMachineTemplateResource =
  resourceObjectMeta :: 'n
  resourceSpec :: GoofyMachineSpec

record 'n GoofyMachineTemplateSpec =
  templateTemplate :: "'n GoofyMachineTemplateResource"

record ('m, 'n) GoofyMachineTemplate =
  templateTypeMeta :: TypeMeta
  templateObjectMeta :: 'm
  templateSpec :: "'n GoofyMachineTemplateSpec"

record 'l GoofyMachineTemplateList =
  templatesTypeMeta :: TypeMeta
  templatesListMeta :: 'l
  templatesItems :: "slice option"

datatype CloudMachineSpec = CloudMachineSpec

datatype CloudMachineStatus = CloudMachineStatus

record 'm CloudMachineObject =
  cloudTypeMeta :: TypeMeta
  cloudObjectMeta :: 'm
  cloudSpec :: CloudMachineSpec
  cloudStatus :: CloudMachineStatus

record 'l CloudMachineList =
  cloudsTypeMeta :: TypeMeta
  cloudsListMeta :: 'l
  cloudsItems :: "slice option"

text \<open>\<^verbatim>\<open>GetConditions\<close> and \<^verbatim>\<open>SetConditions\<close>: the slice itself is returned and stored, not a copy of it.\<close>

definition GoofyCluster_GetConditions :: "'m GoofyClusterObject \<Rightarrow> slice option" where
  "GoofyCluster_GetConditions c = clusterConditions (clusterStatus c)"

definition GoofyCluster_SetConditions :: "slice option \<Rightarrow> 'm GoofyClusterObject \<Rightarrow> 'm GoofyClusterObject" where
  "GoofyCluster_SetConditions conditions c = c\<lparr>clusterStatus := (clusterStatus c)\<lparr>clusterConditions := conditions\<rparr>\<rparr>"

definition GoofyMachine_GetConditions :: "'m GoofyMachineObject \<Rightarrow> slice option" where
  "GoofyMachine_GetConditions c = machineConditions (machineStatus c)"

definition GoofyMachine_SetConditions :: "slice option \<Rightarrow> 'm GoofyMachineObject \<Rightarrow> 'm GoofyMachineObject" where
  "GoofyMachine_SetConditions conditions c = c\<lparr>machineStatus := (machineStatus c)\<lparr>machineConditions := conditions\<rparr>\<rparr>"

section \<open>Cells\<close>

text \<open>What an allocated cell holds: a string, a struct, the array of a slice, or a cell of another module.\<close>

datatype ('m, 'l, 'n, 'c, 'x) cell =
  StringCell string
| ConditionArray "'c list"
| APIEndpointCell APIEndpoint
| GoofyClusterCell "'m GoofyClusterObject"
| GoofyClusterArray "'m GoofyClusterObject list"
| GoofyClusterListCell "'l GoofyClusterList"
| GoofyClusterSpecCell GoofyClusterSpec
| GoofyClusterStatusCell GoofyClusterStatus
| GoofyMachineCell "'m GoofyMachineObject"
| GoofyMachineArray "'m GoofyMachineObject list"
| GoofyMachineListCell "'l GoofyMachineList"
| GoofyMachineSpecCell GoofyMachineSpec
| GoofyMachineStatusCell GoofyMachineStatus
| GoofyMachineTemplateCell "('m, 'n) GoofyMachineTemplate"
| GoofyMachineTemplateArray "('m, 'n) GoofyMachineTemplate list"
| GoofyMachineTemplateListCell "'l GoofyMachineTemplateList"
| GoofyMachineTemplateResourceCell "'n GoofyMachineTemplateResource"
| GoofyMachineTemplateSpecCell "'n GoofyMachineTemplateSpec"
| CloudMachineCell "'m CloudMachineObject"
| CloudMachineArray "'m CloudMachineObject list"
| CloudMachineListCell "'l CloudMachineList"
| CloudMachineSpecCell CloudMachineSpec
| CloudMachineStatusCell CloudMachineStatus
| ForeignCell "'x"

type_synonym ('m, 'l, 'n, 'c, 'x) memory = "('m, 'l, 'n, 'c, 'x) cell list"

text \<open>The cell read as one of a kind; another kind has no such value.\<close>

definition asString :: "('m, 'l, 'n, 'c, 'x) cell \<Rightarrow> string option" where [cell_defs]:
  "asString cell = (case cell of StringCell v \<Rightarrow> Some v | _ \<Rightarrow> None)"

definition asConditions :: "('m, 'l, 'n, 'c, 'x) cell \<Rightarrow> 'c list option" where [cell_defs]:
  "asConditions cell = (case cell of ConditionArray v \<Rightarrow> Some v | _ \<Rightarrow> None)"

definition asAPIEndpoint :: "('m, 'l, 'n, 'c, 'x) cell \<Rightarrow> APIEndpoint option" where [cell_defs]:
  "asAPIEndpoint cell = (case cell of APIEndpointCell v \<Rightarrow> Some v | _ \<Rightarrow> None)"

definition asGoofyCluster :: "('m, 'l, 'n, 'c, 'x) cell \<Rightarrow> 'm GoofyClusterObject option" where [cell_defs]:
  "asGoofyCluster cell = (case cell of GoofyClusterCell v \<Rightarrow> Some v | _ \<Rightarrow> None)"

definition asGoofyClusters :: "('m, 'l, 'n, 'c, 'x) cell \<Rightarrow> 'm GoofyClusterObject list option" where [cell_defs]:
  "asGoofyClusters cell = (case cell of GoofyClusterArray v \<Rightarrow> Some v | _ \<Rightarrow> None)"

definition asGoofyClusterList :: "('m, 'l, 'n, 'c, 'x) cell \<Rightarrow> 'l GoofyClusterList option" where [cell_defs]:
  "asGoofyClusterList cell = (case cell of GoofyClusterListCell v \<Rightarrow> Some v | _ \<Rightarrow> None)"

definition asGoofyClusterSpec :: "('m, 'l, 'n, 'c, 'x) cell \<Rightarrow> GoofyClusterSpec option" where [cell_defs]:
  "asGoofyClusterSpec cell = (case cell of GoofyClusterSpecCell v \<Rightarrow> Some v | _ \<Rightarrow> None)"

definition asGoofyClusterStatus :: "('m, 'l, 'n, 'c, 'x) cell \<Rightarrow> GoofyClusterStatus option" where [cell_defs]:
  "asGoofyClusterStatus cell = (case cell of GoofyClusterStatusCell v \<Rightarrow> Some v | _ \<Rightarrow> None)"

definition asGoofyMachine :: "('m, 'l, 'n, 'c, 'x) cell \<Rightarrow> 'm GoofyMachineObject option" where [cell_defs]:
  "asGoofyMachine cell = (case cell of GoofyMachineCell v \<Rightarrow> Some v | _ \<Rightarrow> None)"

definition asGoofyMachines :: "('m, 'l, 'n, 'c, 'x) cell \<Rightarrow> 'm GoofyMachineObject list option" where [cell_defs]:
  "asGoofyMachines cell = (case cell of GoofyMachineArray v \<Rightarrow> Some v | _ \<Rightarrow> None)"

definition asGoofyMachineList :: "('m, 'l, 'n, 'c, 'x) cell \<Rightarrow> 'l GoofyMachineList option" where [cell_defs]:
  "asGoofyMachineList cell = (case cell of GoofyMachineListCell v \<Rightarrow> Some v | _ \<Rightarrow> None)"

definition asGoofyMachineSpec :: "('m, 'l, 'n, 'c, 'x) cell \<Rightarrow> GoofyMachineSpec option" where [cell_defs]:
  "asGoofyMachineSpec cell = (case cell of GoofyMachineSpecCell v \<Rightarrow> Some v | _ \<Rightarrow> None)"

definition asGoofyMachineStatus :: "('m, 'l, 'n, 'c, 'x) cell \<Rightarrow> GoofyMachineStatus option" where [cell_defs]:
  "asGoofyMachineStatus cell = (case cell of GoofyMachineStatusCell v \<Rightarrow> Some v | _ \<Rightarrow> None)"

definition asGoofyMachineTemplate :: "('m, 'l, 'n, 'c, 'x) cell \<Rightarrow> ('m, 'n) GoofyMachineTemplate option" where [cell_defs]:
  "asGoofyMachineTemplate cell = (case cell of GoofyMachineTemplateCell v \<Rightarrow> Some v | _ \<Rightarrow> None)"

definition asGoofyMachineTemplates :: "('m, 'l, 'n, 'c, 'x) cell \<Rightarrow> ('m, 'n) GoofyMachineTemplate list option" where [cell_defs]:
  "asGoofyMachineTemplates cell = (case cell of GoofyMachineTemplateArray v \<Rightarrow> Some v | _ \<Rightarrow> None)"

definition asGoofyMachineTemplateList :: "('m, 'l, 'n, 'c, 'x) cell \<Rightarrow> 'l GoofyMachineTemplateList option" where [cell_defs]:
  "asGoofyMachineTemplateList cell = (case cell of GoofyMachineTemplateListCell v \<Rightarrow> Some v | _ \<Rightarrow> None)"

definition asGoofyMachineTemplateResource :: "('m, 'l, 'n, 'c, 'x) cell \<Rightarrow> 'n GoofyMachineTemplateResource option" where [cell_defs]:
  "asGoofyMachineTemplateResource cell = (case cell of GoofyMachineTemplateResourceCell v \<Rightarrow> Some v | _ \<Rightarrow> None)"

definition asGoofyMachineTemplateSpec :: "('m, 'l, 'n, 'c, 'x) cell \<Rightarrow> 'n GoofyMachineTemplateSpec option" where [cell_defs]:
  "asGoofyMachineTemplateSpec cell = (case cell of GoofyMachineTemplateSpecCell v \<Rightarrow> Some v | _ \<Rightarrow> None)"

definition asCloudMachine :: "('m, 'l, 'n, 'c, 'x) cell \<Rightarrow> 'm CloudMachineObject option" where [cell_defs]:
  "asCloudMachine cell = (case cell of CloudMachineCell v \<Rightarrow> Some v | _ \<Rightarrow> None)"

definition asCloudMachines :: "('m, 'l, 'n, 'c, 'x) cell \<Rightarrow> 'm CloudMachineObject list option" where [cell_defs]:
  "asCloudMachines cell = (case cell of CloudMachineArray v \<Rightarrow> Some v | _ \<Rightarrow> None)"

definition asCloudMachineList :: "('m, 'l, 'n, 'c, 'x) cell \<Rightarrow> 'l CloudMachineList option" where [cell_defs]:
  "asCloudMachineList cell = (case cell of CloudMachineListCell v \<Rightarrow> Some v | _ \<Rightarrow> None)"

definition asCloudMachineSpec :: "('m, 'l, 'n, 'c, 'x) cell \<Rightarrow> CloudMachineSpec option" where [cell_defs]:
  "asCloudMachineSpec cell = (case cell of CloudMachineSpecCell v \<Rightarrow> Some v | _ \<Rightarrow> None)"

definition asCloudMachineStatus :: "('m, 'l, 'n, 'c, 'x) cell \<Rightarrow> CloudMachineStatus option" where [cell_defs]:
  "asCloudMachineStatus cell = (case cell of CloudMachineStatusCell v \<Rightarrow> Some v | _ \<Rightarrow> None)"

definition asForeign :: "('m, 'l, 'n, 'c, 'x) cell \<Rightarrow> 'x option" where [cell_defs]:
  "asForeign cell = (case cell of ForeignCell v \<Rightarrow> Some v | _ \<Rightarrow> None)"

lemma cell_kinds [simp]:
  "asString (StringCell v0) = Some v0"
  "asConditions (ConditionArray v1) = Some v1"
  "asAPIEndpoint (APIEndpointCell v2) = Some v2"
  "asGoofyCluster (GoofyClusterCell v3) = Some v3"
  "asGoofyClusters (GoofyClusterArray v4) = Some v4"
  "asGoofyClusterList (GoofyClusterListCell v5) = Some v5"
  "asGoofyClusterSpec (GoofyClusterSpecCell v6) = Some v6"
  "asGoofyClusterStatus (GoofyClusterStatusCell v7) = Some v7"
  "asGoofyMachine (GoofyMachineCell v8) = Some v8"
  "asGoofyMachines (GoofyMachineArray v9) = Some v9"
  "asGoofyMachineList (GoofyMachineListCell v10) = Some v10"
  "asGoofyMachineSpec (GoofyMachineSpecCell v11) = Some v11"
  "asGoofyMachineStatus (GoofyMachineStatusCell v12) = Some v12"
  "asGoofyMachineTemplate (GoofyMachineTemplateCell v13) = Some v13"
  "asGoofyMachineTemplates (GoofyMachineTemplateArray v14) = Some v14"
  "asGoofyMachineTemplateList (GoofyMachineTemplateListCell v15) = Some v15"
  "asGoofyMachineTemplateResource (GoofyMachineTemplateResourceCell v16) = Some v16"
  "asGoofyMachineTemplateSpec (GoofyMachineTemplateSpecCell v17) = Some v17"
  "asCloudMachine (CloudMachineCell v18) = Some v18"
  "asCloudMachines (CloudMachineArray v19) = Some v19"
  "asCloudMachineList (CloudMachineListCell v20) = Some v20"
  "asCloudMachineSpec (CloudMachineSpecCell v21) = Some v21"
  "asCloudMachineStatus (CloudMachineStatusCell v22) = Some v22"
  "asForeign (ForeignCell v23) = Some v23"
  by (simp_all add: cell_defs)

section \<open>The copies of other modules\<close>

record ('m, 'l, 'n, 'c, 'x) copyLibrary =
  ObjectMetaDeepCopyInto :: "'m \<Rightarrow> ('m, 'l, 'n, 'c, 'x) memory \<Rightarrow> ('m \<times> ('m, 'l, 'n, 'c, 'x) memory) option"
  ListMetaDeepCopyInto :: "'l \<Rightarrow> ('m, 'l, 'n, 'c, 'x) memory \<Rightarrow> ('l \<times> ('m, 'l, 'n, 'c, 'x) memory) option"
  ClusterObjectMetaDeepCopyInto :: "'n \<Rightarrow> ('m, 'l, 'n, 'c, 'x) memory \<Rightarrow> ('n \<times> ('m, 'l, 'n, 'c, 'x) memory) option"
  ConditionDeepCopyInto :: "'c \<Rightarrow> ('m, 'l, 'n, 'c, 'x) memory \<Rightarrow> ('c \<times> ('m, 'l, 'n, 'c, 'x) memory) option"
  zeroObjectMeta :: 'm
  zeroListMeta :: 'l
  zeroClusterObjectMeta :: 'n
  zeroCondition :: 'c

text \<open>The zero values \<^verbatim>\<open>new\<close> and \<^verbatim>\<open>make\<close> put into the memory they allocate.\<close>

definition zeroTypeMeta :: TypeMeta where
  "zeroTypeMeta = \<lparr>Kind = '''', APIVersion = ''''\<rparr>"

definition zeroAPIEndpoint :: APIEndpoint where
  "zeroAPIEndpoint = \<lparr>Host = '''', Port = 0\<rparr>"

definition zeroGoofyClusterSpec :: GoofyClusterSpec where
  "zeroGoofyClusterSpec = \<lparr>ControlPlaneEndpoint = zeroAPIEndpoint\<rparr>"

definition zeroGoofyClusterStatus :: GoofyClusterStatus where
  "zeroGoofyClusterStatus = \<lparr>clusterReady = False, clusterConditions = None\<rparr>"

definition zeroGoofyCluster :: "('m, 'l, 'n, 'c, 'x) copyLibrary \<Rightarrow> 'm GoofyClusterObject" where
  "zeroGoofyCluster lib = \<lparr>clusterTypeMeta = zeroTypeMeta, clusterObjectMeta = zeroObjectMeta lib,
     clusterSpec = zeroGoofyClusterSpec, clusterStatus = zeroGoofyClusterStatus\<rparr>"

definition zeroGoofyClusterList :: "('m, 'l, 'n, 'c, 'x) copyLibrary \<Rightarrow> 'l GoofyClusterList" where
  "zeroGoofyClusterList lib = \<lparr>clustersTypeMeta = zeroTypeMeta, clustersListMeta = zeroListMeta lib, clustersItems = None\<rparr>"

definition zeroGoofyMachineSpec :: GoofyMachineSpec where
  "zeroGoofyMachineSpec = \<lparr>ProviderID = None\<rparr>"

definition zeroGoofyMachineStatus :: GoofyMachineStatus where
  "zeroGoofyMachineStatus = \<lparr>machineReady = False, machineConditions = None\<rparr>"

definition zeroGoofyMachine :: "('m, 'l, 'n, 'c, 'x) copyLibrary \<Rightarrow> 'm GoofyMachineObject" where
  "zeroGoofyMachine lib = \<lparr>machineTypeMeta = zeroTypeMeta, machineObjectMeta = zeroObjectMeta lib,
     machineSpec = zeroGoofyMachineSpec, machineStatus = zeroGoofyMachineStatus\<rparr>"

definition zeroGoofyMachineList :: "('m, 'l, 'n, 'c, 'x) copyLibrary \<Rightarrow> 'l GoofyMachineList" where
  "zeroGoofyMachineList lib = \<lparr>machinesTypeMeta = zeroTypeMeta, machinesListMeta = zeroListMeta lib, machinesItems = None\<rparr>"

definition zeroGoofyMachineTemplateResource :: "('m, 'l, 'n, 'c, 'x) copyLibrary \<Rightarrow> 'n GoofyMachineTemplateResource" where
  "zeroGoofyMachineTemplateResource lib = \<lparr>resourceObjectMeta = zeroClusterObjectMeta lib, resourceSpec = zeroGoofyMachineSpec\<rparr>"

definition zeroGoofyMachineTemplateSpec :: "('m, 'l, 'n, 'c, 'x) copyLibrary \<Rightarrow> 'n GoofyMachineTemplateSpec" where
  "zeroGoofyMachineTemplateSpec lib = \<lparr>templateTemplate = zeroGoofyMachineTemplateResource lib\<rparr>"

definition zeroGoofyMachineTemplate :: "('m, 'l, 'n, 'c, 'x) copyLibrary \<Rightarrow> ('m, 'n) GoofyMachineTemplate" where
  "zeroGoofyMachineTemplate lib = \<lparr>templateTypeMeta = zeroTypeMeta, templateObjectMeta = zeroObjectMeta lib,
     templateSpec = zeroGoofyMachineTemplateSpec lib\<rparr>"

definition zeroGoofyMachineTemplateList :: "('m, 'l, 'n, 'c, 'x) copyLibrary \<Rightarrow> 'l GoofyMachineTemplateList" where
  "zeroGoofyMachineTemplateList lib = \<lparr>templatesTypeMeta = zeroTypeMeta, templatesListMeta = zeroListMeta lib, templatesItems = None\<rparr>"

definition zeroCloudMachine :: "('m, 'l, 'n, 'c, 'x) copyLibrary \<Rightarrow> 'm CloudMachineObject" where
  "zeroCloudMachine lib = \<lparr>cloudTypeMeta = zeroTypeMeta, cloudObjectMeta = zeroObjectMeta lib,
     cloudSpec = CloudMachineSpec, cloudStatus = CloudMachineStatus\<rparr>"

definition zeroCloudMachineList :: "('m, 'l, 'n, 'c, 'x) copyLibrary \<Rightarrow> 'l CloudMachineList" where
  "zeroCloudMachineList lib = \<lparr>cloudsTypeMeta = zeroTypeMeta, cloudsListMeta = zeroListMeta lib, cloudsItems = None\<rparr>"

section \<open>The generated methods\<close>

text \<open>The copy of a \<^verbatim>\<open>clusterv1.Conditions\<close> field, emitted for both statuses.\<close>

definition copyConditions :: "('m, 'l, 'n, 'c, 'x) copyLibrary \<Rightarrow> slice option \<Rightarrow> ('m, 'l, 'n, 'c, 'x) memory
    \<Rightarrow> (slice option \<times> ('m, 'l, 'n, 'c, 'x) memory) option" where
  "copyConditions lib = copySlice ConditionArray asConditions (zeroCondition lib) (ConditionDeepCopyInto lib)"

definition APIEndpoint_DeepCopyInto :: "APIEndpoint \<Rightarrow> ('m, 'l, 'n, 'c, 'x) memory \<Rightarrow> (APIEndpoint \<times> ('m, 'l, 'n, 'c, 'x) memory) option" where
  "APIEndpoint_DeepCopyInto v h = Some (v, h)"

definition APIEndpoint_DeepCopy :: "nat option \<Rightarrow> ('m, 'l, 'n, 'c, 'x) memory \<Rightarrow> (nat option \<times> ('m, 'l, 'n, 'c, 'x) memory) option" where
  "APIEndpoint_DeepCopy = DeepCopyPtr APIEndpointCell asAPIEndpoint zeroAPIEndpoint APIEndpoint_DeepCopyInto"

definition GoofyClusterSpec_DeepCopyInto :: "GoofyClusterSpec \<Rightarrow> ('m, 'l, 'n, 'c, 'x) memory \<Rightarrow> (GoofyClusterSpec \<times> ('m, 'l, 'n, 'c, 'x) memory) option" where
  "GoofyClusterSpec_DeepCopyInto v h = do {
     let out = v;
     let out = out\<lparr>ControlPlaneEndpoint := ControlPlaneEndpoint v\<rparr>;
     Some (out, h)
   }"

definition GoofyClusterSpec_DeepCopy :: "nat option \<Rightarrow> ('m, 'l, 'n, 'c, 'x) memory \<Rightarrow> (nat option \<times> ('m, 'l, 'n, 'c, 'x) memory) option" where
  "GoofyClusterSpec_DeepCopy = DeepCopyPtr GoofyClusterSpecCell asGoofyClusterSpec zeroGoofyClusterSpec GoofyClusterSpec_DeepCopyInto"

definition GoofyClusterStatus_DeepCopyInto :: "('m, 'l, 'n, 'c, 'x) copyLibrary \<Rightarrow> GoofyClusterStatus \<Rightarrow> ('m, 'l, 'n, 'c, 'x) memory \<Rightarrow> (GoofyClusterStatus \<times> ('m, 'l, 'n, 'c, 'x) memory) option" where
  "GoofyClusterStatus_DeepCopyInto lib v h = do {
     let out = v;
     (conditions, h) \<leftarrow> copyConditions lib (clusterConditions v) h;
     let out = out\<lparr>clusterConditions := conditions\<rparr>;
     Some (out, h)
   }"

definition GoofyClusterStatus_DeepCopy :: "('m, 'l, 'n, 'c, 'x) copyLibrary \<Rightarrow> nat option \<Rightarrow> ('m, 'l, 'n, 'c, 'x) memory \<Rightarrow> (nat option \<times> ('m, 'l, 'n, 'c, 'x) memory) option" where
  "GoofyClusterStatus_DeepCopy lib = DeepCopyPtr GoofyClusterStatusCell asGoofyClusterStatus zeroGoofyClusterStatus (GoofyClusterStatus_DeepCopyInto lib)"

definition GoofyCluster_DeepCopyInto :: "('m, 'l, 'n, 'c, 'x) copyLibrary \<Rightarrow> 'm GoofyClusterObject \<Rightarrow> ('m, 'l, 'n, 'c, 'x) memory \<Rightarrow> ('m GoofyClusterObject \<times> ('m, 'l, 'n, 'c, 'x) memory) option" where
  "GoofyCluster_DeepCopyInto lib v h = do {
     let out = v;
     let out = out\<lparr>clusterTypeMeta := clusterTypeMeta v\<rparr>;
     (meta, h) \<leftarrow> ObjectMetaDeepCopyInto lib (clusterObjectMeta v) h;
     let out = out\<lparr>clusterObjectMeta := meta\<rparr>;
     let out = out\<lparr>clusterSpec := clusterSpec v\<rparr>;
     (status, h) \<leftarrow> GoofyClusterStatus_DeepCopyInto lib (clusterStatus v) h;
     let out = out\<lparr>clusterStatus := status\<rparr>;
     Some (out, h)
   }"

definition GoofyCluster_DeepCopy :: "('m, 'l, 'n, 'c, 'x) copyLibrary \<Rightarrow> nat option \<Rightarrow> ('m, 'l, 'n, 'c, 'x) memory \<Rightarrow> (nat option \<times> ('m, 'l, 'n, 'c, 'x) memory) option" where
  "GoofyCluster_DeepCopy lib = DeepCopyPtr GoofyClusterCell asGoofyCluster (zeroGoofyCluster lib) (GoofyCluster_DeepCopyInto lib)"

definition GoofyClusterList_DeepCopyInto :: "('m, 'l, 'n, 'c, 'x) copyLibrary \<Rightarrow> 'l GoofyClusterList \<Rightarrow> ('m, 'l, 'n, 'c, 'x) memory \<Rightarrow> ('l GoofyClusterList \<times> ('m, 'l, 'n, 'c, 'x) memory) option" where
  "GoofyClusterList_DeepCopyInto lib v h = do {
     let out = v;
     let out = out\<lparr>clustersTypeMeta := clustersTypeMeta v\<rparr>;
     (meta, h) \<leftarrow> ListMetaDeepCopyInto lib (clustersListMeta v) h;
     let out = out\<lparr>clustersListMeta := meta\<rparr>;
     (items, h) \<leftarrow> copySlice GoofyClusterArray asGoofyClusters (zeroGoofyCluster lib) (GoofyCluster_DeepCopyInto lib) (clustersItems v) h;
     let out = out\<lparr>clustersItems := items\<rparr>;
     Some (out, h)
   }"

definition GoofyClusterList_DeepCopy :: "('m, 'l, 'n, 'c, 'x) copyLibrary \<Rightarrow> nat option \<Rightarrow> ('m, 'l, 'n, 'c, 'x) memory \<Rightarrow> (nat option \<times> ('m, 'l, 'n, 'c, 'x) memory) option" where
  "GoofyClusterList_DeepCopy lib = DeepCopyPtr GoofyClusterListCell asGoofyClusterList (zeroGoofyClusterList lib) (GoofyClusterList_DeepCopyInto lib)"

text \<open>A pointer to a string: \<^verbatim>\<open>*out = new(string)\<close> and \<^verbatim>\<open>**out = **in\<close>.\<close>

definition GoofyMachineSpec_DeepCopyInto :: "GoofyMachineSpec \<Rightarrow> ('m, 'l, 'n, 'c, 'x) memory \<Rightarrow> (GoofyMachineSpec \<times> ('m, 'l, 'n, 'c, 'x) memory) option" where
  "GoofyMachineSpec_DeepCopyInto v h = do {
     let out = v;
     (providerID, h) \<leftarrow> DeepCopyPtr StringCell asString [] plainCopy (ProviderID v) h;
     let out = out\<lparr>ProviderID := providerID\<rparr>;
     Some (out, h)
   }"

definition GoofyMachineSpec_DeepCopy :: "nat option \<Rightarrow> ('m, 'l, 'n, 'c, 'x) memory \<Rightarrow> (nat option \<times> ('m, 'l, 'n, 'c, 'x) memory) option" where
  "GoofyMachineSpec_DeepCopy = DeepCopyPtr GoofyMachineSpecCell asGoofyMachineSpec zeroGoofyMachineSpec GoofyMachineSpec_DeepCopyInto"

definition GoofyMachineStatus_DeepCopyInto :: "('m, 'l, 'n, 'c, 'x) copyLibrary \<Rightarrow> GoofyMachineStatus \<Rightarrow> ('m, 'l, 'n, 'c, 'x) memory \<Rightarrow> (GoofyMachineStatus \<times> ('m, 'l, 'n, 'c, 'x) memory) option" where
  "GoofyMachineStatus_DeepCopyInto lib v h = do {
     let out = v;
     (conditions, h) \<leftarrow> copyConditions lib (machineConditions v) h;
     let out = out\<lparr>machineConditions := conditions\<rparr>;
     Some (out, h)
   }"

definition GoofyMachineStatus_DeepCopy :: "('m, 'l, 'n, 'c, 'x) copyLibrary \<Rightarrow> nat option \<Rightarrow> ('m, 'l, 'n, 'c, 'x) memory \<Rightarrow> (nat option \<times> ('m, 'l, 'n, 'c, 'x) memory) option" where
  "GoofyMachineStatus_DeepCopy lib = DeepCopyPtr GoofyMachineStatusCell asGoofyMachineStatus zeroGoofyMachineStatus (GoofyMachineStatus_DeepCopyInto lib)"

definition GoofyMachine_DeepCopyInto :: "('m, 'l, 'n, 'c, 'x) copyLibrary \<Rightarrow> 'm GoofyMachineObject \<Rightarrow> ('m, 'l, 'n, 'c, 'x) memory \<Rightarrow> ('m GoofyMachineObject \<times> ('m, 'l, 'n, 'c, 'x) memory) option" where
  "GoofyMachine_DeepCopyInto lib v h = do {
     let out = v;
     let out = out\<lparr>machineTypeMeta := machineTypeMeta v\<rparr>;
     (meta, h) \<leftarrow> ObjectMetaDeepCopyInto lib (machineObjectMeta v) h;
     let out = out\<lparr>machineObjectMeta := meta\<rparr>;
     (spec, h) \<leftarrow> GoofyMachineSpec_DeepCopyInto (machineSpec v) h;
     let out = out\<lparr>machineSpec := spec\<rparr>;
     (status, h) \<leftarrow> GoofyMachineStatus_DeepCopyInto lib (machineStatus v) h;
     let out = out\<lparr>machineStatus := status\<rparr>;
     Some (out, h)
   }"

definition GoofyMachine_DeepCopy :: "('m, 'l, 'n, 'c, 'x) copyLibrary \<Rightarrow> nat option \<Rightarrow> ('m, 'l, 'n, 'c, 'x) memory \<Rightarrow> (nat option \<times> ('m, 'l, 'n, 'c, 'x) memory) option" where
  "GoofyMachine_DeepCopy lib = DeepCopyPtr GoofyMachineCell asGoofyMachine (zeroGoofyMachine lib) (GoofyMachine_DeepCopyInto lib)"

definition GoofyMachineList_DeepCopyInto :: "('m, 'l, 'n, 'c, 'x) copyLibrary \<Rightarrow> 'l GoofyMachineList \<Rightarrow> ('m, 'l, 'n, 'c, 'x) memory \<Rightarrow> ('l GoofyMachineList \<times> ('m, 'l, 'n, 'c, 'x) memory) option" where
  "GoofyMachineList_DeepCopyInto lib v h = do {
     let out = v;
     let out = out\<lparr>machinesTypeMeta := machinesTypeMeta v\<rparr>;
     (meta, h) \<leftarrow> ListMetaDeepCopyInto lib (machinesListMeta v) h;
     let out = out\<lparr>machinesListMeta := meta\<rparr>;
     (items, h) \<leftarrow> copySlice GoofyMachineArray asGoofyMachines (zeroGoofyMachine lib) (GoofyMachine_DeepCopyInto lib) (machinesItems v) h;
     let out = out\<lparr>machinesItems := items\<rparr>;
     Some (out, h)
   }"

definition GoofyMachineList_DeepCopy :: "('m, 'l, 'n, 'c, 'x) copyLibrary \<Rightarrow> nat option \<Rightarrow> ('m, 'l, 'n, 'c, 'x) memory \<Rightarrow> (nat option \<times> ('m, 'l, 'n, 'c, 'x) memory) option" where
  "GoofyMachineList_DeepCopy lib = DeepCopyPtr GoofyMachineListCell asGoofyMachineList (zeroGoofyMachineList lib) (GoofyMachineList_DeepCopyInto lib)"

definition GoofyMachineTemplateResource_DeepCopyInto :: "('m, 'l, 'n, 'c, 'x) copyLibrary \<Rightarrow> 'n GoofyMachineTemplateResource \<Rightarrow> ('m, 'l, 'n, 'c, 'x) memory \<Rightarrow> ('n GoofyMachineTemplateResource \<times> ('m, 'l, 'n, 'c, 'x) memory) option" where
  "GoofyMachineTemplateResource_DeepCopyInto lib v h = do {
     let out = v;
     (meta, h) \<leftarrow> ClusterObjectMetaDeepCopyInto lib (resourceObjectMeta v) h;
     let out = out\<lparr>resourceObjectMeta := meta\<rparr>;
     (spec, h) \<leftarrow> GoofyMachineSpec_DeepCopyInto (resourceSpec v) h;
     let out = out\<lparr>resourceSpec := spec\<rparr>;
     Some (out, h)
   }"

definition GoofyMachineTemplateResource_DeepCopy :: "('m, 'l, 'n, 'c, 'x) copyLibrary \<Rightarrow> nat option \<Rightarrow> ('m, 'l, 'n, 'c, 'x) memory \<Rightarrow> (nat option \<times> ('m, 'l, 'n, 'c, 'x) memory) option" where
  "GoofyMachineTemplateResource_DeepCopy lib = DeepCopyPtr GoofyMachineTemplateResourceCell asGoofyMachineTemplateResource (zeroGoofyMachineTemplateResource lib) (GoofyMachineTemplateResource_DeepCopyInto lib)"

definition GoofyMachineTemplateSpec_DeepCopyInto :: "('m, 'l, 'n, 'c, 'x) copyLibrary \<Rightarrow> 'n GoofyMachineTemplateSpec \<Rightarrow> ('m, 'l, 'n, 'c, 'x) memory \<Rightarrow> ('n GoofyMachineTemplateSpec \<times> ('m, 'l, 'n, 'c, 'x) memory) option" where
  "GoofyMachineTemplateSpec_DeepCopyInto lib v h = do {
     let out = v;
     (template, h) \<leftarrow> GoofyMachineTemplateResource_DeepCopyInto lib (templateTemplate v) h;
     let out = out\<lparr>templateTemplate := template\<rparr>;
     Some (out, h)
   }"

definition GoofyMachineTemplateSpec_DeepCopy :: "('m, 'l, 'n, 'c, 'x) copyLibrary \<Rightarrow> nat option \<Rightarrow> ('m, 'l, 'n, 'c, 'x) memory \<Rightarrow> (nat option \<times> ('m, 'l, 'n, 'c, 'x) memory) option" where
  "GoofyMachineTemplateSpec_DeepCopy lib = DeepCopyPtr GoofyMachineTemplateSpecCell asGoofyMachineTemplateSpec (zeroGoofyMachineTemplateSpec lib) (GoofyMachineTemplateSpec_DeepCopyInto lib)"

definition GoofyMachineTemplate_DeepCopyInto :: "('m, 'l, 'n, 'c, 'x) copyLibrary \<Rightarrow> ('m, 'n) GoofyMachineTemplate \<Rightarrow> ('m, 'l, 'n, 'c, 'x) memory \<Rightarrow> (('m, 'n) GoofyMachineTemplate \<times> ('m, 'l, 'n, 'c, 'x) memory) option" where
  "GoofyMachineTemplate_DeepCopyInto lib v h = do {
     let out = v;
     let out = out\<lparr>templateTypeMeta := templateTypeMeta v\<rparr>;
     (meta, h) \<leftarrow> ObjectMetaDeepCopyInto lib (templateObjectMeta v) h;
     let out = out\<lparr>templateObjectMeta := meta\<rparr>;
     (spec, h) \<leftarrow> GoofyMachineTemplateSpec_DeepCopyInto lib (templateSpec v) h;
     let out = out\<lparr>templateSpec := spec\<rparr>;
     Some (out, h)
   }"

definition GoofyMachineTemplate_DeepCopy :: "('m, 'l, 'n, 'c, 'x) copyLibrary \<Rightarrow> nat option \<Rightarrow> ('m, 'l, 'n, 'c, 'x) memory \<Rightarrow> (nat option \<times> ('m, 'l, 'n, 'c, 'x) memory) option" where
  "GoofyMachineTemplate_DeepCopy lib = DeepCopyPtr GoofyMachineTemplateCell asGoofyMachineTemplate (zeroGoofyMachineTemplate lib) (GoofyMachineTemplate_DeepCopyInto lib)"

definition GoofyMachineTemplateList_DeepCopyInto :: "('m, 'l, 'n, 'c, 'x) copyLibrary \<Rightarrow> 'l GoofyMachineTemplateList \<Rightarrow> ('m, 'l, 'n, 'c, 'x) memory \<Rightarrow> ('l GoofyMachineTemplateList \<times> ('m, 'l, 'n, 'c, 'x) memory) option" where
  "GoofyMachineTemplateList_DeepCopyInto lib v h = do {
     let out = v;
     let out = out\<lparr>templatesTypeMeta := templatesTypeMeta v\<rparr>;
     (meta, h) \<leftarrow> ListMetaDeepCopyInto lib (templatesListMeta v) h;
     let out = out\<lparr>templatesListMeta := meta\<rparr>;
     (items, h) \<leftarrow> copySlice GoofyMachineTemplateArray asGoofyMachineTemplates (zeroGoofyMachineTemplate lib) (GoofyMachineTemplate_DeepCopyInto lib) (templatesItems v) h;
     let out = out\<lparr>templatesItems := items\<rparr>;
     Some (out, h)
   }"

definition GoofyMachineTemplateList_DeepCopy :: "('m, 'l, 'n, 'c, 'x) copyLibrary \<Rightarrow> nat option \<Rightarrow> ('m, 'l, 'n, 'c, 'x) memory \<Rightarrow> (nat option \<times> ('m, 'l, 'n, 'c, 'x) memory) option" where
  "GoofyMachineTemplateList_DeepCopy lib = DeepCopyPtr GoofyMachineTemplateListCell asGoofyMachineTemplateList (zeroGoofyMachineTemplateList lib) (GoofyMachineTemplateList_DeepCopyInto lib)"

definition CloudMachineSpec_DeepCopyInto :: "CloudMachineSpec \<Rightarrow> ('m, 'l, 'n, 'c, 'x) memory \<Rightarrow> (CloudMachineSpec \<times> ('m, 'l, 'n, 'c, 'x) memory) option" where
  "CloudMachineSpec_DeepCopyInto v h = Some (v, h)"

definition CloudMachineSpec_DeepCopy :: "nat option \<Rightarrow> ('m, 'l, 'n, 'c, 'x) memory \<Rightarrow> (nat option \<times> ('m, 'l, 'n, 'c, 'x) memory) option" where
  "CloudMachineSpec_DeepCopy = DeepCopyPtr CloudMachineSpecCell asCloudMachineSpec CloudMachineSpec CloudMachineSpec_DeepCopyInto"

definition CloudMachineStatus_DeepCopyInto :: "CloudMachineStatus \<Rightarrow> ('m, 'l, 'n, 'c, 'x) memory \<Rightarrow> (CloudMachineStatus \<times> ('m, 'l, 'n, 'c, 'x) memory) option" where
  "CloudMachineStatus_DeepCopyInto v h = Some (v, h)"

definition CloudMachineStatus_DeepCopy :: "nat option \<Rightarrow> ('m, 'l, 'n, 'c, 'x) memory \<Rightarrow> (nat option \<times> ('m, 'l, 'n, 'c, 'x) memory) option" where
  "CloudMachineStatus_DeepCopy = DeepCopyPtr CloudMachineStatusCell asCloudMachineStatus CloudMachineStatus CloudMachineStatus_DeepCopyInto"

definition CloudMachine_DeepCopyInto :: "('m, 'l, 'n, 'c, 'x) copyLibrary \<Rightarrow> 'm CloudMachineObject \<Rightarrow> ('m, 'l, 'n, 'c, 'x) memory \<Rightarrow> ('m CloudMachineObject \<times> ('m, 'l, 'n, 'c, 'x) memory) option" where
  "CloudMachine_DeepCopyInto lib v h = do {
     let out = v;
     let out = out\<lparr>cloudTypeMeta := cloudTypeMeta v\<rparr>;
     (meta, h) \<leftarrow> ObjectMetaDeepCopyInto lib (cloudObjectMeta v) h;
     let out = out\<lparr>cloudObjectMeta := meta\<rparr>;
     let out = out\<lparr>cloudSpec := cloudSpec v\<rparr>;
     let out = out\<lparr>cloudStatus := cloudStatus v\<rparr>;
     Some (out, h)
   }"

definition CloudMachine_DeepCopy :: "('m, 'l, 'n, 'c, 'x) copyLibrary \<Rightarrow> nat option \<Rightarrow> ('m, 'l, 'n, 'c, 'x) memory \<Rightarrow> (nat option \<times> ('m, 'l, 'n, 'c, 'x) memory) option" where
  "CloudMachine_DeepCopy lib = DeepCopyPtr CloudMachineCell asCloudMachine (zeroCloudMachine lib) (CloudMachine_DeepCopyInto lib)"

definition CloudMachineList_DeepCopyInto :: "('m, 'l, 'n, 'c, 'x) copyLibrary \<Rightarrow> 'l CloudMachineList \<Rightarrow> ('m, 'l, 'n, 'c, 'x) memory \<Rightarrow> ('l CloudMachineList \<times> ('m, 'l, 'n, 'c, 'x) memory) option" where
  "CloudMachineList_DeepCopyInto lib v h = do {
     let out = v;
     let out = out\<lparr>cloudsTypeMeta := cloudsTypeMeta v\<rparr>;
     (meta, h) \<leftarrow> ListMetaDeepCopyInto lib (cloudsListMeta v) h;
     let out = out\<lparr>cloudsListMeta := meta\<rparr>;
     (items, h) \<leftarrow> copySlice CloudMachineArray asCloudMachines (zeroCloudMachine lib) (CloudMachine_DeepCopyInto lib) (cloudsItems v) h;
     let out = out\<lparr>cloudsItems := items\<rparr>;
     Some (out, h)
   }"

definition CloudMachineList_DeepCopy :: "('m, 'l, 'n, 'c, 'x) copyLibrary \<Rightarrow> nat option \<Rightarrow> ('m, 'l, 'n, 'c, 'x) memory \<Rightarrow> (nat option \<times> ('m, 'l, 'n, 'c, 'x) memory) option" where
  "CloudMachineList_DeepCopy lib = DeepCopyPtr CloudMachineListCell asCloudMachineList (zeroCloudMachineList lib) (CloudMachineList_DeepCopyInto lib)"

section \<open>runtime.Object\<close>

text \<open>
  A value of the interface \<^verbatim>\<open>runtime.Object\<close> is nil or a dynamic type with a pointer, which may itself be nil: an interface
  that holds a nil pointer is not the nil interface.
\<close>

datatype objectType =
  TypeGoofyCluster
| TypeGoofyClusterList
| TypeGoofyMachine
| TypeGoofyMachineList
| TypeGoofyMachineTemplate
| TypeGoofyMachineTemplateList
| TypeCloudMachine
| TypeCloudMachineList

datatype runtimeObject = NilInterface | Dynamic objectType "nat option"

text \<open>\<^verbatim>\<open>if c := in.DeepCopy(); c != nil { return c }; return nil\<close>, the body of every \<^verbatim>\<open>DeepCopyObject\<close>.\<close>

definition asInterface :: "objectType \<Rightarrow> (nat option \<times> 'h) option \<Rightarrow> (runtimeObject \<times> 'h) option" where
  "asInterface t r = do {
     (c, h) \<leftarrow> r;
     Some (if c \<noteq> None then Dynamic t c else NilInterface, h)
   }"

definition GoofyCluster_DeepCopyObject :: "('m, 'l, 'n, 'c, 'x) copyLibrary \<Rightarrow> nat option \<Rightarrow> ('m, 'l, 'n, 'c, 'x) memory
    \<Rightarrow> (runtimeObject \<times> ('m, 'l, 'n, 'c, 'x) memory) option" where
  "GoofyCluster_DeepCopyObject lib p h = asInterface TypeGoofyCluster (GoofyCluster_DeepCopy lib p h)"

definition GoofyClusterList_DeepCopyObject :: "('m, 'l, 'n, 'c, 'x) copyLibrary \<Rightarrow> nat option \<Rightarrow> ('m, 'l, 'n, 'c, 'x) memory
    \<Rightarrow> (runtimeObject \<times> ('m, 'l, 'n, 'c, 'x) memory) option" where
  "GoofyClusterList_DeepCopyObject lib p h = asInterface TypeGoofyClusterList (GoofyClusterList_DeepCopy lib p h)"

definition GoofyMachine_DeepCopyObject :: "('m, 'l, 'n, 'c, 'x) copyLibrary \<Rightarrow> nat option \<Rightarrow> ('m, 'l, 'n, 'c, 'x) memory
    \<Rightarrow> (runtimeObject \<times> ('m, 'l, 'n, 'c, 'x) memory) option" where
  "GoofyMachine_DeepCopyObject lib p h = asInterface TypeGoofyMachine (GoofyMachine_DeepCopy lib p h)"

definition GoofyMachineList_DeepCopyObject :: "('m, 'l, 'n, 'c, 'x) copyLibrary \<Rightarrow> nat option \<Rightarrow> ('m, 'l, 'n, 'c, 'x) memory
    \<Rightarrow> (runtimeObject \<times> ('m, 'l, 'n, 'c, 'x) memory) option" where
  "GoofyMachineList_DeepCopyObject lib p h = asInterface TypeGoofyMachineList (GoofyMachineList_DeepCopy lib p h)"

definition GoofyMachineTemplate_DeepCopyObject :: "('m, 'l, 'n, 'c, 'x) copyLibrary \<Rightarrow> nat option \<Rightarrow> ('m, 'l, 'n, 'c, 'x) memory
    \<Rightarrow> (runtimeObject \<times> ('m, 'l, 'n, 'c, 'x) memory) option" where
  "GoofyMachineTemplate_DeepCopyObject lib p h = asInterface TypeGoofyMachineTemplate (GoofyMachineTemplate_DeepCopy lib p h)"

definition GoofyMachineTemplateList_DeepCopyObject :: "('m, 'l, 'n, 'c, 'x) copyLibrary \<Rightarrow> nat option \<Rightarrow> ('m, 'l, 'n, 'c, 'x) memory
    \<Rightarrow> (runtimeObject \<times> ('m, 'l, 'n, 'c, 'x) memory) option" where
  "GoofyMachineTemplateList_DeepCopyObject lib p h = asInterface TypeGoofyMachineTemplateList (GoofyMachineTemplateList_DeepCopy lib p h)"

definition CloudMachine_DeepCopyObject :: "('m, 'l, 'n, 'c, 'x) copyLibrary \<Rightarrow> nat option \<Rightarrow> ('m, 'l, 'n, 'c, 'x) memory
    \<Rightarrow> (runtimeObject \<times> ('m, 'l, 'n, 'c, 'x) memory) option" where
  "CloudMachine_DeepCopyObject lib p h = asInterface TypeCloudMachine (CloudMachine_DeepCopy lib p h)"

definition CloudMachineList_DeepCopyObject :: "('m, 'l, 'n, 'c, 'x) copyLibrary \<Rightarrow> nat option \<Rightarrow> ('m, 'l, 'n, 'c, 'x) memory
    \<Rightarrow> (runtimeObject \<times> ('m, 'l, 'n, 'c, 'x) memory) option" where
  "CloudMachineList_DeepCopyObject lib p h = asInterface TypeCloudMachineList (CloudMachineList_DeepCopy lib p h)"

text \<open>
  The call of \<^verbatim>\<open>DeepCopyObject\<close> through the interface, as the cache does it: dispatch on the dynamic type, and a panic
  (no result) on the nil interface.
\<close>

fun DeepCopyObject :: "('m, 'l, 'n, 'c, 'x) copyLibrary \<Rightarrow> runtimeObject \<Rightarrow> ('m, 'l, 'n, 'c, 'x) memory
    \<Rightarrow> (runtimeObject \<times> ('m, 'l, 'n, 'c, 'x) memory) option" where
  "DeepCopyObject lib NilInterface h = None"
| "DeepCopyObject lib (Dynamic TypeGoofyCluster p) h = GoofyCluster_DeepCopyObject lib p h"
| "DeepCopyObject lib (Dynamic TypeGoofyClusterList p) h = GoofyClusterList_DeepCopyObject lib p h"
| "DeepCopyObject lib (Dynamic TypeGoofyMachine p) h = GoofyMachine_DeepCopyObject lib p h"
| "DeepCopyObject lib (Dynamic TypeGoofyMachineList p) h = GoofyMachineList_DeepCopyObject lib p h"
| "DeepCopyObject lib (Dynamic TypeGoofyMachineTemplate p) h = GoofyMachineTemplate_DeepCopyObject lib p h"
| "DeepCopyObject lib (Dynamic TypeGoofyMachineTemplateList p) h = GoofyMachineTemplateList_DeepCopyObject lib p h"
| "DeepCopyObject lib (Dynamic TypeCloudMachine p) h = CloudMachine_DeepCopyObject lib p h"
| "DeepCopyObject lib (Dynamic TypeCloudMachineList p) h = CloudMachineList_DeepCopyObject lib p h"

end
