(* ===== verification/Deep_Copy_Properties.thy ===== *)
theory Deep_Copy_Properties
  imports Deep_Copy
begin

text \<open>
  Every generated copy meets the contract \<open>deep_copier\<close>, given that the copies of the other modules do: the copy reads as
  the original and shares no cell with it, so that the two can be changed independently. The cache calls \<^verbatim>\<open>DeepCopyObject\<close> on what it
  stores and on what it lists.
\<close>

named_theorems view_defs \<open>the views of the API types\<close>

section \<open>Views\<close>

text \<open>
  What the structs of other modules read as, and the cells they are read from. The values with all pointers followed are of one type
  \<open>'d\<close>.
\<close>

record ('m, 'l, 'n, 'c, 'x, 'd) libraryView =
  viewObjectMeta :: "('m, 'l, 'n, 'c, 'x) memory \<Rightarrow> 'm \<Rightarrow> 'd option"
  cellsObjectMeta :: "('m, 'l, 'n, 'c, 'x) memory \<Rightarrow> 'm \<Rightarrow> nat set"
  viewListMeta :: "('m, 'l, 'n, 'c, 'x) memory \<Rightarrow> 'l \<Rightarrow> 'd option"
  cellsListMeta :: "('m, 'l, 'n, 'c, 'x) memory \<Rightarrow> 'l \<Rightarrow> nat set"
  viewClusterObjectMeta :: "('m, 'l, 'n, 'c, 'x) memory \<Rightarrow> 'n \<Rightarrow> 'd option"
  cellsClusterObjectMeta :: "('m, 'l, 'n, 'c, 'x) memory \<Rightarrow> 'n \<Rightarrow> nat set"
  viewCondition :: "('m, 'l, 'n, 'c, 'x) memory \<Rightarrow> 'c \<Rightarrow> 'd option"
  cellsCondition :: "('m, 'l, 'n, 'c, 'x) memory \<Rightarrow> 'c \<Rightarrow> nat set"

definition libraryCopies :: "('m, 'l, 'n, 'c, 'x) copyLibrary \<Rightarrow> ('m, 'l, 'n, 'c, 'x, 'd) libraryView \<Rightarrow> bool" where
  "libraryCopies lib V \<longleftrightarrow>
     deep_copier (ObjectMetaDeepCopyInto lib) (viewObjectMeta V) (cellsObjectMeta V)
     \<and> deep_copier (ListMetaDeepCopyInto lib) (viewListMeta V) (cellsListMeta V)
     \<and> deep_copier (ClusterObjectMetaDeepCopyInto lib) (viewClusterObjectMeta V) (cellsClusterObjectMeta V)
     \<and> deep_copier (ConditionDeepCopyInto lib) (viewCondition V) (cellsCondition V)"

type_synonym 'd conditionsView = "'d list option"
type_synonym 'd clusterView = "(TypeMeta \<times> GoofyClusterSpec) \<times> 'd \<times> bool \<times> 'd conditionsView"
type_synonym machineSpecView = "unit \<times> string option"
type_synonym 'd machineView = "TypeMeta \<times> 'd \<times> machineSpecView \<times> bool \<times> 'd conditionsView"
type_synonym 'd resourceView = "unit \<times> 'd \<times> machineSpecView"
type_synonym 'd templateView = "TypeMeta \<times> 'd \<times> unit \<times> 'd resourceView"
type_synonym 'd cloudView = "(TypeMeta \<times> CloudMachineSpec \<times> CloudMachineStatus) \<times> 'd"
type_synonym ('d, 'e) listView = "TypeMeta \<times> 'd \<times> 'e list option"

text \<open>The views of the API types; a list of fields stands for a struct.\<close>

definition viewGoofyClusterStatus :: "('m, 'l, 'n, 'c, 'x, 'd) libraryView \<Rightarrow> ('m, 'l, 'n, 'c, 'x) memory \<Rightarrow> GoofyClusterStatus \<Rightarrow> (bool \<times> 'd conditionsView) option" where [view_defs]:
  "viewGoofyClusterStatus V = structView clusterReady clusterConditions
     (viewSlice asConditions (viewCondition V))"

definition cellsGoofyClusterStatus :: "('m, 'l, 'n, 'c, 'x, 'd) libraryView \<Rightarrow> ('m, 'l, 'n, 'c, 'x) memory \<Rightarrow> GoofyClusterStatus \<Rightarrow> nat set" where [view_defs]:
  "cellsGoofyClusterStatus V = structCells clusterConditions
     (cellsSlice asConditions (cellsCondition V))"

definition viewGoofyCluster :: "('m, 'l, 'n, 'c, 'x, 'd) libraryView \<Rightarrow> ('m, 'l, 'n, 'c, 'x) memory \<Rightarrow> 'm GoofyClusterObject \<Rightarrow> 'd clusterView option" where [view_defs]:
  "viewGoofyCluster V = structView (\<lambda>v. (clusterTypeMeta v, clusterSpec v)) (\<lambda>v. (clusterObjectMeta v, clusterStatus v))
     (pairView (viewObjectMeta V) (viewGoofyClusterStatus V))"

definition cellsGoofyCluster :: "('m, 'l, 'n, 'c, 'x, 'd) libraryView \<Rightarrow> ('m, 'l, 'n, 'c, 'x) memory \<Rightarrow> 'm GoofyClusterObject \<Rightarrow> nat set" where [view_defs]:
  "cellsGoofyCluster V = structCells (\<lambda>v. (clusterObjectMeta v, clusterStatus v))
     (pairCells (cellsObjectMeta V) (cellsGoofyClusterStatus V))"

definition viewGoofyClusterList :: "('m, 'l, 'n, 'c, 'x, 'd) libraryView \<Rightarrow> ('m, 'l, 'n, 'c, 'x) memory \<Rightarrow> 'l GoofyClusterList \<Rightarrow> ('d, 'd clusterView) listView option" where [view_defs]:
  "viewGoofyClusterList V = structView clustersTypeMeta (\<lambda>v. (clustersListMeta v, clustersItems v))
     (pairView (viewListMeta V) (viewSlice asGoofyClusters (viewGoofyCluster V)))"

definition cellsGoofyClusterList :: "('m, 'l, 'n, 'c, 'x, 'd) libraryView \<Rightarrow> ('m, 'l, 'n, 'c, 'x) memory \<Rightarrow> 'l GoofyClusterList \<Rightarrow> nat set" where [view_defs]:
  "cellsGoofyClusterList V = structCells (\<lambda>v. (clustersListMeta v, clustersItems v))
     (pairCells (cellsListMeta V) (cellsSlice asGoofyClusters (cellsGoofyCluster V)))"

definition viewGoofyMachineSpec :: "('m, 'l, 'n, 'c, 'x) memory \<Rightarrow> GoofyMachineSpec \<Rightarrow> machineSpecView option" where [view_defs]:
  "viewGoofyMachineSpec = structView (\<lambda>_. ()) ProviderID
     (viewPtr asString plainView)"

definition cellsGoofyMachineSpec :: "('m, 'l, 'n, 'c, 'x) memory \<Rightarrow> GoofyMachineSpec \<Rightarrow> nat set" where [view_defs]:
  "cellsGoofyMachineSpec = structCells ProviderID
     (cellsPtr asString plainCells)"

definition viewGoofyMachineStatus :: "('m, 'l, 'n, 'c, 'x, 'd) libraryView \<Rightarrow> ('m, 'l, 'n, 'c, 'x) memory \<Rightarrow> GoofyMachineStatus \<Rightarrow> (bool \<times> 'd conditionsView) option" where [view_defs]:
  "viewGoofyMachineStatus V = structView machineReady machineConditions
     (viewSlice asConditions (viewCondition V))"

definition cellsGoofyMachineStatus :: "('m, 'l, 'n, 'c, 'x, 'd) libraryView \<Rightarrow> ('m, 'l, 'n, 'c, 'x) memory \<Rightarrow> GoofyMachineStatus \<Rightarrow> nat set" where [view_defs]:
  "cellsGoofyMachineStatus V = structCells machineConditions
     (cellsSlice asConditions (cellsCondition V))"

definition viewGoofyMachine :: "('m, 'l, 'n, 'c, 'x, 'd) libraryView \<Rightarrow> ('m, 'l, 'n, 'c, 'x) memory \<Rightarrow> 'm GoofyMachineObject \<Rightarrow> 'd machineView option" where [view_defs]:
  "viewGoofyMachine V = structView machineTypeMeta (\<lambda>v. (machineObjectMeta v, machineSpec v, machineStatus v))
     (pairView (viewObjectMeta V) (pairView viewGoofyMachineSpec (viewGoofyMachineStatus V)))"

definition cellsGoofyMachine :: "('m, 'l, 'n, 'c, 'x, 'd) libraryView \<Rightarrow> ('m, 'l, 'n, 'c, 'x) memory \<Rightarrow> 'm GoofyMachineObject \<Rightarrow> nat set" where [view_defs]:
  "cellsGoofyMachine V = structCells (\<lambda>v. (machineObjectMeta v, machineSpec v, machineStatus v))
     (pairCells (cellsObjectMeta V) (pairCells cellsGoofyMachineSpec (cellsGoofyMachineStatus V)))"

definition viewGoofyMachineList :: "('m, 'l, 'n, 'c, 'x, 'd) libraryView \<Rightarrow> ('m, 'l, 'n, 'c, 'x) memory \<Rightarrow> 'l GoofyMachineList \<Rightarrow> ('d, 'd machineView) listView option" where [view_defs]:
  "viewGoofyMachineList V = structView machinesTypeMeta (\<lambda>v. (machinesListMeta v, machinesItems v))
     (pairView (viewListMeta V) (viewSlice asGoofyMachines (viewGoofyMachine V)))"

definition cellsGoofyMachineList :: "('m, 'l, 'n, 'c, 'x, 'd) libraryView \<Rightarrow> ('m, 'l, 'n, 'c, 'x) memory \<Rightarrow> 'l GoofyMachineList \<Rightarrow> nat set" where [view_defs]:
  "cellsGoofyMachineList V = structCells (\<lambda>v. (machinesListMeta v, machinesItems v))
     (pairCells (cellsListMeta V) (cellsSlice asGoofyMachines (cellsGoofyMachine V)))"

definition viewGoofyMachineTemplateResource :: "('m, 'l, 'n, 'c, 'x, 'd) libraryView \<Rightarrow> ('m, 'l, 'n, 'c, 'x) memory \<Rightarrow> 'n GoofyMachineTemplateResource \<Rightarrow> 'd resourceView option" where [view_defs]:
  "viewGoofyMachineTemplateResource V = structView (\<lambda>_. ()) (\<lambda>v. (resourceObjectMeta v, resourceSpec v))
     (pairView (viewClusterObjectMeta V) viewGoofyMachineSpec)"

definition cellsGoofyMachineTemplateResource :: "('m, 'l, 'n, 'c, 'x, 'd) libraryView \<Rightarrow> ('m, 'l, 'n, 'c, 'x) memory \<Rightarrow> 'n GoofyMachineTemplateResource \<Rightarrow> nat set" where [view_defs]:
  "cellsGoofyMachineTemplateResource V = structCells (\<lambda>v. (resourceObjectMeta v, resourceSpec v))
     (pairCells (cellsClusterObjectMeta V) cellsGoofyMachineSpec)"

definition viewGoofyMachineTemplateSpec :: "('m, 'l, 'n, 'c, 'x, 'd) libraryView \<Rightarrow> ('m, 'l, 'n, 'c, 'x) memory \<Rightarrow> 'n GoofyMachineTemplateSpec \<Rightarrow> (unit \<times> 'd resourceView) option" where [view_defs]:
  "viewGoofyMachineTemplateSpec V = structView (\<lambda>_. ()) templateTemplate
     (viewGoofyMachineTemplateResource V)"

definition cellsGoofyMachineTemplateSpec :: "('m, 'l, 'n, 'c, 'x, 'd) libraryView \<Rightarrow> ('m, 'l, 'n, 'c, 'x) memory \<Rightarrow> 'n GoofyMachineTemplateSpec \<Rightarrow> nat set" where [view_defs]:
  "cellsGoofyMachineTemplateSpec V = structCells templateTemplate
     (cellsGoofyMachineTemplateResource V)"

definition viewGoofyMachineTemplate :: "('m, 'l, 'n, 'c, 'x, 'd) libraryView \<Rightarrow> ('m, 'l, 'n, 'c, 'x) memory \<Rightarrow> ('m, 'n) GoofyMachineTemplate \<Rightarrow> 'd templateView option" where [view_defs]:
  "viewGoofyMachineTemplate V = structView templateTypeMeta (\<lambda>v. (templateObjectMeta v, templateSpec v))
     (pairView (viewObjectMeta V) (viewGoofyMachineTemplateSpec V))"

definition cellsGoofyMachineTemplate :: "('m, 'l, 'n, 'c, 'x, 'd) libraryView \<Rightarrow> ('m, 'l, 'n, 'c, 'x) memory \<Rightarrow> ('m, 'n) GoofyMachineTemplate \<Rightarrow> nat set" where [view_defs]:
  "cellsGoofyMachineTemplate V = structCells (\<lambda>v. (templateObjectMeta v, templateSpec v))
     (pairCells (cellsObjectMeta V) (cellsGoofyMachineTemplateSpec V))"

definition viewGoofyMachineTemplateList :: "('m, 'l, 'n, 'c, 'x, 'd) libraryView \<Rightarrow> ('m, 'l, 'n, 'c, 'x) memory \<Rightarrow> 'l GoofyMachineTemplateList \<Rightarrow> ('d, 'd templateView) listView option" where [view_defs]:
  "viewGoofyMachineTemplateList V = structView templatesTypeMeta (\<lambda>v. (templatesListMeta v, templatesItems v))
     (pairView (viewListMeta V) (viewSlice asGoofyMachineTemplates (viewGoofyMachineTemplate V)))"

definition cellsGoofyMachineTemplateList :: "('m, 'l, 'n, 'c, 'x, 'd) libraryView \<Rightarrow> ('m, 'l, 'n, 'c, 'x) memory \<Rightarrow> 'l GoofyMachineTemplateList \<Rightarrow> nat set" where [view_defs]:
  "cellsGoofyMachineTemplateList V = structCells (\<lambda>v. (templatesListMeta v, templatesItems v))
     (pairCells (cellsListMeta V) (cellsSlice asGoofyMachineTemplates (cellsGoofyMachineTemplate V)))"

definition viewCloudMachine :: "('m, 'l, 'n, 'c, 'x, 'd) libraryView \<Rightarrow> ('m, 'l, 'n, 'c, 'x) memory \<Rightarrow> 'm CloudMachineObject \<Rightarrow> 'd cloudView option" where [view_defs]:
  "viewCloudMachine V = structView (\<lambda>v. (cloudTypeMeta v, cloudSpec v, cloudStatus v)) cloudObjectMeta
     (viewObjectMeta V)"

definition cellsCloudMachine :: "('m, 'l, 'n, 'c, 'x, 'd) libraryView \<Rightarrow> ('m, 'l, 'n, 'c, 'x) memory \<Rightarrow> 'm CloudMachineObject \<Rightarrow> nat set" where [view_defs]:
  "cellsCloudMachine V = structCells cloudObjectMeta
     (cellsObjectMeta V)"

definition viewCloudMachineList :: "('m, 'l, 'n, 'c, 'x, 'd) libraryView \<Rightarrow> ('m, 'l, 'n, 'c, 'x) memory \<Rightarrow> 'l CloudMachineList \<Rightarrow> ('d, 'd cloudView) listView option" where [view_defs]:
  "viewCloudMachineList V = structView cloudsTypeMeta (\<lambda>v. (cloudsListMeta v, cloudsItems v))
     (pairView (viewListMeta V) (viewSlice asCloudMachines (viewCloudMachine V)))"

definition cellsCloudMachineList :: "('m, 'l, 'n, 'c, 'x, 'd) libraryView \<Rightarrow> ('m, 'l, 'n, 'c, 'x) memory \<Rightarrow> 'l CloudMachineList \<Rightarrow> nat set" where [view_defs]:
  "cellsCloudMachineList V = structCells (\<lambda>v. (cloudsListMeta v, cloudsItems v))
     (pairCells (cellsListMeta V) (cellsSlice asCloudMachines (cellsCloudMachine V)))"

text \<open>What an interface value reads as: no value for the nil interface, for a nil pointer, and where the memory is not of the dynamic type.\<close>

datatype 'd objectView =
  ClusterView "'d clusterView"
| ClusterListView "('d, 'd clusterView) listView"
| MachineView "'d machineView"
| MachineListView "('d, 'd machineView) listView"
| TemplateView "'d templateView"
| TemplateListView "('d, 'd templateView) listView"
| CloudView "'d cloudView"
| CloudListView "('d, 'd cloudView) listView"

fun viewObject :: "('m, 'l, 'n, 'c, 'x, 'd) libraryView \<Rightarrow> ('m, 'l, 'n, 'c, 'x) memory \<Rightarrow> runtimeObject \<Rightarrow> 'd objectView option" where
  "viewObject V h NilInterface = None"
| "viewObject V h (Dynamic TypeGoofyCluster p) = viewPtr asGoofyCluster (viewGoofyCluster V) h p \<bind> map_option ClusterView"
| "viewObject V h (Dynamic TypeGoofyClusterList p) = viewPtr asGoofyClusterList (viewGoofyClusterList V) h p \<bind> map_option ClusterListView"
| "viewObject V h (Dynamic TypeGoofyMachine p) = viewPtr asGoofyMachine (viewGoofyMachine V) h p \<bind> map_option MachineView"
| "viewObject V h (Dynamic TypeGoofyMachineList p) = viewPtr asGoofyMachineList (viewGoofyMachineList V) h p \<bind> map_option MachineListView"
| "viewObject V h (Dynamic TypeGoofyMachineTemplate p) = viewPtr asGoofyMachineTemplate (viewGoofyMachineTemplate V) h p \<bind> map_option TemplateView"
| "viewObject V h (Dynamic TypeGoofyMachineTemplateList p) = viewPtr asGoofyMachineTemplateList (viewGoofyMachineTemplateList V) h p \<bind> map_option TemplateListView"
| "viewObject V h (Dynamic TypeCloudMachine p) = viewPtr asCloudMachine (viewCloudMachine V) h p \<bind> map_option CloudView"
| "viewObject V h (Dynamic TypeCloudMachineList p) = viewPtr asCloudMachineList (viewCloudMachineList V) h p \<bind> map_option CloudListView"

fun cellsObject :: "('m, 'l, 'n, 'c, 'x, 'd) libraryView \<Rightarrow> ('m, 'l, 'n, 'c, 'x) memory \<Rightarrow> runtimeObject \<Rightarrow> nat set" where
  "cellsObject V h NilInterface = {}"
| "cellsObject V h (Dynamic TypeGoofyCluster p) = cellsPtr asGoofyCluster (cellsGoofyCluster V) h p"
| "cellsObject V h (Dynamic TypeGoofyClusterList p) = cellsPtr asGoofyClusterList (cellsGoofyClusterList V) h p"
| "cellsObject V h (Dynamic TypeGoofyMachine p) = cellsPtr asGoofyMachine (cellsGoofyMachine V) h p"
| "cellsObject V h (Dynamic TypeGoofyMachineList p) = cellsPtr asGoofyMachineList (cellsGoofyMachineList V) h p"
| "cellsObject V h (Dynamic TypeGoofyMachineTemplate p) = cellsPtr asGoofyMachineTemplate (cellsGoofyMachineTemplate V) h p"
| "cellsObject V h (Dynamic TypeGoofyMachineTemplateList p) = cellsPtr asGoofyMachineTemplateList (cellsGoofyMachineTemplateList V) h p"
| "cellsObject V h (Dynamic TypeCloudMachine p) = cellsPtr asCloudMachine (cellsCloudMachine V) h p"
| "cellsObject V h (Dynamic TypeCloudMachineList p) = cellsPtr asCloudMachineList (cellsCloudMachineList V) h p"

section \<open>The copies meet their contract\<close>

lemma GoofyMachineSpec_struct:
  "GoofyMachineSpec_DeepCopyInto = structCopy ProviderID (\<lambda>v p. v\<lparr>ProviderID := p\<rparr>) (DeepCopyPtr StringCell asString [] plainCopy)"
  by (auto simp: fun_eq_iff GoofyMachineSpec_DeepCopyInto_def structCopy_def split: bind_splits)

interpretation machineSpecCopier: deep_copier GoofyMachineSpec_DeepCopyInto viewGoofyMachineSpec cellsGoofyMachineSpec
  unfolding GoofyMachineSpec_struct view_defs by (auto intro!: struct_deep_copier plainCopier.ptr_deep_copier)

lemma GoofyClusterStatus_copier:
  assumes lib: "libraryCopies lib V"
  shows "deep_copier (GoofyClusterStatus_DeepCopyInto lib) (viewGoofyClusterStatus V) (cellsGoofyClusterStatus V)"
proof -
  have "GoofyClusterStatus_DeepCopyInto lib = structCopy clusterConditions (\<lambda>v c. v\<lparr>clusterConditions := c\<rparr>) (copyConditions lib)"
    by (auto simp: fun_eq_iff GoofyClusterStatus_DeepCopyInto_def structCopy_def split: bind_splits)
  then show ?thesis
    using lib unfolding viewGoofyClusterStatus_def cellsGoofyClusterStatus_def libraryCopies_def copyConditions_def
    by (auto intro!: struct_deep_copier deep_copier.slice_deep_copier)
qed

lemma GoofyCluster_copier:
  assumes lib: "libraryCopies lib V"
  shows "deep_copier (GoofyCluster_DeepCopyInto lib) (viewGoofyCluster V) (cellsGoofyCluster V)"
proof -
  have "GoofyCluster_DeepCopyInto lib = structCopy (\<lambda>v. (clusterObjectMeta v, clusterStatus v))
      (\<lambda>v (m, s). v\<lparr>clusterObjectMeta := m, clusterStatus := s\<rparr>)
      (pairCopy (ObjectMetaDeepCopyInto lib) (GoofyClusterStatus_DeepCopyInto lib))"
    by (auto simp: fun_eq_iff GoofyCluster_DeepCopyInto_def structCopy_def pairCopy_def split: bind_splits)
  then show ?thesis
    using lib GoofyClusterStatus_copier [OF lib] unfolding viewGoofyCluster_def cellsGoofyCluster_def libraryCopies_def
    by (auto intro!: struct_deep_copier pair_deep_copier)
qed

lemma GoofyClusterList_copier:
  assumes lib: "libraryCopies lib V"
  shows "deep_copier (GoofyClusterList_DeepCopyInto lib) (viewGoofyClusterList V) (cellsGoofyClusterList V)"
proof -
  have "GoofyClusterList_DeepCopyInto lib = structCopy (\<lambda>v. (clustersListMeta v, clustersItems v))
      (\<lambda>v (m, i). v\<lparr>clustersListMeta := m, clustersItems := i\<rparr>)
      (pairCopy (ListMetaDeepCopyInto lib)
        (copySlice GoofyClusterArray asGoofyClusters (zeroGoofyCluster lib) (GoofyCluster_DeepCopyInto lib)))"
    by (auto simp: fun_eq_iff GoofyClusterList_DeepCopyInto_def structCopy_def pairCopy_def split: bind_splits)
  then show ?thesis
    using lib GoofyCluster_copier [OF lib] unfolding viewGoofyClusterList_def cellsGoofyClusterList_def libraryCopies_def
    by (auto intro!: struct_deep_copier pair_deep_copier deep_copier.slice_deep_copier)
qed

lemma GoofyMachineStatus_copier:
  assumes lib: "libraryCopies lib V"
  shows "deep_copier (GoofyMachineStatus_DeepCopyInto lib) (viewGoofyMachineStatus V) (cellsGoofyMachineStatus V)"
proof -
  have "GoofyMachineStatus_DeepCopyInto lib = structCopy machineConditions (\<lambda>v c. v\<lparr>machineConditions := c\<rparr>) (copyConditions lib)"
    by (auto simp: fun_eq_iff GoofyMachineStatus_DeepCopyInto_def structCopy_def split: bind_splits)
  then show ?thesis
    using lib unfolding viewGoofyMachineStatus_def cellsGoofyMachineStatus_def libraryCopies_def copyConditions_def
    by (auto intro!: struct_deep_copier deep_copier.slice_deep_copier)
qed

lemma GoofyMachine_copier:
  assumes lib: "libraryCopies lib V"
  shows "deep_copier (GoofyMachine_DeepCopyInto lib) (viewGoofyMachine V) (cellsGoofyMachine V)"
proof -
  have "GoofyMachine_DeepCopyInto lib = structCopy (\<lambda>v. (machineObjectMeta v, machineSpec v, machineStatus v))
      (\<lambda>v (m, s, t). v\<lparr>machineObjectMeta := m, machineSpec := s, machineStatus := t\<rparr>)
      (pairCopy (ObjectMetaDeepCopyInto lib) (pairCopy GoofyMachineSpec_DeepCopyInto (GoofyMachineStatus_DeepCopyInto lib)))"
    by (auto simp: fun_eq_iff GoofyMachine_DeepCopyInto_def structCopy_def pairCopy_def split: bind_splits)
  then show ?thesis
    using lib GoofyMachineStatus_copier [OF lib] machineSpecCopier.deep_copier_axioms unfolding viewGoofyMachine_def cellsGoofyMachine_def libraryCopies_def
    by (auto intro!: struct_deep_copier pair_deep_copier)
qed

lemma GoofyMachineList_copier:
  assumes lib: "libraryCopies lib V"
  shows "deep_copier (GoofyMachineList_DeepCopyInto lib) (viewGoofyMachineList V) (cellsGoofyMachineList V)"
proof -
  have "GoofyMachineList_DeepCopyInto lib = structCopy (\<lambda>v. (machinesListMeta v, machinesItems v))
      (\<lambda>v (m, i). v\<lparr>machinesListMeta := m, machinesItems := i\<rparr>)
      (pairCopy (ListMetaDeepCopyInto lib)
        (copySlice GoofyMachineArray asGoofyMachines (zeroGoofyMachine lib) (GoofyMachine_DeepCopyInto lib)))"
    by (auto simp: fun_eq_iff GoofyMachineList_DeepCopyInto_def structCopy_def pairCopy_def split: bind_splits)
  then show ?thesis
    using lib GoofyMachine_copier [OF lib] unfolding viewGoofyMachineList_def cellsGoofyMachineList_def libraryCopies_def
    by (auto intro!: struct_deep_copier pair_deep_copier deep_copier.slice_deep_copier)
qed

lemma GoofyMachineTemplateResource_copier:
  assumes lib: "libraryCopies lib V"
  shows "deep_copier (GoofyMachineTemplateResource_DeepCopyInto lib) (viewGoofyMachineTemplateResource V) (cellsGoofyMachineTemplateResource V)"
proof -
  have "GoofyMachineTemplateResource_DeepCopyInto lib = structCopy (\<lambda>v. (resourceObjectMeta v, resourceSpec v))
      (\<lambda>v (m, s). v\<lparr>resourceObjectMeta := m, resourceSpec := s\<rparr>)
      (pairCopy (ClusterObjectMetaDeepCopyInto lib) GoofyMachineSpec_DeepCopyInto)"
    by (auto simp: fun_eq_iff GoofyMachineTemplateResource_DeepCopyInto_def structCopy_def pairCopy_def split: bind_splits)
  then show ?thesis
    using lib machineSpecCopier.deep_copier_axioms unfolding viewGoofyMachineTemplateResource_def cellsGoofyMachineTemplateResource_def libraryCopies_def
    by (auto intro!: struct_deep_copier pair_deep_copier)
qed

lemma GoofyMachineTemplateSpec_copier:
  assumes lib: "libraryCopies lib V"
  shows "deep_copier (GoofyMachineTemplateSpec_DeepCopyInto lib) (viewGoofyMachineTemplateSpec V) (cellsGoofyMachineTemplateSpec V)"
proof -
  have "GoofyMachineTemplateSpec_DeepCopyInto lib = structCopy templateTemplate
      (\<lambda>v t. v\<lparr>templateTemplate := t\<rparr>)
      (GoofyMachineTemplateResource_DeepCopyInto lib)"
    by (auto simp: fun_eq_iff GoofyMachineTemplateSpec_DeepCopyInto_def structCopy_def split: bind_splits)
  then show ?thesis
    using lib GoofyMachineTemplateResource_copier [OF lib] unfolding viewGoofyMachineTemplateSpec_def cellsGoofyMachineTemplateSpec_def libraryCopies_def
    by (auto intro!: struct_deep_copier)
qed

lemma GoofyMachineTemplate_copier:
  assumes lib: "libraryCopies lib V"
  shows "deep_copier (GoofyMachineTemplate_DeepCopyInto lib) (viewGoofyMachineTemplate V) (cellsGoofyMachineTemplate V)"
proof -
  have "GoofyMachineTemplate_DeepCopyInto lib = structCopy (\<lambda>v. (templateObjectMeta v, templateSpec v))
      (\<lambda>v (m, s). v\<lparr>templateObjectMeta := m, templateSpec := s\<rparr>)
      (pairCopy (ObjectMetaDeepCopyInto lib) (GoofyMachineTemplateSpec_DeepCopyInto lib))"
    by (auto simp: fun_eq_iff GoofyMachineTemplate_DeepCopyInto_def structCopy_def pairCopy_def split: bind_splits)
  then show ?thesis
    using lib GoofyMachineTemplateSpec_copier [OF lib] unfolding viewGoofyMachineTemplate_def cellsGoofyMachineTemplate_def libraryCopies_def
    by (auto intro!: struct_deep_copier pair_deep_copier)
qed

lemma GoofyMachineTemplateList_copier:
  assumes lib: "libraryCopies lib V"
  shows "deep_copier (GoofyMachineTemplateList_DeepCopyInto lib) (viewGoofyMachineTemplateList V) (cellsGoofyMachineTemplateList V)"
proof -
  have "GoofyMachineTemplateList_DeepCopyInto lib = structCopy (\<lambda>v. (templatesListMeta v, templatesItems v))
      (\<lambda>v (m, i). v\<lparr>templatesListMeta := m, templatesItems := i\<rparr>)
      (pairCopy (ListMetaDeepCopyInto lib)
        (copySlice GoofyMachineTemplateArray asGoofyMachineTemplates (zeroGoofyMachineTemplate lib) (GoofyMachineTemplate_DeepCopyInto lib)))"
    by (auto simp: fun_eq_iff GoofyMachineTemplateList_DeepCopyInto_def structCopy_def pairCopy_def split: bind_splits)
  then show ?thesis
    using lib GoofyMachineTemplate_copier [OF lib] unfolding viewGoofyMachineTemplateList_def cellsGoofyMachineTemplateList_def libraryCopies_def
    by (auto intro!: struct_deep_copier pair_deep_copier deep_copier.slice_deep_copier)
qed

lemma CloudMachine_copier:
  assumes lib: "libraryCopies lib V"
  shows "deep_copier (CloudMachine_DeepCopyInto lib) (viewCloudMachine V) (cellsCloudMachine V)"
proof -
  have "CloudMachine_DeepCopyInto lib = structCopy cloudObjectMeta
      (\<lambda>v m. v\<lparr>cloudObjectMeta := m\<rparr>)
      (ObjectMetaDeepCopyInto lib)"
    by (auto simp: fun_eq_iff CloudMachine_DeepCopyInto_def structCopy_def split: bind_splits)
  then show ?thesis
    using lib unfolding viewCloudMachine_def cellsCloudMachine_def libraryCopies_def
    by (auto intro!: struct_deep_copier)
qed

lemma CloudMachineList_copier:
  assumes lib: "libraryCopies lib V"
  shows "deep_copier (CloudMachineList_DeepCopyInto lib) (viewCloudMachineList V) (cellsCloudMachineList V)"
proof -
  have "CloudMachineList_DeepCopyInto lib = structCopy (\<lambda>v. (cloudsListMeta v, cloudsItems v))
      (\<lambda>v (m, i). v\<lparr>cloudsListMeta := m, cloudsItems := i\<rparr>)
      (pairCopy (ListMetaDeepCopyInto lib)
        (copySlice CloudMachineArray asCloudMachines (zeroCloudMachine lib) (CloudMachine_DeepCopyInto lib)))"
    by (auto simp: fun_eq_iff CloudMachineList_DeepCopyInto_def structCopy_def pairCopy_def split: bind_splits)
  then show ?thesis
    using lib CloudMachine_copier [OF lib] unfolding viewCloudMachineList_def cellsCloudMachineList_def libraryCopies_def
    by (auto intro!: struct_deep_copier pair_deep_copier deep_copier.slice_deep_copier)
qed

text \<open>The copies through a pointer.\<close>

lemma GoofyCluster_DeepCopy_copier:
  "libraryCopies lib V \<Longrightarrow> deep_copier (GoofyCluster_DeepCopy lib) (viewPtr asGoofyCluster (viewGoofyCluster V)) (cellsPtr asGoofyCluster (cellsGoofyCluster V))"
  by (simp add: GoofyCluster_DeepCopy_def deep_copier.ptr_deep_copier [OF GoofyCluster_copier])

lemma GoofyClusterList_DeepCopy_copier:
  "libraryCopies lib V \<Longrightarrow> deep_copier (GoofyClusterList_DeepCopy lib) (viewPtr asGoofyClusterList (viewGoofyClusterList V)) (cellsPtr asGoofyClusterList (cellsGoofyClusterList V))"
  by (simp add: GoofyClusterList_DeepCopy_def deep_copier.ptr_deep_copier [OF GoofyClusterList_copier])

lemma GoofyMachine_DeepCopy_copier:
  "libraryCopies lib V \<Longrightarrow> deep_copier (GoofyMachine_DeepCopy lib) (viewPtr asGoofyMachine (viewGoofyMachine V)) (cellsPtr asGoofyMachine (cellsGoofyMachine V))"
  by (simp add: GoofyMachine_DeepCopy_def deep_copier.ptr_deep_copier [OF GoofyMachine_copier])

lemma GoofyMachineList_DeepCopy_copier:
  "libraryCopies lib V \<Longrightarrow> deep_copier (GoofyMachineList_DeepCopy lib) (viewPtr asGoofyMachineList (viewGoofyMachineList V)) (cellsPtr asGoofyMachineList (cellsGoofyMachineList V))"
  by (simp add: GoofyMachineList_DeepCopy_def deep_copier.ptr_deep_copier [OF GoofyMachineList_copier])

lemma GoofyMachineTemplate_DeepCopy_copier:
  "libraryCopies lib V \<Longrightarrow> deep_copier (GoofyMachineTemplate_DeepCopy lib) (viewPtr asGoofyMachineTemplate (viewGoofyMachineTemplate V)) (cellsPtr asGoofyMachineTemplate (cellsGoofyMachineTemplate V))"
  by (simp add: GoofyMachineTemplate_DeepCopy_def deep_copier.ptr_deep_copier [OF GoofyMachineTemplate_copier])

lemma GoofyMachineTemplateList_DeepCopy_copier:
  "libraryCopies lib V \<Longrightarrow> deep_copier (GoofyMachineTemplateList_DeepCopy lib) (viewPtr asGoofyMachineTemplateList (viewGoofyMachineTemplateList V)) (cellsPtr asGoofyMachineTemplateList (cellsGoofyMachineTemplateList V))"
  by (simp add: GoofyMachineTemplateList_DeepCopy_def deep_copier.ptr_deep_copier [OF GoofyMachineTemplateList_copier])

lemma CloudMachine_DeepCopy_copier:
  "libraryCopies lib V \<Longrightarrow> deep_copier (CloudMachine_DeepCopy lib) (viewPtr asCloudMachine (viewCloudMachine V)) (cellsPtr asCloudMachine (cellsCloudMachine V))"
  by (simp add: CloudMachine_DeepCopy_def deep_copier.ptr_deep_copier [OF CloudMachine_copier])

lemma CloudMachineList_DeepCopy_copier:
  "libraryCopies lib V \<Longrightarrow> deep_copier (CloudMachineList_DeepCopy lib) (viewPtr asCloudMachineList (viewCloudMachineList V)) (cellsPtr asCloudMachineList (cellsCloudMachineList V))"
  by (simp add: CloudMachineList_DeepCopy_def deep_copier.ptr_deep_copier [OF CloudMachineList_copier])

lemmas object_copiers = GoofyCluster_DeepCopy_copier
  GoofyClusterList_DeepCopy_copier
  GoofyMachine_DeepCopy_copier
  GoofyMachineList_DeepCopy_copier
  GoofyMachineTemplate_DeepCopy_copier
  GoofyMachineTemplateList_DeepCopy_copier
  CloudMachine_DeepCopy_copier
  CloudMachineList_DeepCopy_copier

section \<open>Copies through the interface\<close>

text \<open>What the body of a \<^verbatim>\<open>DeepCopyObject\<close> makes of the copy through the pointer.\<close>

lemma interface_copied:
  assumes copier: "deep_copier copy (viewPtr dest view) cells" and d: "viewPtr dest view h p \<bind> map_option C = Some d"
  shows "\<exists>p' h'. asInterface t (copy p h) = Some (Dynamic t p', h') \<and> prefix h h' \<and> viewPtr dest view h' p' \<bind> map_option C = Some d
    \<and> (\<forall>a\<in>cells h' p'. length h \<le> a)"
proof -
  obtain e where e: "viewPtr dest view h p = Some (Some e)" "C e = d"
    using d by (auto split: bind_splits)
  obtain p' h' where c: "copy p h = Some (p', h')"
    using deep_copier.copy_succeeds [OF copier e(1)] by blast
  note u = deep_copier.copied_unique [OF copier e(1) c]
  have "p' \<noteq> None"
    using u(2) by (cases p') (auto simp: viewPtr_def)
  then show ?thesis
    using c u e(2) by (auto simp: asInterface_def)
qed

lemma interface_frame:
  assumes copier: "deep_copier copy (viewPtr dest view) cells" and d: "viewPtr dest view h p \<bind> map_option C = Some d"
  shows "cells h p \<subseteq> {..<length h}"
    and "agreeOn (cells h p) h h' \<Longrightarrow> viewPtr dest view h' p \<bind> map_option C = Some d \<and> cells h' p = cells h p"
proof -
  obtain e where e: "viewPtr dest view h p = Some (Some e)" "C e = d"
    using d by (auto split: bind_splits)
  show "cells h p \<subseteq> {..<length h}"
    by (rule deep_copier.allocated [OF copier e(1)])
  show "viewPtr dest view h' p \<bind> map_option C = Some d \<and> cells h' p = cells h p" if "agreeOn (cells h p) h h'"
    using deep_copier.frame [OF copier e(1) that] e(2) by simp
qed

lemmas object_defs = GoofyCluster_DeepCopyObject_def
  GoofyClusterList_DeepCopyObject_def
  GoofyMachine_DeepCopyObject_def
  GoofyMachineList_DeepCopyObject_def
  GoofyMachineTemplate_DeepCopyObject_def
  GoofyMachineTemplateList_DeepCopyObject_def
  CloudMachine_DeepCopyObject_def
  CloudMachineList_DeepCopyObject_def

text \<open>An interface value that reads as something is not the nil interface; one case for each dynamic type.\<close>

lemma viewObject_cases:
  assumes "viewObject V h ob = Some d"
  obtains p where "ob = Dynamic TypeGoofyCluster p"
    | p where "ob = Dynamic TypeGoofyClusterList p"
    | p where "ob = Dynamic TypeGoofyMachine p"
    | p where "ob = Dynamic TypeGoofyMachineList p"
    | p where "ob = Dynamic TypeGoofyMachineTemplate p"
    | p where "ob = Dynamic TypeGoofyMachineTemplateList p"
    | p where "ob = Dynamic TypeCloudMachine p"
    | p where "ob = Dynamic TypeCloudMachineList p"
  using assms by (cases ob; cases "case ob of Dynamic t _ \<Rightarrow> t") auto

lemma DeepCopyObject_copied:
  assumes lib: "libraryCopies lib V" and d: "viewObject V h ob = Some d"
  shows "\<exists>ob' h'. DeepCopyObject lib ob h = Some (ob', h') \<and> prefix h h' \<and> viewObject V h' ob' = Some d
    \<and> (\<forall>a\<in>cellsObject V h' ob'. length h \<le> a)"
  using d
proof (cases rule: viewObject_cases)
  case (1 p)
  with interface_copied [OF GoofyCluster_DeepCopy_copier [OF lib], of h p _ d TypeGoofyCluster] d show ?thesis
    by (fastforce simp: GoofyCluster_DeepCopyObject_def)
next
  case (2 p)
  with interface_copied [OF GoofyClusterList_DeepCopy_copier [OF lib], of h p _ d TypeGoofyClusterList] d show ?thesis
    by (fastforce simp: GoofyClusterList_DeepCopyObject_def)
next
  case (3 p)
  with interface_copied [OF GoofyMachine_DeepCopy_copier [OF lib], of h p _ d TypeGoofyMachine] d show ?thesis
    by (fastforce simp: GoofyMachine_DeepCopyObject_def)
next
  case (4 p)
  with interface_copied [OF GoofyMachineList_DeepCopy_copier [OF lib], of h p _ d TypeGoofyMachineList] d show ?thesis
    by (fastforce simp: GoofyMachineList_DeepCopyObject_def)
next
  case (5 p)
  with interface_copied [OF GoofyMachineTemplate_DeepCopy_copier [OF lib], of h p _ d TypeGoofyMachineTemplate] d show ?thesis
    by (fastforce simp: GoofyMachineTemplate_DeepCopyObject_def)
next
  case (6 p)
  with interface_copied [OF GoofyMachineTemplateList_DeepCopy_copier [OF lib], of h p _ d TypeGoofyMachineTemplateList] d show ?thesis
    by (fastforce simp: GoofyMachineTemplateList_DeepCopyObject_def)
next
  case (7 p)
  with interface_copied [OF CloudMachine_DeepCopy_copier [OF lib], of h p _ d TypeCloudMachine] d show ?thesis
    by (fastforce simp: CloudMachine_DeepCopyObject_def)
next
  case (8 p)
  with interface_copied [OF CloudMachineList_DeepCopy_copier [OF lib], of h p _ d TypeCloudMachineList] d show ?thesis
    by (fastforce simp: CloudMachineList_DeepCopyObject_def)
qed

lemma DeepCopyObject_copier:
  assumes lib: "libraryCopies lib V"
  shows "deep_copier (DeepCopyObject lib) (viewObject V) (cellsObject V)"
proof
  fix h ob d
  assume d: "viewObject V h ob = Some d"
  then show "cellsObject V h ob \<subseteq> {..<length h}"
    by (cases rule: viewObject_cases) (use d in \<open>auto dest!: object_copiers [OF lib, THEN interface_frame(1)]\<close>)
  show "\<exists>ob' h'. DeepCopyObject lib ob h = Some (ob', h') \<and> prefix h h' \<and> viewObject V h' ob' = Some d
      \<and> (\<forall>a\<in>cellsObject V h' ob'. length h \<le> a)"
    by (rule DeepCopyObject_copied [OF lib d])
next
  fix h h' ob d
  assume d: "viewObject V h ob = Some d" and a: "agreeOn (cellsObject V h ob) h h'"
  from d show "viewObject V h' ob = Some d \<and> cellsObject V h' ob = cellsObject V h ob"
    by (cases rule: viewObject_cases) (use d a in \<open>auto dest!: object_copiers [OF lib, THEN interface_frame(2), rotated]\<close>)
qed

lemma viewObject_dynamic:
  assumes "viewObject V h ob = Some d"
  shows "\<exists>t p. ob = Dynamic t (Some p)"
proof (cases ob)
  case (Dynamic t p)
  with assms show ?thesis
    by (cases t; cases p) (auto simp: viewPtr_def)
qed (use assms in simp)

lemma DeepCopyObject_dynamic: "DeepCopyObject lib (Dynamic t p) h = Some (Dynamic t' p', h') \<Longrightarrow> t' = t"
  by (cases t) (auto simp: object_defs asInterface_def split: bind_splits if_splits)

text \<open>A nil pointer in the interface is copied to the nil interface.\<close>

lemma DeepCopyObject_nil: "DeepCopyObject lib (Dynamic t None) h = Some (NilInterface, h)"
  by (cases t) (auto simp: object_defs asInterface_def GoofyCluster_DeepCopy_def GoofyClusterList_DeepCopy_def
      GoofyMachine_DeepCopy_def GoofyMachineList_DeepCopy_def GoofyMachineTemplate_DeepCopy_def GoofyMachineTemplateList_DeepCopy_def
      CloudMachine_DeepCopy_def CloudMachineList_DeepCopy_def DeepCopyPtr_def)

section \<open>Properties\<close>

text \<open>
  C23. Copying an object of the API is well typed: when the memory behind an interface value is of its dynamic type, the copy
  succeeds, has the same dynamic type, and its memory is of that type and reads as the original, which itself reads as before. The
  structs of other modules are assumed to copy well.
\<close>

theorem DeepCopyObject_typed:
  assumes "libraryCopies lib V" and "viewObject V h ob = Some d"
  shows "\<exists>t p p' h'. ob = Dynamic t (Some p) \<and> DeepCopyObject lib ob h = Some (Dynamic t (Some p'), h')
    \<and> viewObject V h' (Dynamic t (Some p')) = Some d \<and> viewObject V h' ob = Some d"
proof -
  obtain t p where ob: "ob = Dynamic t (Some p)"
    using viewObject_dynamic [OF assms(2)] by blast
  obtain ob' h' where c: "DeepCopyObject lib ob h = Some (ob', h')" "prefix h h'" "viewObject V h' ob' = Some d"
    using DeepCopyObject_copied [OF assms] by blast
  obtain t' p' where ob': "ob' = Dynamic t' (Some p')"
    using viewObject_dynamic [OF c(3)] by blast
  have "t' = t"
    using c(1) DeepCopyObject_dynamic unfolding ob ob' by blast
  moreover have "viewObject V h' ob = Some d"
    using deep_copier.view_prefix [OF DeepCopyObject_copier [OF assms(1)] assms(2) c(2)] by simp
  ultimately show ?thesis
    using c ob ob' by blast
qed

text \<open>
  C22. An object and its copy share no memory: whatever is changed in the cells of the copy, the original reads as before, and
  whatever is changed in the cells of the original, the copy reads as before.
\<close>

theorem DeepCopyObject_isolated:
  assumes "libraryCopies lib V" and "viewObject V h ob = Some d" and "DeepCopyObject lib ob h = Some (ob', h')"
  shows "cellsObject V h' ob \<inter> cellsObject V h' ob' = {}
    \<and> (agreeOn (- cellsObject V h' ob') h' h'' \<longrightarrow> viewObject V h'' ob = Some d)
    \<and> (agreeOn (- cellsObject V h' ob) h' h'' \<longrightarrow> viewObject V h'' ob' = Some d)"
  using deep_copier.copy_disjoint [OF DeepCopyObject_copier [OF assms(1)] assms(2,3)]
    deep_copier.copy_isolated [OF DeepCopyObject_copier [OF assms(1)] assms(2,3)] by blast

section \<open>A sample\<close>

text \<open>Metadata with a name and a pointer to finalizers, and a memory with one machine.\<close>

type_synonym sampleMeta = "string \<times> nat option"
type_synonym sampleCell = "(sampleMeta, sampleMeta, sampleMeta, sampleMeta, string list) cell"

definition sampleMetaCopy :: "sampleMeta \<Rightarrow> sampleCell list \<Rightarrow> (sampleMeta \<times> sampleCell list) option" where
  "sampleMetaCopy = pairCopy plainCopy (DeepCopyPtr ForeignCell asForeign [] plainCopy)"

definition sampleMetaView :: "sampleCell list \<Rightarrow> sampleMeta \<Rightarrow> (string \<times> string list option) option" where
  "sampleMetaView = pairView plainView (viewPtr asForeign plainView)"

definition sampleMetaCells :: "sampleCell list \<Rightarrow> sampleMeta \<Rightarrow> nat set" where
  "sampleMetaCells = pairCells plainCells (cellsPtr asForeign plainCells)"

definition sampleLibrary :: "(sampleMeta, sampleMeta, sampleMeta, sampleMeta, string list) copyLibrary" where
  "sampleLibrary = \<lparr>ObjectMetaDeepCopyInto = sampleMetaCopy, ListMetaDeepCopyInto = sampleMetaCopy,
     ClusterObjectMetaDeepCopyInto = sampleMetaCopy, ConditionDeepCopyInto = sampleMetaCopy,
     zeroObjectMeta = ([], None), zeroListMeta = ([], None), zeroClusterObjectMeta = ([], None), zeroCondition = ([], None)\<rparr>"

definition sampleLibraryView :: "(sampleMeta, sampleMeta, sampleMeta, sampleMeta, string list, string \<times> string list option) libraryView" where
  "sampleLibraryView = \<lparr>viewObjectMeta = sampleMetaView, cellsObjectMeta = sampleMetaCells,
     viewListMeta = sampleMetaView, cellsListMeta = sampleMetaCells,
     viewClusterObjectMeta = sampleMetaView, cellsClusterObjectMeta = sampleMetaCells,
     viewCondition = sampleMetaView, cellsCondition = sampleMetaCells\<rparr>"

definition sampleMemory :: "sampleCell list" where
  "sampleMemory = [ForeignCell [''goofymachine.infrastructure.cluster.x-k8s.io''], StringCell ''goofy:////node1'', ConditionArray [(''Ready'', None)],
     GoofyMachineCell \<lparr>machineTypeMeta = \<lparr>Kind = ''GoofyMachine'', APIVersion = ''infrastructure.cluster.x-k8s.io/v1alpha1''\<rparr>, machineObjectMeta = (''node1'', Some 0),
       machineSpec = \<lparr>ProviderID = Some 1\<rparr>,
       machineStatus = \<lparr>machineReady = True, machineConditions = Some \<lparr>sliceArray = 2, sliceOffset = 0, sliceLen = 1\<rparr>\<rparr>\<rparr>]"

lemma sampleLibrary_copies: "libraryCopies sampleLibrary sampleLibraryView"
proof -
  have "deep_copier sampleMetaCopy sampleMetaView sampleMetaCells"
    unfolding sampleMetaCopy_def sampleMetaView_def sampleMetaCells_def
    by (intro pair_deep_copier plainCopier.deep_copier_axioms plainCopier.ptr_deep_copier) simp
  then show ?thesis
    by (simp add: libraryCopies_def sampleLibrary_def sampleLibraryView_def)
qed

lemmas sample_defs = sampleMemory_def sampleLibraryView_def sampleMetaView_def view_defs structView_def pairView_def viewPtr_def
  viewSlice_def elems_def loadAs_def loadCell_def plainView_def

lemma sampleMemory_view: "viewObject sampleLibraryView sampleMemory (Dynamic TypeGoofyMachine (Some 3)) = Some (MachineView
    (\<lparr>Kind = ''GoofyMachine'', APIVersion = ''infrastructure.cluster.x-k8s.io/v1alpha1''\<rparr>, (''node1'', Some [''goofymachine.infrastructure.cluster.x-k8s.io'']), ((), Some ''goofy:////node1''), True, Some [(''Ready'', None)]))"
  by (simp add: sample_defs)

theorem DeepCopyObject_typed_witness: "\<exists>p' h'. DeepCopyObject sampleLibrary (Dynamic TypeGoofyMachine (Some 3)) sampleMemory
      = Some (Dynamic TypeGoofyMachine (Some p'), h')
    \<and> viewObject sampleLibraryView h' (Dynamic TypeGoofyMachine (Some p')) = Some (MachineView
        (\<lparr>Kind = ''GoofyMachine'', APIVersion = ''infrastructure.cluster.x-k8s.io/v1alpha1''\<rparr>, (''node1'', Some [''goofymachine.infrastructure.cluster.x-k8s.io'']), ((), Some ''goofy:////node1''), True, Some [(''Ready'', None)]))"
  using DeepCopyObject_typed [OF sampleLibrary_copies sampleMemory_view] by auto

text \<open>The copy of the sample gets another provider id; the original keeps its own.\<close>

definition sampleCopy :: "sampleCell list" where
  "sampleCopy = snd (the (DeepCopyObject sampleLibrary (Dynamic TypeGoofyMachine (Some 3)) sampleMemory))"

lemmas sample_run = sampleMemory_def sampleLibrary_def sampleMetaCopy_def GoofyMachine_DeepCopyObject_def asInterface_def
  GoofyMachine_DeepCopy_def GoofyMachine_DeepCopyInto_def GoofyMachineSpec_DeepCopyInto_def GoofyMachineStatus_DeepCopyInto_def
  copyConditions_def copySlice_def indexSlice_def assignSlice_def DeepCopyPtr_def pairCopy_def plainCopy_def allocCell_def storeCell_def
  elems_def loadAs_def loadCell_def numeral_eq_Suc

lemma sampleCopy_run: "DeepCopyObject sampleLibrary (Dynamic TypeGoofyMachine (Some 3)) sampleMemory
    = Some (Dynamic TypeGoofyMachine (Some 4), sampleCopy) \<and> sampleCopy ! 6 = StringCell ''goofy:////node1'' \<and> length sampleCopy = 8"
  by (simp add: sampleCopy_def sample_run)

lemma sampleCopy_cells: "6 \<in> cellsObject sampleLibraryView sampleCopy (Dynamic TypeGoofyMachine (Some 4))"
  by (simp add: sampleCopy_def sample_run view_defs structCells_def pairCells_def cellsPtr_def)

theorem DeepCopyObject_isolated_witness: "sampleCopy ! 6 = StringCell ''goofy:////node1''
    \<and> viewObject sampleLibraryView (sampleCopy[6 := StringCell ''goofy:////node2'']) (Dynamic TypeGoofyMachine (Some 3)) = Some (MachineView
        (\<lparr>Kind = ''GoofyMachine'', APIVersion = ''infrastructure.cluster.x-k8s.io/v1alpha1''\<rparr>, (''node1'', Some [''goofymachine.infrastructure.cluster.x-k8s.io'']), ((), Some ''goofy:////node1''), True, Some [(''Ready'', None)]))"
  using DeepCopyObject_isolated [OF sampleLibrary_copies sampleMemory_view conjunct1 [OF sampleCopy_run], of "sampleCopy[6 := StringCell ''goofy:////node2'']"]
    sampleCopy_run sampleCopy_cells update_agree by (metis ComplD)

end
