(* ===== verification/Rest_Client.thy ===== *)
theory Rest_Client
  imports Mux_Restart
begin

text \<open>
  The REST configuration and the client of a workload cluster listener (\<^verbatim>\<open>RESTConfig\<close> and \<^verbatim>\<open>GetClient\<close> of
  \<^verbatim>\<open>listener.go\<close>). The encoding of certificates and keys, the loading of a kubeconfig and the making of clients are the
  functions of the record \<open>restLibrary\<close>; encoding the nil certificate may panic, so encoders have an optional
  result. The bytes of a written kubeconfig are of type \<open>'y\<close>.
\<close>

section \<open>Configuration and client\<close>

record kubeCluster =
  Server :: string
  CertificateAuthorityData :: string

record kubeAuthInfo =
  Username :: string
  ClientCertificateData :: string
  ClientKeyData :: string

record kubeContext =
  contextCluster :: string
  contextAuthInfo :: string

record kubeConfig =
  Clusters :: "(string, kubeCluster) gomap"
  AuthInfos :: "(string, kubeAuthInfo) gomap"
  Contexts :: "(string, kubeContext) gomap"
  CurrentContext :: string

text \<open>The fields of a \<^verbatim>\<open>rest.Config\<close> that a kubeconfig sets.\<close>

record restClientConfig =
  rcHost :: string
  rcUsername :: string
  rcCAData :: string
  rcCertData :: string
  rcKeyData :: string

record ('c, 'k, 'y, 'h, 'm, 'cl) restLibrary =
  EncodeCertPEM :: "'c option \<Rightarrow> string option"
  EncodePrivateKeyPEM :: "'k option \<Rightarrow> string option"
  WriteKubeConfig :: "kubeConfig \<Rightarrow> string + 'y"
  RESTConfigFromKubeConfig :: "'y \<Rightarrow> string + restClientConfig"
  HTTPClientFor :: "restClientConfig \<Rightarrow> string + 'h"
  NewDynamicRESTMapper :: "restClientConfig \<Rightarrow> 'h \<Rightarrow> string + 'm"
  NewClient :: "restClientConfig \<Rightarrow> 'm \<Rightarrow> string + 'cl"

text \<open>The kubeconfig that is written and read back; no result when an encoder panics.\<close>

definition listenerKubeConfig :: "('c, 'k, 'y, 'h, 'm, 'cl) restLibrary \<Rightarrow> ('c, 'k, 'l) WorkloadClusterListener \<Rightarrow> kubeConfig option" where
  "listenerKubeConfig lib s =
     (case (EncodeCertPEM lib (apiServerCaCertificate s), EncodeCertPEM lib (adminCertificate s), EncodePrivateKeyPEM lib (adminKey s)) of
        (Some ca, Some cert, Some key) \<Rightarrow> Some
          \<lparr>Clusters = [(''goofy'', \<lparr>Server = Address s, CertificateAuthorityData = ca\<rparr>)],
           AuthInfos = [(''goofy'', \<lparr>Username = ''goofy'', ClientCertificateData = cert, ClientKeyData = key\<rparr>)],
           Contexts = [(''goofy'', \<lparr>contextCluster = ''goofy'', contextAuthInfo = ''goofy''\<rparr>)],
           CurrentContext = ''goofy''\<rparr>
      | _ \<Rightarrow> None)"

definition RESTConfig :: "('c, 'k, 'y, 'h, 'm, 'cl) restLibrary \<Rightarrow> ('c, 'k, 'l) WorkloadClusterListener \<Rightarrow> (string + restClientConfig) option" where
  "RESTConfig lib s =
     (case listenerKubeConfig lib s of
        None \<Rightarrow> None
      | Some config \<Rightarrow> Some
        (case WriteKubeConfig lib config of
           Inl e \<Rightarrow> Inl e
         | Inr b \<Rightarrow>
           (case RESTConfigFromKubeConfig lib b of
              Inl e \<Rightarrow> Inl e
            | Inr restConfig \<Rightarrow> Inr restConfig)))"

definition listener_GetClient :: "('c, 'k, 'y, 'h, 'm, 'cl) restLibrary \<Rightarrow> ('c, 'k, 'l) WorkloadClusterListener \<Rightarrow> (string + 'cl) option" where
  "listener_GetClient lib s =
     (case RESTConfig lib s of
        None \<Rightarrow> None
      | Some (Inl e) \<Rightarrow> Some (Inl e)
      | Some (Inr restConfig) \<Rightarrow> Some
        (case HTTPClientFor lib restConfig of
           Inl e \<Rightarrow> Inl e
         | Inr httpClient \<Rightarrow>
           (case NewDynamicRESTMapper lib restConfig httpClient of
              Inl e \<Rightarrow> Inl e
            | Inr mapper \<Rightarrow> NewClient lib restConfig mapper)))"

section \<open>What the library promises\<close>

text \<open>A certificate or key that is there is encoded as a PEM block, which is not empty; a nil pointer is dereferenced.\<close>

definition encodersOk :: "('c, 'k, 'y, 'h, 'm, 'cl) restLibrary \<Rightarrow> ('c \<Rightarrow> string) \<Rightarrow> ('k \<Rightarrow> string) \<Rightarrow> bool" where
  "encodersOk lib certPEM keyPEM \<longleftrightarrow> (\<forall>c. EncodeCertPEM lib c = map_option certPEM c \<and> certPEM (the c) \<noteq> [])
     \<and> (\<forall>k. EncodePrivateKeyPEM lib k = map_option keyPEM k \<and> keyPEM (the k) \<noteq> [])"

lemma encodersOk_nonempty: "encodersOk lib certPEM keyPEM \<Longrightarrow> certPEM c \<noteq> [] \<and> keyPEM k \<noteq> []"
  unfolding encodersOk_def by (metis option.sel)

text \<open>
  Letters, digits and the punctuation of host names, IP addresses and ports; and the servers that are reached over TLS at such a
  host and port.
\<close>

definition plainText :: "string \<Rightarrow> bool" where
  "plainText s \<longleftrightarrow> s \<noteq> [] \<and> set s \<subseteq> set ''abcdefghijklmnopqrstuvwxyzABCDEFGHIJKLMNOPQRSTUVWXYZ0123456789.:-[]''"

definition httpsServer :: "string \<Rightarrow> bool" where
  "httpsServer s \<longleftrightarrow> HasPrefix s ''https://'' \<and> plainText (TrimPrefix s ''https://'')"

text \<open>
  A kubeconfig with one cluster, one user and one context that is the current one, all under a plain name, loads as it was written, when
  it passes the validation of the library: the server is an https address, and the authority, the certificate and the key
  of the client are all there. Nothing is said of other configurations: many are rejected.
\<close>

definition kubeconfigLoads :: "('c, 'k, 'y, 'h, 'm, 'cl) restLibrary \<Rightarrow> bool" where
  "kubeconfigLoads lib \<longleftrightarrow> (\<forall>n server ca user cert key.
     plainText n \<longrightarrow> plainText user \<longrightarrow> httpsServer server \<longrightarrow> ca \<noteq> [] \<longrightarrow> cert \<noteq> [] \<longrightarrow> key \<noteq> [] \<longrightarrow>
     (\<exists>b. WriteKubeConfig lib \<lparr>Clusters = [(n, \<lparr>Server = server, CertificateAuthorityData = ca\<rparr>)],
           AuthInfos = [(n, \<lparr>Username = user, ClientCertificateData = cert, ClientKeyData = key\<rparr>)],
           Contexts = [(n, \<lparr>contextCluster = n, contextAuthInfo = n\<rparr>)], CurrentContext = n\<rparr> = Inr b
       \<and> RESTConfigFromKubeConfig lib b = Inr
           \<lparr>rcHost = server, rcUsername = user, rcCAData = ca, rcCertData = cert, rcKeyData = key\<rparr>))"

lemma digit_char_plain: "d < 10 \<Longrightarrow> plainText [digit_char d]"
  by (drule digit_cases) (elim disjE; simp add: plainText_def digit_char_def)

lemma plainText_append [simp]: "plainText s \<Longrightarrow> plainText t \<Longrightarrow> plainText (s @ t)"
  by (simp add: plainText_def)

lemma dec_of_nat_plain: "plainText (dec_of_nat n)"
  by (induction n rule: dec_of_nat.induct) (subst dec_of_nat.simps, simp add: digit_char_plain)

lemma plainText_join: "plainText s \<Longrightarrow> plainText t \<Longrightarrow> plainText (s @ '':'' @ t)" "plainText s \<Longrightarrow> plainText t \<Longrightarrow> plainText (''['' @ s @ '']:'' @ t)"
  by (simp_all add: plainText_def)

lemma plainText_Itoa: "plainText (Itoa i)"
  using dec_of_nat_plain by (simp add: Itoa_def plainText_def)

lemma Address_https:
  assumes "plainText (wlHost w)"
  shows "httpsServer (Address w)"
  using plainText_join [OF assms plainText_Itoa]
  by (simp add: httpsServer_def Address_def HostPort_def JoinHostPort_def HasPrefix_def TrimPrefix_def)

section \<open>Credentials\<close>

text \<open>A listener with an open socket has the certificates and keys that its clients need.\<close>

definition credentialed :: "('c, 'k, 'l) WorkloadClusterListener \<Rightarrow> bool" where
  "credentialed w \<longleftrightarrow>
     (adminCertificate w = None \<longleftrightarrow> adminKey w = None)
   \<and> (adminCertificate w \<noteq> None \<longrightarrow> apiServerCaCertificate w \<noteq> None)
   \<and> (wlListener w \<longrightarrow> adminCertificate w \<noteq> None \<and> apiServerServingCertificate w \<noteq> None)
   \<and> (apiServerCaCertificate w = None \<longleftrightarrow> apiServers w = [])"

definition credentialsOk :: "('c, 'k, 'l) WorkloadClustersMux \<Rightarrow> bool" where
  "credentialsOk m \<longleftrightarrow> (\<forall>n w. mget (workloadClusterListeners m) n = Some w \<longrightarrow> credentialed w)"

lemma set_insert_not_Nil [simp]: "set_insert x xs \<noteq> []"
  by (auto simp: set_insert_def)

lemma credentialsOk_putListener: "credentialsOk m \<Longrightarrow> credentialed w \<Longrightarrow> credentialsOk (putListener m name w)"
  by (auto simp: credentialsOk_def putListener_def)

lemma credentialed_AddAPIServer:
  assumes "AddAPIServer pl m name pod caCert caKey = (res, m')" "credentialsOk m"
  shows "credentialsOk m'"
proof (cases "mget (workloadClusterListeners m) name")
  case (Some w)
  with assms(2) have w: "credentialed w" by (simp add: credentialsOk_def)
  then show ?thesis
    using assms Some
    by (auto simp: AddAPIServer_def Let_def ensureServingCertificate_def ensureAdminCertificate_def ensureListener_def
        credentialed_def intro!: credentialsOk_putListener split: option.splits sum.splits if_splits)
qed (use assms in \<open>simp add: AddAPIServer_def\<close>)

lemma credentialed_etcd [simp]:
  "credentialed (w\<lparr>etcdMembers := ms\<rparr>) = credentialed w"
  "credentialed (w\<lparr>etcdServingCertificates := cs\<rparr>) = credentialed w"
  by (simp_all add: credentialed_def)

lemma credentialed_AddEtcdMember:
  assumes "AddEtcdMember pl m name pod caCert caKey = (res, m')" "credentialsOk m"
  shows "credentialsOk m'"
proof (cases "mget (workloadClusterListeners m) name")
  case (Some w)
  with assms(2) have w: "credentialed w" by (simp add: credentialsOk_def)
  then show ?thesis
    using assms Some
    by (auto simp: AddEtcdMember_def Let_def ensureEtcdCertificate_def intro!: credentialsOk_putListener
        split: option.splits sum.splits if_splits)
qed (use assms in \<open>simp add: AddEtcdMember_def\<close>)

lemma credentialed_register: "credentialsOk m \<Longrightarrow> credentialsOk (snd (initWorkloadClusterListenerWithPortLocked m n port))"
  by (auto simp: credentialsOk_def initWorkloadClusterListenerWithPortLocked_def Let_def credentialed_def)

lemma credentialed_hotRestartLoop: "hotRestartLoop m used maxP cs = (res, m') \<Longrightarrow> credentialsOk m \<Longrightarrow> credentialsOk m'"
  by (induction m used maxP cs rule: hotRestartLoop.induct)
    (auto simp: credentialed_register split: if_splits option.splits)

lemma muxStep_credentials: "muxStep m m' \<Longrightarrow> credentialsOk m \<Longrightarrow> credentialsOk m'"
proof (induction rule: muxStep.induct)
  case (init m name res m')
  then show ?case
    by (auto simp: InitWorkloadClusterListener_def getFreePortLocked_def Let_def initWorkloadClusterListenerWithPortLocked_def
        credentialsOk_def credentialed_def split: option.splits sum.splits prod.splits if_splits)
next
  case (hotRestart m clusters m')
  then show ?case
    by (auto simp: HotRestart_def credentialsOk_def dest!: credentialed_hotRestartLoop split: if_splits prod.splits sum.splits)
qed (auto intro: credentialed_AddAPIServer credentialed_AddEtcdMember)

lemma reachableMux_credentials: "reachableMux host m \<Longrightarrow> credentialsOk m"
proof (induction rule: reachableMux.induct)
  case new
  show ?case by (simp add: NewWorkloadClustersMux_def credentialsOk_def)
qed (blast intro: muxStep_credentials)

section \<open>Properties\<close>

text \<open>
  C25. The configuration of a listener whose socket is open points to its own address, trusts the CA of its API servers and carries
  the admin credentials made for it, and the address resolves to the resource group of the cluster; before the first API server is added,
  asking for the configuration panics. This holds in every reachable mux on a host with a plain name or IP address; that a valid
  kubeconfig for such a server loads as it was written is assumed.
\<close>

theorem rest_config_credentials:
  assumes "reachableMux host m" and "plainText host" and "mget (workloadClusterListeners m) name = Some w"
    and "encodersOk lib certPEM keyPEM" and "kubeconfigLoads lib"
  shows "resourceGroupResolver m (HostPort w) = Inr name
    \<and> (wlListener w \<longrightarrow> (\<exists>ca cert key. apiServerCaCertificate w = Some ca \<and> adminCertificate w = Some cert \<and> adminKey w = Some key
        \<and> RESTConfig lib w = Some (Inr \<lparr>rcHost = ''https://'' @ HostPort w, rcUsername = ''goofy'', rcCAData = certPEM ca,
            rcCertData = certPEM cert, rcKeyData = keyPEM key\<rparr>)))
    \<and> (apiServers w = [] \<longrightarrow> RESTConfig lib w = None)"
proof -
  have cred: "credentialed w"
    using reachableMux_credentials [OF assms(1)] assms(3) by (simp add: credentialsOk_def)
  have server: "httpsServer (Address w)"
    using muxOk_listenerD(1) [OF reachableMux_ok [OF assms(1)] assms(3)] reachableMux_host [OF assms(1)] assms(2)
    by (intro Address_https) simp
  have "resourceGroupResolver m (HostPort w) = Inr name"
    using muxOk_listenerD(3) [OF reachableMux_ok [OF assms(1)] assms(3)] by (simp add: resourceGroupResolver_def)
  moreover have "\<exists>ca cert key. apiServerCaCertificate w = Some ca \<and> adminCertificate w = Some cert \<and> adminKey w = Some key
        \<and> RESTConfig lib w = Some (Inr \<lparr>rcHost = ''https://'' @ HostPort w, rcUsername = ''goofy'', rcCAData = certPEM ca,
            rcCertData = certPEM cert, rcKeyData = keyPEM key\<rparr>)" if op: "wlListener w"
  proof -
    obtain ca cert key where c: "apiServerCaCertificate w = Some ca" "adminCertificate w = Some cert" "adminKey w = Some key"
      using cred op by (auto simp: credentialed_def)
    let ?config = "\<lparr>Clusters = [(''goofy'', \<lparr>Server = Address w, CertificateAuthorityData = certPEM ca\<rparr>)],
      AuthInfos = [(''goofy'', \<lparr>Username = ''goofy'', ClientCertificateData = certPEM cert, ClientKeyData = keyPEM key\<rparr>)],
      Contexts = [(''goofy'', \<lparr>contextCluster = ''goofy'', contextAuthInfo = ''goofy''\<rparr>)], CurrentContext = ''goofy''\<rparr>"
    have k: "listenerKubeConfig lib w = Some ?config"
      using assms(4) c by (simp add: listenerKubeConfig_def encodersOk_def)
    obtain b where "WriteKubeConfig lib ?config = Inr b" "RESTConfigFromKubeConfig lib b = Inr \<lparr>rcHost = Address w,
        rcUsername = ''goofy'', rcCAData = certPEM ca, rcCertData = certPEM cert, rcKeyData = keyPEM key\<rparr>"
      using assms(5) [unfolded kubeconfigLoads_def, rule_format, of "''goofy''" "''goofy''" "Address w" "certPEM ca" "certPEM cert" "keyPEM key"]
        server encodersOk_nonempty [OF assms(4)] by (auto simp: plainText_def)
    with k c show ?thesis
      by (simp add: RESTConfig_def Address_def)
  qed
  moreover have "RESTConfig lib w = None" if "apiServers w = []"
    using that cred assms(4) by (simp add: credentialed_def RESTConfig_def listenerKubeConfig_def encodersOk_def)
  ultimately show ?thesis
    by blast
qed

text \<open>
  A library that keeps a kubeconfig as it is and rejects, on loading, one without the named entries, without a server or with a
  certificate or key only; and the sample mux with an API server.
\<close>

definition sampleRest :: "(string, string, kubeConfig, unit, unit, string) restLibrary" where
  "sampleRest = \<lparr>EncodeCertPEM = map_option (\<lambda>c. ''PEM '' @ c), EncodePrivateKeyPEM = map_option (\<lambda>k. ''PEM '' @ k),
     WriteKubeConfig = Inr,
     RESTConfigFromKubeConfig = (\<lambda>config. case mget (Contexts config) (CurrentContext config) of
         None \<Rightarrow> Inl ''context does not exist''
       | Some ctx \<Rightarrow> (case (mget (Clusters config) (contextCluster ctx), mget (AuthInfos config) (contextAuthInfo ctx)) of
           (Some cluster, Some user) \<Rightarrow>
             if Server cluster = [] then Inl ''no server found for cluster''
             else if (ClientCertificateData user = []) \<noteq> (ClientKeyData user = []) then Inl ''client-cert-data and client-key-data must both be specified''
             else Inr \<lparr>rcHost = Server cluster, rcUsername = Username user,
               rcCAData = CertificateAuthorityData cluster, rcCertData = ClientCertificateData user, rcKeyData = ClientKeyData user\<rparr>
         | _ \<Rightarrow> Inl ''invalid configuration'')),
     HTTPClientFor = (\<lambda>_. Inr ()), NewDynamicRESTMapper = (\<lambda>_ _. Inr ()), NewClient = (\<lambda>config _. Inr (rcHost config))\<rparr>"

definition servedMux :: "(string, string, string) WorkloadClustersMux" where
  "servedMux = snd (AddAPIServer samplePlatform sampleMux ''wkl-1'' ''kube-apiserver-1'' ''ca'' ''key'')"

lemma sampleRest_ok: "encodersOk sampleRest (\<lambda>c. ''PEM '' @ c) (\<lambda>k. ''PEM '' @ k)" "kubeconfigLoads sampleRest"
  by (auto simp: sampleRest_def encodersOk_def kubeconfigLoads_def httpsServer_def HasPrefix_def)

lemma servedMux_reachable: "reachableMux ''10.0.0.1'' servedMux"
  unfolding servedMux_def by (rule reachableMux.step [OF sampleMux_reachable]) (rule muxStep.addAPI [OF prod.collapse [symmetric]])

lemma sampleHostPort: "JoinHostPort ''10.0.0.1'' (Itoa 20000) = ''10.0.0.1:20000''"
  by (simp add: JoinHostPort_def Itoa_def dec_of_nat.simps digit_char_def char_of_def)

lemma servedMux_listener: "\<exists>w. mget (workloadClusterListeners servedMux) ''wkl-1'' = Some w \<and> wlListener w
    \<and> adminCertificate w = Some ''kubernetes-admin'' \<and> apiServerCaCertificate w = Some ''ca'' \<and> adminKey w = Some ''key''
    \<and> HostPort w = ''10.0.0.1:20000''"
  by (simp add: servedMux_def sampleMux_def InitWorkloadClusterListener_def NewWorkloadClustersMux_def getFreePortLocked_def Let_def
      initWorkloadClusterListenerWithPortLocked_def minPort_def maxPort_def AddAPIServer_def ensureServingCertificate_def
      ensureAdminCertificate_def ensureListener_def newCertAndKey_def samplePlatform_def putListener_def
      adminClientCertificateConfig_def HostPort_def sampleHostPort)

theorem rest_config_credentials_witness:
  "\<exists>w. mget (workloadClusterListeners servedMux) ''wkl-1'' = Some w \<and> resourceGroupResolver servedMux (HostPort w) = Inr ''wkl-1''
     \<and> RESTConfig sampleRest w = Some (Inr \<lparr>rcHost = ''https://10.0.0.1:20000'', rcUsername = ''goofy'', rcCAData = ''PEM ca'',
         rcCertData = ''PEM kubernetes-admin'', rcKeyData = ''PEM key''\<rparr>)"
proof -
  obtain w where w: "mget (workloadClusterListeners servedMux) ''wkl-1'' = Some w" "wlListener w" "HostPort w = ''10.0.0.1:20000''"
    "adminCertificate w = Some ''kubernetes-admin''" "apiServerCaCertificate w = Some ''ca''" "adminKey w = Some ''key''"
    using servedMux_listener by blast
  from rest_config_credentials [OF servedMux_reachable _ w(1) sampleRest_ok] w show ?thesis
    by (simp add: plainText_def)
qed

end
