(* ===== verification/Hot_Restart.thy ===== *)
theory Hot_Restart
  imports Goofy_World
begin

text \<open>
  A restart of the process: the mux is new, the GoofyClusters of the management cluster still hold the endpoints and the resource group
  annotations that the reconciles of the process before have written. The first cluster reconcile (\<open>reconcileHotRestart\<close>) rebuilds
  the listeners from them.
\<close>

text \<open>
  C17. Restarting the process keeps the workload clusters reachable: when the GoofyClusters hold the endpoints that the process before
  served, in any order and along with clusters that have no endpoint yet, the first cluster reconcile of the new process rebuilds the mux,
  every host resolves to the resource group it resolved to before, and the ports handed out from then on are new.
\<close>

theorem hot_restart_roundtrip:
  fixes m :: "('c, 'k, 'l) WorkloadClustersMux" and w :: "('c, 'k, 'l) world"
  assumes "reachableMux host m" and "mgListGoofyClusters mg = Inr clusters"
    and "savedEndpoints (map infoOf clusters) = (\<lambda>(n, h, p). (Some n, h, p)) ` endpointsOf m"
    and "wMux w = NewWorkloadClustersMux host"
  shows "\<exists>w'. reconcileHotRestart mg False w = (Inr (), True, w') \<and> wManager w' = wManager w
    \<and> (\<forall>h. resourceGroupResolver (wMux w') h = resourceGroupResolver m h)
    \<and> (\<forall>n wcl. mget (workloadClusterListeners m) n = Some wcl \<longrightarrow> wlPort wcl < mxPortIndex (wMux w'))"
proof -
  have host: "mxHost m = host"
    using assms(1) by (rule reachableMux_host)
  obtain m' :: "('c, 'k, 'l) WorkloadClustersMux" where m': "HotRestart (NewWorkloadClustersMux (mxHost m)) (map infoOf clusters) = (Inr (), m')"
    "\<And>h. resourceGroupResolver m' h = resourceGroupResolver m h" "\<And>n h p. (n, h, p) \<in> endpointsOf m \<Longrightarrow> p < mxPortIndex m'"
    using HotRestart_restores [OF reachableMux_ok [OF assms(1)] reachableMux_ports [OF assms(1)] assms(3)] by fastforce
  have "reconcileHotRestart mg False w = (Inr (), True, w\<lparr>wMux := m'\<rparr>)"
    using m'(1) assms(2,4) host by (simp add: reconcileHotRestart_def)
  moreover have "wlPort wcl < mxPortIndex m'" if "mget (workloadClusterListeners m) n = Some wcl" for n wcl
    using m'(3) [of n "wlHost wcl" "wlPort wcl"] that by (auto simp: endpointsOf_def)
  ultimately show ?thesis
    using m'(2) by simp
qed

text \<open>The management cluster of the sample holds the cluster that the sample mux serves, and one that was never reconciled.\<close>

lemma sampleMux_endpoints: "endpointsOf sampleMux = {(''wkl-1'', ''10.0.0.1'', 20000)}"
  by (auto simp: endpointsOf_def sampleMux_def InitWorkloadClusterListener_def NewWorkloadClustersMux_def getFreePortLocked_def Let_def
      initWorkloadClusterListenerWithPortLocked_def minPort_def maxPort_def)

theorem hot_restart_roundtrip_witness:
  "\<exists>w' h. reconcileHotRestart restartedManagement False (snd startedWorld) = (Inr (), True, w')
     \<and> resourceGroupResolver (wMux w') h = Inr ''wkl-1''"
proof -
  have list: "mgListGoofyClusters restartedManagement = Inr [sampleGoofyCluster,
      sampleGoofyCluster\<lparr>gclAnnotations := Some [(ResourceGroupAnnotationName, ''wkl-1'')], gclHost := ''10.0.0.1'', gclPort := 20000\<rparr>]"
    by (simp add: restartedManagement_def)
  have saved: "savedEndpoints (map infoOf [sampleGoofyCluster,
      sampleGoofyCluster\<lparr>gclAnnotations := Some [(ResourceGroupAnnotationName, ''wkl-1'')], gclHost := ''10.0.0.1'', gclPort := 20000\<rparr>])
      = (\<lambda>(n, h, p). (Some n, h, p)) ` endpointsOf sampleMux"
    by (simp add: sampleMux_endpoints savedEndpoint_def infoOf_def sampleGoofyCluster_def)
  have mux: "wMux (snd startedWorld) = NewWorkloadClustersMux ''10.0.0.1''"
    using startCloud_state [OF startedWorld_set_up] by simp
  obtain wcl where "mget (workloadClusterListeners sampleMux) ''wkl-1'' = Some wcl"
    using sampleMux_listener by blast
  then have "resourceGroupResolver sampleMux (HostPort wcl) = Inr ''wkl-1''"
    using muxOk_listenerD(3) [OF reachableMux_ok [OF sampleMux_reachable]] by (simp add: resourceGroupResolver_def)
  with hot_restart_roundtrip [OF sampleMux_reachable list saved mux] show ?thesis
    by metis
qed

section \<open>A restart that fails\<close>

lemma reconcileHotRestart_fails:
  assumes "reconcileHotRestart mg False w = (Inl e, hr', w')"
  shows "\<not> hr'"
  using assms by (auto simp: reconcileHotRestart_def split: sum.splits prod.splits)

lemma reconcileHotRestart_refused:
  assumes "workloadClusterListeners (wMux w) \<noteq> []" "mgListGoofyClusters mg = Inr clusters" "clusters \<noteq> []"
  shows "\<exists>e. reconcileHotRestart mg False w = (Inl e, False, w)"
  using assms by (simp add: reconcileHotRestart_def HotRestart_def)

text \<open>
  C28. A hot restart that fails after it has set up one of the listeners is final: whatever is repaired in the management cluster
  afterwards, as long as there are GoofyClusters every later attempt is refused because listeners exist, and with it every reconcile of
  a cluster that has an owner ends with an error and changes nothing, until the process is started again.
\<close>

theorem failed_hot_restart_final:
  assumes "reconcileHotRestart mg False w = (Inl e, hr', w')" and "workloadClusterListeners (wMux w') \<noteq> []"
    and "mgListGoofyClusters mg' = Inr clusters" and "clusters \<noteq> []"
    and "mgGetGoofyCluster mg' req = Inr gcl" and "mgGetOwnerCluster mg' gcl = Inr (Some cluster)" and "mgNewClusterHelper mg' gcl = Inr ()"
  shows "\<exists>e'. clusterReconcile mg' req (hr', w') = (Inl e', None, hr', w')"
proof -
  have "\<not> hr'"
    using assms(1) by (rule reconcileHotRestart_fails)
  moreover obtain e' where "reconcileHotRestart mg' False w' = (Inl e', False, w')"
    using reconcileHotRestart_refused [OF assms(2-4)] by blast
  ultimately show ?thesis
    using assms(5-7) by (simp add: clusterReconcile_def)
qed

text \<open>The second of two clusters was served on another address: the listener of the first one is set up, then the restart fails.\<close>

definition movedManagement :: "(string, string) management" where
  "movedManagement = sampleManagement\<lparr>mgListGoofyClusters := Inr
     [sampleGoofyCluster\<lparr>gclAnnotations := Some [(ResourceGroupAnnotationName, ''wkl-1'')], gclHost := ''10.0.0.1'', gclPort := 20000\<rparr>,
      sampleGoofyCluster\<lparr>gclAnnotations := Some [(ResourceGroupAnnotationName, ''wkl-2'')], gclHost := ''10.0.0.2'', gclPort := 20001\<rparr>]\<rparr>"

theorem failed_hot_restart_final_witness:
  "\<exists>e w' e'. reconcileHotRestart movedManagement False (snd startedWorld) = (Inl e, False, w')
     \<and> clusterReconcile restartedManagement \<lparr>nnNamespace = ''default'', nnName = ''c1''\<rparr> (False, w') = (Inl e', None, False, w')"
proof -
  have mux: "wMux (snd startedWorld) = NewWorkloadClustersMux ''10.0.0.1''"
    using startCloud_state [OF startedWorld_set_up] by simp
  have "\<exists>e w'. reconcileHotRestart movedManagement False (snd startedWorld) = (Inl e, False, w') \<and> workloadClusterListeners (wMux w') \<noteq> []"
    by (simp add: reconcileHotRestart_def movedManagement_def mux HotRestart_def NewWorkloadClustersMux_def infoOf_def
        initWorkloadClusterListenerWithPortLocked_def Let_def sampleGoofyCluster_def)
  then obtain e w' where f: "reconcileHotRestart movedManagement False (snd startedWorld) = (Inl e, False, w')"
    "workloadClusterListeners (wMux w') \<noteq> []" by blast
  have "mgListGoofyClusters restartedManagement = Inr [sampleGoofyCluster,
      sampleGoofyCluster\<lparr>gclAnnotations := Some [(ResourceGroupAnnotationName, ''wkl-1'')], gclHost := ''10.0.0.1'', gclPort := 20000\<rparr>]"
    "mgGetGoofyCluster restartedManagement \<lparr>nnNamespace = ''default'', nnName = ''c1''\<rparr> = Inr sampleGoofyCluster"
    "mgGetOwnerCluster restartedManagement sampleGoofyCluster = Inr (Some sampleCluster)" "mgNewClusterHelper restartedManagement sampleGoofyCluster = Inr ()"
    by (simp_all add: restartedManagement_def sampleManagement_def)
  from failed_hot_restart_final [OF f this(1) _ this(2-4)] f(1) show ?thesis
    by auto
qed

end
