(* ===== verification/Goofy_Setup.thy ===== *)
theory Goofy_Setup
  imports Goofy_Controllers
begin

text \<open>
  How the reconcilers are registered with the controller manager of the management cluster: \<^verbatim>\<open>SetupWithManager\<close> of both
  reconcilers, reached through \<^verbatim>\<open>controllers/alias.go\<close>, and the webhooks of the API types. The controller manager, the event
  filters and the map functions of Cluster API are the functions of the record \<open>setupLibrary\<close>; what a reconciler asks for is the
  record \<open>controllerSpec\<close> that it completes. What the manager does with it is the argument \<open>enqueues\<close> of the
  properties, with its documented behaviour \<open>dispatches\<close> as a hypothesis.
\<close>

section \<open>Watched objects\<close>

datatype managedKind = GoofyClusterKind | GoofyMachineKind | ClusterKind | MachineKind

datatype managedObject = GoofyClusterObj GoofyCluster | GoofyMachineObj GoofyMachine | ClusterObj Cluster | MachineObj Machine

fun managedKindOf :: "managedObject \<Rightarrow> managedKind" where
  "managedKindOf (GoofyClusterObj _) = GoofyClusterKind"
| "managedKindOf (GoofyMachineObj _) = GoofyMachineKind"
| "managedKindOf (ClusterObj _) = ClusterKind"
| "managedKindOf (MachineObj _) = MachineKind"

fun keyOf :: "managedObject \<Rightarrow> NamespacedName" where
  "keyOf (GoofyClusterObj c) = \<lparr>nnNamespace = gclNamespace c, nnName = gclName c\<rparr>"
| "keyOf (GoofyMachineObj m) = \<lparr>nnNamespace = gmNamespace m, nnName = gmName m\<rparr>"
| "keyOf (ClusterObj c) = \<lparr>nnNamespace = cluNamespace c, nnName = cluName c\<rparr>"
| "keyOf (MachineObj m) = \<lparr>nnNamespace = maNamespace m, nnName = maName m\<rparr>"

datatype managedEvent = Created managedObject | Updated managedObject managedObject | Deleted managedObject | Observed managedObject

text \<open>The objects of an event, the current one last.\<close>

fun eventObjects :: "managedEvent \<Rightarrow> managedObject list" where
  "eventObjects (Created ob) = [ob]"
| "eventObjects (Updated old new) = [old, new]"
| "eventObjects (Deleted ob) = [ob]"
| "eventObjects (Observed ob) = [ob]"

section \<open>Reconcilers and what they register\<close>

record ('c, 'k, 'l) reconciler =
  recClient :: "('c, 'k) management"
  recCloudManager :: "cloudBody manager"
  recAPIServerMux :: "('c, 'k, 'l) WorkloadClustersMux"
  recWatchFilterValue :: string

text \<open>A map function may panic: then it has no result.\<close>

record watch =
  watchKind :: managedKind
  watchMap :: "managedObject \<Rightarrow> NamespacedName list option"
  watchPredicates :: "(managedEvent \<Rightarrow> bool) list"

record ('c, 'k, 'l) controllerSpec =
  specFor :: managedKind
  specMaxConcurrentReconciles :: int
  specEventFilters :: "(managedEvent \<Rightarrow> bool) list"
  specWatches :: "watch list"
  specReconciler :: "('c, 'k, 'l) reconciler"

text \<open>
  \<open>completeController\<close> and \<open>completeWebhook\<close> are the errors of \<^verbatim>\<open>Complete\<close>, \<open>None\<close> when the
  registration succeeds.
\<close>

record ('c, 'k, 'l) setupLibrary =
  ResourceNotPausedAndHasFilterLabel :: "string \<Rightarrow> managedEvent \<Rightarrow> bool"
  ClusterUnpaused :: "managedEvent \<Rightarrow> bool"
  ClusterUnpausedAndInfrastructureReady :: "managedEvent \<Rightarrow> bool"
  ClusterToInfrastructureMapFunc :: "managedKind \<Rightarrow> managedObject \<Rightarrow> NamespacedName list"
  MachineToInfrastructureMapFunc :: "managedKind \<Rightarrow> managedObject \<Rightarrow> NamespacedName list"
  ClusterToObjectsMapper :: "managedKind \<Rightarrow> apiError + (managedObject \<Rightarrow> NamespacedName list)"
  completeController :: "('c, 'k, 'l) controllerSpec \<Rightarrow> apiError option"
  completeWebhook :: "string \<Rightarrow> apiError option"

section \<open>SetupWithManager\<close>

definition clusterControllerSpec :: "('c, 'k, 'l) setupLibrary \<Rightarrow> ('c, 'k, 'l) reconciler \<Rightarrow> int \<Rightarrow> ('c, 'k, 'l) controllerSpec" where
  "clusterControllerSpec lib r maxConcurrent =
     \<lparr>specFor = GoofyClusterKind, specMaxConcurrentReconciles = maxConcurrent,
      specEventFilters = [ResourceNotPausedAndHasFilterLabel lib (recWatchFilterValue r)],
      specWatches =
        [\<lparr>watchKind = ClusterKind, watchMap = Some \<circ> ClusterToInfrastructureMapFunc lib GoofyClusterKind,
          watchPredicates = [ClusterUnpaused lib]\<rparr>],
      specReconciler = r\<rparr>"

definition cluster_SetupWithManager ::
  "('c, 'k, 'l) setupLibrary \<Rightarrow> ('c, 'k, 'l) reconciler \<Rightarrow> int \<Rightarrow> apiError + ('c, 'k, 'l) controllerSpec" where
  "cluster_SetupWithManager lib r maxConcurrent =
     (case completeController lib (clusterControllerSpec lib r maxConcurrent) of
        Some err \<Rightarrow> Inl (Wrap ''failed setting up with a controller manager'' err)
      | None \<Rightarrow> Inr (clusterControllerSpec lib r maxConcurrent))"

text \<open>\<^verbatim>\<open>GoofyClusterToGoofyMachines\<close> with its type assertion: an object of another type is a panic.\<close>

definition mapGoofyCluster :: "('c, 'k) management \<Rightarrow> managedObject \<Rightarrow> NamespacedName list option" where
  "mapGoofyCluster mg ob = (case ob of GoofyClusterObj c \<Rightarrow> Some (GoofyClusterToGoofyMachines mg c) | _ \<Rightarrow> None)"

definition machineControllerSpec :: "('c, 'k, 'l) setupLibrary \<Rightarrow> ('c, 'k, 'l) reconciler \<Rightarrow> int \<Rightarrow> (managedObject \<Rightarrow> NamespacedName list)
    \<Rightarrow> ('c, 'k, 'l) controllerSpec" where
  "machineControllerSpec lib r maxConcurrent clusterToGoofyMachines =
     \<lparr>specFor = GoofyMachineKind, specMaxConcurrentReconciles = maxConcurrent,
      specEventFilters = [ResourceNotPausedAndHasFilterLabel lib (recWatchFilterValue r)],
      specWatches =
        [\<lparr>watchKind = MachineKind, watchMap = Some \<circ> MachineToInfrastructureMapFunc lib GoofyMachineKind, watchPredicates = []\<rparr>,
         \<lparr>watchKind = GoofyClusterKind, watchMap = mapGoofyCluster (recClient r), watchPredicates = []\<rparr>,
         \<lparr>watchKind = ClusterKind, watchMap = Some \<circ> clusterToGoofyMachines,
          watchPredicates = [ClusterUnpausedAndInfrastructureReady lib]\<rparr>],
      specReconciler = r\<rparr>"

definition machine_SetupWithManager ::
  "('c, 'k, 'l) setupLibrary \<Rightarrow> ('c, 'k, 'l) reconciler \<Rightarrow> int \<Rightarrow> apiError + ('c, 'k, 'l) controllerSpec" where
  "machine_SetupWithManager lib r maxConcurrent =
     (case ClusterToObjectsMapper lib GoofyMachineKind of
        Inl err \<Rightarrow> Inl err
      | Inr clusterToGoofyMachines \<Rightarrow>
        (case completeController lib (machineControllerSpec lib r maxConcurrent clusterToGoofyMachines) of
           Some err \<Rightarrow> Inl (Wrap ''failed setting up with a controller manager'' err)
         | None \<Rightarrow> Inr (machineControllerSpec lib r maxConcurrent clusterToGoofyMachines)))"

text \<open>The exported reconcilers of \<^verbatim>\<open>controllers/alias.go\<close> hand their fields on.\<close>

definition alias_cluster_SetupWithManager ::
  "('c, 'k, 'l) setupLibrary \<Rightarrow> ('c, 'k, 'l) reconciler \<Rightarrow> int \<Rightarrow> apiError + ('c, 'k, 'l) controllerSpec" where
  "alias_cluster_SetupWithManager lib r maxConcurrent = cluster_SetupWithManager lib
     \<lparr>recClient = recClient r, recCloudManager = recCloudManager r, recAPIServerMux = recAPIServerMux r,
      recWatchFilterValue = recWatchFilterValue r\<rparr> maxConcurrent"

definition alias_machine_SetupWithManager ::
  "('c, 'k, 'l) setupLibrary \<Rightarrow> ('c, 'k, 'l) reconciler \<Rightarrow> int \<Rightarrow> apiError + ('c, 'k, 'l) controllerSpec" where
  "alias_machine_SetupWithManager lib r maxConcurrent = machine_SetupWithManager lib
     \<lparr>recClient = recClient r, recCloudManager = recCloudManager r, recAPIServerMux = recAPIServerMux r,
      recWatchFilterValue = recWatchFilterValue r\<rparr> maxConcurrent"

section \<open>Webhooks\<close>

text \<open>
  The webhooks of the three types do nothing: the defaulter leaves the object, the validators have no warnings and no errors.
  \<open>'a\<close> is the type of the object.
\<close>

definition GoofyCluster_Default :: "'a \<Rightarrow> 'a" where
  "GoofyCluster_Default c = c"

definition GoofyCluster_ValidateCreate :: "'a \<Rightarrow> string list option \<times> apiError option" where
  "GoofyCluster_ValidateCreate c = (None, None)"

definition GoofyCluster_ValidateUpdate :: "'a \<Rightarrow> 'a \<Rightarrow> string list option \<times> apiError option" where
  "GoofyCluster_ValidateUpdate c old = (None, None)"

definition GoofyCluster_ValidateDelete :: "'a \<Rightarrow> string list option \<times> apiError option" where
  "GoofyCluster_ValidateDelete c = (None, None)"

definition GoofyMachine_Default :: "'a \<Rightarrow> 'a" where
  "GoofyMachine_Default c = c"

definition GoofyMachine_ValidateCreate :: "'a \<Rightarrow> string list option \<times> apiError option" where
  "GoofyMachine_ValidateCreate c = (None, None)"

definition GoofyMachine_ValidateUpdate :: "'a \<Rightarrow> 'a \<Rightarrow> string list option \<times> apiError option" where
  "GoofyMachine_ValidateUpdate c old = (None, None)"

definition GoofyMachine_ValidateDelete :: "'a \<Rightarrow> string list option \<times> apiError option" where
  "GoofyMachine_ValidateDelete c = (None, None)"

definition GoofyMachineTemplate_Default :: "'a \<Rightarrow> 'a" where
  "GoofyMachineTemplate_Default c = c"

definition GoofyMachineTemplate_ValidateCreate :: "'a \<Rightarrow> string list option \<times> apiError option" where
  "GoofyMachineTemplate_ValidateCreate c = (None, None)"

definition GoofyMachineTemplate_ValidateUpdate :: "'a \<Rightarrow> 'a \<Rightarrow> string list option \<times> apiError option" where
  "GoofyMachineTemplate_ValidateUpdate c old = (None, None)"

definition GoofyMachineTemplate_ValidateDelete :: "'a \<Rightarrow> string list option \<times> apiError option" where
  "GoofyMachineTemplate_ValidateDelete c = (None, None)"

text \<open>
  A webhook is completed with the controller manager: \<open>hooks\<close> are the types that were completed before; when the manager accepts the
  call the type is among them.
\<close>

definition webhookComplete :: "('c, 'k, 'l) setupLibrary \<Rightarrow> string \<Rightarrow> string list \<Rightarrow> apiError + string list" where
  "webhookComplete lib kind hooks = (case completeWebhook lib kind of Some err \<Rightarrow> Inl err | None \<Rightarrow> Inr (hooks @ [kind]))"

definition GoofyCluster_SetupWebhookWithManager :: "('c, 'k, 'l) setupLibrary \<Rightarrow> string list \<Rightarrow> apiError + string list" where
  "GoofyCluster_SetupWebhookWithManager lib mgr = webhookComplete lib ''GoofyCluster'' mgr"

definition GoofyMachine_SetupWebhookWithManager :: "('c, 'k, 'l) setupLibrary \<Rightarrow> string list \<Rightarrow> apiError + string list" where
  "GoofyMachine_SetupWebhookWithManager lib mgr = webhookComplete lib ''GoofyMachine'' mgr"

definition GoofyMachineTemplate_SetupWebhookWithManager :: "('c, 'k, 'l) setupLibrary \<Rightarrow> string list \<Rightarrow> apiError + string list" where
  "GoofyMachineTemplate_SetupWebhookWithManager lib mgr = webhookComplete lib ''GoofyMachineTemplate'' mgr"

section \<open>What the controller manager does\<close>

text \<open>
  The documented behaviour: an event that passes the event filters and the predicates of a watch of its kind is mapped, object by object,
  to requests; an event of the kind the controller is for gives the request of its current object.
\<close>

definition watchRequests :: "watch \<Rightarrow> managedEvent \<Rightarrow> NamespacedName list option" where
  "watchRequests w ev =
     (if watchKind w = managedKindOf (last (eventObjects ev)) \<and> list_all (\<lambda>p. p ev) (watchPredicates w)
      then map_option concat (those (map (watchMap w) (eventObjects ev))) else Some [])"

definition documentedRequests :: "('c, 'k, 'l) controllerSpec \<Rightarrow> managedEvent \<Rightarrow> NamespacedName list option" where
  "documentedRequests spec ev =
     (if \<not> list_all (\<lambda>f. f ev) (specEventFilters spec) then Some []
      else map_option
        (\<lambda>rs. (if specFor spec = managedKindOf (last (eventObjects ev)) then [keyOf (last (eventObjects ev))] else []) @ concat rs)
        (those (map (\<lambda>w. watchRequests w ev) (specWatches spec))))"

definition dispatches :: "(('c, 'k, 'l) controllerSpec \<Rightarrow> managedEvent \<Rightarrow> NamespacedName list option) \<Rightarrow> bool" where
  "dispatches enqueues \<longleftrightarrow> (\<forall>spec ev. enqueues spec ev = documentedRequests spec ev)"

end
