(* ===== verification/Process_Main.thy ===== *)
theory Process_Main
  imports Goofy_World Goofy_Setup Complex_Main
begin

text \<open>
  \<^verbatim>\<open>main.go\<close>: the flags with their defaults, the options of the controller manager, and the start of the process up to the call
  that runs the manager. What the flag parser, the logger, the kubeconfig loader and the controller manager answer are the functions of the
  record \<open>mainLibrary\<close>. A failed step ends the process with \<^verbatim>\<open>os.Exit(1)\<close>.
\<close>

section \<open>Flags\<close>

record flags =
  metricsBindAddr :: string
  enableLeaderElection :: bool
  leaderElectionLeaseDuration :: duration
  leaderElectionRenewDeadline :: duration
  leaderElectionRetryPeriod :: duration
  watchNamespace :: string
  watchFilterValue :: string
  profilerAddress :: string
  clusterConcurrency :: int
  machineConcurrency :: int
  syncPeriod :: duration
  restConfigQPS :: real
  restConfigBurst :: int
  webhookPort :: int
  webhookCertDir :: string
  healthAddr :: string

text \<open>The flag a name stands for with its default, as \<^verbatim>\<open>InitFlags\<close> registers them.\<close>

definition InitFlags :: flags where
  "InitFlags = \<lparr>metricsBindAddr = ''localhost:8080'', enableLeaderElection = False,
     leaderElectionLeaseDuration = 15 * nsSecond, leaderElectionRenewDeadline = 10 * nsSecond, leaderElectionRetryPeriod = 2 * nsSecond,
     watchNamespace = '''', watchFilterValue = '''', profilerAddress = '''', clusterConcurrency = 10, machineConcurrency = 10,
     syncPeriod = 10 * nsMinute, restConfigQPS = 20, restConfigBurst = 30, webhookPort = 9443,
     webhookCertDir = ''/tmp/k8s-webhook-server/serving-certs/'', healthAddr = '':9440''\<rparr>"

section \<open>The controller manager\<close>

record restClientOptions =
  optQPS :: real
  optBurst :: int
  optUserAgent :: string

record 't webhookOptions =
  optPort :: int
  optCertDir :: string
  optTLSOpts :: "'t list"

text \<open>
  The options given to the manager. \<open>None\<close> is the nil slice of namespaces: all of them are watched. The types that are read
  around the client's cache are named by their kind.
\<close>

record 't ctrlOptions =
  optMetricsBindAddress :: string
  optLeaderElection :: bool
  optLeaderElectionID :: string
  optLeaseDuration :: duration
  optRenewDeadline :: duration
  optRetryPeriod :: duration
  optLeaderElectionResourceLock :: string
  optHealthProbeBindAddress :: string
  optPprofBindAddress :: string
  optNamespaces :: "string list option"
  optSyncPeriod :: duration
  optDisableFor :: "string list"
  optWebhook :: "'t webhookOptions"

text \<open>What was registered with the manager so far, in order.\<close>

record ('c, 'k, 'l, 't) ctrlManager =
  cmConfig :: restClientOptions
  cmOptions :: "'t ctrlOptions"
  cmReadyz :: "string list"
  cmHealthz :: "string list"
  cmControllers :: "('c, 'k, 'l) controllerSpec list"
  cmWebhooks :: "string list"

record ('c, 'k, 'l, 't) mainLibrary =
  parseFlags :: "flags \<Rightarrow> flags option"
  validateLogs :: "apiError option"
  getConfig :: "restClientOptions option"
  userAgent :: "string \<Rightarrow> string"
  tlsOverrides :: "apiError + 't list"
  newManager :: "restClientOptions \<Rightarrow> 't ctrlOptions \<Rightarrow> apiError option"
  addReadyzCheck :: "string \<Rightarrow> apiError option"
  addHealthzCheck :: "string \<Rightarrow> apiError option"
  startManager :: "('c, 'k, 'l, 't) ctrlManager \<Rightarrow> apiError option"
  setupLib :: "('c, 'k, 'l) setupLibrary"
  managementClient :: "('c, 'k) management"
  leasesResourceLock :: string

text \<open>The two calls that add a check to the manager: a check that is accepted is registered.\<close>

definition mgrAddReadyzCheck ::
  "('c, 'k, 'l, 't) mainLibrary \<Rightarrow> string \<Rightarrow> ('c, 'k, 'l, 't) ctrlManager \<Rightarrow> apiError + ('c, 'k, 'l, 't) ctrlManager" where
  "mgrAddReadyzCheck lib name mgr =
     (case addReadyzCheck lib name of Some err \<Rightarrow> Inl err | None \<Rightarrow> Inr (mgr\<lparr>cmReadyz := cmReadyz mgr @ [name]\<rparr>))"

definition mgrAddHealthzCheck ::
  "('c, 'k, 'l, 't) mainLibrary \<Rightarrow> string \<Rightarrow> ('c, 'k, 'l, 't) ctrlManager \<Rightarrow> apiError + ('c, 'k, 'l, 't) ctrlManager" where
  "mgrAddHealthzCheck lib name mgr =
     (case addHealthzCheck lib name of Some err \<Rightarrow> Inl err | None \<Rightarrow> Inr (mgr\<lparr>cmHealthz := cmHealthz mgr @ [name]\<rparr>))"

text \<open>The steps of the set-up: the manager with what was registered, or the code the process exits with.\<close>

definition setupChecks ::
  "('c, 'k, 'l, 't) mainLibrary \<Rightarrow> ('c, 'k, 'l, 't) ctrlManager \<Rightarrow> int + ('c, 'k, 'l, 't) ctrlManager" where
  "setupChecks lib mgr =
     (case mgrAddReadyzCheck lib ''webhook'' mgr of
        Inl err \<Rightarrow> Inl 1
      | Inr mgr1 \<Rightarrow>
        (case mgrAddHealthzCheck lib ''webhook'' mgr1 of
           Inl err \<Rightarrow> Inl 1
         | Inr mgr2 \<Rightarrow> Inr mgr2))"

definition setupIndexes :: "('c, 'k, 'l, 't) ctrlManager \<Rightarrow> ('c, 'k, 'l, 't) ctrlManager" where
  "setupIndexes mgr = mgr"

definition concurrency :: "int \<Rightarrow> int" where
  "concurrency c = c"

text \<open>
  The cloud manager is started and the mux made (\<open>startCloud\<close>), then the two reconcilers are registered with both; the result
  is the manager and the world the reconcilers work on.
\<close>

definition setupReconcilers ::
  "('c, 'k, 'l, 't) mainLibrary \<Rightarrow> cloudBody scheme \<Rightarrow> string option \<times> string option \<times> string option \<Rightarrow> (string \<Rightarrow> string option) \<Rightarrow> string \<Rightarrow> flags
   \<Rightarrow> ('c, 'k, 'l, 't) ctrlManager \<Rightarrow> int + ('c, 'k, 'l, 't) ctrlManager \<times> bool \<times> ('c, 'k, 'l) world" where
  "setupReconcilers lib sch cachePolls polls podIP fl mgr =
     (case startCloud sch cachePolls polls podIP of
        Inl err \<Rightarrow> Inl 1
      | Inr (hotRestartDone, w) \<Rightarrow>
        (case alias_cluster_SetupWithManager (setupLib lib)
            \<lparr>recClient = managementClient lib, recCloudManager = wManager w, recAPIServerMux = wMux w,
             recWatchFilterValue = watchFilterValue fl\<rparr> (concurrency (clusterConcurrency fl)) of
           Inl err \<Rightarrow> Inl 1
         | Inr cs \<Rightarrow>
           (let mgr1 = mgr\<lparr>cmControllers := cmControllers mgr @ [cs]\<rparr>
            in case alias_machine_SetupWithManager (setupLib lib)
                 \<lparr>recClient = managementClient lib, recCloudManager = wManager w, recAPIServerMux = wMux w,
                  recWatchFilterValue = watchFilterValue fl\<rparr> (concurrency (machineConcurrency fl)) of
                 Inl err \<Rightarrow> Inl 1
               | Inr ms \<Rightarrow> Inr (mgr1\<lparr>cmControllers := cmControllers mgr1 @ [ms]\<rparr>, hotRestartDone, w))))"

definition setupWebhooks ::
  "('c, 'k, 'l, 't) mainLibrary \<Rightarrow> ('c, 'k, 'l, 't) ctrlManager \<Rightarrow> int + ('c, 'k, 'l, 't) ctrlManager" where
  "setupWebhooks lib mgr =
     (case GoofyCluster_SetupWebhookWithManager (setupLib lib) (cmWebhooks mgr) of
        Inl err \<Rightarrow> Inl 1
      | Inr hooks1 \<Rightarrow>
        (case GoofyMachine_SetupWebhookWithManager (setupLib lib) hooks1 of
           Inl err \<Rightarrow> Inl 1
         | Inr hooks2 \<Rightarrow>
           (case GoofyMachineTemplate_SetupWebhookWithManager (setupLib lib) hooks2 of
              Inl err \<Rightarrow> Inl 1
            | Inr hooks3 \<Rightarrow> Inr (mgr\<lparr>cmWebhooks := hooks3\<rparr>))))"

definition managerOptions :: "('c, 'k, 'l, 't) mainLibrary \<Rightarrow> flags \<Rightarrow> 't list \<Rightarrow> 't ctrlOptions" where
  "managerOptions lib fl tlsOptionOverrides =
     \<lparr>optMetricsBindAddress = metricsBindAddr fl, optLeaderElection = enableLeaderElection fl,
      optLeaderElectionID = ''goofy-controller-leader-election-capi'', optLeaseDuration = leaderElectionLeaseDuration fl,
      optRenewDeadline = leaderElectionRenewDeadline fl, optRetryPeriod = leaderElectionRetryPeriod fl,
      optLeaderElectionResourceLock = leasesResourceLock lib, optHealthProbeBindAddress = healthAddr fl,
      optPprofBindAddress = profilerAddress fl,
      optNamespaces = (if watchNamespace fl \<noteq> '''' then Some [watchNamespace fl] else None), optSyncPeriod = syncPeriod fl,
      optDisableFor = [''ConfigMap'', ''Secret''],
      optWebhook = \<lparr>optPort = webhookPort fl, optCertDir = webhookCertDir fl, optTLSOpts = tlsOptionOverrides\<rparr>\<rparr>"

text \<open>
  The run of the process. An exit during the set-up is \<open>Inl\<close> of the code; otherwise the manager was started in the given state,
  with the code the process ends with when the manager returns. A flag that does not parse exits with 2, a missing kubeconfig
  with 1.
\<close>

definition main ::
  "('c, 'k, 'l, 't) mainLibrary \<Rightarrow> cloudBody scheme \<Rightarrow> string option \<times> string option \<times> string option \<Rightarrow> (string \<Rightarrow> string option) \<Rightarrow> string
   \<Rightarrow> int + int \<times> flags \<times> ('c, 'k, 'l, 't) ctrlManager \<times> bool \<times> ('c, 'k, 'l) world" where
  "main lib sch cachePolls polls podIP =
     (case parseFlags lib InitFlags of
        None \<Rightarrow> Inl 2
      | Some fl \<Rightarrow>
        (case validateLogs lib of
           Some err \<Rightarrow> Inl 1
         | None \<Rightarrow>
           (case getConfig lib of
              None \<Rightarrow> Inl 1
            | Some restConfig0 \<Rightarrow>
              (let restConfig = restConfig0\<lparr>optQPS := restConfigQPS fl, optBurst := restConfigBurst fl,
                                           optUserAgent := userAgent lib ''cluster-api-goofy-controller-manager''\<rparr>
               in case tlsOverrides lib of
                    Inl err \<Rightarrow> Inl 1
                  | Inr tlsOptionOverrides \<Rightarrow>
                    (case newManager lib restConfig (managerOptions lib fl tlsOptionOverrides) of
                       Some err \<Rightarrow> Inl 1
                     | None \<Rightarrow>
                       (let mgr = \<lparr>cmConfig = restConfig, cmOptions = managerOptions lib fl tlsOptionOverrides,
                                   cmReadyz = [], cmHealthz = [], cmControllers = [], cmWebhooks = []\<rparr>
                        in case setupChecks lib mgr of
                             Inl code \<Rightarrow> Inl code
                           | Inr mgr1 \<Rightarrow>
                             (case setupReconcilers lib sch cachePolls polls podIP fl (setupIndexes mgr1) of
                                Inl code \<Rightarrow> Inl code
                              | Inr (mgr2, hotRestartDone, w) \<Rightarrow>
                                (case setupWebhooks lib mgr2 of
                                   Inl code \<Rightarrow> Inl code
                                 | Inr mgr3 \<Rightarrow>
                                   Inr (case startManager lib mgr3 of Some err \<Rightarrow> 1 | None \<Rightarrow> 0, fl, mgr3, hotRestartDone, w)))))))))"

end
