(* ===== verification/Setup_Properties.thy ===== *)
theory Setup_Properties
  imports Process_Main
begin

text \<open>
  What the process has set up when it starts the controller manager, and which reconciles the events of the management cluster lead to.
\<close>

section \<open>The start of the process\<close>

lemma setupChecks_result: "setupChecks lib mgr = Inl code \<Longrightarrow> code = 1"
  "setupChecks lib mgr = Inr mgr' \<Longrightarrow> mgr' = mgr\<lparr>cmReadyz := cmReadyz mgr @ [''webhook''], cmHealthz := cmHealthz mgr @ [''webhook'']\<rparr>"
  by (auto simp: setupChecks_def mgrAddReadyzCheck_def mgrAddHealthzCheck_def split: option.splits sum.splits)

lemma setupChecks_accepted: "setupChecks lib mgr = Inr mgr' \<Longrightarrow> addReadyzCheck lib ''webhook'' = None \<and> addHealthzCheck lib ''webhook'' = None"
  by (auto simp: setupChecks_def mgrAddReadyzCheck_def mgrAddHealthzCheck_def split: option.splits sum.splits)

lemma setupWebhooks_result: "setupWebhooks lib mgr = Inl code \<Longrightarrow> code = 1"
  "setupWebhooks lib mgr = Inr mgr' \<Longrightarrow>
     mgr' = mgr\<lparr>cmWebhooks := cmWebhooks mgr @ [''GoofyCluster'', ''GoofyMachine'', ''GoofyMachineTemplate'']\<rparr>
     \<and> (\<forall>kind\<in>{''GoofyCluster'', ''GoofyMachine'', ''GoofyMachineTemplate''}. completeWebhook (setupLib lib) kind = None)"
  by (auto simp: setupWebhooks_def webhookComplete_def GoofyCluster_SetupWebhookWithManager_def
      GoofyMachine_SetupWebhookWithManager_def GoofyMachineTemplate_SetupWebhookWithManager_def split: option.splits sum.splits)

text \<open>What a registered controller is for and what it watches, how many reconciles it runs, and the state its reconciler works on.\<close>

definition controllerFor ::
  "('c, 'k, 'l) controllerSpec \<Rightarrow> managedKind \<Rightarrow> managedKind list \<Rightarrow> int \<Rightarrow> ('c, 'k) management \<Rightarrow> ('c, 'k, 'l) world \<Rightarrow> string \<Rightarrow> bool" where
  "controllerFor spec kind watched maxConcurrent mg w filterValue \<longleftrightarrow>
     specFor spec = kind \<and> map watchKind (specWatches spec) = watched \<and> specMaxConcurrentReconciles spec = maxConcurrent
   \<and> specReconciler spec = \<lparr>recClient = mg, recCloudManager = wManager w, recAPIServerMux = wMux w, recWatchFilterValue = filterValue\<rparr>"

lemma SetupWithManager_controllerFor:
  assumes "r = \<lparr>recClient = mg, recCloudManager = wManager w, recAPIServerMux = wMux w, recWatchFilterValue = filterValue\<rparr>"
  shows "alias_cluster_SetupWithManager lib r n = Inr spec \<Longrightarrow>
      controllerFor spec GoofyClusterKind [ClusterKind] n mg w filterValue \<and> completeController lib spec = None"
    and "alias_machine_SetupWithManager lib r n = Inr spec \<Longrightarrow>
      controllerFor spec GoofyMachineKind [MachineKind, GoofyClusterKind, ClusterKind] n mg w filterValue \<and> completeController lib spec = None"
  using assms
  by (auto simp: alias_cluster_SetupWithManager_def cluster_SetupWithManager_def clusterControllerSpec_def alias_machine_SetupWithManager_def
      machine_SetupWithManager_def machineControllerSpec_def controllerFor_def split: option.splits sum.splits)

lemmas SetupWithManager_results = SetupWithManager_controllerFor [OF refl]

lemma setupReconcilers_result:
  "setupReconcilers lib sch cachePolls polls podIP fl mgr = Inl code \<Longrightarrow> code = 1"
  "setupReconcilers lib sch cachePolls polls podIP fl mgr = Inr (mgr', s) \<Longrightarrow>
     startCloud sch cachePolls polls podIP = Inr s \<and> mgr' = mgr\<lparr>cmControllers := cmControllers mgr'\<rparr> \<and> (\<exists>cs ms. cmControllers mgr' = cmControllers mgr @ [cs, ms]
       \<and> controllerFor cs GoofyClusterKind [ClusterKind] (clusterConcurrency fl) (managementClient lib) (snd s) (watchFilterValue fl)
       \<and> controllerFor ms GoofyMachineKind [MachineKind, GoofyClusterKind, ClusterKind] (machineConcurrency fl) (managementClient lib) (snd s)
           (watchFilterValue fl)
       \<and> completeController (setupLib lib) cs = None \<and> completeController (setupLib lib) ms = None)"
  by (auto simp: setupReconcilers_def Let_def concurrency_def split: sum.splits prod.splits
      dest!: SetupWithManager_results)

text \<open>The set-up of the process, from the configured manager on.\<close>

lemma main_cases:
  assumes "main lib sch cachePolls polls podIP = Inr (code, fl, mgr, s)"
  obtains tls mgr0 mgr1 mgr2 where "setupChecks lib mgr0 = Inr mgr1" "setupReconcilers lib sch cachePolls polls podIP fl mgr1 = Inr (mgr2, s)"
    "setupWebhooks lib mgr2 = Inr mgr" "parseFlags lib InitFlags = Some fl" "tlsOverrides lib = Inr tls"
    "cmOptions mgr0 = managerOptions lib fl tls" "optQPS (cmConfig mgr0) = restConfigQPS fl" "optBurst (cmConfig mgr0) = restConfigBurst fl"
    "cmReadyz mgr0 = []" "cmHealthz mgr0 = []" "cmControllers mgr0 = []" "cmWebhooks mgr0 = []"
    "code = (if startManager lib mgr = None then 0 else 1)"
  using assms
  by (auto simp: main_def Let_def setupIndexes_def split: option.splits sum.splits prod.splits)

text \<open>
  C24. The process either exits before the controller manager runs, with code 2 when the flags do not parse and with code 1 when a
  later step fails, or it runs the manager and ends with 0 or 1 as the manager does. When it runs the manager, both checks, the two
  controllers and the three webhooks are registered, once each and in this order, and each of these calls was accepted: the
  controllers watch what they depend on, run as many reconciles as the flags say, and their reconcilers, two objects that main fills
  one by one, share one cloud manager and one mux, that serves on the address of the pod; and the state they start from is the
  initial state of the process, in which all the invariants of the process hold.
\<close>

theorem main_set_up:
  "case main lib sch cachePolls polls podIP of
     Inl code \<Rightarrow> code = (if parseFlags lib InitFlags = None then 2 else 1)
   | Inr (code, fl, mgr, s) \<Rightarrow>
       parseFlags lib InitFlags = Some fl \<and> code = (if startManager lib mgr = None then 0 else 1)
     \<and> cmReadyz mgr = [''webhook''] \<and> cmHealthz mgr = [''webhook''] \<and> addReadyzCheck lib ''webhook'' = None \<and> addHealthzCheck lib ''webhook'' = None
     \<and> cmWebhooks mgr = [''GoofyCluster'', ''GoofyMachine'', ''GoofyMachineTemplate'']
     \<and> list_all (\<lambda>kind. completeWebhook (setupLib lib) kind = None) (cmWebhooks mgr)
     \<and> optNamespaces (cmOptions mgr) = (if watchNamespace fl = '''' then None else Some [watchNamespace fl])
     \<and> optQPS (cmConfig mgr) = restConfigQPS fl \<and> optBurst (cmConfig mgr) = restConfigBurst fl
     \<and> (\<exists>cs ms. cmControllers mgr = [cs, ms]
         \<and> controllerFor cs GoofyClusterKind [ClusterKind] (clusterConcurrency fl) (managementClient lib) (snd s) (watchFilterValue fl)
         \<and> controllerFor ms GoofyMachineKind [MachineKind, GoofyClusterKind, ClusterKind] (machineConcurrency fl) (managementClient lib) (snd s)
             (watchFilterValue fl)
         \<and> list_all (\<lambda>spec. completeController (setupLib lib) spec = None) [cs, ms])
     \<and> wMux (snd s) = NewWorkloadClustersMux podIP \<and> reachableWorld sch podIP clock saved s"
proof (cases "main lib sch cachePolls polls podIP")
  case (Inl code)
  then have "code = (if parseFlags lib InitFlags = None then 2 else 1)"
    by (auto simp: main_def Let_def dest: setupChecks_result setupWebhooks_result setupReconcilers_result
        split: option.splits sum.splits prod.splits)
  with Inl show ?thesis
    by simp
next
  case (Inr res)
  obtain code fl mgr s where res: "res = (code, fl, mgr, s)"
    by (cases res) auto
  show ?thesis
    using Inr unfolding res
  proof (cases rule: main_cases)
    case (1 tls mgr0 mgr1 mgr2)
    note c = setupChecks_result(2) [OF 1(1)] setupChecks_accepted [OF 1(1)]
      and r = setupReconcilers_result(2) [OF 1(2)] and h = setupWebhooks_result(2) [OF 1(3)]
    from r obtain cs ms where mgr2: "mgr2 = mgr1\<lparr>cmControllers := cmControllers mgr1 @ [cs, ms]\<rparr>"
      and specs: "controllerFor cs GoofyClusterKind [ClusterKind] (clusterConcurrency fl) (managementClient lib) (snd s) (watchFilterValue fl)"
        "controllerFor ms GoofyMachineKind [MachineKind, GoofyClusterKind, ClusterKind] (machineConcurrency fl) (managementClient lib) (snd s)
           (watchFilterValue fl)"
        "completeController (setupLib lib) cs = None" "completeController (setupLib lib) ms = None"
      by metis
    have "wMux (snd s) = NewWorkloadClustersMux podIP"
      using r startCloud_state by blast
    moreover have "reachableWorld sch podIP clock saved s"
      using r reachableWorld.start by blast
    ultimately show ?thesis
      using Inr res c h mgr2 specs 1(4-) by (simp add: managerOptions_def)
  qed
qed

section \<open>Events of the management cluster\<close>

text \<open>Both objects of an update are of one type.\<close>

fun sameKind :: "managedEvent \<Rightarrow> bool" where
  "sameKind (Updated old new) \<longleftrightarrow> managedKindOf old = managedKindOf new"
| "sameKind _ \<longleftrightarrow> True"

text \<open>The watches of the machine reconciler never call the map function of GoofyClusters with another object.\<close>

lemma mapGoofyCluster_defined: "managedKindOf ob = GoofyClusterKind \<Longrightarrow> \<exists>reqs. mapGoofyCluster mg ob = Some reqs"
  by (cases ob) (auto simp: mapGoofyCluster_def)

lemma sameKind_last: "sameKind ev \<Longrightarrow> ob \<in> set (eventObjects ev) \<Longrightarrow> managedKindOf ob = managedKindOf (last (eventObjects ev))"
  by (cases ev) auto

lemma those_defined: "(\<And>x. x \<in> set xs \<Longrightarrow> f x \<noteq> None) \<Longrightarrow> those (map f xs) \<noteq> None"
  by (induction xs) (auto split: option.splits)

lemma watchRequests_defined:
  assumes "sameKind ev" and "\<And>ob. managedKindOf ob = watchKind w \<Longrightarrow> watchMap w ob \<noteq> None"
  shows "watchRequests w ev \<noteq> None"
proof (cases "watchKind w = managedKindOf (last (eventObjects ev))")
  case True
  then have "those (map (watchMap w) (eventObjects ev)) \<noteq> None"
    using assms sameKind_last by (intro those_defined) metis
  then show ?thesis
    by (simp add: watchRequests_def)
qed (simp add: watchRequests_def)

lemma machine_SetupWithManager_spec:
  "machine_SetupWithManager lib r n = Inr spec \<Longrightarrow> \<exists>f. spec = machineControllerSpec lib r n f"
  by (auto simp: machine_SetupWithManager_def split: sum.splits option.splits)

lemma documentedRequests_defined:
  assumes "machine_SetupWithManager lib r n = Inr spec" "sameKind ev"
  shows "documentedRequests spec ev \<noteq> None"
proof -
  obtain f where spec: "spec = machineControllerSpec lib r n f"
    using machine_SetupWithManager_spec [OF assms(1)] by blast
  have "watchRequests w ev \<noteq> None" if "w \<in> set (specWatches spec)" for w
    using that by (intro watchRequests_defined [OF assms(2)]) (auto simp: spec machineControllerSpec_def mapGoofyCluster_defined)
  then have "those (map (\<lambda>w. watchRequests w ev) (specWatches spec)) \<noteq> None"
    by (rule those_defined)
  then show ?thesis
    by (simp add: documentedRequests_def)
qed

text \<open>
  C39. No event of the management cluster makes the registered machine controller panic. A new GoofyCluster that passes the event filter
  leads to one request for each Machine of its cluster that has an infrastructure reference, in the namespace and under the name of the
  Machine; the GoofyMachine that is to be reconciled is reached only if it has the name of its Machine.
\<close>

theorem goofy_cluster_event_requests:
  assumes "dispatches enqueues" and "machine_SetupWithManager lib r n = Inr spec" and "sameKind ev"
  shows "\<exists>reqs. enqueues spec ev = Some reqs
    \<and> (\<forall>c cluster machines. ev = Created (GoofyClusterObj c) \<longrightarrow> ResourceNotPausedAndHasFilterLabel lib (recWatchFilterValue r) ev \<longrightarrow>
         mgGetOwnerCluster (recClient r) c = Inr (Some cluster) \<longrightarrow>
         mgListMachines (recClient r) (gclNamespace c) (cluName cluster) = Inr machines \<longrightarrow>
         reqs = map (\<lambda>m. \<lparr>nnNamespace = maNamespace m, nnName = maName m\<rparr>) (filter (\<lambda>m. maInfrastructureRef m \<noteq> '''') machines))"
proof -
  obtain f where spec: "spec = machineControllerSpec lib r n f"
    using machine_SetupWithManager_spec [OF assms(2)] by blast
  obtain reqs where reqs: "documentedRequests spec ev = Some reqs"
    using documentedRequests_defined [OF assms(2,3)] by blast
  have "reqs = map (\<lambda>m. \<lparr>nnNamespace = maNamespace m, nnName = maName m\<rparr>) (filter (\<lambda>m. maInfrastructureRef m \<noteq> '''') machines)"
    if "ev = Created (GoofyClusterObj c)" "ResourceNotPausedAndHasFilterLabel lib (recWatchFilterValue r) ev"
      "mgGetOwnerCluster (recClient r) c = Inr (Some cluster)"
      "mgListMachines (recClient r) (gclNamespace c) (cluName cluster) = Inr machines" for c cluster machines
    using reqs that
    by (simp add: documentedRequests_def spec machineControllerSpec_def watchRequests_def mapGoofyCluster_def GoofyClusterToGoofyMachines_def)
  then show ?thesis
    using assms(1) reqs by (auto simp: dispatches_def)
qed

section \<open>A sample\<close>

text \<open>A library that accepts everything, and the sample management cluster: the GoofyMachine of the Machine m1 is called gm1.\<close>

definition sampleSetup :: "(string, string, string) setupLibrary" where
  "sampleSetup = \<lparr>ResourceNotPausedAndHasFilterLabel = (\<lambda>_ _. True), ClusterUnpaused = (\<lambda>_. True),
     ClusterUnpausedAndInfrastructureReady = (\<lambda>_. True), ClusterToInfrastructureMapFunc = (\<lambda>_ _. []),
     MachineToInfrastructureMapFunc = (\<lambda>_ _. []), ClusterToObjectsMapper = (\<lambda>_. Inr (\<lambda>_. [])),
     completeController = (\<lambda>_. None), completeWebhook = (\<lambda>_. None)\<rparr>"

definition sampleReconciler :: "(string, string, string) reconciler" where
  "sampleReconciler = \<lparr>recClient = sampleManagement, recCloudManager = managerNew sampleCloudScheme,
     recAPIServerMux = NewWorkloadClustersMux ''10.0.0.1'', recWatchFilterValue = ''''\<rparr>"

theorem goofy_cluster_event_requests_witness:
  "documentedRequests (machineControllerSpec sampleSetup sampleReconciler 10 (\<lambda>_. [])) (Created (GoofyClusterObj sampleGoofyCluster))
     = Some [\<lparr>nnNamespace = ''default'', nnName = ''m1''\<rparr>] \<and> gmName sampleGoofyMachine = ''gm1''"
proof -
  have set_up: "machine_SetupWithManager sampleSetup sampleReconciler 10 = Inr (machineControllerSpec sampleSetup sampleReconciler 10 (\<lambda>_. []))"
    by (simp add: machine_SetupWithManager_def sampleSetup_def)
  have "dispatches documentedRequests"
    by (simp add: dispatches_def)
  from goofy_cluster_event_requests [OF this set_up, of "Created (GoofyClusterObj sampleGoofyCluster)"] show ?thesis
    by (simp add: sampleSetup_def sampleReconciler_def sampleManagement_def sampleMachine_def sampleGoofyMachine_def)
qed

definition sampleMain :: "(string, string, string, unit) mainLibrary" where
  "sampleMain = \<lparr>parseFlags = Some, validateLogs = None, getConfig = Some \<lparr>optQPS = 0, optBurst = 0, optUserAgent = ''''\<rparr>,
     userAgent = (\<lambda>s. s), tlsOverrides = Inr [], newManager = (\<lambda>_ _. None), addReadyzCheck = (\<lambda>_. None), addHealthzCheck = (\<lambda>_. None),
     startManager = (\<lambda>_. None), setupLib = sampleSetup, managementClient = sampleManagement, leasesResourceLock = ''leases''\<rparr>"

text \<open>With a library that accepts everything the process starts, with the defaults of the flags.\<close>

lemma sampleMain_starts:
  "\<exists>mgr s. main sampleMain sampleCloudScheme (None, None, None) (\<lambda>_. None) ''10.0.0.1'' = Inr (0, InitFlags, mgr, s)
     \<and> map specMaxConcurrentReconciles (cmControllers mgr) = [10, 10]"
proof (cases startedWorld)
  case (Pair hr w)
  with startedWorld_set_up have "startCloud sampleCloudScheme (None, None, None) (\<lambda>_. None) ''10.0.0.1'' = Inr (hr, w)"
    by simp
  then show ?thesis
    by (simp add: main_def Let_def sampleMain_def setupChecks_def setupReconcilers_def setupIndexes_def setupWebhooks_def concurrency_def
      alias_cluster_SetupWithManager_def cluster_SetupWithManager_def alias_machine_SetupWithManager_def machine_SetupWithManager_def
      clusterControllerSpec_def machineControllerSpec_def sampleSetup_def InitFlags_def GoofyCluster_SetupWebhookWithManager_def
      GoofyMachine_SetupWebhookWithManager_def GoofyMachineTemplate_SetupWebhookWithManager_def webhookComplete_def mgrAddReadyzCheck_def
      mgrAddHealthzCheck_def)
qed

theorem main_set_up_witness:
  "\<exists>cs ms mgr s. main sampleMain sampleCloudScheme (None, None, None) (\<lambda>_. None) ''10.0.0.1'' = Inr (0, InitFlags, mgr, s)
     \<and> cmControllers mgr = [cs, ms] \<and> specFor cs = GoofyClusterKind \<and> specFor ms = GoofyMachineKind
     \<and> specReconciler cs = specReconciler ms \<and> recAPIServerMux (specReconciler cs) = NewWorkloadClustersMux ''10.0.0.1''
     \<and> cmWebhooks mgr = [''GoofyCluster'', ''GoofyMachine'', ''GoofyMachineTemplate'']"
proof -
  obtain mgr s where m: "main sampleMain sampleCloudScheme (None, None, None) (\<lambda>_. None) ''10.0.0.1'' = Inr (0, InitFlags, mgr, s)"
    using sampleMain_starts by blast
  from main_set_up [where lib = sampleMain and sch = sampleCloudScheme and cachePolls = "(None, None, None)" and polls = "\<lambda>_. None"
      and podIP = "''10.0.0.1''" and clock = "\<lambda>_. True" and saved = "[]", unfolded m] m show ?thesis
    by (auto simp: controllerFor_def)
qed

end
