(* ===== verification/API_Scheme.thy ===== *)
theory API_Scheme
  imports Deep_Copy Cache_Types
begin

text \<open>
  The registration of the API types with the schemes of \<^verbatim>\<open>main.go\<close>: the group versions and scheme builders of both packages
  (\<^verbatim>\<open>groupversion_info.go\<close>), what the \<^verbatim>\<open>init\<close> functions of the types register, and the two schemes. A scheme is a map
  from kinds to Go types; the types other modules register are arguments.
\<close>

record GroupVersion =
  gvGroup :: string
  gvVersion :: string

definition infraGroupVersion :: GroupVersion where
  "infraGroupVersion = \<lparr>gvGroup = ''infrastructure.cluster.x-k8s.io'', gvVersion = ''v1alpha1''\<rparr>"

definition cloudGroupVersion :: GroupVersion where
  "cloudGroupVersion = \<lparr>gvGroup = ''virtual.cluster.x-k8s.io'', gvVersion = ''v1alpha1''\<rparr>"

text \<open>The kind of a type is its name.\<close>

fun kindName :: "objectType \<Rightarrow> string" where
  "kindName TypeGoofyCluster = ''GoofyCluster''"
| "kindName TypeGoofyClusterList = ''GoofyClusterList''"
| "kindName TypeGoofyMachine = ''GoofyMachine''"
| "kindName TypeGoofyMachineList = ''GoofyMachineList''"
| "kindName TypeGoofyMachineTemplate = ''GoofyMachineTemplate''"
| "kindName TypeGoofyMachineTemplateList = ''GoofyMachineTemplateList''"
| "kindName TypeCloudMachine = ''CloudMachine''"
| "kindName TypeCloudMachineList = ''CloudMachineList''"

definition WithKind :: "GroupVersion \<Rightarrow> string \<Rightarrow> GroupVersionKind" where
  "WithKind gv kind = \<lparr>gvkGroup = gvGroup gv, gvkVersion = gvVersion gv, gvkKind = kind\<rparr>"

text \<open>A scheme builder: its group version and the types registered so far.\<close>

record schemeBuilder =
  sbGroupVersion :: GroupVersion
  sbTypes :: "objectType list"

definition Register :: "objectType list \<Rightarrow> schemeBuilder \<Rightarrow> schemeBuilder" where
  "Register types b = b\<lparr>sbTypes := sbTypes b @ types\<rparr>"

text \<open>The \<^verbatim>\<open>init\<close> functions of the types, in the order of the files.\<close>

definition init_goofycluster :: "schemeBuilder \<Rightarrow> schemeBuilder" where
  "init_goofycluster = Register [TypeGoofyCluster, TypeGoofyClusterList]"

definition init_goofymachine :: "schemeBuilder \<Rightarrow> schemeBuilder" where
  "init_goofymachine = Register [TypeGoofyMachine, TypeGoofyMachineList]"

definition init_goofymachinetemplate :: "schemeBuilder \<Rightarrow> schemeBuilder" where
  "init_goofymachinetemplate = Register [TypeGoofyMachineTemplate, TypeGoofyMachineTemplateList]"

definition init_cloudmachine :: "schemeBuilder \<Rightarrow> schemeBuilder" where
  "init_cloudmachine = Register [TypeCloudMachine, TypeCloudMachineList]"

definition infraSchemeBuilder :: schemeBuilder where
  "infraSchemeBuilder = init_goofymachinetemplate (init_goofymachine (init_goofycluster \<lparr>sbGroupVersion = infraGroupVersion, sbTypes = []\<rparr>))"

definition cloudSchemeBuilder :: schemeBuilder where
  "cloudSchemeBuilder = init_cloudmachine \<lparr>sbGroupVersion = cloudGroupVersion, sbTypes = []\<rparr>"

text \<open>
  What the library's scheme builder does with a scheme is the argument \<open>addTypes\<close>: it adds the types registered with the builder, under
  its group version, to the scheme.
\<close>

type_synonym 's schemeAdder = "GroupVersion \<Rightarrow> objectType list \<Rightarrow> 's \<Rightarrow> 's"

definition AddToScheme :: "'s schemeAdder \<Rightarrow> schemeBuilder \<Rightarrow> 's \<Rightarrow> 's" where
  "AddToScheme addTypes b s = addTypes (sbGroupVersion b) (sbTypes b) s"

text \<open>The \<^verbatim>\<open>init\<close> function of \<^verbatim>\<open>main.go\<close>: the scheme of the management cluster and the one of the cloud.\<close>

definition initSchemes :: "'s schemeAdder \<Rightarrow> ('s \<Rightarrow> 's) \<Rightarrow> ('s \<Rightarrow> 's) \<Rightarrow> ('s \<Rightarrow> 's) \<Rightarrow> ('s \<Rightarrow> 's) \<Rightarrow> 's \<times> 's \<Rightarrow> 's \<times> 's" where
  "initSchemes addTypes addClientgo addClusterv1 addCorev1 addRbacv1 = (\<lambda>(scheme, cloud).
     (let scheme = addClientgo scheme;
          scheme = addClusterv1 scheme;
          scheme = AddToScheme addTypes infraSchemeBuilder scheme;
          cloud = AddToScheme addTypes cloudSchemeBuilder cloud;
          cloud = addCorev1 cloud;
          cloud = addRbacv1 cloud
      in (scheme, cloud)))"

section \<open>What is registered\<close>

lemma kindName_inject [simp]: "kindName t = kindName t' \<longleftrightarrow> t = t'"
  by (cases t; cases t') simp_all

text \<open>
  The documented behaviour of the library: a type added to a scheme is recognized under the group version and its own name.
\<close>

definition addsTypes :: "('s \<Rightarrow> GroupVersionKind \<Rightarrow> objectType option) \<Rightarrow> 's schemeAdder \<Rightarrow> bool" where
  "addsTypes typeOf addTypes \<longleftrightarrow>
     (\<forall>gv ts s t. t \<in> set ts \<longrightarrow> typeOf (addTypes gv ts s) (WithKind gv (kindName t)) = Some t)"

text \<open>The types added by the other modules leave the kinds of the group alone.\<close>

definition leavesGroup :: "('s \<Rightarrow> GroupVersionKind \<Rightarrow> objectType option) \<Rightarrow> GroupVersion \<Rightarrow> ('s \<Rightarrow> 's) \<Rightarrow> bool" where
  "leavesGroup typeOf gv add \<longleftrightarrow> (\<forall>s k. typeOf (add s) (WithKind gv k) = typeOf s (WithKind gv k))"

lemma infra_registered: "set (sbTypes infraSchemeBuilder) = {t. t \<notin> {TypeCloudMachine, TypeCloudMachineList}}"
proof -
  have "t \<in> set (sbTypes infraSchemeBuilder) \<longleftrightarrow> t \<notin> {TypeCloudMachine, TypeCloudMachineList}" for t
    by (cases t) (simp_all add: infraSchemeBuilder_def Register_def init_goofycluster_def init_goofymachine_def
        init_goofymachinetemplate_def)
  then show ?thesis
    by blast
qed

lemma cloud_registered: "set (sbTypes cloudSchemeBuilder) = {TypeCloudMachine, TypeCloudMachineList}"
  by (simp add: cloudSchemeBuilder_def Register_def init_cloudmachine_def)

lemma builder_groups [simp]:
  "sbGroupVersion infraSchemeBuilder = infraGroupVersion" "sbGroupVersion cloudSchemeBuilder = cloudGroupVersion"
  by (simp_all add: infraSchemeBuilder_def cloudSchemeBuilder_def Register_def init_goofycluster_def init_goofymachine_def
      init_goofymachinetemplate_def init_cloudmachine_def)

text \<open>
  Every type of the API that has a \<^verbatim>\<open>DeepCopyObject\<close> is recognized under its own kind in the scheme it belongs to: the types of the
  provider in the scheme of the management cluster, whatever the other modules added before them, and the cloud machines in the
  scheme of the cloud.
\<close>

lemma every_type_registered:
  assumes "addsTypes typeOf addTypes"
    and "leavesGroup typeOf cloudGroupVersion addCorev1" "leavesGroup typeOf cloudGroupVersion addRbacv1"
    and "initSchemes addTypes addClientgo addClusterv1 addCorev1 addRbacv1 schemes = (scheme, cloud)"
  shows "if t \<in> {TypeCloudMachine, TypeCloudMachineList}
    then typeOf cloud (WithKind cloudGroupVersion (kindName t)) = Some t
    else typeOf scheme (WithKind infraGroupVersion (kindName t)) = Some t"
  using assms
  by (auto simp: initSchemes_def AddToScheme_def addsTypes_def leavesGroup_def infra_registered cloud_registered Let_def simp del: kindName.simps
      split: prod.splits)

text \<open>A map from kinds to types satisfies the hypothesis.\<close>

lemma map_addsTypes:
  "addsTypes (\<lambda>s gvk. s gvk) (\<lambda>gv ts s gvk. case find (\<lambda>t. WithKind gv (kindName t) = gvk) ts of Some t \<Rightarrow> Some t | None \<Rightarrow> s gvk)"
proof -
  have "find (\<lambda>t'. WithKind gv (kindName t') = WithKind gv (kindName t)) ts = Some t" if "t \<in> set ts" for gv t ts
    using that by (induction ts) (auto simp: WithKind_def)
  then show ?thesis
    by (simp add: addsTypes_def)
qed

end
