(* ===== verification/Debug_Server.thy ===== *)
theory Debug_Server
  imports Mux_Properties API_Server
begin

text \<open>
  The debug server of \<^verbatim>\<open>api/debug.go\<close>, which the mux runs beside the workload clusters: its constructor, its one route and the handler
  behind it. The information provider is read when a request arrives; it is the mux, with \<open>ListListeners\<close>.
\<close>

section \<open>The server\<close>

text \<open>\<open>'p\<close> is the state of the information provider, of which the interface has the one method.\<close>

record ('b, 'p) debugHandler =
  dhManager :: "'b manager"
  dhListListeners :: "'p \<Rightarrow> (string, string) gomap"

datatype debugRoute = ListenersList

text \<open>The method, the path, the content types produced and the handler of each route.\<close>

definition NewDebugHandler_routes :: "(httpMethod \<times> string \<times> string list \<times> debugRoute) list" where
  "NewDebugHandler_routes = [(GET, ''/listeners'', [ContentTypeJSON], ListenersList)]"

definition NewDebugHandler :: "'b manager \<Rightarrow> ('p \<Rightarrow> (string, string) gomap) \<Rightarrow> ('b, 'p) debugHandler" where
  "NewDebugHandler m infoProvider = \<lparr>dhManager = m, dhListListeners = infoProvider\<rparr>"

definition listenersList :: "'b apiLibrary \<Rightarrow> ('b, 'p) debugHandler \<Rightarrow> 'p \<Rightarrow> 'b response" where
  "listenersList lib h p = (let listeners = dhListListeners h p in WriteEntity lib (ListenersEntity listeners))"

section \<open>What it lists\<close>

text \<open>The keys of the listeners stay unique, whatever the mux does.\<close>

definition keysUnique :: "('c, 'k, 'l) WorkloadClustersMux \<Rightarrow> bool" where
  "keysUnique m \<longleftrightarrow> distinct (mkeys (workloadClusterListeners m))"

lemma keysUnique_put [simp]: "keysUnique m \<Longrightarrow> keysUnique (putListener m name w)"
  by (simp add: keysUnique_def putListener_def)

lemma keysUnique_portIndex [simp]: "keysUnique (m\<lparr>mxPortIndex := i\<rparr>) \<longleftrightarrow> keysUnique m"
  by (simp add: keysUnique_def)

lemma keysUnique_init:
  "keysUnique m \<Longrightarrow> keysUnique (snd (initWorkloadClusterListenerWithPortLocked m name port))"
  by (simp add: initWorkloadClusterListenerWithPortLocked_def Let_def keysUnique_def)

lemma keysUnique_loop: "keysUnique m \<Longrightarrow> keysUnique (snd (hotRestartLoop m errs maxP cs))"
  by (induction m errs maxP cs rule: hotRestartLoop.induct) (auto simp: keysUnique_init split: option.split)

lemma keysUnique_step: "muxStep m m' \<Longrightarrow> keysUnique m \<Longrightarrow> keysUnique m'"
proof (induction rule: muxStep.induct)
  case (init m name res m')
  have "keysUnique (snd (getFreePortLocked m))"
    using init.prems by (simp add: getFreePortLocked_def Let_def)
  moreover have "m' = m \<or> m' = snd (getFreePortLocked m)
      \<or> (\<exists>port. m' = snd (initWorkloadClusterListenerWithPortLocked (snd (getFreePortLocked m)) name port))"
    using init.hyps by (auto simp: InitWorkloadClusterListener_def split: option.splits prod.splits sum.splits) (metis snd_conv)+
  ultimately show ?case
    using init.prems keysUnique_init by metis
next
  case (addAPI pl m name pod caCert caKey res m')
  from addAPI.hyps show ?case
    by (cases rule: AddAPIServer_cases) (use addAPI.prems in auto)
next
  case (addEtcd pl m name pod caCert caKey res m')
  from addEtcd.hyps show ?case
    by (cases rule: AddEtcdMember_cases) (use addEtcd.prems in auto)
next
  case (hotRestart m clusters m')
  then show ?case
    using keysUnique_loop [of m "[]" "mxMinPort m - 1" clusters]
    by (auto simp: HotRestart_def split: if_splits prod.splits sum.splits)
qed

lemma reachableMux_keysUnique: "reachableMux host m \<Longrightarrow> keysUnique m"
proof (induction rule: reachableMux.induct)
  case new
  show ?case by (simp add: keysUnique_def NewWorkloadClustersMux_def)
qed (blast intro: keysUnique_step)

lemma ListListeners_lookup:
  fixes m :: "('c, 'k, 'l) WorkloadClustersMux"
  assumes "keysUnique m"
  shows "mget (ListListeners m) name = map_option Address (mget (workloadClusterListeners m) name)"
proof -
  have "mget (fold (\<lambda>(k, l) ret. mput ret k (Address l)) ls ret) name =
      (case mget ls name of Some l \<Rightarrow> Some (Address l) | None \<Rightarrow> mget ret name)" if "distinct (mkeys ls)"
    for ls :: "(string, ('c, 'k, 'l) WorkloadClusterListener) gomap" and ret
    using that by (induction ls arbitrary: ret) (auto split: option.splits dest!: map_of_SomeD intro: rev_image_eqI)
  then show ?thesis
    using assms by (simp add: ListListeners_def keysUnique_def map_option_case split: option.split)
qed

text \<open>
  The answer of the debug server of a reachable mux has an entry for every cluster that has a listener and no other, with the address
  under which the mux resolves requests to it, and no two clusters have the same address.
\<close>

lemma debug_lists_listeners:
  assumes "reachableMux host m" "listenersList lib (NewDebugHandler mgr ListListeners) m = EntityResponse 200 (ListenersEntity ret)"
  shows "mget ret name = Some addr \<longleftrightarrow> (\<exists>hp. addr = ''https://'' @ hp \<and> resourceGroupResolver m hp = Inr name)"
    and "mget ret name = Some addr \<Longrightarrow> mget ret name' = Some addr \<Longrightarrow> name' = name"
proof -
  have ok: "muxOk m" using assms(1) by (rule reachableMux_ok)
  have ret: "mget ret n = map_option Address (mget (workloadClusterListeners m) n)" for n
    using assms(2) ListListeners_lookup [OF reachableMux_keysUnique [OF assms(1)]]
    by (auto simp: listenersList_def NewDebugHandler_def WriteEntity_def Let_def split: option.splits)
  have iff: "mget ret n = Some a \<longleftrightarrow> (\<exists>hp. a = ''https://'' @ hp \<and> resourceGroupResolver m hp = Inr n)" for n a
    using muxOk_listenerD(3) [OF ok] muxOk_hostD [OF ok]
    by (fastforce simp: ret Address_def resourceGroupResolver_def split: option.splits)
  show "mget ret name = Some addr \<longleftrightarrow> (\<exists>hp. addr = ''https://'' @ hp \<and> resourceGroupResolver m hp = Inr name)"
    by (rule iff)
  show "mget ret name = Some addr \<Longrightarrow> mget ret name' = Some addr \<Longrightarrow> name' = name"
    by (auto simp: iff)
qed

end
