(* ===== verification/Etcd_World.thy ===== *)
theory Etcd_World
  imports Goofy_World Etcd_Properties
begin

text \<open>
  From the machines of a control plane to the etcd cluster that its clients see: machines are reconciled in any order and number, with
  failures in between, and the fake etcd on the endpoint of the cluster answers for those that joined.
\<close>

section \<open>Joining the cluster\<close>

text \<open>A reconcile adds a member when it gets to the etcd pod and the pod is not there yet.\<close>

definition joins :: "Cluster \<Rightarrow> Machine \<Rightarrow> GoofyMachine \<Rightarrow> apiError + unit \<Rightarrow> ('c, 'k, 'l) world \<Rightarrow> bool" where
  "joins cluster machine gm res w \<longleftrightarrow> res = Inr () \<and> maControlPlane machine \<and> cluInfrastructureReady cluster
     \<and> maDataSecretName machine \<noteq> None \<and> cloudObject (KObj cluster) w (etcdPodRef gm) = None"

text \<open>
  Reconciles of the machines of the cluster with resource group \<open>rg\<close>, and the members they added: the name of the machine, the member
  identifier that was drawn, the time.
\<close>

inductive machineRuns ::
  "(gotime \<Rightarrow> bool) \<Rightarrow> string \<Rightarrow> ('c, 'k, 'l) world \<Rightarrow> (string \<times> 32 word \<times> gotime) list \<Rightarrow> ('c, 'k, 'l) world \<Rightarrow> bool"
  for clock rg w0 where
  start: "machineRuns clock rg w0 [] w0"
| run: "machineRuns clock rg w0 ms w \<Longrightarrow> (\<And>i. clock (clk i)) \<Longrightarrow> KObj cluster = rg \<Longrightarrow>
    machineReconcileNormal mg pl clk rnd cluster machine gm w = (res, gm1, w') \<Longrightarrow>
    machineRuns clock rg w0 (if joins cluster machine gm res w then (gmName gm, snd rnd, clk 2) # ms else ms) w'"

section \<open>What a reconcile adds\<close>

definition podGVK :: GroupVersionKind where
  "podGVK = \<lparr>gvkGroup = '''', gvkVersion = ''v1'', gvkKind = ''Pod''\<rparr>"

lemma etcdPodRef_simps: "etcdPodRef gm = \<lparr>refGVK = podGVK, refKey = \<lparr>nnNamespace = ''kube-system'', nnName = ''etcd-'' @ gmName gm\<rparr>\<rparr>"
  by (simp add: etcdPodRef_def controlPlanePod_def bodyGVK_def podGVK_def etcdMemberName_def)

text \<open>The objects beside the etcd pod do not look like one.\<close>

definition otherObjects :: "GoofyMachine \<Rightarrow> Machine \<Rightarrow> cloudBody object set" where
  "otherObjects gm machine = snd ` set (machineObjects gm machine) \<union> snd ` set (controlPlaneObjects gm)"

lemma otherObjects_no_etcd:
  assumes "obj \<in> otherObjects gm machine"
  shows "\<not> listMatches etcdListOptions (cloudStored sch (now, obj))" "refOf obj \<noteq> etcdPodRef gm'"
  using assms
  by (auto simp: otherObjects_def machineObjects_def controlPlaneObjects_def cloudMachineObject_def nodeObject_def controlPlanePod_def
      cloudStored_def listMatches_def etcdListOptions_def MatchingLabels_def newObject_def GetLabels_def componentLabels_def
      refOf_def etcdPodRef_simps ObjectKeyFromObject_def bodyGVK_def podGVK_def apiServerName_def)

lemma ensure_manager:
  "ensureEtcdMember mg pl cluster rg pod w = (res, w') \<Longrightarrow> wManager w' = wManager w"
  "ensureAPIServer mg pl cluster rg pod w = (res, w') \<Longrightarrow> wManager w' = wManager w"
  by (auto simp: ensureEtcdMember_def ensureAPIServer_def split: if_splits sum.splits prod.splits)

text \<open>All objects of the one set and some of the other were created.\<close>

definition addsObjects ::
  "cloudBody scheme \<Rightarrow> string \<Rightarrow> cloudBody object set \<Rightarrow> cloudBody object set \<Rightarrow> ('c, 'k, 'l) world \<Rightarrow> ('c, 'k, 'l) world \<Rightarrow> bool" where
  "addsObjects sch rg some every w w' \<longleftrightarrow> groupReady sch rg w' \<and> cloudObject rg w \<subseteq>\<^sub>m cloudObject rg w'
     \<and> refOf ` every \<subseteq> dom (cloudObject rg w')
     \<and> (\<forall>r v. cloudObject rg w' r = Some v \<longrightarrow> cloudObject rg w r = Some v
          \<or> (\<exists>obj\<in>some \<union> every. \<exists>now. r = refOf obj \<and> v = cloudStored sch (now, obj)))"

lemma addsObjects_createAll:
  assumes "cloudScheme sch" "groupReady sch rg w" "\<forall>obj \<in> snd ` set xs. plain obj" "createAll clk i rg w xs = (res, w')"
  shows "res = Inr () \<and> addsObjects sch rg (snd ` set xs) {} w w'"
  using createAll_ok [OF assms(1-3), of clk i] assms(4) by (auto simp: addsObjects_def)

lemma addsObjects_pod:
  assumes "cloudScheme sch" "groupReady sch rg w" "podReadable sch rg gm w" "ensureEtcdPod clk rnd rg (etcdMemberName gm) w = (res, w')"
  shows "res = Inr () \<and> addsObjects sch rg {}
    (if cloudObject rg w (etcdPodRef gm) = None then {etcdPodObject gm rnd (clk 2)} else {}) w w'"
  using ensureEtcdPod_ok [OF assms(1-3), of clk rnd] assms(4) etcdPodObject_plain(2) by (auto simp: addsObjects_def)

lemma addsObjects_same: "groupReady sch rg w \<Longrightarrow> wManager w' = wManager w \<Longrightarrow> addsObjects sch rg some {} w w'"
  using cloudObject_cong [of w' w rg] groupReady_cong [of w' w sch rg] by (simp add: addsObjects_def)

lemma addsObjects_from: "wManager u = wManager w \<Longrightarrow> addsObjects sch rg some every u w' = addsObjects sch rg some every w w'"
  using cloudObject_cong [of u w rg] by (simp add: addsObjects_def)

lemma addsObjects_trans:
  assumes "addsObjects sch rg some every w w'" "addsObjects sch rg some' every' w' w''"
  shows "addsObjects sch rg (some \<union> some') (every \<union> every') w w''"
proof -
  have "cloudObject rg w \<subseteq>\<^sub>m cloudObject rg w'" "cloudObject rg w' \<subseteq>\<^sub>m cloudObject rg w''"
    using assms by (simp_all add: addsObjects_def)
  note le = map_le_trans [OF this] map_le_implies_dom_le [OF this(2)]
  have new: "cloudObject rg w r = Some v \<or> (\<exists>obj\<in>some \<union> some' \<union> (every \<union> every'). \<exists>now. r = refOf obj \<and> v = cloudStored sch (now, obj))"
    if v: "cloudObject rg w'' r = Some v" for r v
  proof -
    have "cloudObject rg w' r = Some v \<or> (\<exists>obj\<in>some' \<union> every'. \<exists>now. r = refOf obj \<and> v = cloudStored sch (now, obj))"
      using assms(2) v by (simp only: addsObjects_def)
    moreover have "cloudObject rg w r = Some v \<or> (\<exists>obj\<in>some \<union> every. \<exists>now. r = refOf obj \<and> v = cloudStored sch (now, obj))"
      if "cloudObject rg w' r = Some v"
      using assms(1) that by (simp only: addsObjects_def)
    ultimately show ?thesis
      unfolding bex_Un by argo
  qed
  have "refOf ` (every \<union> every') \<subseteq> dom (cloudObject rg w'')" "groupReady sch rg w''"
    using assms subset_trans [OF _ le(2), of "refOf ` every"] by (simp_all only: addsObjects_def image_Un Un_subset_iff)
  with le(1) new show ?thesis
    unfolding addsObjects_def by simp
qed

text \<open>The objects after a reconcile: those of before, objects of the machine, and its etcd pod exactly when it joins.\<close>

lemma controlPlane_adds:
  assumes "cloudScheme sch" "groupReady sch (KObj cluster) w" "reconcileControlPlane mg pl clk rnd cluster gm w = (res, w')"
    and readable: "podReadable sch (KObj cluster) gm w"
  shows "addsObjects sch (KObj cluster) (snd ` set (controlPlaneObjects gm))
    (if res = Inr () \<and> cloudObject (KObj cluster) w (etcdPodRef gm) = None then {etcdPodObject gm rnd (clk 2)} else {}) w w'"
proof -
  let ?rg = "KObj cluster"
  obtain r1 w1 where 1: "ensureEtcdMember mg pl cluster ?rg (etcdMemberName gm) w = (r1, w1)" by fastforce
  obtain r2 w2 where 2: "ensureAPIServer mg pl cluster ?rg (apiServerName gm) w1 = (r2, w2)" by fastforce
  obtain r3 w3 where 3: "ensureEtcdPod clk rnd ?rg (etcdMemberName gm) w2 = (r3, w3)" by fastforce
  obtain r4 w4 where 4: "createAll clk 4 ?rg w3 (controlPlaneObjects gm) = (r4, w4)" by fastforce
  note same = ensure_manager(1) [OF 1] ensure_manager(2) [OF 2]
  show ?thesis
  proof (cases "is_err r1 \<or> is_err r2")
    case True
    then have "is_err res \<and> wManager w' = wManager w"
      using assms(3) 1 2 same by (auto simp: reconcileControlPlane_def andThen_def is_err_def split: sum.splits)
    then show ?thesis
      using addsObjects_same [OF assms(2)] by (auto simp: is_err_def split: sum.splits)
  next
    case False
    have w2: "groupReady sch ?rg w2" "cloudObject ?rg w2 = cloudObject ?rg w" "wManager w2 = wManager w"
      using assms(2) same groupReady_cong [of w2 w] cloudObject_cong [of w2 w] by simp_all
    have "podReadable sch ?rg gm w2" using readable w2(2) by (simp add: readable_def)
    note pod = addsObjects_pod [OF assms(1) w2(1) this 3]
    then have "groupReady sch ?rg w3" by (simp add: addsObjects_def)
    note objs = addsObjects_createAll [OF assms(1) this controlPlaneObjects_plain 4]
    have "res = Inr ()" "w' = w4"
      using assms(3) 1 2 3 4 False pod objs by (auto simp: reconcileControlPlane_def andThen_def is_err_def split: sum.splits)
    with addsObjects_trans [OF conjunct2 [OF pod] conjunct2 [OF objs]] addsObjects_from [OF w2(3)] w2(2)
    show ?thesis
      by (cases "cloudObject ?rg w (etcdPodRef gm)") simp_all
  qed
qed

lemma machine_adds:
  assumes "cloudScheme sch" "groupReady sch (KObj cluster) w"
    and "machineReconcileNormal mg pl clk rnd cluster machine gm w = (res, gm1, w')"
    and readable: "podReadable sch (KObj cluster) gm w"
  shows "addsObjects sch (KObj cluster) (otherObjects gm machine)
    (if joins cluster machine gm res w then {etcdPodObject gm rnd (clk 2)} else {}) w w'"
proof (cases "cluInfrastructureReady cluster \<and> maDataSecretName machine \<noteq> None")
  case False
  then have "w' = w" using assms(3) by (auto simp: machineReconcileNormal_def split: if_splits)
  then show ?thesis
    using addsObjects_same [OF assms(2)] False by (auto simp: joins_def)
next
  case True
  let ?rg = "KObj cluster"
  obtain r v where v: "createAll clk 0 ?rg w (machineObjects gm machine) = (r, v)" by fastforce
  note new = addsObjects_createAll [OF assms(1,2) machineObjects_plain v]
  then have ready: "groupReady sch ?rg v" by (simp add: addsObjects_def)
  show ?thesis
  proof (cases "maControlPlane machine")
    case False
    then have "w' = v" using assms(3) True v new by (auto simp: machineReconcileNormal_def Let_def)
    with new False show ?thesis
      by (auto simp: addsObjects_def joins_def otherObjects_def)
  next
    case cp: True
    then have r: "reconcileControlPlane mg pl clk rnd cluster gm v = (res, w')"
      using assms(3) True v new by (auto simp: machineReconcileNormal_def Let_def split: prod.splits)
    have same: "cloudObject ?rg v (etcdPodRef gm) = cloudObject ?rg w (etcdPodRef gm)"
    proof (cases "cloudObject ?rg v (etcdPodRef gm)")
      case (Some x)
      have "refOf obj \<noteq> etcdPodRef gm" if "obj \<in> snd ` set (machineObjects gm machine)" for obj
        using otherObjects_no_etcd(2) [of obj gm machine gm] that by (simp add: otherObjects_def)
      with Some new show ?thesis by (fastforce simp: addsObjects_def)
    next
      case None
      with new show ?thesis by (metis addsObjects_def domIff map_le_def)
    qed
    then have "podReadable sch ?rg gm v" using readable by (simp add: readable_def etcdPodRef_def)
    with same addsObjects_trans [OF conjunct2 [OF new] controlPlane_adds [OF assms(1) ready r]] True cp
    show ?thesis
      by (auto simp: joins_def otherObjects_def)
  qed
qed

section \<open>The pods of the members\<close>

definition memberRef :: "string \<Rightarrow> ownReference" where
  "memberRef n = \<lparr>refGVK = podGVK, refKey = \<lparr>nnNamespace = ''kube-system'', nnName = ''etcd-'' @ n\<rparr>\<rparr>"

definition memberPod :: "cloudBody scheme \<Rightarrow> string \<times> 32 word \<times> gotime \<Rightarrow> cloudBody object \<Rightarrow> bool" where
  "memberPod sch m v \<longleftrightarrow> (\<exists>gm cid now. gmName gm = fst m \<and> v = cloudStored sch (now, etcdPodObject gm (cid, fst (snd m)) (snd (snd m))))"

definition memberOf :: "string \<times> 32 word \<times> gotime \<Rightarrow> Member" where
  "memberOf m = \<lparr>mbID = ucast (fst (snd m)), mbName = fst m\<rparr>"

lemma memberRef_inject [simp]: "memberRef n = memberRef n' \<longleftrightarrow> n = n'"
  by (simp add: memberRef_def)

lemma etcdPodRef_memberRef: "etcdPodRef gm = memberRef (gmName gm)"
  by (simp add: etcdPodRef_simps memberRef_def)

lemma Atoi_word32: "Atoi (Itoa (uint (x :: 32 word))) = (uint x, True)"
proof (rule Atoi_Itoa)
  show "- (2 ^ 63) \<le> uint x" using uint_ge_0 [of x] by (rule order_trans [rotated]) simp
  have "uint x < 2 ^ 32" using uint_bounded [of x] by simp
  then show "uint x \<le> max_int64" by (simp add: max_int64_def)
qed

text \<open>What a request to etcd sees of such a pod.\<close>

lemma memberPod_view:
  assumes "memberPod sch m v"
  shows "listMatches etcdListOptions v" "podIDsOk v" "podMember v = memberOf m"
    "ObjectKeyFromObject v = refKey (memberRef (fst m))"
    "formattable (snd (snd m)) \<Longrightarrow> podLeaderFrom v = Some (truncSecond (snd (snd m)))"
    "word_of_int (podMemberID v) = mbID (memberOf m)"
    "registered v" "bodyGVK (oBody v) = podGVK"
proof -
  obtain gm cid now where v: "gmName gm = fst m" "v = cloudStored sch (now, etcdPodObject gm (cid, fst (snd m)) (snd (snd m)))"
    using assms by (auto simp: memberPod_def)
  note defs = cloudStored_def etcdPodObject_def controlPlanePod_def newObject_def Let_def
  have keys: "clusterIDAnnotation \<noteq> lastSyncTimeAnnotation" "memberIDAnnotation \<noteq> lastSyncTimeAnnotation"
    "leaderFromAnnotation \<noteq> lastSyncTimeAnnotation" "clusterIDAnnotation \<noteq> memberIDAnnotation" "clusterIDAnnotation \<noteq> leaderFromAnnotation"
    "memberIDAnnotation \<noteq> leaderFromAnnotation"
    by (simp_all add: clusterIDAnnotation_def memberIDAnnotation_def leaderFromAnnotation_def lastSyncTimeAnnotation_def)
  have ann: "mget_or '''' (GetAnnotations v) clusterIDAnnotation = Itoa (uint cid)"
    "mget_or '''' (GetAnnotations v) memberIDAnnotation = Itoa (uint (fst (snd m)))"
    "mget_or '''' (GetAnnotations v) leaderFromAnnotation = Format_RFC3339 (snd (snd m))"
    using keys by (simp_all add: v(2) defs GetAnnotations_def mget_or_def)
  have name: "oName v = ''etcd-'' @ fst m" "oNamespace v = ''kube-system''" "oLabels v = componentLabels ''etcd''"
    by (simp_all add: v(2) defs etcdMemberName_def v(1))
  show "registered v" "bodyGVK (oBody v) = podGVK" by (simp_all add: v(2) defs registered_def bodyGVK_def podGVK_def)
  show "listMatches etcdListOptions v"
    by (simp add: listMatches_def etcdListOptions_def MatchingLabels_def GetLabels_def name componentLabels_def)
  show "podIDsOk v" by (simp add: podIDsOk_def ann Atoi_word32)
  show id: "word_of_int (podMemberID v) = mbID (memberOf m)" by (simp add: podMemberID_def ann Atoi_word32 memberOf_def unsigned_ucast_eq)
  show "podMember v = memberOf m"
    using TrimPrefix_append [of "''etcd-''" "fst m"] id by (simp add: podMember_def memberOf_def name)
  show "ObjectKeyFromObject v = refKey (memberRef (fst m))" by (simp add: ObjectKeyFromObject_def memberRef_def name)
  show "podLeaderFrom v = Some (truncSecond (snd (snd m)))" if "formattable (snd (snd m))"
    using Parse_Format [OF that] by (simp add: podLeaderFrom_def ann)
qed

text \<open>Every member has its pod, and no other pod passes for one.\<close>

definition membersOk :: "cloudBody scheme \<Rightarrow> string \<Rightarrow> (string \<times> 32 word \<times> gotime) list \<Rightarrow> ('c, 'k, 'l) world \<Rightarrow> bool" where
  "membersOk sch rg ms w \<longleftrightarrow> groupReady sch rg w \<and> distinct (map fst ms)
     \<and> (\<forall>m\<in>set ms. \<exists>v. cloudObject rg w (memberRef (fst m)) = Some v \<and> memberPod sch m v)
     \<and> (\<forall>r v. refGVK r = podGVK \<longrightarrow> cloudObject rg w r = Some v \<longrightarrow>
          r \<in> memberRef ` fst ` set ms \<or> \<not> listMatches etcdListOptions v \<and> r \<notin> range memberRef)"

lemma membersOk_readable:
  assumes "cloudScheme sch" "membersOk sch rg ms w"
  shows "podReadable sch rg gm w"
  unfolding readable_def
proof (intro allI impI)
  let ?pod = "controlPlanePod (etcdMemberName gm) None"
  fix v assume v: "cloudObject rg w (refOf ?pod) = Some v"
  have r: "refOf ?pod = memberRef (gmName gm)" by (simp add: etcdPodRef_def [symmetric] etcdPodRef_memberRef)
  have "refGVK (memberRef (gmName gm)) = podGVK" by (simp add: memberRef_def)
  with v r assms(2) obtain m where "m \<in> set ms" "gmName gm = fst m" unfolding membersOk_def by fastforce
  with v r assms(2) have "memberPod sch m v" unfolding membersOk_def by (metis option.inject)
  note pod = memberPod_view(7,8) [OF this]
  have "registered (?pod\<lparr>oGVK := bodyGVK (oBody ?pod)\<rparr>)" "bodyGVK (oBody ?pod) = podGVK"
    using etcdPod_plain(1) by (simp_all add: plain_def registered_def controlPlanePod_def newObject_def bodyGVK_def podGVK_def)
  with pod assms(1) show "\<exists>o'. Convert sch v (?pod\<lparr>oGVK := bodyGVK (oBody ?pod)\<rparr>) = Inr o'" by (simp add: cloudScheme_def)
qed

lemma membersOk_step:
  assumes "cloudScheme sch" "membersOk sch (KObj cluster) ms w"
    and "machineReconcileNormal mg pl clk rnd cluster machine gm w = (res, gm1, w')"
  shows "membersOk sch (KObj cluster) (if joins cluster machine gm res w then (gmName gm, snd rnd, clk 2) # ms else ms) w'"
proof -
  let ?rg = "KObj cluster" and ?pod = "etcdPodObject gm rnd (clk 2)" and ?j = "joins cluster machine gm res w"
    and ?m = "(gmName gm, snd rnd, clk 2)" and ?r = "memberRef (gmName gm)"
  let ?ms = "if ?j then ?m # ms else ms"
  have ready: "groupReady sch ?rg w" using assms(2) by (simp add: membersOk_def)
  note adds = machine_adds [OF assms(1) ready assms(3) membersOk_readable [OF assms(1,2)]]
  have le: "cloudObject ?rg w \<subseteq>\<^sub>m cloudObject ?rg w'" and ready': "groupReady sch ?rg w'"
    using adds by (simp_all add: addsObjects_def)
  have ref: "refOf ?pod = ?r"
    by (simp add: etcdPodObject_plain(2) etcdPodRef_memberRef)
  have pod: "memberPod sch ?m (cloudStored sch (now, ?pod))" for now
    by (auto simp: memberPod_def intro!: exI [of _ gm] exI [of _ "fst rnd"])
  have new: "cloudObject ?rg w r = Some v
      \<or> (\<exists>obj\<in>otherObjects gm machine. \<exists>now. r = refOf obj \<and> v = cloudStored sch (now, obj))
      \<or> ?j \<and> r = ?r \<and> memberPod sch ?m v" if "cloudObject ?rg w' r = Some v" for r v
    using adds that pod unfolding addsObjects_def by (fastforce simp: ref split: if_splits)
  have other: "refOf obj \<notin> range memberRef" if "obj \<in> otherObjects gm machine" for obj
    using otherObjects_no_etcd(2) [OF that, of "gm\<lparr>gmName := _\<rparr>"] by (auto simp: etcdPodRef_memberRef)
  have old: "\<exists>v. cloudObject ?rg w' (memberRef (fst m)) = Some v \<and> memberPod sch m v" if "m \<in> set ms" for m
    using assms(2) that le unfolding membersOk_def map_le_def by (metis domI)
  have joined: "gmName gm \<notin> fst ` set ms \<and> (\<exists>v. cloudObject ?rg w' ?r = Some v \<and> memberPod sch ?m v)" if j: ?j
  proof -
    have free: "cloudObject ?rg w ?r = None" using j by (simp add: joins_def etcdPodRef_memberRef)
    obtain v where v: "cloudObject ?rg w' ?r = Some v" using adds j ref by (auto simp: addsObjects_def)
    have "?r \<noteq> refOf obj" if "obj \<in> otherObjects gm machine" for obj
      using other [OF that] by (metis rangeI)
    then have "memberPod sch ?m v" using new [OF v] free by auto
    moreover have "gmName gm \<notin> fst ` set ms" using assms(2) free by (force simp: membersOk_def)
    ultimately show ?thesis using v by blast
  qed
  have "r \<in> memberRef ` fst ` set ?ms \<or> \<not> listMatches etcdListOptions v \<and> r \<notin> range memberRef"
    if r: "refGVK r = podGVK" "cloudObject ?rg w' r = Some v" for r v
    using new [OF r(2)]
  proof (elim disjE bexE exE conjE)
    assume "cloudObject ?rg w r = Some v"
    then have "r \<in> memberRef ` fst ` set ms \<or> \<not> listMatches etcdListOptions v \<and> r \<notin> range memberRef"
      using assms(2) r(1) by (simp add: membersOk_def)
    then show ?thesis by auto
  next
    fix obj now assume obj: "obj \<in> otherObjects gm machine" "r = refOf obj" "v = cloudStored sch (now, obj)"
    show ?thesis
      unfolding obj(2,3) using other [OF obj(1)] otherObjects_no_etcd(1) [OF obj(1), of sch now] by simp
  qed auto
  moreover have "distinct (map fst ?ms)" using assms(2) joined by (simp add: membersOk_def)
  ultimately show ?thesis
    using ready' old joined unfolding membersOk_def by auto
qed

section \<open>What etcd answers\<close>

text \<open>How the scheme treats a list of pods: it knows its kind, and pods can be set as its items.\<close>

definition servesPods :: "cloudBody scheme \<Rightarrow> bool" where
  "servesPods sch \<longleftrightarrow> (\<forall>l. lType l = Typed \<and> lGVK l = podListGVK \<longrightarrow> GVKForList sch l = Inr podListGVK)
     \<and> (\<forall>l items. lType l = Typed \<and> lGVK l = podListGVK \<and> (\<forall>v\<in>set items. registered v \<and> bodyGVK (oBody v) = podGVK) \<longrightarrow>
          SetList sch l items = Inr (l\<lparr>lItems := items\<rparr>))"

lemma machineRuns_ok:
  assumes "machineRuns clock rg w0 ms w" "cloudScheme sch" "membersOk sch rg [] w0"
  shows "membersOk sch rg ms w \<and> worldAdvances clock w0 w \<and> (\<forall>m\<in>set ms. clock (snd (snd m)))"
  using assms
proof (induction rule: machineRuns.induct)
  case start
  then show ?case by simp
next
  case (run ms w clk cluster mg pl rnd machine gm res gm1 w')
  then have ih: "membersOk sch rg ms w" "worldAdvances clock w0 w" "\<forall>m\<in>set ms. clock (snd (snd m))" by blast+
  have "worldAdvances clock w w'" using machineReconcileNormal_advances [of clock clk, OF run.hyps(2,4)] .
  with ih(2) have "worldAdvances clock w0 w'" by (rule worldAdvances_trans)
  moreover have "membersOk sch rg (if joins cluster machine gm res w then (gmName gm, snd rnd, clk 2) # ms else ms) w'"
    using membersOk_step [OF run.prems(1) _ run.hyps(4)] ih(1) run.hyps(3) by simp
  ultimately show ?case using ih(3) run.hyps(2) by simp
qed

lemma membersOk_pods:
  fixes w :: "('c, 'k, 'l) world"
  assumes "membersOk sch rg ms w" "servesPods sch" "reachableCache sch clock (cacheOf w)"
  shows "\<exists>items. etcdPods (wManager w) rg blank = (Inr (), Some \<lparr>lType = Typed, lGVK = podListGVK, lItems = items\<rparr>)
    \<and> distinct (map ObjectKeyFromObject items)
    \<and> (\<forall>v\<in>set items. \<exists>m\<in>set ms. memberPod sch m v) \<and> (\<forall>m\<in>set ms. \<exists>v\<in>set items. memberPod sch m v)"
proof -
  let ?l = "\<lparr>lType = Typed, lGVK = podListGVK, lItems = []\<rparr>"
  obtain t where t: "resourceGroupTracker_of (cacheOf w) rg = Some t" "rg \<noteq> ''''"
    using assms(1) by (auto simp: membersOk_def groupReady_def)
  have kind: "podListGVK\<lparr>gvkKind := TrimSuffix (gvkKind podListGVK) ''List''\<rparr> = podGVK"
    using TrimSuffix_append [of "''Pod''" "''List''"] by (simp add: podListGVK_def podGVK_def)
  have at: "getObject t podGVK key = cloudObject rg w \<lparr>refGVK = podGVK, refKey = key\<rparr>" for key
    by (simp add: cloudObject_def cloudLookup_def cloudOf_def t(1))
  have gvk: "GVKForList sch ?l = Inr podListGVK"
    using assms(2) by (simp add: servesPods_def)
  have l: "?l\<lparr>lGVK := podListGVK\<rparr> = ?l" by simp
  from List_typed [OF assms(3) t(2) gvk _ t(1), of blank etcdListOptions, unfolded kind at l]
  obtain items where listed: "List (cacheOf w) rg blank (Some ?l) etcdListOptions =
        (case SetList sch ?l items of Inl e \<Rightarrow> (Inl (InternalError e), Some ?l) | Inr l2 \<Rightarrow> (Inr (), Some l2))"
    and keys: "distinct (map ObjectKeyFromObject items)"
    and set_items: "set items = {v. (\<exists>key. cloudObject rg w \<lparr>refGVK = podGVK, refKey = key\<rparr> = Some v)
       \<and> (loNamespace etcdListOptions = '''' \<or> oNamespace v = loNamespace etcdListOptions)
       \<and> (\<forall>sel. loLabelSelector etcdListOptions = Some sel \<longrightarrow> selEmpty sel \<or> selMatches sel (GetLabels v))}"
    by auto
  have items: "v \<in> set items \<longleftrightarrow> (\<exists>key. cloudObject rg w \<lparr>refGVK = podGVK, refKey = key\<rparr> = Some v) \<and> listMatches etcdListOptions v" for v
    unfolding set_items by (auto simp: listMatches_def split: option.splits)
  have pods: "\<exists>m\<in>set ms. memberPod sch m v" if v: "v \<in> set items" for v
  proof -
    obtain key where key: "cloudObject rg w \<lparr>refGVK = podGVK, refKey = key\<rparr> = Some v" "listMatches etcdListOptions v"
      using v items by blast
    moreover have "\<lparr>refGVK = podGVK, refKey = key\<rparr> \<in> memberRef ` fst ` set ms \<or> \<not> listMatches etcdListOptions v"
      using assms(1) key(1) unfolding membersOk_def by (metis ownReference.select_convs(1))
    ultimately obtain m where "m \<in> set ms" "\<lparr>refGVK = podGVK, refKey = key\<rparr> = memberRef (fst m)"
      by blast
    with key(1) assms(1) show ?thesis unfolding membersOk_def by (metis option.inject)
  qed
  moreover have "\<exists>v\<in>set items. memberPod sch m v" if m: "m \<in> set ms" for m
  proof -
    obtain v where v: "cloudObject rg w (memberRef (fst m)) = Some v" "memberPod sch m v"
      using assms(1) m by (auto simp: membersOk_def)
    then have "v \<in> set items"
      unfolding items memberRef_def using memberPod_view(1) [OF v(2)] by blast
    with v(2) show ?thesis by blast
  qed
  moreover have "\<forall>v\<in>set items. registered v \<and> bodyGVK (oBody v) = podGVK"
    using pods memberPod_view(7,8) by blast
  then have "SetList sch ?l items = Inr (?l\<lparr>lItems := items\<rparr>)"
    using assms(2) unfolding servesPods_def by simp
  ultimately show ?thesis
    using listed keys pods by (simp add: etcdPods_def)
qed

text \<open>What the pods of the members say together: one member for each machine, and a leader that took over last.\<close>

lemma memberPods_members:
  assumes keys: "distinct (map ObjectKeyFromObject items)"
    and items: "\<And>v. v \<in> set items \<Longrightarrow> \<exists>m\<in>set ms. memberPod sch m v" "\<And>m. m \<in> set ms \<Longrightarrow> \<exists>v\<in>set items. memberPod sch m v"
  shows "distinct (map mbName (map podMember items))" and "set (map podMember items) = memberOf ` set ms"
proof -
  have "ObjectKeyFromObject v = refKey (memberRef (mbName (podMember v)))" if "v \<in> set items" for v
    using items(1) [OF that] by (auto simp: memberPod_view(3,4) memberOf_def)
  then have "map ObjectKeyFromObject items = map (\<lambda>n. refKey (memberRef n)) (map mbName (map podMember items))"
    by simp
  with keys show "distinct (map mbName (map podMember items))" by (metis distinct_map)
  show "set (map podMember items) = memberOf ` set ms"
  proof (intro set_eqI iffI)
    fix x assume "x \<in> set (map podMember items)"
    then obtain v where v: "v \<in> set items" "x = podMember v" by auto
    with items(1) [OF v(1)] memberPod_view(3) show "x \<in> memberOf ` set ms" by blast
  next
    fix x assume "x \<in> memberOf ` set ms"
    then obtain m where m: "m \<in> set ms" "x = memberOf m" by auto
    moreover obtain v where v: "v \<in> set items" "memberPod sch m v" using items(2) [OF m(1)] by blast
    ultimately show "x \<in> set (map podMember items)" using memberPod_view(3) [OF v(2)] by (auto intro: rev_image_eqI)
  qed
qed

lemma memberPods_leader:
  assumes times: "\<And>m. m \<in> set ms \<Longrightarrow> formattable (snd (snd m)) \<and> nsSecond \<le> snd (snd m)"
    and items: "\<And>v. v \<in> set items \<Longrightarrow> \<exists>m\<in>set ms. memberPod sch m v" "\<And>m. m \<in> set ms \<Longrightarrow> \<exists>v\<in>set items. memberPod sch m v"
    and leader: "(\<forall>pod\<in>set items. \<forall>t. podLeaderFrom pod = Some t \<longrightarrow> t \<le> 0) \<and> leaderID = 0
      \<or> (\<exists>pod\<in>set items. \<exists>t>0. podLeaderFrom pod = Some t \<and> leaderID = word_of_int (podMemberID pod)
           \<and> (\<forall>pod'\<in>set items. \<forall>t'. podLeaderFrom pod' = Some t' \<longrightarrow> t' \<le> t))"
  shows "if ms = [] then leaderID = 0
    else \<exists>m\<in>set ms. leaderID = mbID (memberOf m) \<and> (\<forall>m'\<in>set ms. truncSecond (snd (snd m')) \<le> truncSecond (snd (snd m)))"
proof (cases "ms = []")
  case True
  then have "items = []" using items(1) by (cases items) auto
  with leader True show ?thesis by simp
next
  case False
  have since: "podLeaderFrom v = Some (truncSecond (snd (snd m)))" "0 < truncSecond (snd (snd m))" if "m \<in> set ms" "memberPod sch m v" for m v
    using times [OF that(1)] memberPod_view(5) [OF that(2)] truncSecond_gt [of "snd (snd m)"] by auto
  obtain m0 v0 where 0: "m0 \<in> set ms" "v0 \<in> set items" "memberPod sch m0 v0"
    using False items(2) by (metis list.set_intros(1) neq_Nil_conv)
  with since [OF 0(1,3)] leader obtain pod t where l: "pod \<in> set items" "podLeaderFrom pod = Some t"
    "leaderID = word_of_int (podMemberID pod)" "\<And>v t'. v \<in> set items \<Longrightarrow> podLeaderFrom v = Some t' \<Longrightarrow> t' \<le> t"
    by force
  obtain m where m: "m \<in> set ms" "memberPod sch m pod" using items(1) [OF l(1)] by blast
  have "truncSecond (snd (snd m')) \<le> truncSecond (snd (snd m))" if "m' \<in> set ms" for m'
    using items(2) [OF that] since(1) [OF that] since(1) [OF m] l(2,4) by fastforce
  with False m l(3) memberPod_view(6) [OF m(2)] show ?thesis by auto
qed

text \<open>
  C2. The etcd cluster that a control plane makes: in a process reached from its start, take a cluster whose resource group exists, holds no pods
  yet and is what the address \<open>addr\<close> resolves to. Reconcile machines of the cluster, any of them, in any order, repeatedly, with whatever errors
  on the way. Then a member list requested on \<open>addr\<close> has exactly one member for each control plane machine that was reconciled
  successfully, with the name of the machine and the identifier that was drawn for it, and the status names as leader a member whose
  leadership started last, to the second.
\<close>

theorem etcd_members_of_control_plane:
  fixes w0 w :: "('c, 'k, 'l) world"
  assumes "cloudScheme sch" "servesPods sch" "\<forall>t. clock t \<longrightarrow> formattable t \<and> nsSecond \<le> t"
    and "reachableWorld sch host clock saved (hr, w0)" "wellSaved host saved"
    and "resourceGroupResolver (wMux w0) addr = Inr rg" "rg \<noteq> ''''"
    and "resourceGroupTracker_of (cacheOf w0) rg = Some t" "\<forall>key. getObject t podGVK key = None"
    and "machineRuns clock rg w0 ms w"
    and "ecLocalAddr ctx = addr" "ecAuthority ctx = Some authority"
  shows "\<exists>ml sr. NewEtcdServerHandler (wManager w) (resourceGroupResolver (wMux w)) blank MemberListRequest ctx = Inr (MemberListAnswer ml)
    \<and> NewEtcdServerHandler (wManager w) (resourceGroupResolver (wMux w)) blank StatusRequest ctx = Inr (StatusAnswer sr)
    \<and> distinct (map mbName (mlMembers ml)) \<and> set (mlMembers ml) = (\<lambda>(n, id, from). \<lparr>mbID = ucast id, mbName = n\<rparr>) ` set ms
    \<and> (if ms = [] then srLeader sr = 0
       else \<exists>(n, id, from)\<in>set ms. srLeader sr = ucast id \<and> (\<forall>(n', id', from')\<in>set ms. truncSecond from' \<le> truncSecond from))"
proof -
  have ok0: "worldOk sch host clock saved (hr, w0)" using assms(4,5) by (rule reachableWorld_ok)
  have "cScheme (cacheOf w0) = sch" using ok0 distinctKeys.reachable_scheme by (auto simp: worldOk_def)
  then have "membersOk sch rg [] w0"
    using assms(7-9) by (auto simp: membersOk_def groupReady_def cloudObject_def cloudLookup_def cloudOf_def)
  with machineRuns_ok [OF assms(10,1)]
  have runs: "membersOk sch rg ms w" "worldAdvances clock w0 w" "\<And>m. m \<in> set ms \<Longrightarrow> clock (snd (snd m))" by blast+
  have "reachableCache sch clock (cacheOf w)" using runs(2) ok0 by (simp add: worldAdvances_def advances_def worldOk_def)
  from membersOk_pods [OF runs(1) assms(2) this, of blank] obtain items where
    pods: "etcdPods (wManager w) rg blank = (Inr (), Some \<lparr>lType = Typed, lGVK = podListGVK, lItems = items\<rparr>)"
    and keys: "distinct (map ObjectKeyFromObject items)"
    and items: "\<And>v. v \<in> set items \<Longrightarrow> \<exists>m\<in>set ms. memberPod sch m v" "\<And>m. m \<in> set ms \<Longrightarrow> \<exists>v\<in>set items. memberPod sch m v"
    by blast
  have res: "resourceGroupResolver (wMux w) (ecLocalAddr ctx) = Inr rg"
    using runs(2) assms(6,11) by (simp add: worldAdvances_def resourceGroupResolver_def)
  have "\<forall>v\<in>set (lItems \<lparr>lType = Typed, lGVK = podListGVK, lItems = items\<rparr>). podIDsOk v"
    using items(1) memberPod_view(2) by fastforce
  from etcd_members_and_leader [of "resourceGroupResolver (wMux w)", OF res assms(12) pods this] obtain ml sr where
    answers: "MemberList (resourceGroupResolver (wMux w)) (wManager w) blank ctx = Inr ml"
      "Status (resourceGroupResolver (wMux w)) (wManager w) blank ctx = Inr sr" and members: "mlMembers ml = map podMember items"
    and leader: "(\<forall>pod\<in>set items. \<forall>t. podLeaderFrom pod = Some t \<longrightarrow> t \<le> 0) \<and> srLeader sr = 0
      \<or> (\<exists>pod\<in>set items. \<exists>t>0. podLeaderFrom pod = Some t \<and> srLeader sr = word_of_int (podMemberID pod)
           \<and> (\<forall>pod'\<in>set items. \<forall>t'. podLeaderFrom pod' = Some t' \<longrightarrow> t' \<le> t))"
    by auto
  have "formattable (snd (snd m)) \<and> nsSecond \<le> snd (snd m)" if "m \<in> set ms" for m
    using assms(3) runs(3) [OF that] by blast
  from memberPods_leader [OF this items leader] answers memberPods_members [OF keys items] members show ?thesis
    by (auto simp: NewEtcdServerHandler_def memberOf_def case_prod_unfold)
qed

text \<open>A cluster that was just reconciled, and its first control plane machine.\<close>

lemma freshCluster:
  "\<exists>res gcl w h. clusterReconcile sampleManagement \<lparr>nnNamespace = ''default'', nnName = ''c1''\<rparr> startedWorld = (res, gcl, True, w)
     \<and> resourceGroupResolver (wMux w) h = Inr (KObj sampleCluster) \<and> groupReady sampleCloudScheme (KObj sampleCluster) w
     \<and> resourceGroupTracker_of (cacheOf w) (KObj sampleCluster) = Some emptyTracker
     \<and> (\<exists>wcl. mget (workloadClusterListeners (wMux w)) (KObj sampleCluster) = Some wcl)"
  by (simp add: startedWorld_def startCloud_def managerStart_def managerNew_def Start_def NewCache_def startGarbageCollector_def
      startSyncer_def clusterReconcile_def sampleManagement_def sampleGoofyCluster_def reconcileHotRestart_def HotRestart_def deferPatch_def
      clusterReconcileNormal_def Let_def InitWorkloadClusterListener_def NewWorkloadClustersMux_def getFreePortLocked_def minPort_def
      maxPort_def initWorkloadClusterListenerWithPortLocked_def resourceGroupResolver_def groupReady_def KObj_def KRef_def sampleCluster_def
      managerAddResourceGroup_def AddResourceGroup_def resourceGroupTracker_of_def HostPort_def exI [of _ "JoinHostPort ''10.0.0.1'' (Itoa 20000)"])

definition sampleTimes :: "gotime \<Rightarrow> bool" where
  "sampleTimes t \<longleftrightarrow> formattable t \<and> nsSecond \<le> t"

theorem etcd_members_of_control_plane_witness:
  "\<exists>w0 gm1 w h ml sr. reachableWorld sampleCloudScheme ''10.0.0.1'' sampleTimes [] (True, w0)
     \<and> sampleReconcile nsMinute sampleGoofyMachine w0 = (Inr (), gm1, w)
     \<and> NewEtcdServerHandler (wManager w) (resourceGroupResolver (wMux w)) (newObject '''' '''' None ConfigMapBody) MemberListRequest
         \<lparr>ecLocalAddr = h, ecAuthority = Some [''etcd-gm1'']\<rparr> = Inr (MemberListAnswer ml) \<and> mlMembers ml = [\<lparr>mbID = 2, mbName = ''gm1''\<rparr>]
     \<and> NewEtcdServerHandler (wManager w) (resourceGroupResolver (wMux w)) (newObject '''' '''' None ConfigMapBody) StatusRequest
         \<lparr>ecLocalAddr = h, ecAuthority = Some [''etcd-gm1'']\<rparr> = Inr (StatusAnswer sr) \<and> srLeader sr = 2"
proof -
  obtain res gcl w0 h where c: "clusterReconcile sampleManagement \<lparr>nnNamespace = ''default'', nnName = ''c1''\<rparr> startedWorld = (res, gcl, True, w0)"
    and w0: "resourceGroupResolver (wMux w0) h = Inr (KObj sampleCluster)" "groupReady sampleCloudScheme (KObj sampleCluster) w0"
      "resourceGroupTracker_of (cacheOf w0) (KObj sampleCluster) = Some emptyTracker"
      "\<exists>wcl. mget (workloadClusterListeners (wMux w0)) (KObj sampleCluster) = Some wcl"
    using freshCluster by blast
  have "restartsFrom [] sampleManagement (fst startedWorld)" by (simp add: restartsFrom_def sampleManagement_def)
  with c have reach: "reachableWorld sampleCloudScheme ''10.0.0.1'' sampleTimes [] (True, w0)"
    using reachableWorld.step [OF reachableWorld.start [OF startedWorld_set_up]] worldStep.cluster by blast
  have "podReadable sampleCloudScheme (KObj sampleCluster) sampleGoofyMachine w0"
    using w0(3) by (simp add: readable_def cloudObject_def cloudLookup_def cloudOf_def emptyTracker_def getObject_def)
  then obtain gm1 w where r: "sampleReconcile nsMinute sampleGoofyMachine w0 = (Inr (), gm1, w)"
    using w0(4) reconcile_succeeds [OF sampleCloudScheme_ok w0(2) _ _ sampleMachine_facts(6,4,4,5,5)] by blast
  have "joins sampleCluster sampleMachine sampleGoofyMachine (Inr ()) w0"
    using sampleMachine_facts w0(3)
    by (simp add: joins_def cloudObject_def cloudLookup_def cloudOf_def emptyTracker_def getObject_def)
  moreover have time: "sampleTimes nsMinute" by (simp add: sampleTimes_def formattable_def nsMinute_def nsSecond_def)
  ultimately have runs: "machineRuns sampleTimes (KObj sampleCluster) w0 [(''gm1'', 2, nsMinute)] w"
    using machineRuns.run [OF machineRuns.start _ refl r, of sampleTimes] by (simp add: sampleGoofyMachine_def)
  have lists: "servesPods sampleCloudScheme" by (simp add: servesPods_def sampleCloudScheme_def podListGVK_def podGVK_def)
  have times: "\<forall>t. sampleTimes t \<longrightarrow> formattable t \<and> nsSecond \<le> t" by (simp add: sampleTimes_def)
  have well: "wellSaved ''10.0.0.1'' []" by (simp add: wellSaved_def)
  have name: "KObj sampleCluster \<noteq> ''''" by (simp add: KObj_def KRef_def sampleCluster_def)
  have "\<forall>key. getObject emptyTracker podGVK key = None" by (simp add: getObject_def emptyTracker_def)
  from etcd_members_of_control_plane [OF sampleCloudScheme_ok lists times reach well w0(1) name w0(3) this runs,
      of "\<lparr>ecLocalAddr = h, ecAuthority = Some [''etcd-gm1'']\<rparr>" "[''etcd-gm1'']" "newObject '''' '''' None ConfigMapBody"]
  obtain ml sr where a: "NewEtcdServerHandler (wManager w) (resourceGroupResolver (wMux w)) (newObject '''' '''' None ConfigMapBody) MemberListRequest
         \<lparr>ecLocalAddr = h, ecAuthority = Some [''etcd-gm1'']\<rparr> = Inr (MemberListAnswer ml)"
    "NewEtcdServerHandler (wManager w) (resourceGroupResolver (wMux w)) (newObject '''' '''' None ConfigMapBody) StatusRequest
         \<lparr>ecLocalAddr = h, ecAuthority = Some [''etcd-gm1'']\<rparr> = Inr (StatusAnswer sr)"
    "distinct (map mbName (mlMembers ml))" "set (mlMembers ml) = {\<lparr>mbID = 2, mbName = ''gm1''\<rparr>}" "srLeader sr = 2"
    by auto
  have "mlMembers ml = [\<lparr>mbID = 2, mbName = ''gm1''\<rparr>]"
    using a(3,4) by (cases "mlMembers ml") (auto simp: subset_singleton_iff)
  with a reach r show ?thesis by blast
qed

end
