(* ===== verification/Spec2Isabelle.thy ===== *)
theory Spec2Isabelle
  imports Cache_Refinement Lock_Properties Deletion_Properties Loop_Properties Runtime_Properties Etcd_Properties API_Properties Proxy_Properties Mux_Refinement Goofy_World Deep_Copy_Properties Rest_Client Hot_Restart Setup_Properties API_Scheme Debug_Server Etcd_World
begin

text \<open>
  A verification development for \<^verbatim>\<open>cluster-api-provider-goofy\<close>, a Cluster API infrastructure provider that has no
  infrastructure: it keeps the objects of every workload cluster in memory and answers for their API servers and etcd members.

  \<^bold>\<open>The program.\<close> Two reconcilers (\<^verbatim>\<open>internal/controllers\<close>) watch GoofyClusters and GoofyMachines in the management
  cluster. A cluster reconcile adds a resource group to the cloud manager and a listener to the mux, and surfaces the address of the
  listener; a machine reconcile creates the objects of the machine in the resource group (cloud machine, node, control plane pods, kubeadm
  objects) and registers its API server and etcd member with the mux. The cloud manager (\<^verbatim>\<open>internal/cloud/runtime\<close>) holds the
  cache of objects with its garbage collector and syncer, and controllers that are fed by informers. The mux
  (\<^verbatim>\<open>internal/server\<close>) resolves the host of a request to a resource group and hands the request to the fake API server or the
  fake etcd, which read and write the cache. A port forward through the API server leads back to the same mux.

  \<^bold>\<open>Theories and sources.\<close>
  \<^item> \<open>Go_Prelude\<close>, \<open>Go_Time\<close>: what the sources use of Go: maps (association lists with unique keys, so that iteration has an
    order the theorems do not depend on), sets, \<^verbatim>\<open>strconv\<close>, \<^verbatim>\<open>strings\<close>, 64 bit integers, times in RFC 3339.
  \<^item> \<open>Cache_Types\<close>, \<open>Cache_Client\<close>, \<open>Cache_Loops\<close>: \<^verbatim>\<open>runtime/cache\<close> (\<^verbatim>\<open>cache.go\<close>, \<^verbatim>\<open>hooks.go\<close>, \<^verbatim>\<open>informer.go\<close>;
    \<^verbatim>\<open>client.go\<close>; \<^verbatim>\<open>gc.go\<close>, \<^verbatim>\<open>sync.go\<close>). The state is the record \<open>cache\<close>; one definition per method
    returns the error or result, the cache, the object of the caller and the queue calls. A method that holds the lock of its tracker is one step.
  \<^item> \<open>Runtime_Events\<close>, \<open>Controller_Runtime\<close>: events, predicates, handlers, sources, the controller and its work items, the builder, resource
    groups and the manager.
  \<^item> \<open>Mux\<close>: \<^verbatim>\<open>mux.go\<close>, \<^verbatim>\<open>listener.go\<close>, \<^verbatim>\<open>certs.go\<close>. \<open>Etcd_Server\<close>: \<^verbatim>\<open>etcd/handler.go\<close>.
    \<open>API_Server\<close>: \<^verbatim>\<open>api/handler.go\<close>, \<^verbatim>\<open>api/const.go\<close>, \<^verbatim>\<open>api/debug.go\<close>. \<open>Port_Forward\<close>:
    \<^verbatim>\<open>portforward/httpstreams.go\<close> and the handler that starts it. \<open>Proxy_Dial\<close>: \<^verbatim>\<open>proxy\<close>.
    \<open>Rest_Client\<close>: \<^verbatim>\<open>RESTConfig\<close> and \<^verbatim>\<open>GetClient\<close> of \<^verbatim>\<open>listener.go\<close>. \<open>Debug_Server\<close>: \<^verbatim>\<open>api/debug.go\<close>.
  \<^item> \<open>Resource_Store\<close>, \<open>Goofy_Controllers\<close>: the two reconcilers and the client contract they rely on. \<open>Goofy_Setup\<close>: their
    registration (\<^verbatim>\<open>SetupWithManager\<close>, \<^verbatim>\<open>controllers/alias.go\<close>) and the webhooks. \<open>Process_Main\<close>: \<^verbatim>\<open>main.go\<close>, from the
    flags to the start of the controller manager.
  \<^item> \<open>Copy_Heap\<close>, \<open>Deep_Copy\<close>: a memory with pointers, slices and arrays, the API types as they lie in it and the generated copies
    (\<^verbatim>\<open>zz_generated.deepcopy.go\<close> of both packages), method by method. \<open>API_Scheme\<close>: what \<^verbatim>\<open>groupversion_info.go\<close> and the
    \<^verbatim>\<open>init\<close> functions register, and the schemes of \<^verbatim>\<open>main.go\<close>; every type is recognized in the scheme it belongs to.

  \<^bold>\<open>What is proved.\<close>
  \<^item> \<open>Cache_Store\<close>, \<open>Cache_Delete\<close>, \<open>Cache_Invariant\<close> hold the shared lemmas: a case analysis of a store, an induction rule for deletions, the step
    relation \<open>cacheStep\<close> and locales in which a property of the hooks becomes a property of all reachable caches (\<open>tracker_invariant\<close>,
    \<open>object_invariant\<close>) or of all steps (\<open>object_evolution\<close>). \<open>Cache_Samples\<close> has the caches the witnesses run on.
  \<^item> \<open>Cache_Properties\<close>: objects are well formed, errors change nothing, resource groups are isolated, the ownership index is exact, Create
    and Get, Update, List, Patch. \<open>Cache_Refinement\<close>: on any reachable cache, any sequence of Create, Update, Patch and Get and of adding and
    deleting resource groups behaves as on an abstract map of objects, where only a Patch of nil crashes (locale
    \<open>functional_refinement\<close>, in \<open>Refinement\<close>); Delete and List have properties of their own. \<open>Deletion_Properties\<close>: what Delete removes, marks and leaves alone, when it returns and when it does not.
    \<open>Loop_Properties\<close>: the work items of garbage collector and syncer. \<open>Lock_Properties\<close>: the operations as sequences of lock
    operations (\<open>Cache_Locks\<close>, with the rules of \<^verbatim>\<open>sync.RWMutex\<close>): all of them but the sync loop can not deadlock; the sync loop can.
  \<^item> \<open>Runtime_Properties\<close>: a controller that was built and started gets a request for each create, update, delete and generic event of its
    kind, on every cache from then on (step relation \<open>runsOn\<close>). \<open>Mux_Properties\<close>: hosts, ports and certificates of every reachable
    mux; \<open>Mux_Refinement\<close>: any sequence of requests is answered as by an allocator of consecutive ports. \<open>Etcd_Properties\<close>, \<open>API_Properties\<close>: the answers of the two servers. \<open>Port_Forward_Properties\<close>: all interleavings of the goroutines
    of a port forward (step relation \<open>pfStep\<close>); \<open>Proxy_Properties\<close>: the client against the server.
  \<^item> \<open>Goofy_Properties\<close>: the reconcilers, proved over the locale \<open>create_store\<close>, which the cache satisfies. \<open>Goofy_World\<close>: the process as a
    whole (step relation \<open>worldStep\<close> from \<^verbatim>\<open>setupReconcilers\<close> of \<^verbatim>\<open>main.go\<close> on) and its invariant, for a first process and for one that
    replaces another. \<open>Mux_Restart\<close>, \<open>Hot_Restart\<close>: a restarted process resolves the hosts it resolved before; a restart that fails half way is final. \<open>Setup_Properties\<close>: what is registered when the manager starts, and the requests events lead to.
    This theory: from a reconcile to an answer of the API server. \<open>Etcd_World\<close>: from reconciles of control plane machines to the members
    that etcd answers with.
  \<^item> \<open>Rest_Client\<close>: every reachable listener that serves has the credentials of its clients. \<open>Debug_Server\<close>: the debug server lists
    exactly the addresses the mux resolves. \<open>Deep_Copy_Properties\<close>: every copy meets the
    contract \<open>deep_copier\<close>: well typed, equal to the original and without shared cells.

  \<^bold>\<open>Fuel.\<close> The recursion of Delete follows the ownership index, which clients can make cyclic; the definition takes fuel and \<open>None\<close>
    means that it ran out. On an acyclic index one more than the number of its entries (\<open>deleteFuel\<close>) is enough, since a path visits
    an entry once; \<open>Deletion_Properties\<close> proves that Delete then returns, and that on a cycle it does not return with any fuel. Nothing else takes fuel.

  \<^bold>\<open>Parameters.\<close> Code of other modules is an argument of the definitions: the scheme and its codecs (record \<open>scheme\<close>), cryptography, TCP
  listeners (\<open>platform\<close>), the REST and SPDY libraries (\<open>apiLibrary\<close>, \<open>portForwardLibrary\<close>, \<open>dialLibrary\<close>, \<open>restLibrary\<close>), the client of the management cluster
  (\<open>management\<close>), the controller manager (\<open>setupLibrary\<close>, \<open>mainLibrary\<close>), scheme builders (\<open>schemeAdder\<close>), the copies of structs of other modules (\<open>copyLibrary\<close>). What a theorem needs of them is a named hypothesis, and its witness has an instance.

  \<^bold>\<open>Objects as values.\<close> Outside \<open>Copy_Heap\<close> and \<open>Deep_Copy\<close> an object is a value. The code copies an object when it stores it and when it
  lists it (\<^verbatim>\<open>DeepCopyObject\<close>), and a Get converts the stored object into the one of the caller, for a registered type by a deep copy. A deletion and a
  sync change the stored object in place and hand it to the handlers of its kind; the theories show these handlers as
  functions of the value, as \<^verbatim>\<open>EnqueueRequestForObject\<close> is, which only reads a name. A handler that changes the object it is given, and
  so the cache, is outside the model.

  \<^bold>\<open>Not modelled.\<close> Logging; the transport of requests and the matching of routes by the router; the rate limiter inside a work queue;
  interface declarations and names exported from other packages, of which the theories have the implementations; package documentation.
\<close>

section \<open>From a reconcile to the API of the workload cluster\<close>

text \<open>
  How the scheme treats unstructured objects: one with a version and a kind has that kind, and an object of a registered type converts to
  unstructured form with its content and the kind of its type.
\<close>

definition servesUnstructured :: "cloudBody scheme \<Rightarrow> bool" where
  "servesUnstructured sch \<longleftrightarrow>
     (\<forall>obj. oType obj = Unstructured \<and> gvkVersion (oGVK obj) \<noteq> '''' \<and> gvkKind (oGVK obj) \<noteq> '''' \<longrightarrow> GVKForObject sch obj = Inr (oGVK obj))
     \<and> (\<forall>a b. registered a \<and> oType b = Unstructured \<longrightarrow> Convert sch a b = Inr (a\<lparr>oType := Unstructured, oGVK := bodyGVK (oBody a)\<rparr>))
     \<and> ParseGroupVersion sch ''v1'' = Some ('''', ''v1'')"

definition nodeRequest :: "string \<Rightarrow> string \<Rightarrow> restRequest" where
  "nodeRequest host name = \<lparr>rqHost = host, rqPathParameters = [(''resource'', ''nodes''), (''name'', name)], rqBody = '''', rqContentType = ''''\<rparr>"

lemma nodeRequest_host [simp]: "rqHost (nodeRequest host name) = host"
  by (simp add: nodeRequest_def)

lemma nodeRequest_gvk:
  "pgv ''v1'' = Some ('''', ''v1'') \<Longrightarrow> requestToGVK pgv (nodeRequest host name) = Inr \<lparr>gvkGroup = '''', gvkVersion = ''v1'', gvkKind = ''Node''\<rparr>"
  by (simp add: requestToGVK_def getAPIResourceList_def nodeRequest_def PathParameter_def mget_or_def corev1APIResourceList_def)

text \<open>
  C1. The parts together: a cluster is reconciled from scratch and surfaces an endpoint; a machine of the cluster is reconciled; then a
  client that asks the endpoint for the node with the name of the machine is answered with this node (if the answer can be written), ready and
  with the provider identifier that the machine carries.
\<close>

theorem reconciled_node_served:
  assumes "cloudScheme sch" "servesUnstructured sch"
    and "mgrScheme (wManager w) = sch" "cScheme (mgrCache (wManager w)) = sch" "reachableMux host (wMux w)"
    and "gclAnnotations gcl = Some ann" "gclHost gcl = ''''" "clusterReconcileNormal cluster gcl w = (Inr (), gcl1, w1)"
    and "KObj cluster \<noteq> ''''" "cluInfrastructureReady cluster" "maDataSecretName machine = Some secret" "gmName gm \<noteq> ''''"
    and "machineReconcileNormal mg pl clock rnd cluster machine gm w1 = (Inr (), gm1, w2)"
    and "cloudObject (KObj cluster) w1 (refOf (nodeObject gm machine)) = None"
  shows "\<exists>node. apiV1Get lib (NewAPIServerHandler (wManager w2) (resourceGroupResolver (wMux w2)))
        (nodeRequest (JoinHostPort (gclHost gcl1) (Itoa (gclPort gcl1))) (gmName gm)) = WriteEntity lib (ObjectEntity node)
     \<and> oType node = Unstructured \<and> oGVK node = \<lparr>gvkGroup = '''', gvkVersion = ''v1'', gvkKind = ''Node''\<rparr>
     \<and> oName node = gmName gm \<and> oBody node = NodeBody (the (gmProviderID gm1)) [(''Ready'', ''True'')]"
proof -
  let ?rg = "KObj cluster" and ?n = "nodeObject gm machine" and ?host = "JoinHostPort (gclHost gcl1) (Itoa (gclPort gcl1))"
  let ?gvk = "\<lparr>gvkGroup = '''', gvkVersion = ''v1'', gvkKind = ''Node''\<rparr>"
  have c: "resourceGroupTracker_of (mgrCache (wManager w1)) ?rg \<noteq> None" "resourceGroupResolver (wMux w1) ?host = Inr ?rg"
      "mgrScheme (wManager w1) = sch" "cScheme (mgrCache (wManager w1)) = sch"
    using clusterReconcile_endpoint [OF assms(5-8)] assms(3,4) by auto
  have "groupReady sch ?rg w1" using c assms(9) by (simp add: groupReady_def)
  from machine_node_stored [OF assms(1) this assms(10,11,13,14)]
  obtain now where n: "keeps w1 w2" "groupReady sch ?rg w2" "cloudObject ?rg w2 (refOf ?n) = Some (cloudStored sch (now, ?n))" by blast
  obtain t where t: "resourceGroupTracker_of (mgrCache (wManager w2)) ?rg = Some t" "cScheme (mgrCache (wManager w2)) = sch"
    using n(2) by (auto simp: groupReady_def)
  have at: "getObject t ?gvk \<lparr>nnNamespace = '''', nnName = gmName gm\<rparr> = Some (cloudStored sch (now, ?n))"
    using n(3) t(1) by (simp add: cloudObject_def cloudLookup_def cloudOf_def nodeObject_def bodyGVK_def)
  have res: "resourceGroupResolver (wMux w2) ?host = Inr ?rg" "mgrScheme (wManager w2) = sch"
    using c n(1) by (simp_all add: keeps_def resourceGroupResolver_def)
  let ?p = "pathObject lib (nodeRequest ?host (gmName gm)) ?gvk"
  have p: "ObjectKeyFromObject ?p = \<lparr>nnNamespace = '''', nnName = gmName gm\<rparr>" "oType ?p = Unstructured" "oGVK ?p = ?gvk"
    by (simp_all add: pathObject_def ObjectKeyFromObject_def nodeRequest_def PathParameter_def mget_or_def)
  then have pg: "?p\<lparr>oGVK := ?gvk\<rparr> = ?p" by (simp add: pathObject_def)
  obtain m where m: "mget (objects t) ?gvk = Some m" "mget m \<lparr>nnNamespace = '''', nnName = gmName gm\<rparr> = Some (cloudStored sch (now, ?n))"
    using at by (auto simp: getObject_def split: option.splits)
  have stored: "registered (cloudStored sch (now, ?n))" "oGVK (cloudStored sch (now, ?n)) = ?gvk"
    using assms(1) by (simp_all add: registered_def cloudStored_def nodeObject_def newObject_def cloudScheme_def kindOf_def bodyGVK_def)
  have sch: "GVKForObject sch ?p = Inr ?gvk" "ParseGroupVersion sch ''v1'' = Some ('''', ''v1'')"
      "Convert sch (cloudStored sch (now, ?n)) ?p
         = Inr ((cloudStored sch (now, ?n))\<lparr>oType := Unstructured, oGVK := bodyGVK (oBody (cloudStored sch (now, ?n)))\<rparr>)"
    using assms(2) p stored(1) by (simp_all add: servesUnstructured_def)
  have id: "gmProviderID gm1 = Some (''goofy://'' @ gmName gm)"
    using reconcile_providerID [OF assms(10,11,13)] .
  have "\<exists>o'. Get (mgrCache (wManager w2)) ?rg \<lparr>nnNamespace = '''', nnName = gmName gm\<rparr> (Some ?p) = (Inr (), Some o')
      \<and> oType o' = Unstructured \<and> oGVK o' = ?gvk
      \<and> oName o' = gmName gm \<and> oBody o' = NodeBody (''goofy://'' @ gmName gm) [(''Ready'', ''True'')]"
    using t m sch stored(2) assms(9,12)
    by (simp add: Get_def gvkGetAndSet_def pg) (simp add: cloudStored_def nodeObject_def newObject_def)
  then show ?thesis
    using res nodeRequest_gvk [of "ParseGroupVersion sch" ?host "gmName gm", OF sch(2)] id
    by (auto simp: apiV1Get_def withTarget_def NewAPIServerHandler_def Let_def p GetClient_def GetResourceGroup_def
        NewResourceGroup_def)
qed

definition sampleCloudLibrary :: "cloudBody apiLibrary" where
  "sampleCloudLibrary = \<lparr>libWriteEntity = (\<lambda>_. None), libNew = (\<lambda>_. Inl ''not registered''),
     libUnstructured = (newObject '''' '''' None (OtherBody ''''))\<lparr>oType := Unstructured\<rparr>\<rparr>"

lemma sampleServes: "servesUnstructured sampleCloudScheme"
  by (simp add: servesUnstructured_def sampleCloudScheme_def sampleConvert_def registered_def sampleParse_groups)


theorem reconciled_node_served_witness:
  "\<exists>gcl1 gm1 w2 node. clusterReconcileNormal sampleCluster sampleGoofyCluster newWorld = (Inr (), gcl1, clusterWorld)
     \<and> sampleReconcile 1 sampleGoofyMachine clusterWorld = (Inr (), gm1, w2)
     \<and> apiV1Get sampleCloudLibrary (NewAPIServerHandler (wManager w2) (resourceGroupResolver (wMux w2)))
         (nodeRequest (JoinHostPort (gclHost gcl1) (Itoa (gclPort gcl1))) ''gm1'') = EntityResponse 200 (ObjectEntity node)
     \<and> oName node = ''gm1''"
proof -
  have g: "gclAnnotations sampleGoofyCluster = Some []" "gclHost sampleGoofyCluster = ''''" by (simp_all add: sampleGoofyCluster_def)
  have n: "gmName sampleGoofyMachine \<noteq> ''''" "gmName sampleGoofyMachine = ''gm1''" "KObj sampleCluster \<noteq> ''''"
    by (simp_all add: sampleGoofyMachine_def sampleCluster_def KObj_def KRef_def)
  have w: "mgrScheme (wManager newWorld) = sampleCloudScheme" "cScheme (mgrCache (wManager newWorld)) = sampleCloudScheme"
      "reachableMux ''10.0.0.1'' (wMux newWorld)"
    by (simp_all add: newWorld_def managerNew_def NewCache_def reachableMux.new)
  obtain gcl1 where r1: "clusterReconcileNormal sampleCluster sampleGoofyCluster newWorld = (Inr (), gcl1, clusterWorld)"
    using clusterWorld_reconciled by blast
  obtain gm1 w2 where r2: "sampleReconcile 1 sampleGoofyMachine clusterWorld = (Inr (), gm1, w2)" using sampleReconcile_ok by blast
  have written: "WriteEntity sampleCloudLibrary ent = EntityResponse 200 ent" for ent by (simp add: WriteEntity_def sampleCloudLibrary_def)
  from reconciled_node_served [OF sampleCloudScheme_ok sampleServes w g r1 n(3) sampleMachine_facts(1,2) n(1) r2 clusterWorld_empty,
      of sampleCloudLibrary, unfolded n(2) written]
  show ?thesis using r1 r2 by blast
qed

end
